(* ===== verification/Kubeapps_Prelude.thy ===== *)
theory Kubeapps_Prelude
  imports Main "HOL-Library.AList" "HOL-Library.List_Lexorder" "HOL-Library.Char_ord"
begin

text \<open>
  Shared vocabulary of the development: the pieces of the JavaScript standard library the
  dashboard uses (string methods, truthiness, objects as insertion-ordered association
  lists, JSON values), the collections of automation the component theories extend, and the
  generic lemmas they share.

  Strings are lists of characters (code units below 256); the case conversion and the white
  space test cover ASCII, which is what Kubernetes object names, gRPC messages and URLs of the
  program use.
\<close>

named_theorems js_simps \<open>evaluation of the JavaScript string and object operations\<close>
named_theorems thunk_simps \<open>evaluation of asynchronous thunks\<close>
named_theorems step_intros \<open>introduction rules for step relations\<close>

section \<open>JavaScript values\<close>

text \<open>A JSON document, as \<open>JSON.parse\<close> returns it; object members keep their order.\<close>

datatype json =
    JNull
  | JBool bool
  | JNum int
  | JStr string
  | JArr "json list"
  | JObj "(string \<times> json) list"

text \<open>An undefined string where it is joined or is the left side of \<open>|| ""\<close>.\<close>

definition opt_string :: "string option \<Rightarrow> string" where
  "opt_string s = (case s of None \<Rightarrow> [] | Some t \<Rightarrow> t)"

text \<open>Truthiness: \<open>undefined\<close> and the empty string are falsy.\<close>

definition truthy :: "string option \<Rightarrow> bool" where
  "truthy s = (case s of None \<Rightarrow> False | Some t \<Rightarrow> t \<noteq> [])"

lemma truthy_simps [simp]:
  "truthy None = False" "truthy (Some t) = (t \<noteq> [])"
  by (simp_all add: truthy_def)

text \<open>The operator \<open>a || b\<close> on strings.\<close>

definition str_or :: "string \<Rightarrow> string \<Rightarrow> string" where
  "str_or a b = (if a = [] then b else a)"

lemma str_or_simps [simp]: "str_or [] b = b" "a \<noteq> [] \<Longrightarrow> str_or a b = a"
  by (simp_all add: str_or_def)

text \<open>The template literal of an optional value prints \<open>undefined\<close> where it is missing.\<close>

definition show_opt :: "string option \<Rightarrow> string" where
  "show_opt s = (case s of None \<Rightarrow> ''undefined'' | Some t \<Rightarrow> t)"

lemma show_opt_simps [simp]: "show_opt None = ''undefined''" "show_opt (Some t) = t"
  by (simp_all add: show_opt_def)

section \<open>String methods\<close>

definition startsWith :: "string \<Rightarrow> string \<Rightarrow> bool" where
  "startsWith s p = (take (length p) s = p)"

fun strip_prefix :: "string \<Rightarrow> string \<Rightarrow> string option" where
  "strip_prefix [] s = Some s"
| "strip_prefix (p # ps) [] = None"
| "strip_prefix (p # ps) (c # cs) = (if p = c then strip_prefix ps cs else None)"

text \<open>\<open>s.indexOf(p)\<close>; \<open>None\<close> stands for -1.\<close>

fun indexOf :: "string \<Rightarrow> string \<Rightarrow> nat option" where
  "indexOf [] p = (if p = [] then Some 0 else None)"
| "indexOf (c # cs) p =
     (if startsWith (c # cs) p then Some 0 else map_option Suc (indexOf cs p))"

definition str_includes :: "string \<Rightarrow> string \<Rightarrow> bool" where
  "str_includes s p = (indexOf s p \<noteq> None)"

text \<open>\<open>s.lastIndexOf(c, from)\<close> for a single character; \<open>None\<close> stands for -1.\<close>

fun lastIndexOf_upto :: "string \<Rightarrow> char \<Rightarrow> nat \<Rightarrow> nat option" where
  "lastIndexOf_upto s c 0 = (if 0 < length s \<and> s ! 0 = c then Some 0 else None)"
| "lastIndexOf_upto s c (Suc n) =
     (if Suc n < length s \<and> s ! Suc n = c then Some (Suc n) else lastIndexOf_upto s c n)"

fun split_on :: "char \<Rightarrow> string \<Rightarrow> string list" where
  "split_on c [] = [[]]"
| "split_on c (x # xs) =
     (if x = c then [] # split_on c xs
      else (case split_on c xs of [] \<Rightarrow> [[x]] | w # ws \<Rightarrow> (x # w) # ws))"

fun join :: "string \<Rightarrow> string list \<Rightarrow> string" where
  "join sep [] = []"
| "join sep [w] = w"
| "join sep (w # v # ws) = w @ sep @ join sep (v # ws)"

definition is_space :: "char \<Rightarrow> bool" where
  "is_space c = (c \<in> {CHR '' '', CHR 0x09, CHR 0x0A, CHR 0x0B, CHR 0x0C, CHR 0x0D})"

definition trim :: "string \<Rightarrow> string" where
  "trim s = rev (dropWhile is_space (rev (dropWhile is_space s)))"

definition is_upper :: "char \<Rightarrow> bool" where
  "is_upper c = (65 \<le> (of_char c :: nat) \<and> (of_char c :: nat) \<le> 90)"

definition to_lower_char :: "char \<Rightarrow> char" where
  "to_lower_char c = (if is_upper c then char_of ((of_char c :: nat) + 32) else c)"

definition toLowerCase :: "string \<Rightarrow> string" where
  "toLowerCase s = map to_lower_char s"

text \<open>\<open>s.replaceAll(c, "")\<close> for a single character.\<close>

definition remove_char :: "char \<Rightarrow> string \<Rightarrow> string" where
  "remove_char c s = filter (\<lambda>x. x \<noteq> c) s"

text \<open>Decimal printing of a non-negative integer, as template literals do.\<close>

fun show_nat :: "nat \<Rightarrow> string" where
  "show_nat n =
     (if n < 10 then [char_of (48 + n)] else show_nat (n div 10) @ [char_of (48 + n mod 10)])"

declare show_nat.simps [simp del]

section \<open>Facts about the string methods\<close>

lemmas js_string_defs [js_simps] =
  startsWith_def str_includes_def trim_def is_space_def toLowerCase_def to_lower_char_def is_upper_def

lemma startsWith_append [simp]: "startsWith (p @ s) p"
  by (simp add: startsWith_def)

lemma startsWith_iff: "startsWith s p \<longleftrightarrow> (\<exists>r. s = p @ r)"
  unfolding startsWith_def by (metis append_eq_conv_conj append_take_drop_id)

lemma strip_prefix_append [simp]: "strip_prefix p (p @ s) = Some s"
  by (induction p) auto

lemma strip_prefix_Some: "strip_prefix p s = Some r \<longleftrightarrow> s = p @ r"
  by (induction p s rule: strip_prefix.induct) auto

lemma strip_prefix_None: "strip_prefix p s = None \<longleftrightarrow> \<not> startsWith s p"
proof -
  have "strip_prefix p s = None \<longleftrightarrow> (\<nexists>r. strip_prefix p s = Some r)" by (metis not_None_eq option.distinct(1))
  then show ?thesis by (simp only: strip_prefix_Some startsWith_iff)
qed

lemma takeWhile_until:
  "c \<notin> set w \<Longrightarrow> v = [] \<or> hd v = c \<Longrightarrow> takeWhile (\<lambda>x. x \<noteq> c) (w @ v) = w"
  by (induction w) (auto simp: takeWhile_eq_Nil_iff)

lemma dropWhile_until:
  "c \<notin> set w \<Longrightarrow> v = [] \<or> hd v = c \<Longrightarrow> dropWhile (\<lambda>x. x \<noteq> c) (w @ v) = v"
  by (induction w) (auto simp: dropWhile_eq_self_iff)

lemma indexOf_Some_append: "indexOf s p = Some i \<Longrightarrow> \<exists>r. s = take i s @ p @ r"
proof (induction s p arbitrary: i rule: indexOf.induct)
  case (1 p)
  then show ?case by (auto split: if_splits)
next
  case (2 c cs p)
  show ?case
  proof (cases "startsWith (c # cs) p")
    case True
    with "2.prems" show ?thesis by (auto simp: startsWith_iff)
  next
    case False
    with "2.prems" obtain j where "indexOf cs p = Some j" and "i = Suc j" by auto
    with "2.IH" False show ?thesis by auto
  qed
qed

lemma str_includes_iff: "str_includes s p \<longleftrightarrow> (\<exists>a b. s = a @ p @ b)"
proof
  assume "str_includes s p"
  then show "\<exists>a b. s = a @ p @ b"
    unfolding str_includes_def by (metis indexOf_Some_append not_None_eq)
next
  assume "\<exists>a b. s = a @ p @ b"
  then obtain a b where "s = a @ p @ b" by blast
  then show "str_includes s p"
  proof (induction a arbitrary: s)
    case Nil
    have "indexOf (p @ b) p = Some 0"
      using startsWith_append [of p b] by (cases "p @ b") (auto simp del: startsWith_append)
    with Nil show ?case by (simp add: str_includes_def)
  next
    case (Cons x a)
    then show ?case by (auto simp: str_includes_def)
  qed
qed

lemma indexOf_first:
  assumes "\<And>i. i < length pre \<Longrightarrow> \<not> startsWith (drop i pre @ s) p" and "startsWith s p"
  shows "indexOf (pre @ s) p = Some (length pre)"
  using assms
proof (induction pre)
  case Nil
  then show ?case by (cases s) (auto simp: startsWith_def)
next
  case (Cons x pre)
  from Cons.prems(1) [of 0] have "\<not> startsWith (x # pre @ s) p" by simp
  moreover have "indexOf (pre @ s) p = Some (length pre)"
    using Cons.prems by (intro Cons.IH) (auto dest: Cons.prems(1) [of "Suc _", simplified])
  ultimately show ?case by simp
qed

lemma lastIndexOf_upto_bound: "lastIndexOf_upto s c n = Some i \<Longrightarrow> i \<le> n \<and> i < length s \<and> s ! i = c"
  by (induction n) (auto split: if_splits)

lemma lastIndexOf_upto_None:
  "lastIndexOf_upto s c n = None \<Longrightarrow> j \<le> n \<Longrightarrow> j < length s \<Longrightarrow> s ! j \<noteq> c"
  by (induction n) (auto split: if_splits simp: le_Suc_eq)

lemma lastIndexOf_upto_last:
  "lastIndexOf_upto s c n = Some i \<Longrightarrow> i < j \<Longrightarrow> j \<le> n \<Longrightarrow> j < length s \<Longrightarrow> s ! j \<noteq> c"
  by (induction n) (auto split: if_splits simp: le_Suc_eq)

lemma split_on_nonempty [simp]: "split_on c s \<noteq> []"
  by (induction s) (auto split: list.splits)

lemma split_on_no_sep: "c \<notin> set s \<Longrightarrow> split_on c s = [s]"
  by (induction s) auto

lemma split_on_sep: "c \<notin> set w \<Longrightarrow> split_on c (w @ c # s) = w # split_on c s"
  by (induction w) auto

lemma split_on_join:
  "ws \<noteq> [] \<Longrightarrow> (\<forall>w \<in> set ws. c \<notin> set w) \<Longrightarrow> split_on c (join [c] ws) = ws"
  by (induction "[c]" ws rule: join.induct) (auto simp: split_on_no_sep split_on_sep)

lemma join_split_on: "join [c] (split_on c s) = s"
proof (induction s)
  case Nil
  then show ?case by simp
next
  case (Cons x s)
  obtain w ws where split: "split_on c s = w # ws"
    by (cases "split_on c s") auto
  then show ?case using Cons.IH by (cases ws) auto
qed

lemma set_join: "set (join sep ws) \<subseteq> set sep \<union> \<Union> (set ` set ws)"
  by (induction sep ws rule: join.induct) auto

lemma split_on_pieces: "w \<in> set (split_on c s) \<Longrightarrow> c \<notin> set w"
proof (induction s arbitrary: w)
  case Nil
  then show ?case by simp
next
  case (Cons x s)
  obtain v vs where "split_on c s = v # vs" by (cases "split_on c s") auto
  with Cons show ?case by (auto split: if_splits)
qed

lemma trim_idem [simp]: "trim (trim s) = trim s"
proof -
  have drop_idem: "dropWhile is_space (dropWhile is_space t) = dropWhile is_space t" for t
    by (metis dropWhile_eq_self_iff hd_dropWhile)
  define d where "d = dropWhile is_space s"
  define e where "e = dropWhile is_space (rev d)"
  have "dropWhile is_space (rev e) = rev e"
  proof (cases "rev e")
    case (Cons x xs)
    have "\<exists>p. d = rev e @ rev p"
      unfolding e_def by (metis rev_append rev_rev_ident takeWhile_dropWhile_id)
    then have "hd (rev e) = hd d" using Cons by auto
    moreover have "d \<noteq> []" using Cons e_def by auto
    ultimately have "\<not> is_space x" using Cons hd_dropWhile [of is_space s] by (simp add: d_def)
    with Cons show ?thesis by simp
  qed simp
  then show ?thesis
    by (simp add: trim_def flip: d_def e_def) (simp add: e_def drop_idem)
qed

lemma toLowerCase_append [simp]: "toLowerCase (a @ b) = toLowerCase a @ toLowerCase b"
  by (simp add: toLowerCase_def)

lemma toLowerCase_length [simp]: "length (toLowerCase s) = length s"
  by (simp add: toLowerCase_def)

lemma remove_char_notin [simp]: "c \<notin> set (remove_char c s)"
  by (simp add: remove_char_def)

section \<open>JavaScript objects as association lists\<close>

text \<open>
  An object with computed keys is an association list in insertion order. The assignment
  \<open>o[k] = v\<close> and the spread \<open>{...o, [k]: v}\<close> are \<open>AList.update\<close> (in place where the key
  exists, at the end otherwise), \<open>delete o[k]\<close> is \<open>AList.delete\<close>, a read is \<open>map_of\<close>.
\<close>

type_synonym 'v jsobj = "(string \<times> 'v) list"

abbreviation obj_get :: "'v jsobj \<Rightarrow> string \<Rightarrow> 'v option" where
  "obj_get \<equiv> map_of"

abbreviation obj_set :: "string \<Rightarrow> 'v \<Rightarrow> 'v jsobj \<Rightarrow> 'v jsobj" where
  "obj_set \<equiv> AList.update"

lemma obj_get_set [simp]: "obj_get (obj_set k v ob) j = (if j = k then Some v else obj_get ob j)"
  by (simp add: update_conv)

lemma obj_set_keys [simp]: "fst ` set (obj_set k v ob) = insert k (fst ` set ob)"
  by (simp add: dom_update)

section \<open>JSON values as JavaScript sees them\<close>

fun json_truthy :: "json \<Rightarrow> bool" where
  "json_truthy JNull = False"
| "json_truthy (JBool b) = b"
| "json_truthy (JNum n) = (n \<noteq> 0)"
| "json_truthy (JStr s) = (s \<noteq> [])"
| "json_truthy _ = True"

fun json_member :: "json \<Rightarrow> string \<Rightarrow> json option" where
  "json_member (JObj ms) k = obj_get ms k"
| "json_member _ k = None"

definition member_truthy :: "json \<Rightarrow> string \<Rightarrow> bool" where
  "member_truthy v k = (case json_member v k of None \<Rightarrow> False | Some m \<Rightarrow> json_truthy m)"

section \<open>Functions that may fail, over a list\<close>

fun traverse :: "('a \<Rightarrow> 'e + 'b) \<Rightarrow> 'a list \<Rightarrow> 'e + 'b list" where
  "traverse f [] = Inr []"
| "traverse f (x # xs) =
     (case f x of
        Inl e \<Rightarrow> Inl e
      | Inr y \<Rightarrow> (case traverse f xs of Inl e \<Rightarrow> Inl e | Inr ys \<Rightarrow> Inr (y # ys)))"

lemma traverse_cong [fundef_cong]:
  "xs = ys \<Longrightarrow> (\<And>x. x \<in> set ys \<Longrightarrow> f x = g x) \<Longrightarrow> traverse f xs = traverse g ys"
  by (induction ys arbitrary: xs) (auto split: sum.splits)

lemma traverse_Inr: "traverse f xs = Inr ys \<Longrightarrow> list_all2 (\<lambda>x y. f x = Inr y) xs ys"
  by (induction xs arbitrary: ys) (auto split: sum.splits)

section \<open>Removing duplicates\<close>

text \<open>
  The documented behaviour of lodash's \<open>uniqBy\<close>: the result keeps, in order, the first
  element of every key. The function itself is a parameter of the model.
\<close>

definition uniqBy_spec :: "('a \<Rightarrow> 'k) \<Rightarrow> ('a list \<Rightarrow> 'a list) \<Rightarrow> bool" where
  "uniqBy_spec key u \<longleftrightarrow>
     u [] = [] \<and>
     (\<forall>xs x. u (xs @ [x]) = (if key x \<in> key ` set xs then u xs else u xs @ [x]))"

text \<open>A concrete function of that behaviour, to instantiate the parameter with.\<close>

fun uniq_from :: "('a \<Rightarrow> 'k) \<Rightarrow> 'k list \<Rightarrow> 'a list \<Rightarrow> 'a list" where
  "uniq_from key seen [] = []"
| "uniq_from key seen (x # xs) =
     (if key x \<in> set seen then uniq_from key seen xs
      else x # uniq_from key (key x # seen) xs)"

lemma uniq_from_snoc:
  "uniq_from key seen (xs @ [x]) =
     (if key x \<in> set seen \<union> key ` set xs then uniq_from key seen xs
      else uniq_from key seen xs @ [x])"
  by (induction xs arbitrary: seen) auto

lemma uniq_from_spec: "uniqBy_spec key (uniq_from key [])"
  by (simp add: uniqBy_spec_def uniq_from_snoc)

lemma uniqBy_keys: "uniqBy_spec key u \<Longrightarrow> key ` set (u xs) = key ` set xs"
  by (induction xs rule: rev_induct) (auto simp: uniqBy_spec_def)

lemma uniqBy_subset: "uniqBy_spec key u \<Longrightarrow> set (u xs) \<subseteq> set xs"
  by (induction xs rule: rev_induct) (auto simp: uniqBy_spec_def)

lemma uniqBy_distinct: "uniqBy_spec key u \<Longrightarrow> distinct (map key (u xs))"
proof (induction xs rule: rev_induct)
  case Nil
  then show ?case by (simp add: uniqBy_spec_def)
next
  case (snoc x xs)
  then show ?case using uniqBy_keys [OF snoc.prems, of xs] by (auto simp: uniqBy_spec_def)
qed

lemma uniqBy_prefix:
  assumes u: "uniqBy_spec key u"
  shows "\<exists>zs. u (xs @ ys) = u xs @ zs"
proof (induction ys rule: rev_induct)
  case Nil
  then show ?case by simp
next
  case (snoc y ys)
  then show ?case using u unfolding uniqBy_spec_def
    by (metis append.assoc)
qed

lemma uniqBy_id:
  assumes u: "uniqBy_spec key u"
  shows "distinct (map key xs) \<Longrightarrow> u xs = xs"
proof (induction xs rule: rev_induct)
  case Nil
  then show ?case using u by (simp add: uniqBy_spec_def)
next
  case (snoc x xs)
  then show ?case using u by (auto simp: uniqBy_spec_def)
qed

end
