(* ===== verification/Errors.thy ===== *)
theory Errors
  imports Kubeapps_Prelude
begin

text \<open>
  The errors of the dashboard: the class hierarchy of \<open>shared/types.ts\<close>, the extraction of
  Go RPC errors from messages (\<open>shared/RpcError.ts\<close>) and the translation of gRPC status codes
  into network errors (\<open>convertGrpcAuthError\<close> of \<open>shared/utils.ts\<close>).
\<close>

section \<open>Error values\<close>

text \<open>The status codes of \<open>@connectrpc/connect\<close> the code switches over.\<close>

datatype grpc_code =
    Canceled | UnknownCode | InvalidArgument | DeadlineExceeded | NotFoundCode | AlreadyExists
  | PermissionDenied | ResourceExhausted | FailedPrecondition | Aborted | OutOfRange
  | Unimplemented | InternalCode | Unavailable | DataLoss | Unauthenticated

text \<open>The classes derived from \<open>CustomError\<close>.\<close>

datatype custom_class =
    ClientNetworkError | BadRequestNetworkError | UnauthorizedNetworkError
  | ForbiddenNetworkError | NotFoundNetworkError | RequestTimeoutNetworkError
  | ConflictNetworkError | UnprocessableEntityError | TooManyRequestsNetworkError
  | ServerNetworkError | InternalServerNetworkError | NotImplementedNetworkError
  | ServerUnavailableNetworkError | GatewayTimeoutNetworkError
  | FetchError | FetchWarning | CreateError | UpgradeError | RollbackError | DeleteError

text \<open>
  Values a \<open>throw\<close> can carry: a plain \<open>Error\<close>, the errors the engine raises, the errors of
  the gRPC client (code, message and response metadata with lower-case keys), the custom
  errors with their optional list of causes, and a parsed RPC error.
\<close>

datatype js_error =
    JsError string
  | TypeError string
  | SyntaxError string
  | ConnectError grpc_code string "(string \<times> string) list"
  | Custom custom_class string "js_error list option"
  | RpcError (rpc_code: string) (rpc_desc: string) (rpc_message: string)

primrec error_message :: "js_error \<Rightarrow> string" where
  "error_message (JsError m) = m"
| "error_message (TypeError m) = m"
| "error_message (SyntaxError m) = m"
| "error_message (ConnectError c m md) = m"
| "error_message (Custom cl m cs) = m"
| "error_message (RpcError c d m) = m"

text \<open>The \<open>name\<close> every error inherits from its prototype.\<close>

primrec error_name :: "js_error \<Rightarrow> string" where
  "error_name (JsError m) = ''Error''"
| "error_name (TypeError m) = ''TypeError''"
| "error_name (SyntaxError m) = ''SyntaxError''"
| "error_name (ConnectError c m md) = ''ConnectError''"
| "error_name (Custom cl m cs) = ''Error''"
| "error_name (RpcError c d m) = ''Error''"

text \<open>\<open>Error.prototype.toString\<close>.\<close>

definition error_toString :: "js_error \<Rightarrow> string" where
  "error_toString e =
     (if error_message e = [] then error_name e
      else error_name e @ '': '' @ error_message e)"

text \<open>\<open>e.constructor === UnauthorizedNetworkError\<close>.\<close>

fun is_unauthorized :: "js_error \<Rightarrow> bool" where
  "is_unauthorized (Custom cl m cs) = (cl = UnauthorizedNetworkError)"
| "is_unauthorized _ = False"

text \<open>The super class relation of the hierarchy, as \<open>instanceof\<close> sees it.\<close>

definition is_client_error :: "custom_class \<Rightarrow> bool" where
  "is_client_error c = (c \<in> {ClientNetworkError, BadRequestNetworkError,
     UnauthorizedNetworkError, ForbiddenNetworkError, NotFoundNetworkError,
     RequestTimeoutNetworkError, ConflictNetworkError, UnprocessableEntityError,
     TooManyRequestsNetworkError})"

definition is_server_error :: "custom_class \<Rightarrow> bool" where
  "is_server_error c = (c \<in> {ServerNetworkError, InternalServerNetworkError,
     NotImplementedNetworkError, ServerUnavailableNetworkError, GatewayTimeoutNetworkError})"

section \<open>RPC errors inside messages\<close>

definition is_word_char :: "char \<Rightarrow> bool" where
  "is_word_char c = (let n = of_char c :: nat in
     (48 \<le> n \<and> n \<le> 57) \<or> (65 \<le> n \<and> n \<le> 90) \<or> (97 \<le> n \<and> n \<le> 122) \<or> n = 95)"

definition not_newline :: "char \<Rightarrow> bool" where
  "not_newline c = (c \<noteq> CHR 0x0A \<and> c \<noteq> CHR 0x0D)"

text \<open>
  \<open>RPC_ERROR_REGEX = /rpc error: code = (\w+) desc = (.*)/\<close> at one position: the whole match
  and its two groups. The word is taken greedily; giving characters back never helps, because
  the next character of the pattern is a space.
\<close>

definition rpc_match_at :: "string \<Rightarrow> (string \<times> string \<times> string) option" where
  "rpc_match_at s =
     (case strip_prefix ''rpc error: code = '' s of
        None \<Rightarrow> None
      | Some r \<Rightarrow>
          (let code = takeWhile is_word_char r; rest = dropWhile is_word_char r in
           if code = [] then None
           else (case strip_prefix '' desc = '' rest of
                   None \<Rightarrow> None
                 | Some d \<Rightarrow>
                     (let desc = takeWhile not_newline d in
                      Some (''rpc error: code = '' @ code @ '' desc = '' @ desc, code, desc)))))"

fun rpc_match :: "string \<Rightarrow> (string \<times> string \<times> string) option" where
  "rpc_match [] = None"
| "rpc_match (c # cs) =
     (case rpc_match_at (c # cs) of None \<Rightarrow> rpc_match cs | Some m \<Rightarrow> Some m)"

text \<open>\<open>RpcError.isRpcError\<close>.\<close>

definition isRpcError :: "js_error \<Rightarrow> bool" where
  "isRpcError e = str_includes (trim (error_message e)) ''rpc error:''"

text \<open>\<open>extractData\<close>: code, description and what precedes the RPC error in the message.\<close>

definition extractData :: "string \<Rightarrow> string \<times> string \<times> string" where
  "extractData message =
     (case rpc_match (trim message) of
        Some (found0, found1, found2) \<Rightarrow>
          (found1, found2,
           (case indexOf message found0 of None \<Rightarrow> [] | Some i \<Rightarrow> take i message))
      | None \<Rightarrow> ([], [], message))"

text \<open>The constructor of \<open>RpcError\<close>.\<close>

definition newRpcError :: "js_error \<Rightarrow> js_error" where
  "newRpcError e = (let (code, desc, message) = extractData (error_message e)
                    in RpcError code desc message)"

text \<open>\<open>checkCauses\<close> replaces every cause that is an RPC error by a parsed one.\<close>

definition checkCauses :: "js_error list option \<Rightarrow> js_error list option" where
  "checkCauses causes =
     map_option (map (\<lambda>cause. if isRpcError cause then newRpcError cause else cause)) causes"

text \<open>The constructor of \<open>CustomError\<close> and its subclasses.\<close>

definition newCustomError :: "custom_class \<Rightarrow> string \<Rightarrow> js_error list option \<Rightarrow> js_error" where
  "newCustomError cl message causes = Custom cl message (checkCauses causes)"

abbreviation newError :: "custom_class \<Rightarrow> string \<Rightarrow> js_error" where
  "newError cl message \<equiv> newCustomError cl message None"

lemma newError_simps [simp]:
  "error_message (newCustomError cl m cs) = m"
  "is_unauthorized (newCustomError cl m cs) = (cl = UnauthorizedNetworkError)"
  by (simp_all add: newCustomError_def)

section \<open>gRPC status codes\<close>

definition credentials_words :: "string list" where
  "credentials_words = [''credentials'', ''unauthorized'']"

definition mentions_credentials :: "string \<Rightarrow> bool" where
  "mentions_credentials msg = list_ex (\<lambda>p. str_includes (toLowerCase msg) p) credentials_words"

text \<open>The header \<open>grpc-message\<close>, or the empty string.\<close>

definition grpc_message :: "js_error \<Rightarrow> string" where
  "grpc_message e = (case e of
     ConnectError c m md \<Rightarrow> (case map_of md ''grpc-message'' of None \<Rightarrow> [] | Some v \<Rightarrow> v)
   | _ \<Rightarrow> [])"

definition network_class :: "grpc_code \<Rightarrow> string \<Rightarrow> custom_class" where
  "network_class code msg = (case code of
     Unauthenticated \<Rightarrow> UnauthorizedNetworkError
   | FailedPrecondition \<Rightarrow>
       (if mentions_credentials msg then UnauthorizedNetworkError else BadRequestNetworkError)
   | InternalCode \<Rightarrow>
       (if mentions_credentials msg then UnauthorizedNetworkError
        else InternalServerNetworkError)
   | PermissionDenied \<Rightarrow> ForbiddenNetworkError
   | NotFoundCode \<Rightarrow> NotFoundNetworkError
   | AlreadyExists \<Rightarrow> ConflictNetworkError
   | InvalidArgument \<Rightarrow> BadRequestNetworkError
   | DeadlineExceeded \<Rightarrow> GatewayTimeoutNetworkError
   | ResourceExhausted \<Rightarrow> TooManyRequestsNetworkError
   | Aborted \<Rightarrow> ConflictNetworkError
   | Unimplemented \<Rightarrow> NotImplementedNetworkError
   | OutOfRange \<Rightarrow> BadRequestNetworkError
   | Unavailable \<Rightarrow> ServerUnavailableNetworkError
   | DataLoss \<Rightarrow> InternalServerNetworkError
   | UnknownCode \<Rightarrow> InternalServerNetworkError
   | Canceled \<Rightarrow> RequestTimeoutNetworkError)"

text \<open>Only the errors of the gRPC client have a status code; any other value comes back as is.\<close>

definition convertGrpcAuthError :: "js_error \<Rightarrow> js_error" where
  "convertGrpcAuthError e = (case e of
     ConnectError code m md \<Rightarrow> newError (network_class code (grpc_message e)) (grpc_message e)
   | _ \<Rightarrow> e)"

section \<open>Facts about errors\<close>

lemma rpc_match_here: "rpc_match_at s = Some m \<Longrightarrow> rpc_match s = Some m"
  by (cases s) (auto simp: rpc_match_at_def)

lemma rpc_match_at_format:
  assumes "code \<noteq> []" and "\<forall>c \<in> set code. is_word_char c" and "\<forall>c \<in> set desc. not_newline c"
  shows "rpc_match_at (''rpc error: code = '' @ code @ '' desc = '' @ desc) =
    Some (''rpc error: code = '' @ code @ '' desc = '' @ desc, code, desc)"
proof -
  have "\<not> is_word_char (CHR '' '')" by (simp add: is_word_char_def)
  then have tw: "takeWhile is_word_char (code @ '' desc = '' @ desc) = code"
    and dw: "dropWhile is_word_char (code @ '' desc = '' @ desc) = '' desc = '' @ desc"
    using assms(2) by (auto simp: takeWhile_append dropWhile_append)
  have td: "takeWhile not_newline desc = desc" using assms(3) by (auto simp: takeWhile_eq_all_conv)
  show ?thesis
    unfolding rpc_match_at_def strip_prefix_append option.case Let_def tw dw td
    using assms(1) by simp
qed

lemma rpc_match_skip:
  assumes "\<And>i. i < length pre \<Longrightarrow> rpc_match_at (drop i pre @ s) = None"
  shows "rpc_match (pre @ s) = rpc_match s"
  using assms
proof (induction pre)
  case Nil
  then show ?case by simp
next
  case (Cons x pre)
  from Cons.prems [of 0] have head: "rpc_match_at (x # pre @ s) = None" by simp
  from Cons.prems have "\<And>i. i < length pre \<Longrightarrow> rpc_match_at (drop i pre @ s) = None"
    by (metis Suc_less_eq drop_Suc_Cons length_Cons)
  with Cons.IH head show ?case by simp
qed

lemma rpc_match_at_parts:
  assumes "rpc_match_at s = Some (f, c, d)"
  obtains r rest where "s = ''rpc error: code = '' @ r" and "c = takeWhile is_word_char r"
    and "dropWhile is_word_char r = '' desc = '' @ rest" and "d = takeWhile not_newline rest"
    and "f = ''rpc error: code = '' @ c @ '' desc = '' @ d"
  using assms
  by (auto simp: rpc_match_at_def Let_def strip_prefix_Some simp del: append.simps
      split: option.splits if_splits)

lemma rpc_match_includes:
  "rpc_match s = Some (f, c, d) \<Longrightarrow> \<exists>a b. s = a @ f @ b"
proof (induction s)
  case Nil
  then show ?case by simp
next
  case (Cons x s)
  show ?case
  proof (cases "rpc_match_at (x # s)")
    case None
    with Cons obtain a b where "s = a @ f @ b" by auto
    then have "x # s = (x # a) @ f @ b" by simp
    then show ?thesis by blast
  next
    case (Some m)
    with Cons.prems have "rpc_match_at (x # s) = Some (f, c, d)" by simp
    then obtain r rest where r: "x # s = ''rpc error: code = '' @ r"
      and c: "c = takeWhile is_word_char r"
      and rest: "dropWhile is_word_char r = '' desc = '' @ rest"
      and d: "d = takeWhile not_newline rest"
      and f: "f = ''rpc error: code = '' @ c @ '' desc = '' @ d"
      by (rule rpc_match_at_parts)
    have "x # s = f @ dropWhile not_newline rest"
      unfolding r f c d using rest by (metis append.assoc takeWhile_dropWhile_id)
    then show ?thesis by (metis append_Nil)
  qed
qed

lemma network_class_unauthorized:
  "network_class code msg = UnauthorizedNetworkError \<longleftrightarrow>
     code = Unauthenticated \<or>
     (code \<in> {FailedPrecondition, InternalCode} \<and> mentions_credentials msg)"
  by (cases code) (auto simp: network_class_def)

lemma network_class_side:
  "is_client_error (network_class code msg) \<noteq> is_server_error (network_class code msg)"
  by (cases code) (auto simp: network_class_def is_client_error_def is_server_error_def)

section \<open>The text of an RPC error\<close>

text \<open>How a Go service prints an RPC error.\<close>

definition rpc_text :: "string \<Rightarrow> string \<Rightarrow> string" where
  "rpc_text code desc = ''rpc error: code = '' @ code @ '' desc = '' @ desc"

lemma rpc_header_no_overlap:
  "0 < k \<Longrightarrow> k < 18 \<Longrightarrow>
     \<exists>j < 3. k + j < 18 \<and> ''rpc error: code = '' ! (k + j) \<noteq> ''rpc error: code = '' ! j"
proof -
  assume "0 < k" and "k < 18"
  then have "k \<in> set [1..<18]" by simp
  then have "k = 5 \<or> k \<noteq> 5 \<and> ''rpc error: code = '' ! k \<noteq> CHR ''r'' \<or> k = 6 \<or> k = 8"
    by (simp add: upt_rec) (elim disjE; simp)
  then show ?thesis
    using \<open>k < 18\<close> by (elim disjE) (auto intro: exI [of _ 0] exI [of _ 1])
qed

lemma rpc_text_first:
  assumes "\<not> str_includes pre ''rpc error: code = ''" and "i < length pre"
  shows "\<not> startsWith (drop i pre @ rpc_text code desc) ''rpc error: code = ''"
proof
  let ?h = "''rpc error: code = ''" let ?q = "drop i pre"
  assume "startsWith (?q @ rpc_text code desc) ?h"
  then obtain r where r: "?q @ rpc_text code desc = ?h @ r" by (auto simp: startsWith_iff)
  show False
  proof (cases "length ?q < 18")
    case True
    have "?h ! (length ?q + j) = ?h ! j" if "j < 3" and "length ?q + j < 18" for j
    proof -
      have "(?q @ rpc_text code desc) ! (length ?q + j) = ?h ! j"
        using that by (simp add: rpc_text_def nth_append del: append.simps)
      moreover have "(?h @ r) ! (length ?q + j) = ?h ! (length ?q + j)"
        using that by (simp add: nth_append del: append.simps)
      ultimately show ?thesis unfolding r by simp
    qed
    then show False using rpc_header_no_overlap [of "length ?q"] True assms(2) by auto
  next
    case False
    then have "take 18 ?q = take 18 (?h @ r)" unfolding r [symmetric] by simp
    then have "take 18 ?q = ?h" by simp
    then have "?q = ?h @ drop 18 ?q" using append_take_drop_id [of 18 ?q] by simp
    then have "pre = take i pre @ ?h @ drop 18 ?q" by (metis append_take_drop_id)
    then show False using assms(1) unfolding str_includes_iff by blast
  qed
qed

text \<open>
  The error of a backend service is recognised in a longer message: whatever precedes it, its code,
  its description and the text before it come back, provided the text before has no such header itself
  and the message has no space at its ends.
\<close>
theorem rpc_error_round_trip:
  assumes "code \<noteq> []" and "\<forall>c \<in> set code. is_word_char c" and "\<forall>c \<in> set desc. not_newline c"
    and "\<not> str_includes pre ''rpc error: code = ''"
    and "trim (pre @ rpc_text code desc) = pre @ rpc_text code desc"
  shows "newRpcError (JsError (pre @ rpc_text code desc)) = RpcError code desc pre"
proof -
  have first: "\<not> startsWith (drop i pre @ rpc_text code desc) ''rpc error: code = ''" if "i < length pre" for i
    using rpc_text_first [OF assms(4) that] .
  then have "rpc_match_at (drop i pre @ rpc_text code desc) = None" if "i < length pre" for i
    using that by (simp add: rpc_match_at_def strip_prefix_None [THEN iffD2])
  then have "rpc_match (pre @ rpc_text code desc) = Some (rpc_text code desc, code, desc)"
    using rpc_match_at_format [OF assms(1-3)]
    by (simp add: rpc_match_skip rpc_match_here rpc_text_def)
  moreover have "indexOf (pre @ rpc_text code desc) (rpc_text code desc) = Some (length pre)"
  proof (rule indexOf_first)
    show "\<not> startsWith (drop i pre @ rpc_text code desc) (rpc_text code desc)" if "i < length pre" for i
      using first [OF that] unfolding rpc_text_def startsWith_iff by (metis append.assoc)
    show "startsWith (rpc_text code desc) (rpc_text code desc)" by (simp add: startsWith_def)
  qed
  ultimately show ?thesis using assms(5) by (simp add: newRpcError_def extractData_def)
qed

text \<open>An instance of the property.\<close>

theorem rpc_error_round_trip_witness:
  "newRpcError (JsError (''unable to list: '' @ rpc_text ''Internal'' ''no such host'')) =
     RpcError ''Internal'' ''no such host'' ''unable to list: ''"
  by (rule rpc_error_round_trip)
    (simp_all add: is_word_char_def not_newline_def rpc_text_def js_simps)

end
