(* ===== verification/Messages.thy ===== *)
theory Messages
  imports Errors
begin

text \<open>
  The data the dashboard exchanges with its backend: the protobuf messages of
  \<open>gen/kubeappsapis/core\<close> (optional message fields are options, scalar fields have their
  defaults), the Kubernetes resources of \<open>shared/types.ts\<close> and the enumerations of plugins,
  storage types, themes and authentication methods.
\<close>

section \<open>Core messages\<close>

record Context =
  ctx_cluster :: string
  ctx_namespace :: string

record Plugin =
  plugin_name :: string
  plugin_version :: string

record AvailablePackageReference =
  apr_context :: "Context option"
  apr_identifier :: string
  apr_plugin :: "Plugin option"

record InstalledPackageReference =
  ipr_context :: "Context option"
  ipr_identifier :: string
  ipr_plugin :: "Plugin option"

record PackageAppVersion =
  pav_pkgVersion :: string
  pav_appVersion :: string

record AvailablePackageSummary =
  aps_availablePackageRef :: "AvailablePackageReference option"
  aps_name :: string
  aps_latestVersion :: "PackageAppVersion option"
  aps_iconUrl :: string
  aps_displayName :: string
  aps_shortDescription :: string
  aps_categories :: "string list"

text \<open>
  \<open>customDetail\<close> is an \<open>Any\<close>: a type URL and bytes. Decoding the bytes is the business of the
  protobuf library; the message keeps them opaque.
\<close>

record AnyMsg =
  any_typeUrl :: string
  any_value :: "nat list"

record Maintainer =
  mt_name :: string
  mt_email :: string

record AvailablePackageDetail =
  apd_availablePackageRef :: "AvailablePackageReference option"
  apd_name :: string
  apd_version :: "PackageAppVersion option"
  apd_repoUrl :: string
  apd_homeUrl :: string
  apd_iconUrl :: string
  apd_displayName :: string
  apd_shortDescription :: string
  apd_longDescription :: string
  apd_readme :: string
  apd_defaultValues :: string
  apd_additionalDefaultValues :: "string jsobj"
  apd_valuesSchema :: string
  apd_sourceUrls :: "string list"
  apd_maintainers :: "Maintainer list"
  apd_categories :: "string list"
  apd_customDetail :: "AnyMsg option"

record PackageMetadata =
  pm_mediaType :: string
  pm_artifactType :: string
  pm_digest :: string
  pm_name :: string
  pm_description :: string
  pm_url :: string

record GetAvailablePackageSummariesResponse =
  gapsr_availablePackageSummaries :: "AvailablePackageSummary list"
  gapsr_nextPageToken :: string
  gapsr_categories :: "string list"

datatype StatusReason =
  REASON_UNSPECIFIED | REASON_INSTALLED | REASON_UNINSTALLED | REASON_FAILED | REASON_PENDING

record InstalledPackageStatus =
  ips_ready :: bool
  ips_reason :: StatusReason
  ips_userReason :: string

record ReconciliationOptions =
  ro_interval :: string
  ro_suspend :: bool
  ro_serviceAccountName :: string

record InstalledPackageSummary =
  isum_installedPackageRef :: "InstalledPackageReference option"
  isum_name :: string
  isum_pkgVersionReference :: "string option"
  isum_currentVersion :: "PackageAppVersion option"
  isum_iconUrl :: string
  isum_pkgDisplayName :: string
  isum_shortDescription :: string
  isum_latestMatchingVersion :: "PackageAppVersion option"
  isum_latestVersion :: "PackageAppVersion option"
  isum_status :: "InstalledPackageStatus option"

record InstalledPackageDetail =
  ipd_installedPackageRef :: "InstalledPackageReference option"
  ipd_pkgVersionReference :: "string option"
  ipd_name :: string
  ipd_currentVersion :: "PackageAppVersion option"
  ipd_valuesApplied :: string
  ipd_reconciliationOptions :: "ReconciliationOptions option"
  ipd_status :: "InstalledPackageStatus option"
  ipd_postInstallationNotes :: string
  ipd_availablePackageRef :: "AvailablePackageReference option"
  ipd_latestMatchingVersion :: "PackageAppVersion option"
  ipd_latestVersion :: "PackageAppVersion option"
  ipd_customDetail :: "AnyMsg option"

record ResourceRef =
  rr_apiVersion :: string
  rr_kind :: string
  rr_name :: string
  rr_namespace :: string

section \<open>Repositories\<close>

datatype AuthType =
    AUTH_UNSPECIFIED | BASIC_AUTH | TLS | BEARER | AUTHORIZATION_HEADER
  | DOCKER_CONFIG_JSON | SSH | OPAQUE

record UsernamePassword =
  up_username :: string
  up_password :: string

record TlsCertKey =
  tck_cert :: string
  tck_key :: string

record DockerCredentials =
  dc_server :: string
  dc_username :: string
  dc_password :: string
  dc_email :: string

record SshCredentials =
  sc_privateKey :: string
  sc_knownHosts :: string

record OpaqueCredentials =
  oc_data :: "string jsobj"

record SecretKeyReference =
  skr_name :: string
  skr_key :: string

datatype AuthOneOf =
    NoAuthOneOf
  | AuthUsernamePassword UsernamePassword
  | AuthTlsCertKey TlsCertKey
  | AuthDockerCreds DockerCredentials
  | AuthHeader string
  | AuthSecretRef SecretKeyReference
  | AuthSshCreds SshCredentials
  | AuthOpaqueCreds OpaqueCredentials

record PackageRepositoryAuth =
  pra_type :: AuthType
  pra_oneOf :: AuthOneOf
  pra_passCredentials :: bool

datatype TlsOneOf =
    NoTlsOneOf
  | TlsCertAuthority string
  | TlsSecretRef SecretKeyReference

record PackageRepositoryTlsConfig =
  prt_insecureSkipVerify :: bool
  prt_oneOf :: TlsOneOf

record PackageRepositoryReference =
  prr_context :: "Context option"
  prr_identifier :: string
  prr_plugin :: "Plugin option"

datatype RepositoryStatusReason =
  REPO_UNSPECIFIED | REPO_SUCCESS | REPO_FAILED | REPO_PENDING

record PackageRepositoryStatus =
  prs_ready :: bool
  prs_reason :: RepositoryStatusReason
  prs_userReason :: string

record PackageRepositoryDetail =
  prd_packageRepoRef :: "PackageRepositoryReference option"
  prd_name :: string
  prd_description :: string
  prd_namespaceScoped :: bool
  prd_type :: string
  prd_url :: string
  prd_interval :: string
  prd_tlsConfig :: "PackageRepositoryTlsConfig option"
  prd_auth :: "PackageRepositoryAuth option"
  prd_customDetail :: "AnyMsg option"
  prd_status :: "PackageRepositoryStatus option"

record PackageRepositorySummary =
  prsum_packageRepoRef :: "PackageRepositoryReference option"
  prsum_name :: string
  prsum_description :: string
  prsum_namespaceScoped :: bool
  prsum_type :: string
  prsum_url :: string
  prsum_status :: "PackageRepositoryStatus option"
  prsum_requiresAuth :: bool

record PackageRepositoriesPermissions =
  prp_plugin :: "Plugin option"
  prp_global :: "bool jsobj"
  prp_namespace :: "bool jsobj"

text \<open>The custom details of the Helm and the Flux plugins.\<close>

datatype DockerRegistryCredential =
    NoCredential | CredentialSecretRef string | CredentialDocker DockerCredentials

record RepositoryFilterRule =
  rule_jq :: string
  rule_variables :: "string jsobj"

record ProxyOptions =
  po_enabled :: bool
  po_httpProxy :: string
  po_httpsProxy :: string
  po_noProxy :: string

record HelmPackageRepositoryCustomDetail =
  hd_imagesPullSecret :: "DockerRegistryCredential option"
  hd_ociRepositories :: "string list"
  hd_filterRule :: "RepositoryFilterRule option"
  hd_performValidation :: bool
  hd_proxyOptions :: "ProxyOptions option"
  hd_nodeSelector :: "string jsobj"
  hd_tolerations :: "json list"
  hd_supplementalGroups :: "nat list"

record FluxPackageRepositoryCustomDetail =
  fd_provider :: string

datatype FormCustomDetail =
    FormHelm HelmPackageRepositoryCustomDetail
  | FormFlux FluxPackageRepositoryCustomDetail

text \<open>\<open>IPkgRepoFormData\<close>: what the form of a repository submits.\<close>

record IPkgRepoFormData =
  fo_authMethod :: AuthType
  fo_isUserManaged :: bool
  fo_authHeader :: string
  fo_basicAuth :: UsernamePassword
  fo_dockerRegCreds :: DockerCredentials
  fo_sshCreds :: SshCredentials
  fo_opaqueCreds :: OpaqueCredentials
  fo_tlsCertKey :: TlsCertKey
  fo_secretAuthName :: string
  fo_secretTLSName :: string
  fo_customCA :: string
  fo_description :: string
  fo_interval :: string
  fo_name :: string
  fo_passCredentials :: bool
  fo_plugin :: "Plugin option"
  fo_skipTLS :: bool
  fo_type :: string
  fo_url :: string
  fo_customDetail :: "FormCustomDetail option"
  fo_namespace :: string
  fo_isNamespaceScoped :: bool

text \<open>
  The \<open>Any\<close> of a request: the Helm detail is encoded, the Flux detail is passed as it is.
\<close>

datatype RequestDetail =
    DetailBytes string "nat list"
  | DetailObject string FormCustomDetail

record AddPackageRepositoryRequest =
  arq_context :: Context
  arq_name :: string
  arq_description :: string
  arq_namespaceScoped :: bool
  arq_type :: string
  arq_url :: string
  arq_interval :: string
  arq_plugin :: "Plugin option"
  arq_customDetail :: "RequestDetail option"
  arq_auth :: "PackageRepositoryAuth option"
  arq_tlsConfig :: "PackageRepositoryTlsConfig option"

record UpdatePackageRepositoryRequest =
  urq_packageRepoRef :: PackageRepositoryReference
  urq_description :: string
  urq_url :: string
  urq_interval :: string
  urq_customDetail :: "RequestDetail option"
  urq_auth :: "PackageRepositoryAuth option"
  urq_tlsConfig :: "PackageRepositoryTlsConfig option"

text \<open>The names of the current plugins and of the storage types (\<open>shared/types.ts\<close>).\<close>

definition PACKAGES_HELM :: string where "PACKAGES_HELM = ''helm.packages''"
definition PACKAGES_FLUX :: string where "PACKAGES_FLUX = ''fluxv2.packages''"
definition STORAGE_HELM :: string where "STORAGE_HELM = ''helm''"
definition STORAGE_OCI :: string where "STORAGE_OCI = ''oci''"

lemma plugin_names_distinct [simp]:
  "PACKAGES_HELM \<noteq> PACKAGES_FLUX" "PACKAGES_FLUX \<noteq> PACKAGES_HELM"
  "PACKAGES_HELM \<noteq> []" "PACKAGES_FLUX \<noteq> []"
  by (simp_all add: PACKAGES_HELM_def PACKAGES_FLUX_def)

lemma storage_names_distinct [simp]: "STORAGE_HELM \<noteq> STORAGE_OCI" "STORAGE_OCI \<noteq> STORAGE_HELM"
  by (simp_all add: STORAGE_HELM_def STORAGE_OCI_def)

section \<open>Kubernetes resources\<close>

record IResourceMetadata =
  md_name :: string
  md_namespace :: string
  md_annotations :: "string jsobj"
  md_creationTimestamp :: string
  md_selfLink :: string
  md_resourceVersion :: string
  md_deletionTimestamp :: "string option"
  md_uid :: string

record IResource =
  res_apiVersion :: string
  res_kind :: string
  res_type :: string
  res_spec :: json
  res_status :: json
  res_metadata :: IResourceMetadata

record IKind =
  kind_apiVersion :: string
  kind_plural :: string
  kind_namespaced :: bool

text \<open>A resource of an API group's list.\<close>

record APIResource =
  ar_name :: string
  ar_kind :: string
  ar_namespaced :: bool

record InstallMode =
  im_supported :: bool
  im_type :: string

record IPackageManifestChannel =
  ch_name :: string
  ch_currentCSV :: string
  ch_installModes :: "InstallMode list"
  ch_categories :: "string option"
  ch_capabilities :: "string option"
  ch_provider :: "string option"

record IPackageManifest =
  pmf_metadata :: IResourceMetadata
  pmf_defaultChannel :: string
  pmf_channels :: "IPackageManifestChannel list"

record ICRD =
  crd_description :: string
  crd_displayName :: string
  crd_kind :: string
  crd_name :: string
  crd_version :: string
  crd_resources :: "string list option"

record CSVIcon =
  icon_base64data :: string
  icon_mediatype :: string

record IClusterServiceVersion =
  csv_metadata :: IResourceMetadata
  csv_version :: string
  csv_owned :: "ICRD list option"
  csv_icon :: "CSVIcon list"
  csv_provider :: string

section \<open>Configuration\<close>

datatype SupportedThemes = dark | light

definition theme_string :: "SupportedThemes \<Rightarrow> string" where
  "theme_string t = (case t of dark \<Rightarrow> ''dark'' | light \<Rightarrow> ''light'')"

record ICustomAppViewIdentifier =
  cav_name :: string
  cav_plugin :: string
  cav_repository :: string

text \<open>\<open>IConfig\<close> of \<open>shared/Config.ts\<close>, with the feature flags flattened into two fields.\<close>

record IConfig =
  kubeappsCluster :: string
  kubeappsNamespace :: string
  helmGlobalNamespace :: string
  appVersion :: string
  authProxyEnabled :: bool
  oauthLoginURI :: string
  oauthLogoutURI :: string
  authProxySkipLoginPage :: bool
  config_error :: "js_error option"
  config_clusters :: "string list"
  feature_operators :: bool
  feature_schemaEditor :: bool
  config_theme :: "string option"
  remoteComponentsUrl :: string
  customAppViews :: "ICustomAppViewIdentifier list"
  skipAvailablePackageDetails :: bool
  createNamespaceLabels :: "string jsobj"
  configuredPlugins :: "Plugin list"

end
