(* ===== verification/Utils.thy ===== *)
theory Utils
  imports Messages
begin

text \<open>
  The pure helpers of \<open>shared/utils.ts\<close>: descriptions, optional minima, the names of plugins,
  the authentication types a plugin supports, and the namespaces that are global.
\<close>

section \<open>Strings and numbers\<close>

definition MAX_DESC_LENGTH :: nat where
  "MAX_DESC_LENGTH = 90"

text \<open>
  \<open>desc.substr(0, desc.lastIndexOf(" ", MAX_DESC_LENGTH)).concat("...")\<close>: a missing space
  gives -1, and \<open>substr\<close> with a negative length gives the empty string.
\<close>

definition trimDescription :: "string \<Rightarrow> string" where
  "trimDescription desc =
     (if length desc > MAX_DESC_LENGTH
      then (case lastIndexOf_upto desc CHR '' '' MAX_DESC_LENGTH of
              None \<Rightarrow> [] | Some i \<Rightarrow> take i desc) @ ''...''
      else desc)"

text \<open>\<open>getOptionalMin\<close>: a number is falsy when it is missing or zero.\<close>

definition num_truthy :: "int option \<Rightarrow> bool" where
  "num_truthy n = (case n of None \<Rightarrow> False | Some k \<Rightarrow> k \<noteq> 0)"

definition getOptionalMin :: "int option \<Rightarrow> int option \<Rightarrow> int option" where
  "getOptionalMin num1 num2 =
     (case (num1, num2) of
        (Some a, Some b) \<Rightarrow>
          (if a \<noteq> 0 \<and> b \<noteq> 0 then Some (min a b)
           else if a \<noteq> 0 then Some a else if b \<noteq> 0 then Some b else None)
      | _ \<Rightarrow> if num_truthy num1 then num1 else if num_truthy num2 then num2 else None)"

text \<open>\<open>escapeRegExp\<close> puts a backslash before every special character.\<close>

definition regexp_specials :: string where
  "regexp_specials = ''-[]/{}()*+?.'' @ [CHR 0x5C] @ ''^$|''"

fun escapeRegExp :: "string \<Rightarrow> string" where
  "escapeRegExp [] = []"
| "escapeRegExp (c # cs) =
     (if c \<in> set regexp_specials then CHR 0x5C # c # escapeRegExp cs
      else c # escapeRegExp cs)"

section \<open>Plugins\<close>

text \<open>An argument of type \<open>Plugin | string | undefined\<close>.\<close>

datatype plugin_arg = NoPlugin | PluginObj Plugin | PluginStr string

datatype icon = HelmIcon | FluxIcon | OlmIcon | Placeholder

definition getPluginIcon :: "plugin_arg \<Rightarrow> icon" where
  "getPluginIcon p = (case p of
     PluginStr s \<Rightarrow>
       (if s = ''chart'' \<or> s = ''helm'' then HelmIcon
        else if s = ''operator'' then OlmIcon else Placeholder)
   | PluginObj q \<Rightarrow>
       (if plugin_name q = PACKAGES_HELM then HelmIcon
        else if plugin_name q = PACKAGES_FLUX then FluxIcon else Placeholder)
   | NoPlugin \<Rightarrow> Placeholder)"

definition getPluginName :: "plugin_arg \<Rightarrow> string option" where
  "getPluginName p = (case p of
     PluginStr s \<Rightarrow>
       Some (if s = ''chart'' then ''Helm'' else if s = ''helm'' then ''Helm''
             else if s = ''operator'' then ''Operator'' else ''unknown plugin'')
   | PluginObj q \<Rightarrow>
       Some (if plugin_name q = PACKAGES_HELM then ''Helm''
             else if plugin_name q = PACKAGES_FLUX then ''Flux'' else plugin_name q)
   | NoPlugin \<Rightarrow> None)"

definition getPluginPackageName :: "plugin_arg \<Rightarrow> bool \<Rightarrow> string" where
  "getPluginPackageName p plural = (case p of
     PluginStr s \<Rightarrow>
       (if s = ''chart'' \<or> s = ''helm'' \<or> s = PACKAGES_HELM
        then (if plural then ''Helm Charts'' else ''Helm Chart'')
        else if s = PACKAGES_FLUX
        then (if plural then ''Helm Charts via Flux'' else ''Helm Chart via Flux'')
        else if s = ''operator'' then (if plural then ''Operators'' else ''Operator'')
        else ''unknown plugin '' @ (if plural then ''packages'' else ''package''))
   | PluginObj q \<Rightarrow>
       (if plugin_name q = PACKAGES_HELM
        then (if plural then ''Helm Charts'' else ''Helm Chart'')
        else if plugin_name q = PACKAGES_FLUX
        then (if plural then ''Helm Charts via Flux'' else ''Helm Chart via Flux'')
        else str_or (plugin_name q) ''unknown'' @ '' '' @
             (if plural then ''packages'' else ''package''))
   | NoPlugin \<Rightarrow> ''unknown '' @ (if plural then ''packages'' else ''package''))"

definition getPluginByName :: "string \<Rightarrow> Plugin" where
  "getPluginByName n =
     (if n = PACKAGES_HELM then \<lparr>plugin_name = PACKAGES_HELM, plugin_version = ''v1alpha1''\<rparr>
      else if n = PACKAGES_FLUX
      then \<lparr>plugin_name = PACKAGES_FLUX, plugin_version = ''v1alpha1''\<rparr>
      else \<lparr>plugin_name = [], plugin_version = []\<rparr>)"

definition getPluginsAllowingSA :: "string list" where
  "getPluginsAllowingSA = [PACKAGES_FLUX]"

definition getPluginsRequiringSA :: "string list" where
  "getPluginsRequiringSA = []"

definition getPluginsSupportingRollback :: "string list" where
  "getPluginsSupportingRollback = [PACKAGES_HELM]"

text \<open>The lower-case name of a status reason without its \<open>STATUS_REASON_\<close> prefix.\<close>

definition statusReasonName :: "StatusReason \<Rightarrow> string" where
  "statusReasonName r = (case r of
     REASON_UNSPECIFIED \<Rightarrow> ''STATUS_REASON_UNSPECIFIED''
   | REASON_INSTALLED \<Rightarrow> ''STATUS_REASON_INSTALLED''
   | REASON_UNINSTALLED \<Rightarrow> ''STATUS_REASON_UNINSTALLED''
   | REASON_FAILED \<Rightarrow> ''STATUS_REASON_FAILED''
   | REASON_PENDING \<Rightarrow> ''STATUS_REASON_PENDING'')"

definition getAppStatusLabel :: "StatusReason option \<Rightarrow> string" where
  "getAppStatusLabel r =
     (let name = statusReasonName (case r of None \<Rightarrow> REASON_UNSPECIFIED | Some q \<Rightarrow> q)
      in toLowerCase (case strip_prefix ''STATUS_REASON_'' name of None \<Rightarrow> name | Some s \<Rightarrow> s))"

definition getSupportedPackageRepositoryAuthTypes :: "Plugin \<Rightarrow> string option \<Rightarrow> AuthType list" where
  "getSupportedPackageRepositoryAuthTypes plugin type =
     (if plugin_name plugin = PACKAGES_HELM
      then [AUTHORIZATION_HEADER, BASIC_AUTH, BEARER, DOCKER_CONFIG_JSON]
      else if plugin_name plugin = PACKAGES_FLUX
      then (if type = Some STORAGE_HELM then [BASIC_AUTH, TLS]
            else if type = Some STORAGE_OCI then [BASIC_AUTH, DOCKER_CONFIG_JSON]
            else [BASIC_AUTH, TLS])
      else [])"

section \<open>Global namespaces\<close>

definition isGlobalNamespace :: "string \<Rightarrow> string \<Rightarrow> IConfig \<Rightarrow> bool" where
  "isGlobalNamespace namespace pluginName config =
     (if pluginName = PACKAGES_HELM then namespace = helmGlobalNamespace config
      else if pluginName = PACKAGES_FLUX then False else False)"

definition getGlobalNamespaceOrNamespace :: "string \<Rightarrow> string \<Rightarrow> IConfig \<Rightarrow> string" where
  "getGlobalNamespaceOrNamespace namespace pluginName config =
     (if pluginName = PACKAGES_HELM then helmGlobalNamespace config
      else if pluginName = PACKAGES_FLUX then namespace else ''unknown'')"

section \<open>Facts\<close>

text \<open>Undoing \<open>escapeRegExp\<close>: a backslash stands for the character after it.\<close>

fun unescapeRegExp :: "string \<Rightarrow> string" where
  "unescapeRegExp [] = []"
| "unescapeRegExp [c] = [c]"
| "unescapeRegExp (c # d # cs) =
     (if c = CHR 0x5C then d # unescapeRegExp cs else c # unescapeRegExp (d # cs))"

lemma unescape_plain: "c \<noteq> CHR 0x5C \<Longrightarrow> unescapeRegExp (c # s) = c # unescapeRegExp s"
  by (cases s) auto

lemma unescape_escape: "unescapeRegExp (escapeRegExp s) = s"
proof (induction s)
  case (Cons c s)
  then show ?case
    by (cases "c \<in> set regexp_specials")
      (simp_all add: unescape_plain regexp_specials_def)
qed simp

lemma trimDescription_long:
  assumes "length d > MAX_DESC_LENGTH"
  shows "\<exists>i. i \<le> MAX_DESC_LENGTH \<and> (i = 0 \<or> d ! i = CHR '' '') \<and>
    (\<forall>j. i < j \<and> j \<le> MAX_DESC_LENGTH \<longrightarrow> d ! j \<noteq> CHR '' '') \<and>
    trimDescription d = take i d @ ''...''"
proof (cases "lastIndexOf_upto d CHR '' '' MAX_DESC_LENGTH")
  case None
  have "d ! j \<noteq> CHR '' ''" if "j \<le> MAX_DESC_LENGTH" for j
    using None assms that by (intro lastIndexOf_upto_None [OF None]) simp_all
  then show ?thesis using None assms by (intro exI [of _ 0]) (simp add: trimDescription_def)
next
  case (Some i)
  then show ?thesis using assms lastIndexOf_upto_bound [OF Some] lastIndexOf_upto_last [OF Some]
    by (intro exI [of _ i]) (simp add: trimDescription_def)
qed

text \<open>
  What the cards of the catalog show of a description. It never has more than 93 characters and is
  the description itself or one of its prefixes, cut before a space as far to the right as the limit
  allows, with three dots; a long description whose first 91 characters have no space is shown as three dots
  alone.
\<close>
theorem description_trimmed:
  "length (trimDescription d) \<le> MAX_DESC_LENGTH + 3 \<and>
   (trimDescription d = d \<or>
    (\<exists>i. i \<le> MAX_DESC_LENGTH \<and> (i = 0 \<or> d ! i = CHR '' '') \<and>
       CHR '' '' \<notin> set (drop (i + 1) (take (MAX_DESC_LENGTH + 1) d)) \<and>
       trimDescription d = take i d @ ''...''))"
proof (cases "length d > MAX_DESC_LENGTH")
  case True
  then obtain i where i: "i \<le> MAX_DESC_LENGTH" "i = 0 \<or> d ! i = CHR '' ''"
    "\<forall>j. i < j \<and> j \<le> MAX_DESC_LENGTH \<longrightarrow> d ! j \<noteq> CHR '' ''"
    "trimDescription d = take i d @ ''...''"
    using trimDescription_long by blast
  have no: "CHR '' '' \<notin> set (drop (i + 1) (take (MAX_DESC_LENGTH + 1) d))"
  proof
    assume "CHR '' '' \<in> set (drop (i + 1) (take (MAX_DESC_LENGTH + 1) d))"
    then obtain k where "k < length (take (MAX_DESC_LENGTH + 1) d) - (i + 1)"
        "drop (i + 1) (take (MAX_DESC_LENGTH + 1) d) ! k = CHR '' ''"
      by (auto simp: in_set_conv_nth)
    with i(1) i(3) [rule_format, of "i + 1 + k"] show False by simp
  qed
  from i(1,2) i(4) no have "\<exists>i. i \<le> MAX_DESC_LENGTH \<and> (i = 0 \<or> d ! i = CHR '' '') \<and>
      CHR '' '' \<notin> set (drop (i + 1) (take (MAX_DESC_LENGTH + 1) d)) \<and>
      trimDescription d = take i d @ ''...''"
    by blast
  moreover have "length (trimDescription d) \<le> MAX_DESC_LENGTH + 3" using i(1) i(4) by simp
  ultimately show ?thesis by blast
qed (simp add: trimDescription_def)

lemma description_without_space:
  assumes "length d > MAX_DESC_LENGTH" and "CHR '' '' \<notin> set (take (MAX_DESC_LENGTH + 1) d)"
  shows "trimDescription d = ''...''"
proof -
  have "lastIndexOf_upto d CHR '' '' MAX_DESC_LENGTH = None"
  proof (rule ccontr)
    assume "lastIndexOf_upto d CHR '' '' MAX_DESC_LENGTH \<noteq> None"
    then obtain i where "lastIndexOf_upto d CHR '' '' MAX_DESC_LENGTH = Some i" by auto
    from lastIndexOf_upto_bound [OF this] assms(2) show False
      by (force simp: in_set_conv_nth)
  qed
  with assms(1) show ?thesis by (simp add: trimDescription_def)
qed

end
