(* ===== verification/Actions.thy ===== *)
theory Actions
  imports Utils
begin

text \<open>
  The redux actions of the dashboard, one datatype per module of \<open>actions/\<close> with a constructor
  per action creator, and their union \<open>action\<close>, which is what every reducer receives. The
  record \<open>lib\<close> collects the code the dashboard calls but does not contain: lodash, the protobuf
  and JWT decoders, the JSON parser of the engine, the schema validator and the YAML-aware
  value check. It is a parameter of every definition that uses one of them.
\<close>

section \<open>Libraries\<close>

record lib =
  json_parse :: "string \<Rightarrow> js_error + json"
  json_stringify :: "json \<Rightarrow> string"
  json_String :: "json \<Rightarrow> string"
  lodash_get :: "json \<Rightarrow> string \<Rightarrow> json \<Rightarrow> json"
  jwt_decode :: "string \<Rightarrow> string jsobj option"
  uniq_categories :: "string list \<Rightarrow> string list"
  uniqBy_packages :: "AvailablePackageSummary list \<Rightarrow> AvailablePackageSummary list"
  uniqBy_repos :: "PackageRepositorySummary list \<Rightarrow> PackageRepositorySummary list"
  helm_revision :: "nat list \<Rightarrow> js_error + nat"
  helm_toBinary :: "HelmPackageRepositoryCustomDetail \<Rightarrow> nat list"
  base64 :: "string \<Rightarrow> string"
  ajv_validateSchema :: "json \<Rightarrow> bool \<times> (string \<times> string) list option"
  check_values :: "string \<Rightarrow> json \<Rightarrow> string \<Rightarrow> js_error + (bool \<times> (string \<times> string) list option)"

text \<open>The path \<open>availablePackageRef.identifier\<close>, and \<open>packageRepoRef.identifier\<close>.\<close>

definition package_identifier :: "AvailablePackageSummary \<Rightarrow> string option" where
  "package_identifier s = map_option apr_identifier (aps_availablePackageRef s)"

definition repo_identifier :: "PackageRepositorySummary \<Rightarrow> string option" where
  "repo_identifier r = map_option prr_identifier (prsum_packageRepoRef r)"

text \<open>What the catalog relies on: \<open>uniq\<close> and \<open>uniqBy\<close> keep the first element of every key.\<close>

definition lodash_uniq_spec :: "lib \<Rightarrow> bool" where
  "lodash_uniq_spec L \<longleftrightarrow>
     uniqBy_spec (\<lambda>c. c) (uniq_categories L) \<and>
     uniqBy_spec package_identifier (uniqBy_packages L) \<and>
     uniqBy_spec repo_identifier (uniqBy_repos L)"

text \<open>
  What the stored namespaces rely on: \<open>JSON.parse\<close> inverts \<open>JSON.stringify\<close>, and lodash's
  \<open>get\<close> returns the value of a key the object has, or the default for a plain missing key.
\<close>

definition json_roundtrip_spec :: "lib \<Rightarrow> bool" where
  "json_roundtrip_spec L \<longleftrightarrow> (\<forall>ob. json_parse L (json_stringify L (JObj ob)) = Inr (JObj ob)) \<and>
     (\<forall>ob. json_stringify L (JObj ob) \<noteq> [])"

definition lodash_get_spec :: "lib \<Rightarrow> bool" where
  "lodash_get_spec L \<longleftrightarrow>
     (\<forall>ob k d v. obj_get ob k = Some v \<longrightarrow> lodash_get L (JObj ob) k d = v) \<and>
     (\<forall>k d. lodash_get L (JObj []) k d = d)"

section \<open>Actions\<close>

datatype auth_action =
    SetAuthenticated bool bool
  | Authenticating
  | AuthenticationError string
  | SetSessionExpired bool

datatype config_action =
    RequestConfig
  | ReceiveConfig IConfig
  | ReceiveTheme SupportedThemes
  | ErrorConfig js_error

datatype namespace_action =
    RequestNamespaceExists string string
  | ReceiveNamespaceExists string string
  | SetNamespaceState string string
  | PostNamespace string string
  | ReceiveNamespaces string "string list"
  | ErrorNamespaces string js_error string
  | SetAllowCreate string bool
  | ClearClusters

datatype packages_action =
    RequestAvailablePackageSummaries string
  | ReceiveAvailablePackageSummaries GetAvailablePackageSummariesResponse string
  | ResetAvailablePackageSummaries
  | RequestSelectedAvailablePackageDetail
  | ReceiveSelectedAvailablePackageDetail AvailablePackageDetail
  | ResetSelectedAvailablePackageDetail
  | SetAvailablePackageDetailCustomDefaults string
  | RequestSelectedAvailablePackageVersions
  | ReceiveSelectedAvailablePackageVersions "PackageAppVersion list"
  | RequestAvailablePackageMetadatas
  | ReceiveAvailablePackageMetadatas "PackageMetadata list"
  | CreateErrorPackage js_error
  | ClearErrorPackage

datatype installed_action =
    RequestInstalledPackage
  | RequestInstalledPackageList
  | ReceiveInstalledPackageList "InstalledPackageSummary list"
  | RequestDeleteInstalledPackage
  | ReceiveDeleteInstalledPackage
  | RequestInstallPackage
  | ReceiveInstallPackage
  | RequestUpdateInstalledPackage
  | ReceiveUpdateInstalledPackage
  | RequestRollbackInstalledPackage
  | ReceiveRollbackInstalledPackage
  | RequestInstalledPackageStatus
  | ReceiveInstalledPackageStatus "InstalledPackageStatus option"
  | ErrorInstalledPackage js_error
  | ClearErrorInstalledPackage
  | SelectInstalledPackage "InstalledPackageDetail option" "AvailablePackageDetail option"

datatype repo_op = OpCreate | OpUpdate | OpFetch | OpDelete

datatype repos_action =
    AddOrUpdateRepo
  | AddedRepo PackageRepositorySummary
  | ErrorRepos js_error repo_op
  | ReceiveRepoDetail PackageRepositoryDetail
  | ReceiveRepoSummaries "PackageRepositorySummary list"
  | RepoUpdated PackageRepositorySummary
  | RequestRepoDetail
  | RequestRepoSummaries string
  | RequestReposPermissions Context
  | ReceiveReposPermissions "PackageRepositoriesPermissions list"

datatype kube_action =
    ReceiveResource string json
  | ReceiveResourceError string js_error
  | RequestResources InstalledPackageReference "ResourceRef list" bool
  | ReceiveResourcesError js_error
  | RequestResourceKinds
  | ReceiveResourceKinds "IKind jsobj"
  | ReceiveKindsError js_error

datatype operator_action =
    CheckingOLM | OLMInstalled | ErrorOLMCheck js_error
  | RequestOperators | ReceiveOperators "IPackageManifest list"
  | RequestOperator | ReceiveOperator IPackageManifest
  | ErrorOperators js_error
  | RequestCSVs | ReceiveCSVs "IClusterServiceVersion list"
  | ErrorCSVs js_error
  | RequestCSV | ReceiveCSV IClusterServiceVersion
  | CreatingResource | ResourceCreated IResource | ErrorResourceCreate js_error
  | UpdatingResource | ResourceUpdated IResource | ErrorResourceUpdate js_error
  | DeletingResource | ResourceDeleted | ErrorResourceDelete js_error
  | RequestCustomResources | ReceiveCustomResources "IResource list"
  | ErrorCustomResource js_error
  | RequestCustomResource | ReceiveCustomResource IResource
  | CreatingOperator | OperatorCreated IResource | ErrorOperatorCreate js_error
  | RequestSubscriptions | ReceiveSubscriptions "IResource list"
  | ErrorSubscriptionList js_error

text \<open>\<open>LocationChange\<close> carries the path name of the new location (\<open>hooks/push.tsx\<close>).\<close>

datatype action =
    AuthA auth_action
  | ConfigA config_action
  | NamespaceA namespace_action
  | PackagesA packages_action
  | InstalledA installed_action
  | ReposA repos_action
  | KubeA kube_action
  | OperatorA operator_action
  | LocationChange string

section \<open>Interfaces of reducers\<close>

text \<open>
  A machine whose steps may raise: an invariant every successful step keeps holds after any
  run that does not raise.
\<close>

locale reducer_invariant =
  fixes step :: "'s \<Rightarrow> 'a \<Rightarrow> js_error + 's"
    and inv :: "'s \<Rightarrow> bool"
  assumes step_inv: "inv s \<Longrightarrow> step s a = Inr s' \<Longrightarrow> inv s'"
begin

primrec steps :: "'s \<Rightarrow> 'a list \<Rightarrow> 's" where
  "steps s [] = s"
| "steps s (a # as) = steps (case step s a of Inl e \<Rightarrow> s | Inr s' \<Rightarrow> s') as"

lemma steps_inv: "inv s \<Longrightarrow> inv (steps s as)"
  by (induction as arbitrary: s) (auto intro: step_inv split: sum.splits)

lemma steps_append: "steps s (as @ bs) = steps (steps s as) bs"
  by (induction as arbitrary: s) auto

end

text \<open>
  The request/settle discipline: some actions raise a pending flag, some lower it, the others
  leave it alone. After any run, the flag is what the last action of the first two kinds says.
\<close>

locale fetch_flag =
  fixes step :: "'s \<Rightarrow> 'a \<Rightarrow> 's"
    and pending :: "'s \<Rightarrow> bool"
    and request :: "'a \<Rightarrow> bool"
    and settle :: "'a \<Rightarrow> bool"
  assumes request_pending: "request a \<Longrightarrow> pending (step s a)"
    and settle_pending: "settle a \<Longrightarrow> \<not> pending (step s a)"
    and other_pending: "\<not> request a \<Longrightarrow> \<not> settle a \<Longrightarrow> pending (step s a) = pending s"
begin

primrec flag_after :: "bool \<Rightarrow> 'a list \<Rightarrow> bool" where
  "flag_after b [] = b"
| "flag_after b (a # as) =
     flag_after (if request a then True else if settle a then False else b) as"

lemma pending_run: "pending (foldl step s as) = flag_after (pending s) as"
proof (induction as arbitrary: s)
  case Nil
  then show ?case by simp
next
  case (Cons a as)
  then show ?case
    using request_pending [of a s] settle_pending [of a s] other_pending [of a s] by auto
qed

lemma flag_after_snoc:
  "flag_after b (as @ [a]) =
     (if request a then True else if settle a then False else flag_after b as)"
  by (induction as arbitrary: b) auto

lemma settled_after:
  assumes "settle a" and "\<not> request a" and "\<forall>x \<in> set bs. \<not> request x"
  shows "\<not> pending (foldl step s (as @ a # bs))"
proof -
  have "\<not> flag_after False bs" if "\<forall>x \<in> set bs. \<not> request x" for bs
    using that by (induction bs) auto
  moreover have "flag_after b (as @ a # bs) = flag_after False bs" for b
    using assms by (induction as arbitrary: b) auto
  ultimately show ?thesis using assms(3) unfolding pending_run by simp
qed

end

end
