(* ===== verification/Storage.thy ===== *)
theory Storage
  imports Actions
begin

text \<open>
  The browser's local storage as the dashboard uses it: the authentication token
  (\<open>shared/Auth.ts\<close>) and the namespace last selected in every cluster
  (\<open>shared/Namespace.ts\<close>). The storage is an object of strings, passed explicitly.
\<close>

type_synonym storage = "string jsobj"

section \<open>The authentication token\<close>

definition AuthTokenKey :: string where "AuthTokenKey = ''kubeapps_auth_token''"
definition AuthTokenOIDCKey :: string where "AuthTokenOIDCKey = ''kubeapps_auth_token_oidc''"
definition namespaceKey :: string where "namespaceKey = ''kubeapps_namespace''"

lemma storage_keys_distinct [simp]:
  "AuthTokenKey \<noteq> AuthTokenOIDCKey" "AuthTokenOIDCKey \<noteq> AuthTokenKey"
  "AuthTokenKey \<noteq> namespaceKey" "namespaceKey \<noteq> AuthTokenKey"
  "AuthTokenOIDCKey \<noteq> namespaceKey" "namespaceKey \<noteq> AuthTokenOIDCKey"
  by (simp_all add: AuthTokenKey_def AuthTokenOIDCKey_def namespaceKey_def)

definition getAuthToken :: "storage \<Rightarrow> string option" where
  "getAuthToken ls = obj_get ls AuthTokenKey"

definition bool_string :: "bool \<Rightarrow> string" where
  "bool_string b = (if b then ''true'' else ''false'')"

lemma bool_string_true [simp]: "(bool_string b = ''true'') = b"
  by (simp add: bool_string_def)

definition setAuthToken :: "string \<Rightarrow> bool \<Rightarrow> storage \<Rightarrow> storage" where
  "setAuthToken token oidc ls =
     (let ls1 = obj_set AuthTokenOIDCKey (bool_string oidc) ls
      in if token \<noteq> [] then obj_set AuthTokenKey token ls1 else ls1)"

definition unsetAuthToken :: "storage \<Rightarrow> storage" where
  "unsetAuthToken ls = AList.delete AuthTokenKey ls"

definition usingOIDCToken :: "storage \<Rightarrow> bool" where
  "usingOIDCToken ls = (obj_get ls AuthTokenOIDCKey = Some ''true'')"

text \<open>\<open>getAuthToken() || ""\<close>.\<close>

definition authTokenOrEmpty :: "storage \<Rightarrow> string" where
  "authTokenOrEmpty ls = (case getAuthToken ls of None \<Rightarrow> [] | Some t \<Rightarrow> t)"

text \<open>
  The web socket protocols: with a stored token that is not an OIDC token, the token in
  base64 without its padding.
\<close>

definition wsProtocols :: "lib \<Rightarrow> storage \<Rightarrow> string list" where
  "wsProtocols L ls =
     (if \<not> truthy (getAuthToken ls) \<or> usingOIDCToken ls then []
      else [''base64url.bearer.authorization.k8s.io.'' @
              remove_char CHR ''='' (base64 L (authTokenOrEmpty ls)),
            ''binary.k8s.io''])"

definition fetchOptions :: "storage \<Rightarrow> string \<times> string" where
  "fetchOptions ls =
     (''Authorization'',
      ''Bearer '' @ (case getAuthToken ls of None \<Rightarrow> ''null'' | Some t \<Rightarrow> t))"

text \<open>The service account namespace of a decoded token, or the empty string.\<close>

definition defaultNamespaceFromToken :: "lib \<Rightarrow> string \<Rightarrow> string" where
  "defaultNamespaceFromToken L token =
     (case jwt_decode L token of
        None \<Rightarrow> []
      | Some payload \<Rightarrow>
          (case obj_get payload ''kubernetes.io/serviceaccount/namespace'' of
             None \<Rightarrow> [] | Some ns \<Rightarrow> ns))"

section \<open>The stored namespaces\<close>

text \<open>The stored text, parsed; a text that is no JSON counts as the empty object.\<close>

definition parseStoredNS :: "lib \<Rightarrow> storage \<Rightarrow> json" where
  "parseStoredNS L ls =
     (let ns = (case obj_get ls namespaceKey of None \<Rightarrow> ''{}'' | Some s \<Rightarrow> str_or s ''{}'')
      in case json_parse L ns of Inl e \<Rightarrow> JObj [] | Inr v \<Rightarrow> v)"

definition getStoredNamespace :: "lib \<Rightarrow> storage \<Rightarrow> string \<Rightarrow> json" where
  "getStoredNamespace L ls cluster = lodash_get L (parseStoredNS L ls) cluster (JStr [])"

text \<open>
  \<open>ns[cluster] = namespace\<close> on the parsed value: an object gets the member; an array ignores a
  name that is no index when it is printed again; assigning to anything else raises.
\<close>

definition json_assign :: "json \<Rightarrow> string \<Rightarrow> json \<Rightarrow> js_error + json" where
  "json_assign ob k v = (case ob of
     JObj ms \<Rightarrow> Inr (JObj (obj_set k v ms))
   | JArr xs \<Rightarrow> Inr (JArr xs)
   | _ \<Rightarrow> Inl (TypeError ''Cannot set properties of a primitive value''))"

definition setStoredNamespace :: "lib \<Rightarrow> string \<Rightarrow> string \<Rightarrow> storage \<Rightarrow> js_error + storage" where
  "setStoredNamespace L cluster namespace ls =
     (case json_assign (parseStoredNS L ls) cluster (JStr namespace) of
        Inl e \<Rightarrow> Inl e
      | Inr ns \<Rightarrow> Inr (obj_set namespaceKey (json_stringify L ns) ls))"

definition unsetStoredNamespace :: "storage \<Rightarrow> storage" where
  "unsetStoredNamespace ls = AList.delete namespaceKey ls"

text \<open>
  The namespace to select in a cluster: the current one, then the stored one and the one of
  the token where they are available, then the first available.
\<close>

definition json_available :: "json \<Rightarrow> string list \<Rightarrow> string option" where
  "json_available v available = (case v of
     JStr s \<Rightarrow> (if s \<noteq> [] \<and> s \<in> set available then Some s else None)
   | _ \<Rightarrow> None)"

definition getCurrentNamespace ::
  "lib \<Rightarrow> storage \<Rightarrow> string \<Rightarrow> string option \<Rightarrow> string list \<Rightarrow> string" where
  "getCurrentNamespace L ls cluster currentNS availableNS =
     (case currentNS of
        Some (c # cs) \<Rightarrow> c # cs
      | _ \<Rightarrow>
          (case json_available (getStoredNamespace L ls cluster) availableNS of
             Some ns \<Rightarrow> ns
           | None \<Rightarrow>
               (let tokenNS = defaultNamespaceFromToken L (authTokenOrEmpty ls) in
                if tokenNS \<noteq> [] \<and> tokenNS \<in> set availableNS then tokenNS
                else (case availableNS of [] \<Rightarrow> [] | ns # _ \<Rightarrow> ns))))"

section \<open>Facts\<close>

lemma obj_get_delete [simp]:
  "obj_get (AList.delete k ob) j = (if j = k then None else obj_get ob j)"
  by (simp add: delete_conv')

lemma setAuthToken_get [simp]:
  "getAuthToken (setAuthToken token oidc ls) =
     (if token \<noteq> [] then Some token else getAuthToken ls)"
  "usingOIDCToken (setAuthToken token oidc ls) = oidc"
  by (simp_all add: setAuthToken_def getAuthToken_def usingOIDCToken_def Let_def)

lemma unsetAuthToken_get [simp]:
  "getAuthToken (unsetAuthToken ls) = None"
  "usingOIDCToken (unsetAuthToken ls) = usingOIDCToken ls"
  by (simp_all add: unsetAuthToken_def getAuthToken_def usingOIDCToken_def)

lemma unsetStoredNamespace_get [simp]:
  "getAuthToken (unsetStoredNamespace ls) = getAuthToken ls"
  "usingOIDCToken (unsetStoredNamespace ls) = usingOIDCToken ls"
  "obj_get (unsetStoredNamespace ls) namespaceKey = None"
  by (simp_all add: unsetStoredNamespace_def getAuthToken_def usingOIDCToken_def)

lemma json_available_Some:
  "json_available v xs = Some s \<longleftrightarrow> v = JStr s \<and> s \<noteq> [] \<and> s \<in> set xs"
  by (auto simp: json_available_def split: json.splits)

lemma getCurrentNamespace_available:
  assumes "\<not> truthy currentNS" and "availableNS \<noteq> []"
  shows "getCurrentNamespace L ls cluster currentNS availableNS \<in> set availableNS"
  using assms
  by (auto simp: getCurrentNamespace_def Let_def json_available_Some truthy_def
      split: option.splits list.splits)

lemma parseStoredNS_stored:
  assumes "json_roundtrip_spec L" and "obj_get ls namespaceKey = Some (json_stringify L (JObj ob))"
  shows "parseStoredNS L ls = JObj ob"
  using assms by (simp add: parseStoredNS_def json_roundtrip_spec_def str_or_def)

text \<open>After storing a namespace, the same cluster reads it back and others are unchanged.\<close>

lemma stored_namespace_get:
  assumes L: "json_roundtrip_spec L" "lodash_get_spec L"
    and parsed: "parseStoredNS L ls = JObj ob"
    and stored: "setStoredNamespace L cluster ns ls = Inr ls'"
  shows "getStoredNamespace L ls' cluster = JStr ns"
    and "obj_get ob c = Some v \<Longrightarrow> c \<noteq> cluster \<Longrightarrow> getStoredNamespace L ls' c = v"
proof -
  have "obj_get ls' namespaceKey = Some (json_stringify L (JObj (obj_set cluster (JStr ns) ob)))"
    using stored parsed by (auto simp: setStoredNamespace_def json_assign_def)
  then have p: "parseStoredNS L ls' = JObj (obj_set cluster (JStr ns) ob)"
    by (rule parseStoredNS_stored [OF L(1)])
  show "getStoredNamespace L ls' cluster = JStr ns"
    using L(2) by (simp add: getStoredNamespace_def p lodash_get_spec_def)
  show "getStoredNamespace L ls' c = v" if "obj_get ob c = Some v" and "c \<noteq> cluster"
    using L(2) that by (simp add: getStoredNamespace_def p lodash_get_spec_def)
qed

end
