(* ===== verification/Url.thy ===== *)
theory Url
  imports Storage
begin

text \<open>
  The URLs of the dashboard and of the APIs it calls (\<open>shared/url.ts\<close>) and the reading of the
  cluster and the namespace back from a path name (the regular expression of
  \<open>reducers/cluster.ts\<close>). \<open>encodeURIComponent\<close> is a function of the standard library; here
  it is the percent encoding of every character but the unreserved ones.
\<close>

section \<open>Percent encoding\<close>

definition is_unreserved :: "char \<Rightarrow> bool" where
  "is_unreserved c = (let n = of_char c :: nat in
     (48 \<le> n \<and> n \<le> 57) \<or> (65 \<le> n \<and> n \<le> 90) \<or> (97 \<le> n \<and> n \<le> 122)
     \<or> c \<in> set ''-_.!~*()'' \<or> n = 39)"

definition hex_digit :: "nat \<Rightarrow> char" where
  "hex_digit n = char_of (if n < 10 then 48 + n else 55 + n)"

fun encodeURIComponent :: "string \<Rightarrow> string" where
  "encodeURIComponent [] = []"
| "encodeURIComponent (c # cs) =
     (if is_unreserved c then c # encodeURIComponent cs
      else CHR ''%'' # hex_digit ((of_char c :: nat) div 16) # hex_digit ((of_char c :: nat) mod 16)
           # encodeURIComponent cs)"

section \<open>Routes of the dashboard\<close>

definition base_path :: "string option \<Rightarrow> string option \<Rightarrow> string" where
  "base_path cluster namespace =
     ''/c/'' @ show_opt cluster @ ''/ns/'' @ show_opt namespace"

definition apr_plugin_name :: "AvailablePackageReference \<Rightarrow> string option" where
  "apr_plugin_name r = map_option plugin_name (apr_plugin r)"

definition apr_plugin_version :: "AvailablePackageReference \<Rightarrow> string option" where
  "apr_plugin_version r = map_option plugin_version (apr_plugin r)"

text \<open>\<open>ref?.context?.cluster || cluster\<close>.\<close>

definition apr_cluster :: "AvailablePackageReference \<Rightarrow> string \<Rightarrow> string" where
  "apr_cluster r cluster =
     (case apr_context r of None \<Rightarrow> cluster | Some c \<Rightarrow> str_or (ctx_cluster c) cluster)"

definition apr_namespace :: "AvailablePackageReference \<Rightarrow> string option" where
  "apr_namespace r = map_option ctx_namespace (apr_context r)"

definition app_apps_new :: "string \<Rightarrow> string \<Rightarrow> AvailablePackageReference \<Rightarrow> string \<Rightarrow> string" where
  "app_apps_new cluster namespace r version =
     base_path (Some cluster) (Some namespace) @ ''/apps/new/'' @ show_opt (apr_plugin_name r) @
     ''/'' @ show_opt (apr_plugin_version r) @ ''/'' @ apr_cluster r cluster @ ''/'' @
     show_opt (apr_namespace r) @ ''/'' @ encodeURIComponent (apr_identifier r) @
     ''/versions/'' @ version"

definition app_apps_list :: "string option \<Rightarrow> string option \<Rightarrow> string" where
  "app_apps_list cluster namespace = base_path cluster namespace @ ''/apps''"

definition app_apps_get :: "InstalledPackageReference \<Rightarrow> string" where
  "app_apps_get r =
     app_apps_list (map_option ctx_cluster (ipr_context r)) (map_option ctx_namespace (ipr_context r)) @
     ''/'' @ show_opt (map_option plugin_name (ipr_plugin r)) @
     ''/'' @ show_opt (map_option plugin_version (ipr_plugin r)) @ ''/'' @ ipr_identifier r"

definition app_apps_upgrade :: "InstalledPackageReference \<Rightarrow> string" where
  "app_apps_upgrade r = app_apps_get r @ ''/upgrade''"

definition app_apps_upgradeTo :: "InstalledPackageReference \<Rightarrow> string option \<Rightarrow> string" where
  "app_apps_upgradeTo r version = app_apps_get r @ ''/upgrade/'' @ show_opt version"

definition app_catalog :: "string \<Rightarrow> string \<Rightarrow> string" where
  "app_catalog cluster namespace = base_path (Some cluster) (Some namespace) @ ''/catalog''"

definition app_packages_get :: "string \<Rightarrow> string \<Rightarrow> AvailablePackageReference \<Rightarrow> string" where
  "app_packages_get cluster namespace r =
     base_path (Some cluster) (Some namespace) @ ''/packages/'' @ show_opt (apr_plugin_name r) @
     ''/'' @ show_opt (apr_plugin_version r) @ ''/'' @ apr_cluster r cluster @ ''/'' @
     show_opt (apr_namespace r) @ ''/'' @ encodeURIComponent (apr_identifier r)"

definition app_operators_view :: "string \<Rightarrow> string \<Rightarrow> string \<Rightarrow> string" where
  "app_operators_view cluster namespace name =
     base_path (Some cluster) (Some namespace) @ ''/operators/'' @ name"

definition app_operators_list :: "string \<Rightarrow> string \<Rightarrow> string" where
  "app_operators_list cluster namespace = base_path (Some cluster) (Some namespace) @ ''/operators''"

definition app_operators_new :: "string \<Rightarrow> string \<Rightarrow> string \<Rightarrow> string" where
  "app_operators_new cluster namespace name =
     base_path (Some cluster) (Some namespace) @ ''/operators/new/'' @ name"

definition app_operatorInstances_view ::
  "string \<Rightarrow> string \<Rightarrow> string \<Rightarrow> string \<Rightarrow> string \<Rightarrow> string" where
  "app_operatorInstances_view cluster namespace csvName crdName resourceName =
     base_path (Some cluster) (Some namespace) @ ''/operators-instances/'' @ csvName @ ''/'' @
     crdName @ ''/'' @ resourceName"

definition app_operatorInstances_update ::
  "string \<Rightarrow> string \<Rightarrow> string \<Rightarrow> string \<Rightarrow> string \<Rightarrow> string" where
  "app_operatorInstances_update cluster namespace csvName crdName instanceName =
     base_path (Some cluster) (Some namespace) @ ''/operators-instances/'' @ csvName @ ''/'' @
     crdName @ ''/'' @ instanceName @ ''/update''"

definition app_operatorInstances_new :: "string \<Rightarrow> string \<Rightarrow> string \<Rightarrow> string \<Rightarrow> string" where
  "app_operatorInstances_new cluster namespace csvName crdName =
     base_path (Some cluster) (Some namespace) @ ''/operators-instances/new/'' @ csvName @ ''/'' @
     crdName"

definition app_config_pkgrepositories :: "string \<Rightarrow> string \<Rightarrow> string" where
  "app_config_pkgrepositories cluster namespace =
     base_path (Some cluster) (Some namespace) @ ''/config/repos''"

definition app_config_operators :: "string \<Rightarrow> string \<Rightarrow> string" where
  "app_config_operators cluster namespace =
     base_path (Some cluster) (Some namespace) @ ''/operators''"

section \<open>URLs of the APIs\<close>

definition withNS :: "string \<Rightarrow> string" where
  "withNS namespace = (if namespace \<noteq> [] then ''namespaces/'' @ namespace @ ''/'' else [])"

definition k8s_base :: "string \<Rightarrow> string" where
  "k8s_base cluster = ''api/clusters/'' @ cluster"

definition k8s_apis :: "string \<Rightarrow> string" where
  "k8s_apis cluster = k8s_base cluster @ ''/apis''"

definition k8s_v1 :: "string \<Rightarrow> string" where
  "k8s_v1 cluster = k8s_base cluster @ ''/api/v1''"

definition k8s_groupVersion :: "string \<Rightarrow> string \<Rightarrow> string" where
  "k8s_groupVersion cluster groupVersion = k8s_base cluster @ ''/apis/'' @ groupVersion"

definition k8s_operators :: "string \<Rightarrow> string \<Rightarrow> string" where
  "k8s_operators cluster namespace =
     k8s_base cluster @ ''/apis/packages.operators.coreos.com/v1/'' @ withNS namespace @
     ''packagemanifests''"

definition k8s_operator :: "string \<Rightarrow> string \<Rightarrow> string \<Rightarrow> string" where
  "k8s_operator cluster namespace name =
     k8s_base cluster @ ''/apis/packages.operators.coreos.com/v1/namespaces/'' @ namespace @
     ''/packagemanifests/'' @ name"

definition k8s_clusterServiceVersions :: "string \<Rightarrow> string \<Rightarrow> string" where
  "k8s_clusterServiceVersions cluster namespace =
     k8s_base cluster @ ''/apis/operators.coreos.com/v1alpha1/'' @ withNS namespace @
     ''clusterserviceversions''"

definition k8s_clusterServiceVersion :: "string \<Rightarrow> string \<Rightarrow> string \<Rightarrow> string" where
  "k8s_clusterServiceVersion cluster namespace name =
     k8s_base cluster @ ''/apis/operators.coreos.com/v1alpha1/namespaces/'' @ namespace @
     ''/clusterserviceversions/'' @ name"

definition k8s_resources :: "string \<Rightarrow> string \<Rightarrow> string \<Rightarrow> string \<Rightarrow> string" where
  "k8s_resources cluster namespace apiVersion resource =
     k8s_base cluster @ ''/apis/'' @ apiVersion @ ''/'' @ withNS namespace @ resource"

definition k8s_resource :: "string \<Rightarrow> string \<Rightarrow> string \<Rightarrow> string \<Rightarrow> string \<Rightarrow> string" where
  "k8s_resource cluster namespace apiVersion resource name =
     k8s_base cluster @ ''/apis/'' @ apiVersion @ ''/namespaces/'' @ namespace @ ''/'' @
     resource @ ''/'' @ name"

definition k8s_operatorGroups :: "string \<Rightarrow> string \<Rightarrow> string" where
  "k8s_operatorGroups cluster namespace =
     k8s_base cluster @ ''/apis/operators.coreos.com/v1/namespaces/'' @ namespace @
     ''/operatorgroups''"

definition k8s_subscriptions :: "string \<Rightarrow> string \<Rightarrow> string" where
  "k8s_subscriptions cluster namespace =
     k8s_base cluster @ ''/apis/operators.coreos.com/v1alpha1/namespaces/'' @ namespace @
     ''/subscriptions''"

definition k8s_subscription :: "string \<Rightarrow> string \<Rightarrow> string \<Rightarrow> string" where
  "k8s_subscription cluster namespace name =
     k8s_base cluster @ ''/apis/operators.coreos.com/v1alpha1/namespaces/'' @ namespace @
     ''/subscriptions/'' @ name"

definition operatorIcon :: "string \<Rightarrow> string \<Rightarrow> string \<Rightarrow> string" where
  "operatorIcon cluster namespace name =
     ''apis/operators/namespaces/'' @ namespace @ ''/operator/'' @ name @ ''/logo''"

definition api_config :: string where "api_config = ''config.json''"

section \<open>Reading a location\<close>

text \<open>
  \<open>/(?:\/c\/(?<cluster>[^/]*))?(?:\/ns\/(?<namespace>[^/]*))?/\<close>: both groups are optional, so
  the expression always matches at the first position, and the greedy classes take every
  character up to the next slash. A group that does not take part is \<open>undefined\<close>.
\<close>

definition not_slash :: "char \<Rightarrow> bool" where
  "not_slash c = (c \<noteq> CHR ''/'')"

definition match_location :: "string \<Rightarrow> string option \<times> string option" where
  "match_location pathname =
     (let (cluster, rest) =
        (case strip_prefix ''/c/'' pathname of
           None \<Rightarrow> (None, pathname)
         | Some r \<Rightarrow> (Some (takeWhile not_slash r), dropWhile not_slash r))
      in (cluster, map_option (takeWhile not_slash) (strip_prefix ''/ns/'' rest)))"

lemma match_base_path:
  assumes "CHR ''/'' \<notin> set cluster" and "CHR ''/'' \<notin> set ns"
    and "rest = [] \<or> hd rest = CHR ''/''"
  shows "match_location (base_path (Some cluster) (Some ns) @ rest) = (Some cluster, Some ns)"
proof -
  have slash: "not_slash = (\<lambda>c. c \<noteq> CHR ''/'')" by (simp add: not_slash_def fun_eq_iff)
  have strip: "strip_prefix ''/c/'' (base_path (Some cluster) (Some ns) @ rest) =
      Some (cluster @ ''/ns/'' @ ns @ rest)"
    by (simp add: base_path_def)
  have "takeWhile not_slash (cluster @ ''/ns/'' @ ns @ rest) = cluster"
    unfolding slash by (rule takeWhile_until) (use assms(1) in simp_all)
  moreover have "dropWhile not_slash (cluster @ ''/ns/'' @ ns @ rest) = ''/ns/'' @ ns @ rest"
    unfolding slash by (rule dropWhile_until) (use assms(1) in simp_all)
  moreover have "takeWhile not_slash (ns @ rest) = ns"
    unfolding slash by (rule takeWhile_until) (use assms in simp_all)
  ultimately show ?thesis unfolding match_location_def strip by simp
qed

lemma match_elsewhere:
  "\<not> startsWith p ''/c/'' \<Longrightarrow> \<not> startsWith p ''/ns/'' \<Longrightarrow> match_location p = (None, None)"
  by (simp add: match_location_def flip: strip_prefix_None)

end
