(* ===== verification/Reducer_Packages.thy ===== *)
theory Reducer_Packages
  imports Url
begin

text \<open>
  The catalog: the reducer of available packages (\<open>reducers/availablepackages.ts\<close>), with the
  pages received so far, the flags of the pagination and the selected package.
\<close>

section \<open>State\<close>

record SelectedPackage =
  sel_error :: "js_error option"
  sel_availablePackageDetail :: "AvailablePackageDetail option"
  sel_pkgVersion :: "string option"
  sel_appVersion :: "string option"
  sel_versions :: "PackageAppVersion list"
  sel_metadatas :: "PackageMetadata list"
  sel_readme :: "string option"
  sel_readmeError :: "string option"
  sel_values :: "string option"
  sel_schema :: "json option"

record IPackageState =
  pk_isFetching :: bool
  pk_hasFinishedFetching :: bool
  pk_nextPageToken :: string
  pk_selected :: SelectedPackage
  pk_items :: "AvailablePackageSummary list"
  pk_categories :: "string list"
  pk_size :: nat

definition selected_initial :: SelectedPackage where
  "selected_initial =
     \<lparr>sel_error = None, sel_availablePackageDetail = None, sel_pkgVersion = None,
      sel_appVersion = None, sel_versions = [], sel_metadatas = [], sel_readme = None,
      sel_readmeError = None, sel_values = None, sel_schema = None\<rparr>"

definition packages_initialState :: IPackageState where
  "packages_initialState =
     \<lparr>pk_isFetching = False, pk_hasFinishedFetching = False, pk_nextPageToken = [],
      pk_selected = selected_initial, pk_items = [], pk_categories = [], pk_size = 20\<rparr>"

section \<open>Operations\<close>

text \<open>
  The default values of a package: the only additional file if there is exactly one, else the
  chosen one where it exists, else the package's own.
\<close>

definition defaultValues :: "AvailablePackageDetail \<Rightarrow> string option \<Rightarrow> string" where
  "defaultValues pkg customDefault =
     (let additionalValues = map snd (apd_additionalDefaultValues pkg) in
      case additionalValues of
        [v] \<Rightarrow> v
      | _ \<Rightarrow>
          (case (if length additionalValues > 1 \<and> truthy customDefault
                 then obj_get (apd_additionalDefaultValues pkg) (the customDefault) else None) of
             Some v \<Rightarrow> v
           | None \<Rightarrow> apd_defaultValues pkg))"

definition parse_schema :: "lib \<Rightarrow> string \<Rightarrow> js_error + json" where
  "parse_schema L s = (if s \<noteq> [] then json_parse L s else Inr (JObj []))"

fun selectedPackageReducer ::
  "lib \<Rightarrow> SelectedPackage \<Rightarrow> packages_action \<Rightarrow> js_error + SelectedPackage" where
  "selectedPackageReducer L s (ReceiveSelectedAvailablePackageDetail d) =
     (case parse_schema L (apd_valuesSchema d) of
        Inl e \<Rightarrow> Inl e
      | Inr sch \<Rightarrow>
          Inr (s\<lparr>sel_error := None, sel_readmeError := None,
             sel_availablePackageDetail := Some d,
             sel_pkgVersion := map_option pav_pkgVersion (apd_version d),
             sel_appVersion := map_option pav_appVersion (apd_version d),
             sel_readme := Some (apd_readme d),
             sel_values := Some (defaultValues d None),
             sel_schema := Some sch\<rparr>))"
| "selectedPackageReducer L s (SetAvailablePackageDetailCustomDefaults customDefault) =
     (case sel_availablePackageDetail s of
        None \<Rightarrow> Inl (TypeError ''Cannot read properties of undefined (reading 'additionalDefaultValues')'')
      | Some d \<Rightarrow> Inr (s\<lparr>sel_values := Some (defaultValues d (Some customDefault))\<rparr>))"
| "selectedPackageReducer L s (ReceiveSelectedAvailablePackageVersions vs) =
     Inr (s\<lparr>sel_error := None, sel_versions := vs\<rparr>)"
| "selectedPackageReducer L s (ReceiveAvailablePackageMetadatas ms) =
     Inr (s\<lparr>sel_error := None, sel_metadatas := ms\<rparr>)"
| "selectedPackageReducer L s (CreateErrorPackage e) = Inr (s\<lparr>sel_error := Some e\<rparr>)"
| "selectedPackageReducer L s ClearErrorPackage = Inr (s\<lparr>sel_error := None\<rparr>)"
| "selectedPackageReducer L s ResetSelectedAvailablePackageDetail = Inr selected_initial"
| "selectedPackageReducer L s _ = Inr s"

text \<open>\<open>{...s, selected: selectedPackageReducer(state.selected, action)}\<close>.\<close>

definition with_selected ::
  "lib \<Rightarrow> IPackageState \<Rightarrow> packages_action \<Rightarrow> IPackageState \<Rightarrow> js_error + IPackageState" where
  "with_selected L s a s' =
     map_sum (\<lambda>e. e) (\<lambda>sel. s'\<lparr>pk_selected := sel\<rparr>) (selectedPackageReducer L (pk_selected s) a)"

definition receive_page ::
  "lib \<Rightarrow> IPackageState \<Rightarrow> GetAvailablePackageSummariesResponse \<Rightarrow> IPackageState" where
  "receive_page L s response =
     (if \<not> pk_isFetching s then s
      else s\<lparr>pk_isFetching := False,
             pk_hasFinishedFetching := (gapsr_nextPageToken response = []),
             pk_nextPageToken := gapsr_nextPageToken response,
             pk_categories := uniq_categories L (pk_categories s @ gapsr_categories response),
             pk_items := uniqBy_packages L (pk_items s @ gapsr_availablePackageSummaries response)\<rparr>)"

fun packages_step :: "lib \<Rightarrow> IPackageState \<Rightarrow> packages_action \<Rightarrow> js_error + IPackageState" where
  "packages_step L s (RequestAvailablePackageSummaries t) = Inr (s\<lparr>pk_isFetching := True\<rparr>)"
| "packages_step L s RequestSelectedAvailablePackageVersions = Inr (s\<lparr>pk_isFetching := True\<rparr>)"
| "packages_step L s (ReceiveAvailablePackageSummaries response t) = Inr (receive_page L s response)"
| "packages_step L s (ReceiveSelectedAvailablePackageVersions vs) =
     with_selected L s (ReceiveSelectedAvailablePackageVersions vs) (s\<lparr>pk_isFetching := False\<rparr>)"
| "packages_step L s (ReceiveSelectedAvailablePackageDetail d) =
     with_selected L s (ReceiveSelectedAvailablePackageDetail d) (s\<lparr>pk_isFetching := False\<rparr>)"
| "packages_step L s RequestSelectedAvailablePackageDetail =
     with_selected L s RequestSelectedAvailablePackageDetail (s\<lparr>pk_isFetching := True\<rparr>)"
| "packages_step L s (SetAvailablePackageDetailCustomDefaults c) =
     with_selected L s (SetAvailablePackageDetailCustomDefaults c) s"
| "packages_step L s ResetAvailablePackageSummaries =
     Inr (s\<lparr>pk_hasFinishedFetching := False, pk_isFetching := False, pk_items := [],
            pk_nextPageToken := []\<rparr>)"
| "packages_step L s (CreateErrorPackage e) =
     with_selected L s (CreateErrorPackage e)
       (s\<lparr>pk_isFetching := False, pk_hasFinishedFetching := False\<rparr>)"
| "packages_step L s ResetSelectedAvailablePackageDetail =
     with_selected L s ResetSelectedAvailablePackageDetail s"
| "packages_step L s ClearErrorPackage = with_selected L s ClearErrorPackage s"
| "packages_step L s _ = Inr s"

definition packageReducer :: "lib \<Rightarrow> IPackageState \<Rightarrow> action \<Rightarrow> js_error + IPackageState" where
  "packageReducer L s act = (case act of PackagesA a \<Rightarrow> packages_step L s a | _ \<Rightarrow> Inr s)"

text \<open>A dispatch that raises leaves the state alone.\<close>

definition package_next :: "lib \<Rightarrow> IPackageState \<Rightarrow> packages_action \<Rightarrow> IPackageState" where
  "package_next L s a = (case packages_step L s a of Inl e \<Rightarrow> s | Inr s' \<Rightarrow> s')"

section \<open>Invariants\<close>

text \<open>
  The items have distinct identifiers, the categories are distinct, a finished catalog has no
  further page, and no metadata is ever stored.
\<close>

definition packages_inv :: "IPackageState \<Rightarrow> bool" where
  "packages_inv s \<longleftrightarrow>
     distinct (map package_identifier (pk_items s)) \<and>
     distinct (pk_categories s) \<and>
     (pk_hasFinishedFetching s \<longrightarrow> pk_nextPageToken s = []) \<and>
     sel_metadatas (pk_selected s) = []"

lemma selected_metadatas:
  assumes "selectedPackageReducer L s a = Inr s'" and "\<nexists>ms. a = ReceiveAvailablePackageMetadatas ms"
    and "sel_metadatas s = []"
  shows "sel_metadatas s' = []"
  using assms
  by (cases a) (auto simp: selected_initial_def split: sum.splits option.splits)

lemma receive_page_inv:
  assumes "lodash_uniq_spec L" and "packages_inv s"
  shows "packages_inv (receive_page L s r)"
  using assms
    uniqBy_distinct [of package_identifier "uniqBy_packages L"
      "pk_items s @ gapsr_availablePackageSummaries r"]
    uniqBy_distinct [of "\<lambda>c. c" "uniq_categories L" "pk_categories s @ gapsr_categories r"]
  by (simp add: packages_inv_def receive_page_def lodash_uniq_spec_def)

lemma with_selected_parts:
  assumes "with_selected L s a t = Inr s'"
  obtains sel where "selectedPackageReducer L (pk_selected s) a = Inr sel"
    and "s' = t\<lparr>pk_selected := sel\<rparr>"
  using assms by (auto simp: with_selected_def map_sum_def split: sum.splits)

lemma with_selected_inv:
  assumes "with_selected L s a t = Inr s'" and "\<nexists>ms. a = ReceiveAvailablePackageMetadatas ms"
    and "packages_inv s"
    and "pk_items t = pk_items s" "pk_categories t = pk_categories s"
      "pk_nextPageToken t = pk_nextPageToken s"
      "pk_hasFinishedFetching t \<longrightarrow> pk_hasFinishedFetching s"
  shows "packages_inv s'"
  using assms by (elim with_selected_parts) (auto simp: packages_inv_def dest: selected_metadatas)

lemma packages_inv_frame:
  assumes "packages_inv s" and "pk_items t = pk_items s" and "pk_categories t = pk_categories s"
    and "pk_nextPageToken t = pk_nextPageToken s"
    and "pk_hasFinishedFetching t = pk_hasFinishedFetching s" and "pk_selected t = pk_selected s"
  shows "packages_inv t"
  using assms by (simp add: packages_inv_def)

lemma packages_step_inv:
  assumes L: "lodash_uniq_spec L" and inv: "packages_inv s" and step: "packages_step L s a = Inr s'"
  shows "packages_inv s'"
proof (cases a)
  case (ReceiveAvailablePackageSummaries r t)
  with step show ?thesis using receive_page_inv [OF L inv, of r] by auto
next
  case ResetAvailablePackageSummaries
  with step inv show ?thesis by (auto simp: packages_inv_def)
qed (use step inv in \<open>auto intro: with_selected_inv [OF _ _ inv] packages_inv_frame [OF inv]\<close>)

lemma packages_inv_initial: "packages_inv packages_initialState"
  by (simp add: packages_inv_def packages_initialState_def selected_initial_def)

text \<open>The invariant holds along every run, for every library with the documented \<open>uniqBy\<close>.\<close>

interpretation pkgr: reducer_invariant "packages_step L"
  "\<lambda>s. lodash_uniq_spec L \<longrightarrow> packages_inv s" for L
  by unfold_locales (auto intro: packages_step_inv)

section \<open>The pending flag\<close>

fun package_request :: "packages_action \<Rightarrow> bool" where
  "package_request (RequestAvailablePackageSummaries t) = True"
| "package_request RequestSelectedAvailablePackageVersions = True"
| "package_request RequestSelectedAvailablePackageDetail = True"
| "package_request _ = False"

text \<open>A detail settles the flag only if its schema parses; otherwise the dispatch raises.\<close>

fun package_settle :: "lib \<Rightarrow> packages_action \<Rightarrow> bool" where
  "package_settle L (ReceiveAvailablePackageSummaries r t) = True"
| "package_settle L (ReceiveSelectedAvailablePackageVersions vs) = True"
| "package_settle L (ReceiveSelectedAvailablePackageDetail d) =
     (\<exists>j. parse_schema L (apd_valuesSchema d) = Inr j)"
| "package_settle L ResetAvailablePackageSummaries = True"
| "package_settle L (CreateErrorPackage e) = True"
| "package_settle L _ = False"

interpretation pkgflag: fetch_flag "package_next L" pk_isFetching package_request "package_settle L" for L
proof unfold_locales
  show "pk_isFetching (package_next L s a)" if "package_request a" for s a
    using that by (cases a) (simp_all add: package_next_def with_selected_def)
  show "\<not> pk_isFetching (package_next L s a)" if "package_settle L a" for s a
    using that by (cases a) (auto simp: package_next_def with_selected_def receive_page_def)
  show "pk_isFetching (package_next L s a) = pk_isFetching s"
    if "\<not> package_request a" and "\<not> package_settle L a" for s a
    using that
    by (cases a) (auto simp: package_next_def with_selected_def split: sum.splits option.splits)
qed

section \<open>Pages\<close>

text \<open>Loading a list of pages, one request and one response each.\<close>

fun load_pages :: "lib \<Rightarrow> IPackageState \<Rightarrow> GetAvailablePackageSummariesResponse list \<Rightarrow> IPackageState" where
  "load_pages L s [] = s"
| "load_pages L s (p # ps) =
     load_pages L
       (package_next L (package_next L s (RequestAvailablePackageSummaries (pk_nextPageToken s)))
          (ReceiveAvailablePackageSummaries p (pk_nextPageToken s))) ps"

lemma uniqBy_merge:
  assumes u: "uniqBy_spec key u"
  shows "u (u xs @ ys) = u (xs @ ys)"
proof (induction ys rule: rev_induct)
  case Nil
  then show ?case using uniqBy_id [OF u uniqBy_distinct [OF u]] by simp
next
  case (snoc y ys)
  have "u (u xs @ ys @ [y]) = (if key y \<in> key ` set (u xs @ ys) then u (u xs @ ys) else u (u xs @ ys) @ [y])"
    using u unfolding uniqBy_spec_def by (metis append.assoc)
  moreover have "u (xs @ ys @ [y]) = (if key y \<in> key ` set (xs @ ys) then u (xs @ ys) else u (xs @ ys) @ [y])"
    using u unfolding uniqBy_spec_def by (metis append.assoc)
  moreover have "key ` set (u xs @ ys) = key ` set (xs @ ys)"
    using uniqBy_keys [OF u, of xs] by (simp add: image_Un)
  ultimately show ?case using snoc.IH by (simp only:)
qed

lemma load_page_once:
  "package_next L (package_next L s (RequestAvailablePackageSummaries t))
     (ReceiveAvailablePackageSummaries p t') = receive_page L (s\<lparr>pk_isFetching := True\<rparr>) p"
  by (simp add: package_next_def)

lemma load_pages_items:
  assumes "lodash_uniq_spec L"
  shows "uniqBy_packages L (pk_items s) = pk_items s \<Longrightarrow>
    pk_items (load_pages L s ps) =
      uniqBy_packages L (pk_items s @ concat (map gapsr_availablePackageSummaries ps))"
proof (induction ps arbitrary: s)
  case Nil
  then show ?case by simp
next
  case (Cons p ps)
  have u: "uniqBy_spec package_identifier (uniqBy_packages L)"
    using assms by (simp add: lodash_uniq_spec_def)
  let ?s = "receive_page L (s\<lparr>pk_isFetching := True\<rparr>) p"
  have items: "pk_items ?s = uniqBy_packages L (pk_items s @ gapsr_availablePackageSummaries p)"
    by (simp add: receive_page_def)
  then have "uniqBy_packages L (pk_items ?s) = pk_items ?s"
    using uniqBy_id [OF u uniqBy_distinct [OF u]] by simp
  from Cons.IH [OF this] show ?case
    by (simp add: load_page_once items uniqBy_merge [OF u])
qed

end
