(* ===== verification/Reducer_Installed.thy ===== *)
theory Reducer_Installed
  imports Storage
begin

text \<open>
  The installed packages (\<open>reducers/installedpackages.ts\<close>): the list of the user's releases,
  the selected one with its revision, and the pending flag of the operations on them.
\<close>

section \<open>State\<close>

text \<open>
  The selected package is \<open>{...pkg, revision}\<close>: the detail (which may be missing), the
  revision decoded from its custom detail, and the status, which later actions replace.
\<close>

record CustomInstalledPackageDetail =
  cip_detail :: "InstalledPackageDetail option"
  cip_revision :: nat
  cip_status :: "InstalledPackageStatus option"

record IInstalledPackageState =
  ip_isFetching :: bool
  ip_error :: "js_error option"
  ip_items :: "InstalledPackageDetail list"
  ip_listOverview :: "InstalledPackageSummary list option"
  ip_selected :: "CustomInstalledPackageDetail option"
  ip_selectedDetails :: "AvailablePackageDetail option"
  ip_resourceRefs :: "ResourceRef list option"

definition installed_initialState :: IInstalledPackageState where
  "installed_initialState =
     \<lparr>ip_isFetching = False, ip_error = None, ip_items = [], ip_listOverview = None,
      ip_selected = None, ip_selectedDetails = None, ip_resourceRefs = None\<rparr>"

section \<open>Operations\<close>

text \<open>
  The revision of a release: whatever goes wrong while reading it, a missing package, a missing
  custom detail or bytes that do not decode, gives revision 0.
\<close>

definition release_revision :: "lib \<Rightarrow> InstalledPackageDetail option \<Rightarrow> nat" where
  "release_revision L pkg =
     (case pkg of
        None \<Rightarrow> 0
      | Some p \<Rightarrow>
          (case ipd_customDetail p of
             None \<Rightarrow> 0
           | Some d \<Rightarrow> (case helm_revision L (any_value d) of Inl e \<Rightarrow> 0 | Inr n \<Rightarrow> n)))"

definition select_package :: "lib \<Rightarrow> InstalledPackageDetail option \<Rightarrow> CustomInstalledPackageDetail" where
  "select_package L pkg =
     \<lparr>cip_detail = pkg, cip_revision = release_revision L pkg,
      cip_status = Option.bind pkg ipd_status\<rparr>"

fun installed_step ::
  "lib \<Rightarrow> IInstalledPackageState \<Rightarrow> installed_action \<Rightarrow> IInstalledPackageState" where
  "installed_step L s RequestInstalledPackage =
     s\<lparr>ip_isFetching := True, ip_selected := None, ip_selectedDetails := None,
       ip_resourceRefs := None\<rparr>"
| "installed_step L s (ErrorInstalledPackage e) = s\<lparr>ip_isFetching := False, ip_error := Some e\<rparr>"
| "installed_step L s ClearErrorInstalledPackage = s\<lparr>ip_error := None\<rparr>"
| "installed_step L s (SelectInstalledPackage pkg details) =
     s\<lparr>ip_isFetching := False, ip_selected := Some (select_package L pkg),
       ip_selectedDetails := details\<rparr>"
| "installed_step L s (ReceiveInstalledPackageStatus st) =
     (case ip_selected s of
        Some sel \<Rightarrow> s\<lparr>ip_selected := Some (sel\<lparr>cip_status := st\<rparr>)\<rparr>
      | None \<Rightarrow> s)"
| "installed_step L s RequestInstalledPackageList = s\<lparr>ip_isFetching := True\<rparr>"
| "installed_step L s (ReceiveInstalledPackageList ps) =
     s\<lparr>ip_isFetching := False, ip_listOverview := Some ps\<rparr>"
| "installed_step L s RequestDeleteInstalledPackage = s\<lparr>ip_isFetching := True\<rparr>"
| "installed_step L s ReceiveDeleteInstalledPackage = s\<lparr>ip_isFetching := False\<rparr>"
| "installed_step L s RequestInstallPackage = s\<lparr>ip_isFetching := True\<rparr>"
| "installed_step L s ReceiveInstallPackage = s\<lparr>ip_isFetching := False\<rparr>"
| "installed_step L s RequestRollbackInstalledPackage = s\<lparr>ip_isFetching := True\<rparr>"
| "installed_step L s ReceiveRollbackInstalledPackage = s\<lparr>ip_isFetching := False\<rparr>"
| "installed_step L s RequestUpdateInstalledPackage = s"
| "installed_step L s ReceiveUpdateInstalledPackage = s"
| "installed_step L s RequestInstalledPackageStatus = s"

fun installedReducer :: "lib \<Rightarrow> IInstalledPackageState \<Rightarrow> action \<Rightarrow> IInstalledPackageState" where
  "installedReducer L s (InstalledA a) = installed_step L s a"
| "installedReducer L s (LocationChange p) =
     s\<lparr>ip_error := None, ip_isFetching := False, ip_selected := None\<rparr>"
| "installedReducer L s _ = s"

section \<open>The pending flag\<close>

fun installed_request :: "action \<Rightarrow> bool" where
  "installed_request (InstalledA a) =
     (a \<in> {RequestInstalledPackage, RequestInstalledPackageList, RequestDeleteInstalledPackage,
           RequestInstallPackage, RequestRollbackInstalledPackage})"
| "installed_request _ = False"

fun installed_settle :: "action \<Rightarrow> bool" where
  "installed_settle (InstalledA (ErrorInstalledPackage e)) = True"
| "installed_settle (InstalledA (SelectInstalledPackage p d)) = True"
| "installed_settle (InstalledA (ReceiveInstalledPackageList ps)) = True"
| "installed_settle (InstalledA ReceiveDeleteInstalledPackage) = True"
| "installed_settle (InstalledA ReceiveInstallPackage) = True"
| "installed_settle (InstalledA ReceiveRollbackInstalledPackage) = True"
| "installed_settle (LocationChange p) = True"
| "installed_settle _ = False"

interpretation instflag: fetch_flag "installedReducer L" ip_isFetching installed_request installed_settle
  for L
proof unfold_locales
  show "ip_isFetching (installedReducer L s a)" if "installed_request a" for s a
    using that by (cases a rule: installed_request.cases) auto
  show "\<not> ip_isFetching (installedReducer L s a)" if "installed_settle a" for s a
    using that by (cases a rule: installed_settle.cases) auto
  show "ip_isFetching (installedReducer L s a) = ip_isFetching s"
    if "\<not> installed_request a" and "\<not> installed_settle a" for s a
    using that by (cases a rule: installed_settle.cases) (auto split: option.splits)
qed

section \<open>Invariant\<close>

text \<open>
  The selected package, when there is one, carries the revision its detail encodes: no later
  action changes it apart from the next selection.
\<close>

definition installed_inv :: "lib \<Rightarrow> IInstalledPackageState \<Rightarrow> bool" where
  "installed_inv L s \<longleftrightarrow>
     (\<forall>sel. ip_selected s = Some sel \<longrightarrow> cip_revision sel = release_revision L (cip_detail sel))"

lemma installedReducer_inv: "installed_inv L s \<Longrightarrow> installed_inv L (installedReducer L s a)"
proof (cases a)
  case (InstalledA x)
  then show "installed_inv L s \<Longrightarrow> installed_inv L (installedReducer L s a)"
    by (cases x) (auto simp: installed_inv_def select_package_def split: option.splits)
qed (auto simp: installed_inv_def)

interpretation instr: reducer_invariant "\<lambda>s a. Inr (installedReducer L s a)" "installed_inv L" for L
  by unfold_locales (auto intro: installedReducer_inv)

end
