(* ===== verification/Reducer_Repos.thy ===== *)
theory Reducer_Repos
  imports Storage
begin

text \<open>
  The package repositories (\<open>reducers/repos.ts\<close>): the sorted summaries, the detail being
  edited, the permissions, and one error slot per operation.
\<close>

section \<open>State\<close>

record RepoErrors =
  re_create :: "js_error option"
  re_delete :: "js_error option"
  re_fetch :: "js_error option"
  re_update :: "js_error option"

definition no_repo_errors :: RepoErrors where
  "no_repo_errors = \<lparr>re_create = None, re_delete = None, re_fetch = None, re_update = None\<rparr>"

text \<open>
  What the reducer passes to the constructor of the repository message as its custom detail:
  nothing, the \<open>Any\<close> as it was received, or the bytes inside it.
\<close>

datatype RepoCustomDetail = NoCustom | CustomAny AnyMsg | CustomValue "nat list"

record RepoDetailState =
  rd_detail :: PackageRepositoryDetail
  rd_customDetail :: RepoCustomDetail

record IPackageRepositoryState =
  rp_errors :: RepoErrors
  rp_isFetching :: bool
  rp_repoDetail :: "RepoDetailState option"
  rp_reposSummaries :: "PackageRepositorySummary list"
  rp_reposPermissions :: "PackageRepositoriesPermissions list"

definition repos_initialState :: IPackageRepositoryState where
  "repos_initialState =
     \<lparr>rp_errors = no_repo_errors, rp_isFetching = False, rp_repoDetail = None,
      rp_reposSummaries = [], rp_reposPermissions = []\<rparr>"

section \<open>Operations\<close>

definition repo_detail_plugin :: "PackageRepositoryDetail \<Rightarrow> string option" where
  "repo_detail_plugin d =
     map_option plugin_name (Option.bind (prd_packageRepoRef d) prr_plugin)"

text \<open>The custom detail of the plugins that are known is replaced by its bytes.\<close>

definition repoWithCustomDetail :: "PackageRepositoryDetail \<Rightarrow> RepoDetailState" where
  "repoWithCustomDetail d =
     \<lparr>rd_detail = d,
      rd_customDetail =
        (case prd_customDetail d of
           None \<Rightarrow> NoCustom
         | Some c \<Rightarrow>
             (if repo_detail_plugin d = Some PACKAGES_HELM then CustomValue (any_value c)
              else if repo_detail_plugin d = Some PACKAGES_FLUX then CustomValue (any_value c)
              else CustomAny c))\<rparr>"

text \<open>The case-insensitive, stable sort by name.\<close>

definition repo_sort_key :: "PackageRepositorySummary \<Rightarrow> string" where
  "repo_sort_key r = toLowerCase (prsum_name r)"

definition sort_repos :: "PackageRepositorySummary list \<Rightarrow> PackageRepositorySummary list" where
  "sort_repos rs = sort_key repo_sort_key rs"

definition repo_namespace :: "PackageRepositorySummary \<Rightarrow> string option" where
  "repo_namespace r =
     map_option ctx_namespace (Option.bind (prsum_packageRepoRef r) prr_context)"

definition same_repo :: "PackageRepositorySummary \<Rightarrow> PackageRepositorySummary \<Rightarrow> bool" where
  "same_repo r u \<longleftrightarrow> prsum_name r = prsum_name u \<and> repo_namespace r = repo_namespace u"

text \<open>\<open>{ fetch: errors.fetch, [op]: err }\<close>: only the fetch error survives another error.\<close>

definition repo_error :: "RepoErrors \<Rightarrow> repo_op \<Rightarrow> js_error \<Rightarrow> RepoErrors" where
  "repo_error errs opn e =
     (let base = no_repo_errors\<lparr>re_fetch := re_fetch errs\<rparr> in
      case opn of
        OpCreate \<Rightarrow> base\<lparr>re_create := Some e\<rparr>
      | OpUpdate \<Rightarrow> base\<lparr>re_update := Some e\<rparr>
      | OpFetch \<Rightarrow> base\<lparr>re_fetch := Some e\<rparr>
      | OpDelete \<Rightarrow> base\<lparr>re_delete := Some e\<rparr>)"

fun repos_step :: "IPackageRepositoryState \<Rightarrow> repos_action \<Rightarrow> IPackageRepositoryState" where
  "repos_step s (ReceiveRepoSummaries rs) =
     s\<lparr>rp_isFetching := False, rp_reposSummaries := rs, rp_errors := no_repo_errors\<rparr>"
| "repos_step s (ReceiveRepoDetail d) =
     s\<lparr>rp_isFetching := False, rp_repoDetail := Some (repoWithCustomDetail d),
       rp_errors := no_repo_errors\<rparr>"
| "repos_step s (RequestRepoSummaries ns) = s\<lparr>rp_isFetching := True\<rparr>"
| "repos_step s AddOrUpdateRepo = s\<lparr>rp_isFetching := True\<rparr>"
| "repos_step s RequestRepoDetail = s\<lparr>rp_repoDetail := None, rp_errors := no_repo_errors\<rparr>"
| "repos_step s (AddedRepo r) =
     s\<lparr>rp_isFetching := False, rp_reposSummaries := sort_repos (rp_reposSummaries s @ [r])\<rparr>"
| "repos_step s (RepoUpdated u) =
     s\<lparr>rp_isFetching := False,
       rp_reposSummaries := map (\<lambda>r. if same_repo r u then u else r) (rp_reposSummaries s)\<rparr>"
| "repos_step s (RequestReposPermissions c) = s\<lparr>rp_isFetching := True\<rparr>"
| "repos_step s (ReceiveReposPermissions ps) =
     s\<lparr>rp_isFetching := False, rp_reposPermissions := ps, rp_errors := no_repo_errors\<rparr>"
| "repos_step s (ErrorRepos e opn) =
     s\<lparr>rp_errors := repo_error (rp_errors s) opn e, rp_isFetching := False\<rparr>"

fun reposReducer :: "IPackageRepositoryState \<Rightarrow> action \<Rightarrow> IPackageRepositoryState" where
  "reposReducer s (ReposA a) = repos_step s a"
| "reposReducer s (LocationChange p) = s\<lparr>rp_errors := no_repo_errors, rp_isFetching := False\<rparr>"
| "reposReducer s _ = s"

section \<open>The pending flag\<close>

fun repos_request :: "action \<Rightarrow> bool" where
  "repos_request (ReposA (RequestRepoSummaries ns)) = True"
| "repos_request (ReposA AddOrUpdateRepo) = True"
| "repos_request (ReposA (RequestReposPermissions c)) = True"
| "repos_request _ = False"

fun repos_settle :: "action \<Rightarrow> bool" where
  "repos_settle (ReposA (ReceiveRepoSummaries rs)) = True"
| "repos_settle (ReposA (ReceiveRepoDetail d)) = True"
| "repos_settle (ReposA (AddedRepo r)) = True"
| "repos_settle (ReposA (RepoUpdated u)) = True"
| "repos_settle (ReposA (ReceiveReposPermissions ps)) = True"
| "repos_settle (ReposA (ErrorRepos e opn)) = True"
| "repos_settle (LocationChange p) = True"
| "repos_settle _ = False"

interpretation repoflag: fetch_flag reposReducer rp_isFetching repos_request repos_settle
proof unfold_locales
  show "rp_isFetching (reposReducer s a)" if "repos_request a" for s a
    using that by (cases a rule: repos_request.cases) auto
  show "\<not> rp_isFetching (reposReducer s a)" if "repos_settle a" for s a
    using that by (cases a rule: repos_settle.cases) auto
  show "rp_isFetching (reposReducer s a) = rp_isFetching s"
    if "\<not> repos_request a" and "\<not> repos_settle a" for s a
    using that by (cases a rule: repos_settle.cases) auto
qed

section \<open>Facts about the summaries\<close>

lemma sort_repos_sorted [simp]: "sorted (map repo_sort_key (sort_repos rs))"
  by (simp add: sort_repos_def)

lemma sort_repos_set [simp]: "set (sort_repos rs) = set rs"
  by (simp add: sort_repos_def)

lemma sort_repos_length [simp]: "length (sort_repos rs) = length rs"
  by (simp add: sort_repos_def)

lemma same_repo_sort_key: "same_repo r u \<Longrightarrow> repo_sort_key r = repo_sort_key u"
  by (simp add: same_repo_def repo_sort_key_def)

lemma update_sort_keys:
  "map repo_sort_key (map (\<lambda>r. if same_repo r u then u else r) rs) = map repo_sort_key rs"
  by (simp add: same_repo_sort_key)

end
