(* ===== verification/Reducers_Simple.thy ===== *)
theory Reducers_Simple
  imports Actions
begin

text \<open>
  The reducers whose state is plain: authentication (\<open>reducers/auth.ts\<close>), configuration
  (\<open>reducers/config.ts\<close>) and Kubernetes resources (\<open>reducers/kube.ts\<close>).
\<close>

section \<open>Authentication\<close>

record IAuthState =
  sessionExpired :: bool
  authenticated :: bool
  authenticating :: bool
  oidcAuthenticated :: bool
  auth_error :: "string option"

text \<open>The initial state reads the stored token and the OIDC marker.\<close>

definition auth_initialState :: "string option \<Rightarrow> bool \<Rightarrow> IAuthState" where
  "auth_initialState token oidc =
     \<lparr>sessionExpired = False, authenticated = truthy token, authenticating = False,
      oidcAuthenticated = oidc, auth_error = None\<rparr>"

fun authReducer :: "IAuthState \<Rightarrow> action \<Rightarrow> IAuthState" where
  "authReducer s (AuthA (SetAuthenticated a oidc)) =
     s\<lparr>authenticated := a, oidcAuthenticated := oidc, authenticating := False\<rparr>"
| "authReducer s (AuthA Authenticating) = s\<lparr>authenticated := False, authenticating := True\<rparr>"
| "authReducer s (AuthA (AuthenticationError m)) =
     s\<lparr>auth_error := Some m, authenticating := False\<rparr>"
| "authReducer s (AuthA (SetSessionExpired x)) = s\<lparr>sessionExpired := x\<rparr>"
| "authReducer s _ = s"

text \<open>\<open>authenticating\<close> and \<open>authenticated\<close> never hold together.\<close>

definition auth_inv :: "IAuthState \<Rightarrow> bool" where
  "auth_inv s \<longleftrightarrow> \<not> (authenticating s \<and> authenticated s)"

lemma authReducer_inv: "auth_inv s \<Longrightarrow> auth_inv (authReducer s a)"
  by (induction s a rule: authReducer.induct) (auto simp: auth_inv_def)

lemma auth_initialState_inv: "auth_inv (auth_initialState t oidc)"
  by (simp add: auth_inv_def auth_initialState_def)

interpretation authr: reducer_invariant "\<lambda>s a. Inr (authReducer s a)" auth_inv
  by unfold_locales (auto intro: authReducer_inv)

section \<open>Configuration\<close>

record IConfigState = IConfig +
  loaded :: bool

definition config_initialState :: IConfigState where
  "config_initialState =
     \<lparr>kubeappsCluster = [], kubeappsNamespace = [], helmGlobalNamespace = [], appVersion = [],
      authProxyEnabled = False, oauthLoginURI = [], oauthLogoutURI = [],
      authProxySkipLoginPage = False, config_error = None, config_clusters = [],
      feature_operators = False, feature_schemaEditor = False,
      config_theme = Some (theme_string light), remoteComponentsUrl = [], customAppViews = [],
      skipAvailablePackageDetails = False, createNamespaceLabels = [], configuredPlugins = [],
      loaded = False\<rparr>"

text \<open>
  \<open>{...state, loaded: true, ...payload}\<close>: the members the payload has overwrite those of the
  state; the optional ones (\<open>error\<close>, \<open>theme\<close>) keep the state's value where they are missing.
\<close>

definition spread_config :: "IConfigState \<Rightarrow> IConfig \<Rightarrow> IConfigState" where
  "spread_config s c =
     \<lparr>kubeappsCluster = kubeappsCluster c, kubeappsNamespace = kubeappsNamespace c,
      helmGlobalNamespace = helmGlobalNamespace c, appVersion = appVersion c,
      authProxyEnabled = authProxyEnabled c, oauthLoginURI = oauthLoginURI c,
      oauthLogoutURI = oauthLogoutURI c, authProxySkipLoginPage = authProxySkipLoginPage c,
      config_error = (case config_error c of None \<Rightarrow> config_error s | Some e \<Rightarrow> Some e),
      config_clusters = config_clusters c, feature_operators = feature_operators c,
      feature_schemaEditor = feature_schemaEditor c,
      config_theme = (case config_theme c of None \<Rightarrow> config_theme s | Some t \<Rightarrow> Some t),
      remoteComponentsUrl = remoteComponentsUrl c, customAppViews = customAppViews c,
      skipAvailablePackageDetails = skipAvailablePackageDetails c,
      createNamespaceLabels = createNamespaceLabels c, configuredPlugins = configuredPlugins c,
      loaded = True\<rparr>"

fun configReducer :: "IConfigState \<Rightarrow> action \<Rightarrow> IConfigState" where
  "configReducer s (ConfigA RequestConfig) = config_initialState"
| "configReducer s (ConfigA (ReceiveConfig c)) = spread_config s c"
| "configReducer s (ConfigA (ReceiveTheme t)) = s\<lparr>config_theme := Some (theme_string t)\<rparr>"
| "configReducer s (ConfigA (ErrorConfig e)) = s\<lparr>config_error := Some e\<rparr>"
| "configReducer s _ = s"

lemma spread_config_simps [simp]:
  "kubeappsCluster (spread_config s c) = kubeappsCluster c"
  "helmGlobalNamespace (spread_config s c) = helmGlobalNamespace c"
  "config_clusters (spread_config s c) = config_clusters c"
  "oauthLogoutURI (spread_config s c) = oauthLogoutURI c"
  "loaded (spread_config s c)"
  by (simp_all add: spread_config_def)

section \<open>Kubernetes resources\<close>

record IKubeItem =
  ki_isFetching :: bool
  ki_item :: "json option"
  ki_error :: "js_error option"

record IKubeState =
  kube_items :: "IKubeItem jsobj"
  kube_kinds :: "IKind jsobj"
  kube_kindsError :: "js_error option"

abbreviation k8s_kind :: "string \<Rightarrow> string \<Rightarrow> bool \<Rightarrow> IKind" where
  "k8s_kind v p n \<equiv> \<lparr>kind_apiVersion = v, kind_plural = p, kind_namespaced = n\<rparr>"

definition initialKinds :: "IKind jsobj" where
  "initialKinds =
    [(''APIService'', k8s_kind ''apiregistration.k8s.io/v1'' ''apiservices'' False),
     (''AppRepository'', k8s_kind ''kubeapps.com/v1alpha1'' ''apprepositories'' True),
     (''Binding'', k8s_kind ''v1'' ''bindings'' True),
     (''CSINode'', k8s_kind ''storage.k8s.io/v1'' ''csinodes'' False),
     (''ClusterRole'', k8s_kind ''rbac.authorization.k8s.io/v1'' ''clusterroles'' False),
     (''ClusterRoleBinding'', k8s_kind ''rbac.authorization.k8s.io/v1'' ''clusterrolebindings'' False),
     (''ComponentStatus'', k8s_kind ''v1'' ''componentstatuses'' False),
     (''ConfigMap'', k8s_kind ''v1'' ''configmaps'' True),
     (''ControllerRevision'', k8s_kind ''apps/v1'' ''controllerrevisions'' True),
     (''CustomResourceDefinition'', k8s_kind ''apiextensions.k8s.io/v1'' ''customresourcedefinitions'' False),
     (''DaemonSet'', k8s_kind ''apps/v1'' ''daemonsets'' True),
     (''Deployment'', k8s_kind ''apps/v1'' ''deployments'' True),
     (''Endpoints'', k8s_kind ''v1'' ''endpoints'' True),
     (''HorizontalPodAutoscaler'', k8s_kind ''autoscaling/v1'' ''horizontalpodautoscalers'' True),
     (''Ingress'', k8s_kind ''extensions/v1'' ''ingresses'' True),
     (''Job'', k8s_kind ''batch/v1'' ''jobs'' True),
     (''Lease'', k8s_kind ''coordination.k8s.io/v1'' ''leases'' True),
     (''LimitRange'', k8s_kind ''v1'' ''limitranges'' True),
     (''LocalSubjectAccessReview'', k8s_kind ''authorization.k8s.io/v1'' ''localsubjectaccessreviews'' True),
     (''MutatingWebhookConfiguration'', k8s_kind ''admissionregistration.k8s.io/v1'' ''mutatingwebhookconfigurations'' False),
     (''Namespace'', k8s_kind ''v1'' ''namespaces'' False),
     (''NetworkPolicy'', k8s_kind ''networking.k8s.io/v1'' ''networkpolicies'' True),
     (''Node'', k8s_kind ''v1'' ''nodes'' False),
     (''PersistentVolume'', k8s_kind ''v1'' ''persistentvolumes'' False),
     (''PersistentVolumeClaim'', k8s_kind ''v1'' ''persistentvolumeclaims'' True),
     (''Pod'', k8s_kind ''v1'' ''pods'' True),
     (''PodTemplate'', k8s_kind ''v1'' ''podtemplates'' True),
     (''PriorityClass'', k8s_kind ''scheduling.k8s.io/v1'' ''priorityclasses'' False),
     (''ReplicaSet'', k8s_kind ''apps/v1'' ''replicasets'' True),
     (''ReplicationController'', k8s_kind ''v1'' ''replicationcontrollers'' True),
     (''ResourceQuota'', k8s_kind ''v1'' ''resourcequotas'' True),
     (''Role'', k8s_kind ''rbac.authorization.k8s.io/v1'' ''roles'' True),
     (''RoleBinding'', k8s_kind ''rbac.authorization.k8s.io/v1'' ''rolebindings'' True),
     (''Secret'', k8s_kind ''v1'' ''secrets'' True),
     (''SelfSubjectAccessReview'', k8s_kind ''authorization.k8s.io/v1'' ''selfsubjectaccessreviews'' False),
     (''SelfSubjectRulesReview'', k8s_kind ''authorization.k8s.io/v1'' ''selfsubjectrulesreviews'' False),
     (''Service'', k8s_kind ''v1'' ''services'' True),
     (''ServiceAccount'', k8s_kind ''v1'' ''serviceaccounts'' True),
     (''StatefulSet'', k8s_kind ''apps/v1'' ''statefulsets'' True),
     (''StorageClass'', k8s_kind ''storage.k8s.io/v1'' ''storageclasses'' False),
     (''SubjectAccessReview'', k8s_kind ''authorization.k8s.io/v1'' ''subjectaccessreviews'' False),
     (''TokenReview'', k8s_kind ''authentication.k8s.io/v1'' ''tokenreviews'' False),
     (''ValidatingWebhookConfiguration'', k8s_kind ''admissionregistration.k8s.io/v1'' ''validatingwebhookconfigurations'' False),
     (''VolumeAttachment'', k8s_kind ''storage.k8s.io/v1'' ''volumeattachments'' False)]"

definition kube_initialState :: IKubeState where
  "kube_initialState = \<lparr>kube_items = [], kube_kinds = initialKinds, kube_kindsError = None\<rparr>"

text \<open>
  The state change of every action. \<open>RequestResources\<close> leaves the state alone; that it also
  opens a stream of responses is an effect of the dispatch (theory \<open>Kube_Actions\<close>).
\<close>

fun kubeReducer :: "IKubeState \<Rightarrow> action \<Rightarrow> IKubeState" where
  "kubeReducer s (KubeA (ReceiveResource key resource)) =
     s\<lparr>kube_items := obj_set key
        \<lparr>ki_isFetching = False, ki_item = Some resource, ki_error = None\<rparr> (kube_items s)\<rparr>"
| "kubeReducer s (KubeA (ReceiveResourceKinds kinds)) = s\<lparr>kube_kinds := kinds\<rparr>"
| "kubeReducer s (KubeA (ReceiveKindsError e)) =
     s\<lparr>kube_kinds := initialKinds, kube_kindsError := Some e\<rparr>"
| "kubeReducer s (KubeA (ReceiveResourceError key e)) =
     s\<lparr>kube_items := obj_set key
        \<lparr>ki_isFetching = False, ki_item = None, ki_error = Some e\<rparr> (kube_items s)\<rparr>"
| "kubeReducer s (KubeA (RequestResources pkg refs watch)) = s"
| "kubeReducer s (LocationChange p) = s\<lparr>kube_items := []\<rparr>"
| "kubeReducer s _ = s"

text \<open>Every tracked item is settled: it holds a resource or an error, and never both.\<close>

definition kube_inv :: "IKubeState \<Rightarrow> bool" where
  "kube_inv s \<longleftrightarrow> (\<forall>k i. obj_get (kube_items s) k = Some i \<longrightarrow>
     \<not> ki_isFetching i \<and> (ki_item i = None) \<noteq> (ki_error i = None))"

lemma kubeReducer_inv: "kube_inv s \<Longrightarrow> kube_inv (kubeReducer s a)"
  by (induction s a rule: kubeReducer.induct) (auto simp: kube_inv_def split: if_splits)

interpretation kuber: reducer_invariant "\<lambda>s a. Inr (kubeReducer s a)" kube_inv
  by unfold_locales (auto intro: kubeReducer_inv)

end
