(* ===== verification/Reducer_Clusters.thy ===== *)
theory Reducer_Clusters
  imports Reducers_Simple Url
begin

text \<open>
  Clusters and namespaces (\<open>reducers/cluster.ts\<close>): the selected cluster, and for every cluster
  its namespaces, the selected one and whether the user may create more. A member an object
  lacks is \<open>undefined\<close>, so the members of a cluster are options; reading a member of a missing
  cluster raises a \<open>TypeError\<close>.
\<close>

section \<open>State\<close>

record IClusterState =
  cs_currentNamespace :: "string option"
  cs_namespaces :: "string list option"
  cs_canCreateNS :: "bool option"
  cs_error :: "(string \<times> js_error) option"

record IClustersState =
  cl_currentCluster :: "string option"
  cl_clusters :: "IClusterState jsobj"

definition undefined_cluster :: IClusterState where
  "undefined_cluster =
     \<lparr>cs_currentNamespace = None, cs_namespaces = None, cs_canCreateNS = None, cs_error = None\<rparr>"

definition fresh_cluster :: "string \<Rightarrow> IClusterState" where
  "fresh_cluster ns =
     \<lparr>cs_currentNamespace = Some ns, cs_namespaces = Some [], cs_canCreateNS = Some False,
      cs_error = None\<rparr>"

text \<open>The initial state, computed once from the token stored when the page was loaded.\<close>

definition clusters_initialState :: "lib \<Rightarrow> storage \<Rightarrow> IClustersState" where
  "clusters_initialState L ls =
     \<lparr>cl_currentCluster = Some ''default'',
      cl_clusters = [(''default'', fresh_cluster (defaultNamespaceFromToken L (authTokenOrEmpty ls)))]\<rparr>"

section \<open>Operations\<close>

definition read_cluster :: "IClustersState \<Rightarrow> string \<Rightarrow> js_error + IClusterState" where
  "read_cluster s cluster = (case obj_get (cl_clusters s) cluster of
     None \<Rightarrow> Inl (TypeError ''Cannot read properties of undefined'')
   | Some c \<Rightarrow> Inr c)"

text \<open>\<open>...state.clusters[cluster]\<close>: spreading \<open>undefined\<close> adds no member.\<close>

definition spread_cluster :: "IClustersState \<Rightarrow> string \<Rightarrow> IClusterState" where
  "spread_cluster s cluster = (case obj_get (cl_clusters s) cluster of
     None \<Rightarrow> undefined_cluster | Some c \<Rightarrow> c)"

definition put_cluster :: "string \<Rightarrow> IClusterState \<Rightarrow> IClustersState \<Rightarrow> IClustersState" where
  "put_cluster cluster c s = s\<lparr>cl_clusters := obj_set cluster c (cl_clusters s)\<rparr>"

text \<open>The key a possibly undefined cluster name reads.\<close>

definition current_key :: "IClustersState \<Rightarrow> string" where
  "current_key s = show_opt (cl_currentCluster s)"

fun namespace_step ::
  "lib \<Rightarrow> IClusterState jsobj \<Rightarrow> storage \<Rightarrow> IClustersState \<Rightarrow> namespace_action
     \<Rightarrow> js_error + IClustersState" where
  "namespace_step L init ls s (ReceiveNamespaceExists cluster namespace) =
     (case read_cluster s cluster of
        Inl e \<Rightarrow> Inl e
      | Inr c \<Rightarrow>
          (case cs_namespaces c of
             None \<Rightarrow> Inl (TypeError ''Cannot read properties of undefined'')
           | Some nss \<Rightarrow>
               Inr (if namespace \<notin> set nss
                    then put_cluster cluster
                           (c\<lparr>cs_namespaces := Some (sort (nss @ [namespace])), cs_error := None\<rparr>) s
                    else s)))"
| "namespace_step L init ls s (ReceiveNamespaces cluster namespaces) =
     (case read_cluster s cluster of
        Inl e \<Rightarrow> Inl e
      | Inr c \<Rightarrow>
          Inr (put_cluster cluster
            (c\<lparr>cs_namespaces := Some namespaces,
               cs_currentNamespace :=
                 Some (getCurrentNamespace L ls cluster (cs_currentNamespace c) namespaces),
               cs_error := None\<rparr>) s))"
| "namespace_step L init ls s (SetNamespaceState cluster namespace) =
     Inr ((put_cluster cluster
        ((spread_cluster s (current_key s))\<lparr>cs_currentNamespace := Some namespace, cs_error := None\<rparr>) s)
        \<lparr>cl_currentCluster := Some cluster\<rparr>)"
| "namespace_step L init ls s (ErrorNamespaces cluster err opn) =
     Inr (put_cluster cluster ((spread_cluster s cluster)\<lparr>cs_error := Some (opn, err)\<rparr>) s)"
| "namespace_step L init ls s ClearClusters = Inr (s\<lparr>cl_clusters := init\<rparr>)"
| "namespace_step L init ls s (SetAllowCreate cluster allowed) =
     Inr (put_cluster cluster ((spread_cluster s cluster)\<lparr>cs_canCreateNS := Some allowed\<rparr>) s)"
| "namespace_step L init ls s _ = Inr s"

text \<open>A location change takes over the cluster and the namespace the path names.\<close>

definition location_step :: "IClustersState \<Rightarrow> string \<Rightarrow> js_error + IClustersState" where
  "location_step s pathname =
     (let (mcluster, mns) = match_location pathname;
          current = (if truthy mcluster then mcluster else cl_currentCluster s);
          key = show_opt current
      in case (if truthy mns then Inr mns
               else map_sum (\<lambda>e. e) cs_currentNamespace (read_cluster s key)) of
           Inl e \<Rightarrow> Inl e
         | Inr ns \<Rightarrow>
             Inr ((put_cluster key ((spread_cluster s key)\<lparr>cs_currentNamespace := ns\<rparr>) s)
                    \<lparr>cl_currentCluster := current\<rparr>))"

definition config_step :: "IClustersState \<Rightarrow> IConfig \<Rightarrow> IClustersState" where
  "config_step s config =
     s\<lparr>cl_currentCluster := (case config_clusters config of [] \<Rightarrow> None | c # cs \<Rightarrow> Some c),
       cl_clusters := foldl (\<lambda>m c. obj_set c (fresh_cluster []) m) [] (config_clusters config)\<rparr>"

fun clusterReducer ::
  "lib \<Rightarrow> IClusterState jsobj \<Rightarrow> storage \<Rightarrow> IClustersState \<Rightarrow> action \<Rightarrow> js_error + IClustersState"
where
  "clusterReducer L init ls s (NamespaceA a) = namespace_step L init ls s a"
| "clusterReducer L init ls s (LocationChange pathname) = location_step s pathname"
| "clusterReducer L init ls s (ConfigA (ReceiveConfig c)) = Inr (config_step s c)"
| "clusterReducer L init ls s _ = Inr s"

section \<open>Well-formed clusters\<close>

text \<open>Every cluster has all of its members, and the current cluster is one of them.\<close>

definition complete_cluster :: "IClusterState \<Rightarrow> bool" where
  "complete_cluster c \<longleftrightarrow>
     cs_currentNamespace c \<noteq> None \<and> cs_namespaces c \<noteq> None \<and> cs_canCreateNS c \<noteq> None"

definition clusters_wf :: "IClustersState \<Rightarrow> bool" where
  "clusters_wf s \<longleftrightarrow>
     (\<forall>k c. obj_get (cl_clusters s) k = Some c \<longrightarrow> complete_cluster c) \<and>
     obj_get (cl_clusters s) (current_key s) \<noteq> None"

text \<open>
  The cluster an action names is one the state has. Clearing the clusters is excluded here:
  it keeps the name of the current cluster but not its entry.
\<close>

fun known_cluster :: "IClustersState \<Rightarrow> action \<Rightarrow> bool" where
  "known_cluster s (NamespaceA (ReceiveNamespaceExists c n)) = (obj_get (cl_clusters s) c \<noteq> None)"
| "known_cluster s (NamespaceA (ReceiveNamespaces c ns)) = (obj_get (cl_clusters s) c \<noteq> None)"
| "known_cluster s (NamespaceA (ErrorNamespaces c e opn)) = (obj_get (cl_clusters s) c \<noteq> None)"
| "known_cluster s (NamespaceA (SetAllowCreate c b)) = (obj_get (cl_clusters s) c \<noteq> None)"
| "known_cluster s (NamespaceA ClearClusters) = (current_key s = ''default'')"
| "known_cluster s (LocationChange p) =
     (case fst (match_location p) of
        Some c \<Rightarrow> c = [] \<or> obj_get (cl_clusters s) c \<noteq> None | None \<Rightarrow> True)"
| "known_cluster s (ConfigA (ReceiveConfig c)) = (config_clusters c \<noteq> [])"
| "known_cluster s _ = True"

lemma put_cluster_simps [simp]:
  "obj_get (cl_clusters (put_cluster k c s)) j = (if j = k then Some c else obj_get (cl_clusters s) j)"
  "cl_currentCluster (put_cluster k c s) = cl_currentCluster s"
  "current_key (put_cluster k c s) = current_key s"
  by (simp_all add: put_cluster_def current_key_def)

lemma put_cluster_wf:
  assumes "clusters_wf s" and "complete_cluster c"
  shows "clusters_wf (put_cluster k c s)"
    and "clusters_wf ((put_cluster k c s)\<lparr>cl_currentCluster := Some k\<rparr>)"
  using assms by (auto simp: clusters_wf_def current_key_def)

lemma spread_cluster_complete:
  "clusters_wf s \<Longrightarrow> obj_get (cl_clusters s) k = Some c \<Longrightarrow> complete_cluster (spread_cluster s k)"
  by (auto simp: clusters_wf_def spread_cluster_def)

lemma complete_cluster_update [simp]:
  "complete_cluster c \<Longrightarrow> complete_cluster (c\<lparr>cs_error := e\<rparr>)"
  "complete_cluster c \<Longrightarrow> complete_cluster (c\<lparr>cs_currentNamespace := Some n\<rparr>)"
  "complete_cluster c \<Longrightarrow> complete_cluster (c\<lparr>cs_namespaces := Some ns\<rparr>)"
  "complete_cluster c \<Longrightarrow> complete_cluster (c\<lparr>cs_canCreateNS := Some b\<rparr>)"
  "complete_cluster (fresh_cluster m)"
  by (simp_all add: complete_cluster_def fresh_cluster_def)

lemma config_fold:
  "obj_get (foldl (\<lambda>m c. obj_set c (fresh_cluster []) m) m cs) k =
     (if k \<in> set cs then Some (fresh_cluster []) else obj_get m k)"
  by (induction cs arbitrary: m) auto

lemma config_step_clusters [simp]:
  "obj_get (cl_clusters (config_step s config)) k =
     (if k \<in> set (config_clusters config) then Some (fresh_cluster []) else None)"
  by (simp add: config_step_def config_fold)

lemma config_step_wf: "config_clusters c \<noteq> [] \<Longrightarrow> clusters_wf (config_step s c)"
  by (cases "config_clusters c")
    (auto simp: clusters_wf_def current_key_def config_step_def config_fold)

lemma namespace_step_wf:
  assumes wf: "clusters_wf s" and known: "known_cluster s (NamespaceA a)"
    and init: "init = cl_clusters (clusters_initialState L ls0)"
  shows "\<exists>s'. namespace_step L init ls s a = Inr s' \<and> clusters_wf s'"
proof (cases a)
  case (ReceiveNamespaceExists c n)
  with known obtain cl where cl: "obj_get (cl_clusters s) c = Some cl" by auto
  with wf obtain nss where "cs_namespaces cl = Some nss" and "complete_cluster cl"
    by (auto simp: clusters_wf_def complete_cluster_def)
  with cl wf ReceiveNamespaceExists show ?thesis by (auto simp: read_cluster_def intro: put_cluster_wf)
next
  case (ReceiveNamespaces c ns)
  with known wf show ?thesis
    by (auto simp: read_cluster_def clusters_wf_def intro!: put_cluster_wf)
next
  case (SetNamespaceState c n)
  have "complete_cluster (spread_cluster s (current_key s))"
    using wf by (auto simp: clusters_wf_def spread_cluster_def)
  with SetNamespaceState wf show ?thesis by (auto intro: put_cluster_wf)
next
  case (ErrorNamespaces c e opn)
  with known wf show ?thesis by (auto intro!: put_cluster_wf simp: spread_cluster_complete)
next
  case (SetAllowCreate c b)
  with known wf show ?thesis by (auto intro!: put_cluster_wf simp: spread_cluster_complete)
next
  case ClearClusters
  with known init show ?thesis
    by (auto simp: clusters_wf_def current_key_def clusters_initialState_def)
qed (use wf in simp_all)

lemma location_step_wf:
  assumes wf: "clusters_wf s" and known: "known_cluster s (LocationChange p)"
  shows "\<exists>s'. location_step s p = Inr s' \<and> clusters_wf s'"
proof -
  obtain mc mn where m: "match_location p = (mc, mn)" by (cases "match_location p")
  define current where "current = (if truthy mc then mc else cl_currentCluster s)"
  have entry: "obj_get (cl_clusters s) (show_opt current) \<noteq> None"
    using wf known m by (cases mc) (auto simp: current_def clusters_wf_def current_key_def)
  then obtain c where c: "obj_get (cl_clusters s) (show_opt current) = Some c" by auto
  then have complete: "complete_cluster c" using wf by (auto simp: clusters_wf_def)
  then obtain ns0 where ns0: "cs_currentNamespace c = Some ns0" by (auto simp: complete_cluster_def)
  define ns where "ns = (if truthy mn then mn else Some ns0)"
  have "ns \<noteq> None" by (cases mn) (auto simp: ns_def)
  then obtain n where n: "ns = Some n" by auto
  let ?s' = "(put_cluster (show_opt current) (c\<lparr>cs_currentNamespace := ns\<rparr>) s)\<lparr>cl_currentCluster := current\<rparr>"
  have "location_step s p = Inr ?s'"
    using m c ns0 by (auto simp: location_step_def read_cluster_def spread_cluster_def ns_def
        simp flip: current_def)
  moreover have "clusters_wf ?s'"
    using put_cluster_wf(1) [OF wf, of "c\<lparr>cs_currentNamespace := ns\<rparr>" "show_opt current"] complete n
    by (auto simp: clusters_wf_def current_key_def)
  ultimately show ?thesis by blast
qed

lemma clusterReducer_wf:
  assumes "clusters_wf s" and "known_cluster s a"
    and "init = cl_clusters (clusters_initialState L ls0)"
  shows "\<exists>s'. clusterReducer L init ls s a = Inr s' \<and> clusters_wf s'"
proof (cases a)
  case (NamespaceA x)
  with assms show ?thesis by (simp add: namespace_step_wf)
next
  case (LocationChange p)
  with assms show ?thesis by (simp add: location_step_wf)
next
  case (ConfigA x)
  with assms show ?thesis by (cases x) (auto simp: config_step_wf)
qed (use assms in simp_all)

lemma clusters_initial_wf: "clusters_wf (clusters_initialState L ls)"
  by (simp add: clusters_wf_def clusters_initialState_def current_key_def)

text \<open>A step taken only where the action names a known cluster.\<close>

definition known_step ::
  "lib \<Rightarrow> storage \<Rightarrow> storage \<Rightarrow> IClustersState \<Rightarrow> action \<Rightarrow> js_error + IClustersState" where
  "known_step L ls0 ls s a =
     (if known_cluster s a
      then clusterReducer L (cl_clusters (clusters_initialState L ls0)) ls s a
      else Inl (TypeError ''unknown cluster''))"

interpretation clur: reducer_invariant "known_step L ls0 ls" clusters_wf for L ls0 ls
proof
  show "clusters_wf s'" if "clusters_wf s" and "known_step L ls0 ls s a = Inr s'" for s a s'
    using that clusterReducer_wf [of s a "cl_clusters (clusters_initialState L ls0)" L ls0 ls]
    by (auto simp: known_step_def split: if_splits)
qed

end
