(* ===== verification/Reducer_Operators.thy ===== *)
theory Reducer_Operators
  imports Storage
begin

text \<open>
  Operators (\<open>reducers/operators.ts\<close>): one pending flag per kind of element, their disjunction,
  and an error record per kind.
\<close>

section \<open>State\<close>

record FetchingElem =
  fe_OLM :: bool
  fe_operator :: bool
  fe_csv :: bool
  fe_resource :: bool
  fe_subscriptions :: bool

record IOperatorsStateError =
  oe_fetch :: "js_error option"
  oe_create :: "js_error option"
  oe_delete :: "js_error option"
  oe_update :: "js_error option"

record OperatorErrors =
  err_operator :: IOperatorsStateError
  err_csv :: IOperatorsStateError
  err_resource :: IOperatorsStateError
  err_subscriptions :: IOperatorsStateError

record IOperatorsState =
  op_isFetching :: bool
  op_isFetchingElem :: FetchingElem
  op_isOLMInstalled :: bool
  op_operators :: "IPackageManifest list"
  op_operator :: "IPackageManifest option"
  op_errors :: OperatorErrors
  op_csvs :: "IClusterServiceVersion list"
  op_csv :: "IClusterServiceVersion option"
  op_resources :: "IResource list"
  op_resource :: "IResource option"
  op_subscriptions :: "IResource list"

definition no_error :: IOperatorsStateError where
  "no_error = \<lparr>oe_fetch = None, oe_create = None, oe_delete = None, oe_update = None\<rparr>"

definition no_operator_errors :: OperatorErrors where
  "no_operator_errors =
     \<lparr>err_operator = no_error, err_csv = no_error, err_resource = no_error,
      err_subscriptions = no_error\<rparr>"

definition operatorsInitialState :: IOperatorsState where
  "operatorsInitialState =
     \<lparr>op_isFetching = False,
      op_isFetchingElem = \<lparr>fe_OLM = False, fe_operator = False, fe_csv = False,
        fe_resource = False, fe_subscriptions = False\<rparr>,
      op_isOLMInstalled = False, op_operators = [], op_operator = None,
      op_errors = no_operator_errors, op_csvs = [], op_csv = None, op_resources = [],
      op_resource = None, op_subscriptions = []\<rparr>"

section \<open>Operations\<close>

datatype fetch_item = ItemOLM | ItemOperator | ItemCSV | ItemResource | ItemSubscriptions

fun set_elem :: "fetch_item \<Rightarrow> bool \<Rightarrow> FetchingElem \<Rightarrow> FetchingElem" where
  "set_elem ItemOLM b f = f\<lparr>fe_OLM := b\<rparr>"
| "set_elem ItemOperator b f = f\<lparr>fe_operator := b\<rparr>"
| "set_elem ItemCSV b f = f\<lparr>fe_csv := b\<rparr>"
| "set_elem ItemResource b f = f\<lparr>fe_resource := b\<rparr>"
| "set_elem ItemSubscriptions b f = f\<lparr>fe_subscriptions := b\<rparr>"

fun get_elem :: "fetch_item \<Rightarrow> FetchingElem \<Rightarrow> bool" where
  "get_elem ItemOLM f = fe_OLM f"
| "get_elem ItemOperator f = fe_operator f"
| "get_elem ItemCSV f = fe_csv f"
| "get_elem ItemResource f = fe_resource f"
| "get_elem ItemSubscriptions f = fe_subscriptions f"

definition any_elem :: "FetchingElem \<Rightarrow> bool" where
  "any_elem f = (fe_OLM f \<or> fe_operator f \<or> fe_csv f \<or> fe_resource f \<or> fe_subscriptions f)"

text \<open>\<open>{ ...state, ...isFetching(state, item, fetching) }\<close>.\<close>

definition set_fetching :: "fetch_item \<Rightarrow> bool \<Rightarrow> IOperatorsState \<Rightarrow> IOperatorsState" where
  "set_fetching item fetching s =
     (let composed = set_elem item fetching (op_isFetchingElem s)
      in s\<lparr>op_isFetching := any_elem composed, op_isFetchingElem := composed\<rparr>)"

definition fail_operator :: "IOperatorsStateError \<Rightarrow> IOperatorsState \<Rightarrow> IOperatorsState" where
  "fail_operator e s = s\<lparr>op_errors := (op_errors s)\<lparr>err_operator := e\<rparr>\<rparr>"

definition fail_csv :: "IOperatorsStateError \<Rightarrow> IOperatorsState \<Rightarrow> IOperatorsState" where
  "fail_csv e s = s\<lparr>op_errors := (op_errors s)\<lparr>err_csv := e\<rparr>\<rparr>"

definition fail_resource :: "IOperatorsStateError \<Rightarrow> IOperatorsState \<Rightarrow> IOperatorsState" where
  "fail_resource e s = s\<lparr>op_errors := (op_errors s)\<lparr>err_resource := e\<rparr>\<rparr>"

definition fail_subscriptions :: "IOperatorsStateError \<Rightarrow> IOperatorsState \<Rightarrow> IOperatorsState" where
  "fail_subscriptions e s = s\<lparr>op_errors := (op_errors s)\<lparr>err_subscriptions := e\<rparr>\<rparr>"

fun operator_step :: "IOperatorsState \<Rightarrow> operator_action \<Rightarrow> IOperatorsState" where
  "operator_step s CheckingOLM = set_fetching ItemOLM True s"
| "operator_step s OLMInstalled = (set_fetching ItemOLM False s)\<lparr>op_isOLMInstalled := True\<rparr>"
| "operator_step s (ErrorOLMCheck e) =
     fail_operator (no_error\<lparr>oe_fetch := Some e\<rparr>) (set_fetching ItemOLM False s)"
| "operator_step s RequestOperators = set_fetching ItemOperator True s"
| "operator_step s (ReceiveOperators ops) = (set_fetching ItemOperator False s)\<lparr>op_operators := ops\<rparr>"
| "operator_step s RequestOperator = set_fetching ItemOperator True s"
| "operator_step s (ReceiveOperator opr) =
     (set_fetching ItemOperator False s)\<lparr>op_operator := Some opr\<rparr>"
| "operator_step s (ErrorOperators e) =
     fail_operator (no_error\<lparr>oe_fetch := Some e\<rparr>)
       ((set_fetching ItemOperator False s)\<lparr>op_operator := None\<rparr>)"
| "operator_step s RequestCSVs = set_fetching ItemCSV True s"
| "operator_step s (ReceiveCSVs cs) = (set_fetching ItemCSV False s)\<lparr>op_csvs := cs\<rparr>"
| "operator_step s RequestCSV = set_fetching ItemCSV True s"
| "operator_step s (ReceiveCSV c) = (set_fetching ItemCSV False s)\<lparr>op_csv := Some c\<rparr>"
| "operator_step s (ErrorCSVs e) =
     fail_csv (no_error\<lparr>oe_fetch := Some e\<rparr>) ((set_fetching ItemCSV False s)\<lparr>op_csv := None\<rparr>)"
| "operator_step s CreatingResource = set_fetching ItemResource True s"
| "operator_step s (ResourceCreated r) = set_fetching ItemResource False s"
| "operator_step s UpdatingResource = set_fetching ItemResource True s"
| "operator_step s (ResourceUpdated r) = set_fetching ItemResource False s"
| "operator_step s DeletingResource = set_fetching ItemResource True s"
| "operator_step s ResourceDeleted = set_fetching ItemResource False s"
| "operator_step s (ErrorResourceDelete e) =
     fail_resource (no_error\<lparr>oe_delete := Some e\<rparr>) (set_fetching ItemResource False s)"
| "operator_step s (ErrorResourceCreate e) =
     fail_resource (no_error\<lparr>oe_create := Some e\<rparr>) (set_fetching ItemResource False s)"
| "operator_step s (ErrorResourceUpdate e) =
     fail_resource (no_error\<lparr>oe_update := Some e\<rparr>) (set_fetching ItemResource False s)"
| "operator_step s RequestCustomResources = set_fetching ItemResource True s"
| "operator_step s (ReceiveCustomResources rs) =
     (set_fetching ItemResource False s)\<lparr>op_resources := rs\<rparr>"
| "operator_step s (ErrorCustomResource e) =
     fail_resource (no_error\<lparr>oe_fetch := Some e\<rparr>)
       ((set_fetching ItemResource False s)\<lparr>op_resource := None\<rparr>)"
| "operator_step s RequestCustomResource = set_fetching ItemResource True s"
| "operator_step s (ReceiveCustomResource r) =
     (set_fetching ItemResource False s)\<lparr>op_resource := Some r\<rparr>"
| "operator_step s CreatingOperator = set_fetching ItemOperator True s"
| "operator_step s (OperatorCreated r) = set_fetching ItemOperator False s"
| "operator_step s (ErrorOperatorCreate e) =
     fail_operator (no_error\<lparr>oe_create := Some e\<rparr>) (set_fetching ItemOperator False s)"
| "operator_step s RequestSubscriptions = set_fetching ItemSubscriptions True s"
| "operator_step s (ReceiveSubscriptions rs) =
     (set_fetching ItemSubscriptions False s)\<lparr>op_subscriptions := rs\<rparr>"
| "operator_step s (ErrorSubscriptionList e) =
     fail_subscriptions (no_error\<lparr>oe_fetch := Some e\<rparr>)
       ((set_fetching ItemSubscriptions False s)\<lparr>op_resource := None\<rparr>)"

fun operatorReducer :: "IOperatorsState \<Rightarrow> action \<Rightarrow> IOperatorsState" where
  "operatorReducer s (OperatorA a) = operator_step s a"
| "operatorReducer s (LocationChange p) = s\<lparr>op_errors := no_operator_errors\<rparr>"
| "operatorReducer s (NamespaceA (SetNamespaceState c n)) =
     operatorsInitialState\<lparr>op_isOLMInstalled := op_isOLMInstalled s\<rparr>"
| "operatorReducer s _ = s"

section \<open>The composed flag\<close>

definition operators_inv :: "IOperatorsState \<Rightarrow> bool" where
  "operators_inv s \<longleftrightarrow> op_isFetching s = any_elem (op_isFetchingElem s)"

lemma set_fetching_simps [simp]:
  "op_isFetching (set_fetching i b s) = any_elem (set_elem i b (op_isFetchingElem s))"
  "op_isFetchingElem (set_fetching i b s) = set_elem i b (op_isFetchingElem s)"
  "op_isOLMInstalled (set_fetching i b s) = op_isOLMInstalled s"
  "op_errors (set_fetching i b s) = op_errors s"
  by (simp_all add: set_fetching_def Let_def)

lemma fail_simps [simp]:
  "op_isFetching (fail_operator e s) = op_isFetching s"
  "op_isFetchingElem (fail_operator e s) = op_isFetchingElem s"
  "op_isFetching (fail_csv e s) = op_isFetching s"
  "op_isFetchingElem (fail_csv e s) = op_isFetchingElem s"
  "op_isFetching (fail_resource e s) = op_isFetching s"
  "op_isFetchingElem (fail_resource e s) = op_isFetchingElem s"
  "op_isFetching (fail_subscriptions e s) = op_isFetching s"
  "op_isFetchingElem (fail_subscriptions e s) = op_isFetchingElem s"
  by (simp_all add: fail_operator_def fail_csv_def fail_resource_def fail_subscriptions_def)

lemma get_set_elem [simp]: "get_elem i (set_elem j b f) = (if i = j then b else get_elem i f)"
  by (cases i; cases j) simp_all

lemma operator_step_inv: "operators_inv s \<Longrightarrow> operators_inv (operator_step s a)"
  by (cases a) (simp_all add: operators_inv_def)

lemma operatorReducer_inv: "operators_inv s \<Longrightarrow> operators_inv (operatorReducer s a)"
proof (cases a)
  case (OperatorA x)
  then show "operators_inv s \<Longrightarrow> operators_inv (operatorReducer s a)"
    by (simp add: operator_step_inv)
next
  case (NamespaceA x)
  then show "operators_inv s \<Longrightarrow> operators_inv (operatorReducer s a)"
    by (cases x) (simp_all add: operators_inv_def operatorsInitialState_def any_elem_def)
qed (simp_all add: operators_inv_def)

lemma operators_initial_inv: "operators_inv operatorsInitialState"
  by (simp add: operators_inv_def operatorsInitialState_def any_elem_def)

interpretation opr: reducer_invariant "\<lambda>s a. Inr (operatorReducer s a)" operators_inv
  by unfold_locales (auto intro: operatorReducer_inv)

text \<open>Only the actions of the check touch the OLM flag; the others keep it.\<close>

fun olm_request :: "action \<Rightarrow> bool" where
  "olm_request (OperatorA CheckingOLM) = True"
| "olm_request _ = False"

fun olm_settle :: "action \<Rightarrow> bool" where
  "olm_settle (OperatorA OLMInstalled) = True"
| "olm_settle (OperatorA (ErrorOLMCheck e)) = True"
| "olm_settle (NamespaceA (SetNamespaceState c n)) = True"
| "olm_settle _ = False"

interpretation olmflag: fetch_flag operatorReducer "\<lambda>s. fe_OLM (op_isFetchingElem s)" olm_request olm_settle
proof unfold_locales
  show "fe_OLM (op_isFetchingElem (operatorReducer s a))" if "olm_request a" for s a
    using that by (cases a rule: olm_request.cases) simp_all
  show "\<not> fe_OLM (op_isFetchingElem (operatorReducer s a))" if "olm_settle a" for s a
    using that by (cases a rule: olm_settle.cases) (simp_all add: operatorsInitialState_def)
  show "fe_OLM (op_isFetchingElem (operatorReducer s a)) = fe_OLM (op_isFetchingElem s)"
    if "\<not> olm_request a" and "\<not> olm_settle a" for s a
  proof (cases a)
    case (OperatorA x)
    with that show ?thesis by (cases x) simp_all
  next
    case (NamespaceA x)
    with that show ?thesis by (cases x) simp_all
  qed simp_all
qed

end
