(* ===== verification/Store.thy ===== *)
theory Store
  imports Reducer_Packages Reducer_Installed Reducer_Repos Reducer_Clusters Reducer_Operators
begin

text \<open>
  The store (\<open>reducers/index.ts\<close>): one slice per reducer and the root reducer that
  \<open>combineReducers\<close> builds. Every slice receives every action; if one reducer raises, the
  dispatch raises and the store keeps its old state.
\<close>

record IStoreState =
  st_apps :: IInstalledPackageState
  st_auth :: IAuthState
  st_packages :: IPackageState
  st_config :: IConfigState
  st_kube :: IKubeState
  st_clusters :: IClustersState
  st_repos :: IPackageRepositoryState
  st_operators :: IOperatorsState

definition initialStore :: "lib \<Rightarrow> storage \<Rightarrow> IStoreState" where
  "initialStore L ls =
     \<lparr>st_apps = installed_initialState,
      st_auth = auth_initialState (getAuthToken ls) (usingOIDCToken ls),
      st_packages = packages_initialState, st_config = config_initialState,
      st_kube = kube_initialState, st_clusters = clusters_initialState L ls,
      st_repos = repos_initialState, st_operators = operatorsInitialState\<rparr>"

definition rootReducer ::
  "lib \<Rightarrow> IClusterState jsobj \<Rightarrow> storage \<Rightarrow> IStoreState \<Rightarrow> action \<Rightarrow> js_error + IStoreState"
where
  "rootReducer L init ls s a =
     (case packageReducer L (st_packages s) a of
        Inl e \<Rightarrow> Inl e
      | Inr packages \<Rightarrow>
          (case clusterReducer L init ls (st_clusters s) a of
             Inl e \<Rightarrow> Inl e
           | Inr clusters \<Rightarrow>
               Inr \<lparr>st_apps = installedReducer L (st_apps s) a,
                    st_auth = authReducer (st_auth s) a,
                    st_packages = packages,
                    st_config = configReducer (st_config s) a,
                    st_kube = kubeReducer (st_kube s) a,
                    st_clusters = clusters,
                    st_repos = reposReducer (st_repos s) a,
                    st_operators = operatorReducer (st_operators s) a\<rparr>))"

section \<open>What an action changes\<close>

text \<open>
  Apart from a received configuration and from location changes, an action only reaches the
  slice of its own module.
\<close>

lemma rootReducer_auth [simp]:
  "rootReducer L init ls s (AuthA a) = Inr (s\<lparr>st_auth := authReducer (st_auth s) (AuthA a)\<rparr>)"
  by (simp add: rootReducer_def packageReducer_def)

lemma rootReducer_installed [simp]:
  "rootReducer L init ls s (InstalledA a) = Inr (s\<lparr>st_apps := installed_step L (st_apps s) a\<rparr>)"
  by (simp add: rootReducer_def packageReducer_def)

lemma rootReducer_packages [simp]:
  "rootReducer L init ls s (PackagesA a) =
     map_sum (\<lambda>e. e) (\<lambda>p. s\<lparr>st_packages := p\<rparr>) (packages_step L (st_packages s) a)"
  by (simp add: rootReducer_def packageReducer_def split: sum.split)

lemma rootReducer_repos [simp]:
  "rootReducer L init ls s (ReposA a) = Inr (s\<lparr>st_repos := repos_step (st_repos s) a\<rparr>)"
  by (simp add: rootReducer_def packageReducer_def)

lemma rootReducer_kube [simp]:
  "rootReducer L init ls s (KubeA a) = Inr (s\<lparr>st_kube := kubeReducer (st_kube s) (KubeA a)\<rparr>)"
  by (simp add: rootReducer_def packageReducer_def)

lemma rootReducer_operators [simp]:
  "rootReducer L init ls s (OperatorA a) =
     Inr (s\<lparr>st_operators := operator_step (st_operators s) a\<rparr>)"
  by (simp add: rootReducer_def packageReducer_def)

lemma rootReducer_namespace:
  "rootReducer L init ls s (NamespaceA a) =
     map_sum (\<lambda>e. e)
       (\<lambda>c. s\<lparr>st_clusters := c, st_operators := operatorReducer (st_operators s) (NamespaceA a)\<rparr>)
       (namespace_step L init ls (st_clusters s) a)"
  by (simp add: rootReducer_def packageReducer_def split: sum.split)

lemma rootReducer_namespace_clusters [simp]:
  "(\<And>c n. a \<noteq> SetNamespaceState c n) \<Longrightarrow>
     rootReducer L init ls s (NamespaceA a) =
       map_sum (\<lambda>e. e) (\<lambda>c. s\<lparr>st_clusters := c\<rparr>) (namespace_step L init ls (st_clusters s) a)"
  unfolding rootReducer_namespace by (cases a) auto

lemma rootReducer_receiveConfig:
  "rootReducer L init ls s (ConfigA (ReceiveConfig c)) =
     Inr (s\<lparr>st_config := configReducer (st_config s) (ConfigA (ReceiveConfig c)),
            st_clusters := config_step (st_clusters s) c\<rparr>)"
  by (simp add: rootReducer_def packageReducer_def)

lemma rootReducer_config [simp]:
  "(\<forall>c. a \<noteq> ReceiveConfig c) \<Longrightarrow>
     rootReducer L init ls s (ConfigA a) = Inr (s\<lparr>st_config := configReducer (st_config s) (ConfigA a)\<rparr>)"
  by (cases a) (simp_all add: rootReducer_def packageReducer_def)

text \<open>Only these actions can make a reducer raise.\<close>

fun may_raise :: "action \<Rightarrow> bool" where
  "may_raise (PackagesA (ReceiveSelectedAvailablePackageDetail d)) = True"
| "may_raise (PackagesA (SetAvailablePackageDetailCustomDefaults v)) = True"
| "may_raise (NamespaceA (ReceiveNamespaceExists c n)) = True"
| "may_raise (NamespaceA (ReceiveNamespaces c ns)) = True"
| "may_raise (LocationChange p) = True"
| "may_raise _ = False"

lemma rootReducer_raises: "\<not> may_raise a \<Longrightarrow> \<exists>s'. rootReducer L init ls s a = Inr s'"
proof (cases a)
  case (PackagesA x)
  then show "\<not> may_raise a \<Longrightarrow> ?thesis" by (cases x) (auto simp: with_selected_def)
next
  case (NamespaceA x)
  then show "\<not> may_raise a \<Longrightarrow> ?thesis" by (cases x) (auto simp: rootReducer_namespace)
next
  case (ConfigA x)
  then show "\<not> may_raise a \<Longrightarrow> ?thesis" by (cases x) (auto simp: rootReducer_receiveConfig)
qed simp_all

section \<open>Store invariants\<close>

definition store_inv :: "lib \<Rightarrow> IStoreState \<Rightarrow> bool" where
  "store_inv L s \<longleftrightarrow> auth_inv (st_auth s) \<and> packages_inv (st_packages s) \<and>
     installed_inv L (st_apps s) \<and> kube_inv (st_kube s) \<and> operators_inv (st_operators s)"

lemma rootReducer_slices:
  assumes "rootReducer L init ls s a = Inr s'"
  shows "packageReducer L (st_packages s) a = Inr (st_packages s')"
    and "clusterReducer L init ls (st_clusters s) a = Inr (st_clusters s')"
    and "st_apps s' = installedReducer L (st_apps s) a"
    and "st_auth s' = authReducer (st_auth s) a"
    and "st_config s' = configReducer (st_config s) a"
    and "st_kube s' = kubeReducer (st_kube s) a"
    and "st_repos s' = reposReducer (st_repos s) a"
    and "st_operators s' = operatorReducer (st_operators s) a"
  using assms by (auto simp: rootReducer_def split: sum.splits)

lemma packageReducer_inv:
  "lodash_uniq_spec L \<Longrightarrow> packages_inv s \<Longrightarrow> packageReducer L s a = Inr s' \<Longrightarrow> packages_inv s'"
  by (cases a) (auto simp: packageReducer_def intro: packages_step_inv)

lemma rootReducer_inv:
  assumes L: "lodash_uniq_spec L" and inv: "store_inv L s" and step: "rootReducer L init ls s a = Inr s'"
  shows "store_inv L s'"
  using inv rootReducer_slices [OF step]
  by (auto simp: store_inv_def authReducer_inv installedReducer_inv kubeReducer_inv
      operatorReducer_inv intro: packageReducer_inv [OF L])

lemma initialStore_inv: "store_inv L (initialStore L ls)"
  by (simp add: store_inv_def initialStore_def auth_initialState_inv packages_inv_initial
      operators_initial_inv) (simp add: installed_inv_def kube_inv_def kube_initialState_def
      installed_initialState_def)

end
