(* ===== verification/Effects.thy ===== *)
theory Effects
  imports Store
begin

text \<open>
  Thunks and the world they act on. A thunk is a process in continuation-passing style: it
  dispatches actions, reads and writes the browser (local storage, location, theme), sends
  requests and waits for the replies, and starts other thunks without waiting for them. A
  process runs without interruption up to its next wait; \<open>sync\<close> is that run, \<open>run\<close> answers every
  request as soon as it is sent, and \<open>pool_step\<close> lets the pending replies arrive in any order.
\<close>

section \<open>Requests and replies\<close>

datatype grpc_call =
    GetAvailablePackageSummaries Context "string option" "string list" nat string
  | GetAvailablePackageVersions "AvailablePackageReference option"
  | GetAvailablePackageDetail "AvailablePackageReference option" "string option"
  | GetAvailablePackageMetadatas AvailablePackageReference string
  | GetInstalledPackageSummaries Context nat string
  | GetInstalledPackageDetail "InstalledPackageReference option"
  | GetInstalledPackageResourceRefs "InstalledPackageReference option"
  | CreateInstalledPackage Context string AvailablePackageReference string "string option"
      "ReconciliationOptions option"
  | UpdateInstalledPackage InstalledPackageReference string "string option"
      "ReconciliationOptions option"
  | RollbackInstalledPackage InstalledPackageReference nat
  | DeleteInstalledPackage InstalledPackageReference
  | GetPackageRepositorySummaries Context
  | GetPackageRepositoryDetail PackageRepositoryReference
  | AddPackageRepository AddPackageRepositoryRequest
  | UpdatePackageRepository UpdatePackageRepositoryRequest
  | DeletePackageRepository PackageRepositoryReference
  | GetPackageRepositoryPermissions Context
  | GetConfiguredPlugins
  | CheckNamespaceExists Context
  | CreateNamespace Context "string jsobj"
  | GetNamespaceNames string
  | CanI Context string string string
  | GetServiceAccountNames Context
  | GetSecretNames Context
  | CreateSecret Context string "string jsobj"

datatype http_method = GET | POST | PUT | DELETE

text \<open>Both kinds of request carry the bearer token of their header, if any.\<close>

datatype request =
    Grpc "string option" grpc_call
  | Http http_method string "string option" "json option"

text \<open>A secret's type, as the resources service lists it.\<close>

datatype SecretType =
    SECRET_UNSPECIFIED | SECRET_OPAQUE | SECRET_SERVICE_ACCOUNT_TOKEN | SECRET_DOCKER_CONFIG
  | SECRET_DOCKER_CONFIG_JSON | SECRET_BASIC_AUTH | SECRET_SSH_AUTH | SECRET_TLS | SECRET_BOOTSTRAP

text \<open>The data of an HTTP reply, in the shape the code reads it at.\<close>

datatype http_data =
    DJson json
  | DConfig IConfig
  | DResource IResource
  | DResources "IResource list"
  | DCSV IClusterServiceVersion
  | DCSVs "IClusterServiceVersion list"
  | DManifest IPackageManifest
  | DManifests "IPackageManifest list"
  | DGroups "string list"
  | DAPIResources "APIResource list option"

record axios_error =
  ax_code :: "string option"
  ax_message :: string
  ax_response :: "(nat \<times> json) option"

datatype response =
    RSummaries GetAvailablePackageSummariesResponse
  | RVersions "PackageAppVersion list"
  | RDetail "AvailablePackageDetail option"
  | RMetadatas "PackageMetadata list"
  | RInstalledSummaries "InstalledPackageSummary list"
  | RInstalledDetail "InstalledPackageDetail option"
  | RResourceRefs "ResourceRef list"
  | RDone
  | RRepoSummaries "PackageRepositorySummary list"
  | RRepoDetail "PackageRepositoryDetail option"
  | RRepoRef "PackageRepositoryReference option"
  | RPermissions "PackageRepositoriesPermissions list"
  | RPlugins "Plugin list"
  | RNames "string list"
  | RSecretNames "SecretType jsobj"
  | RBool bool
  | RHttp nat http_data
  | RAxios axios_error

section \<open>The world\<close>

record world =
  w_store :: IStoreState
  w_ls :: storage
  w_locations :: "string list"
  w_theme :: "string option"
  w_prefers_dark :: bool
  w_log :: "action list"
  w_sent :: "request list"

text \<open>The reducer the store was created with.\<close>

type_synonym reducer = "storage \<Rightarrow> IStoreState \<Rightarrow> action \<Rightarrow> js_error + IStoreState"

definition dispatch_action :: "reducer \<Rightarrow> action \<Rightarrow> world \<Rightarrow> js_error option \<times> world" where
  "dispatch_action R a w =
     (case R (w_ls w) (w_store w) a of
        Inl e \<Rightarrow> (Some e, w)
      | Inr s \<Rightarrow> (None, w\<lparr>w_store := s, w_log := w_log w @ [a]\<rparr>))"

definition send :: "request list \<Rightarrow> world \<Rightarrow> world" where
  "send qs w = w\<lparr>w_sent := w_sent w @ qs\<rparr>"

section \<open>Processes\<close>

text \<open>
  \<open>Await\<close> sends a request and waits for its reply. \<open>AwaitAny\<close> waits for any of several requests
  sent before, and goes on with the position and the result of the one that was answered.
\<close>

datatype proc =
    Stop
  | Dispatch action "js_error option \<Rightarrow> proc"
  | Read "world \<Rightarrow> proc"
  | WriteStorage "storage \<Rightarrow> storage" proc
  | Navigate string proc
  | SetTheme string proc
  | Await request "js_error + response \<Rightarrow> proc"
  | Send "request list" proc
  | AwaitAny "request list" "nat \<Rightarrow> js_error + response \<Rightarrow> proc"
  | Spawn proc proc

type_synonym 'r thunk = "('r \<Rightarrow> proc) \<Rightarrow> (js_error \<Rightarrow> proc) \<Rightarrow> proc"

definition returnT :: "'r \<Rightarrow> 'r thunk" where
  [thunk_simps]: "returnT r k h = k r"

definition throwT :: "js_error \<Rightarrow> 'r thunk" where
  [thunk_simps]: "throwT e k h = h e"

definition bindT :: "'a thunk \<Rightarrow> ('a \<Rightarrow> 'r thunk) \<Rightarrow> 'r thunk" where
  [thunk_simps]: "bindT p f k h = p (\<lambda>x. f x k h) h"

definition thenT :: "'a thunk \<Rightarrow> 'r thunk \<Rightarrow> 'r thunk" where
  [thunk_simps]: "thenT p q k h = p (\<lambda>_. q k h) h"

text \<open>\<open>try p catch (e) handler\<close>: what follows the statement is outside of the \<open>try\<close>.\<close>

definition tryT :: "'r thunk \<Rightarrow> (js_error \<Rightarrow> 'r thunk) \<Rightarrow> 'r thunk" where
  [thunk_simps]: "tryT p handler k h = p k (\<lambda>e. handler e k h)"

text \<open>A synchronous dispatch: a reducer that raises makes it raise.\<close>

definition dispatchT :: "action \<Rightarrow> unit thunk" where
  [thunk_simps]: "dispatchT a k h = Dispatch a (\<lambda>r. case r of None \<Rightarrow> k () | Some e \<Rightarrow> h e)"

definition getState :: "IStoreState thunk" where
  [thunk_simps]: "getState k h = Read (\<lambda>w. k (w_store w))"

definition readStorage :: "storage thunk" where
  [thunk_simps]: "readStorage k h = Read (\<lambda>w. k (w_ls w))"

definition updateStorage :: "(storage \<Rightarrow> storage) \<Rightarrow> unit thunk" where
  [thunk_simps]: "updateStorage f k h = WriteStorage f (k ())"

definition assignLocation :: "string \<Rightarrow> unit thunk" where
  [thunk_simps]: "assignLocation url k h = Navigate url (k ())"

text \<open>
  The dispatch of a thunk that nobody waits for: it runs up to its first wait, and what it
  returns or raises is lost with its promise.
\<close>

definition spawnT :: "'a thunk \<Rightarrow> unit thunk" where
  [thunk_simps]: "spawnT p k h = Spawn (p (\<lambda>_. Stop) (\<lambda>_. Stop)) (k ())"

definition awaitT :: "request \<Rightarrow> response thunk" where
  [thunk_simps]: "awaitT q k h = Await q (\<lambda>r. case r of Inl e \<Rightarrow> h e | Inr x \<Rightarrow> k x)"

text \<open>A reply that is not of the shape the call is decoded at.\<close>

definition decode_error :: js_error where
  "decode_error = ConnectError InternalCode ''cannot decode the response'' []"

definition decodeT :: "(response \<Rightarrow> 'r option) \<Rightarrow> response \<Rightarrow> 'r thunk" where
  "decodeT d r = (case d r of None \<Rightarrow> throwT decode_error | Some x \<Rightarrow> returnT x)"

section \<open>Running processes\<close>

text \<open>
  The part of a process before its next wait: the new world and the processes that wait, the
  one that went on first, then those it started.
\<close>

primrec sync :: "reducer \<Rightarrow> proc \<Rightarrow> world \<Rightarrow> world \<times> proc list" where
  "sync R Stop w = (w, [])"
| "sync R (Dispatch a k) w = (let (e, w') = dispatch_action R a w in sync R (k e) w')"
| "sync R (Read f) w = sync R (f w) w"
| "sync R (WriteStorage f p) w = sync R p (w\<lparr>w_ls := f (w_ls w)\<rparr>)"
| "sync R (Navigate url p) w = sync R p (w\<lparr>w_locations := w_locations w @ [url]\<rparr>)"
| "sync R (SetTheme t p) w = sync R p (w\<lparr>w_theme := Some t\<rparr>)"
| "sync R (Await q k) w = (send [q] w, [Await q k])"
| "sync R (Send qs p) w = sync R p (send qs w)"
| "sync R (AwaitAny qs k) w = (w, if qs = [] then [] else [AwaitAny qs k])"
| "sync R (Spawn p q) w =
     (let (w1, ps) = sync R p w; (w2, qs) = sync R q w1 in (w2, qs @ ps))"

text \<open>
  The schedule that answers every request as soon as its process is the first one waiting:
  \<open>exec\<close> gives the world at the first wait and what remains to be done from there. A process
  started on the side goes on when the one that started it has finished.
\<close>

type_synonym server = "request \<Rightarrow> js_error + response"

primrec exec :: "reducer \<Rightarrow> server \<Rightarrow> proc \<Rightarrow> world \<Rightarrow> world \<times> (world \<Rightarrow> world)" where
  "exec R srv Stop w = (w, \<lambda>v. v)"
| "exec R srv (Dispatch a k) w = (let (e, w') = dispatch_action R a w in exec R srv (k e) w')"
| "exec R srv (Read f) w = exec R srv (f w) w"
| "exec R srv (WriteStorage f p) w = exec R srv p (w\<lparr>w_ls := f (w_ls w)\<rparr>)"
| "exec R srv (Navigate url p) w = exec R srv p (w\<lparr>w_locations := w_locations w @ [url]\<rparr>)"
| "exec R srv (SetTheme t p) w = exec R srv p (w\<lparr>w_theme := Some t\<rparr>)"
| "exec R srv (Await q k) w =
     (send [q] w, \<lambda>v. let (v', f) = exec R srv (k (srv q)) v in f v')"
| "exec R srv (Send qs p) w = exec R srv p (send qs w)"
| "exec R srv (AwaitAny qs k) w =
     (w, \<lambda>v. case qs of [] \<Rightarrow> v | q # _ \<Rightarrow> (let (v', f) = exec R srv (k 0 (srv q)) v in f v'))"
| "exec R srv (Spawn p q) w =
     (let (w1, f) = exec R srv p w; (w2, g) = exec R srv q w1 in (w2, \<lambda>v. f (g v)))"

definition run :: "reducer \<Rightarrow> server \<Rightarrow> proc \<Rightarrow> world \<Rightarrow> world" where
  "run R srv p w = (let (w', f) = exec R srv p w in f w')"

lemma run_simps [simp]:
  "run R srv Stop w = w"
  "run R srv (Dispatch a k) w = (let (e, w') = dispatch_action R a w in run R srv (k e) w')"
  "run R srv (Read g) w = run R srv (g w) w"
  "run R srv (WriteStorage f p) w = run R srv p (w\<lparr>w_ls := f (w_ls w)\<rparr>)"
  "run R srv (Navigate url p) w = run R srv p (w\<lparr>w_locations := w_locations w @ [url]\<rparr>)"
  "run R srv (SetTheme t p) w = run R srv p (w\<lparr>w_theme := Some t\<rparr>)"
  "run R srv (Await q k1) w = run R srv (k1 (srv q)) (send [q] w)"
  "run R srv (Send qs p) w = run R srv p (send qs w)"
  "run R srv (AwaitAny [] k0) w = w"
  "run R srv (AwaitAny (q # qs) k0) w = run R srv (k0 0 (srv q)) w"
  "run R srv (Spawn p p') w = snd (exec R srv p w) (run R srv p' (fst (exec R srv p w)))"
  by (simp_all add: run_def split_beta Let_def)

text \<open>The thunk as the whole program: its result and an exception it raises are dropped.\<close>

definition runT :: "reducer \<Rightarrow> server \<Rightarrow> 'r thunk \<Rightarrow> world \<Rightarrow> world" where
  "runT R srv p w = run R srv (p (\<lambda>_. Stop) (\<lambda>_. Stop)) w"

text \<open>The thunk returns a value and leaves a world, whatever comes after it.\<close>

definition completes :: "reducer \<Rightarrow> server \<Rightarrow> 'r thunk \<Rightarrow> world \<Rightarrow> 'r \<Rightarrow> world \<Rightarrow> bool" where
  "completes R srv p w r w' \<longleftrightarrow> (\<forall>k h. run R srv (p k h) w = run R srv (k r) w')"

section \<open>Interleavings\<close>

type_synonym config = "world \<times> proc list"

datatype event = Start proc | Reply nat request "js_error + response"

text \<open>
  A step of the page: a component starts a thunk, or one of the pending requests is answered;
  the thunk that waited for it runs up to its next wait.
\<close>

inductive pool_step :: "reducer \<Rightarrow> config \<Rightarrow> event \<Rightarrow> config \<Rightarrow> bool" for R where
  start [step_intros]:
    "sync R p w = (w', qs) \<Longrightarrow> pool_step R (w, ps) (Start p) (w', ps @ qs)"
| reply [step_intros]:
    "i < length ps \<Longrightarrow> ps ! i = Await q k \<Longrightarrow> sync R (k r) w = (w', qs) \<Longrightarrow>
       pool_step R (w, ps) (Reply i q r) (w', take i ps @ qs @ drop (Suc i) ps)"
| reply_any [step_intros]:
    "i < length ps \<Longrightarrow> ps ! i = AwaitAny reqs k \<Longrightarrow> j < length reqs \<Longrightarrow>
       sync R (k j r) w = (w', qs) \<Longrightarrow>
       pool_step R (w, ps) (Reply i (reqs ! j) r) (w', take i ps @ qs @ drop (Suc i) ps)"

inductive_cases pool_startE: "pool_step R (w, ps) (Start p) c"
inductive_cases pool_replyE: "pool_step R (w, ps) (Reply i q r) c"

inductive pool_steps :: "reducer \<Rightarrow> config \<Rightarrow> event list \<Rightarrow> config \<Rightarrow> bool" for R where
  steps_nil [step_intros]: "pool_steps R c [] c"
| steps_cons [step_intros]:
    "pool_step R c e c' \<Longrightarrow> pool_steps R c' es c'' \<Longrightarrow> pool_steps R c (e # es) c''"

inductive_simps pool_steps_nil [simp]: "pool_steps R c [] d"
inductive_simps pool_steps_cons: "pool_steps R c (e # es) d"

section \<open>Facts about worlds\<close>

lemma send_simps [simp]:
  "w_store (send qs w) = w_store w" "w_ls (send qs w) = w_ls w"
  "w_locations (send qs w) = w_locations w" "w_theme (send qs w) = w_theme w"
  "w_log (send qs w) = w_log w" "w_sent (send qs w) = w_sent w @ qs"
  "w_prefers_dark (send qs w) = w_prefers_dark w"
  by (simp_all add: send_def)

lemma dispatch_action_ok:
  "R (w_ls w) (w_store w) a = Inr s \<Longrightarrow>
     dispatch_action R a w = (None, w\<lparr>w_store := s, w_log := w_log w @ [a]\<rparr>)"
  by (simp add: dispatch_action_def)

lemma dispatch_action_raise:
  "R (w_ls w) (w_store w) a = Inl e \<Longrightarrow> dispatch_action R a w = (Some e, w)"
  by (simp add: dispatch_action_def)

section \<open>What every process preserves\<close>

text \<open>
  Only dispatches touch the store: what every reducer step preserves holds after any process,
  and after any interleaving of processes and replies.
\<close>

definition reducer_keeps :: "reducer \<Rightarrow> (IStoreState \<Rightarrow> bool) \<Rightarrow> bool" where
  "reducer_keeps R P \<longleftrightarrow> (\<forall>ls s a s'. P s \<longrightarrow> R ls s a = Inr s' \<longrightarrow> P s')"

lemma dispatch_action_keeps:
  "reducer_keeps R P \<Longrightarrow> P (w_store w) \<Longrightarrow> P (w_store (snd (dispatch_action R a w)))"
  by (auto simp: reducer_keeps_def dispatch_action_def split: sum.splits)

lemma sync_keeps:
  assumes "reducer_keeps R P"
  shows "P (w_store w) \<Longrightarrow> P (w_store (fst (sync R p w)))"
proof (induction p arbitrary: w)
  case (Dispatch a k)
  then show ?case using dispatch_action_keeps [OF assms, of w a] by (simp add: split_beta Let_def)
qed (simp_all add: split_beta Let_def)

lemma pool_step_keeps:
  "pool_step R c e c' \<Longrightarrow> reducer_keeps R P \<Longrightarrow> P (w_store (fst c)) \<Longrightarrow> P (w_store (fst c'))"
  by (induction rule: pool_step.induct) (metis fst_conv sync_keeps)+

lemma pool_steps_keeps:
  "pool_steps R c es c' \<Longrightarrow> reducer_keeps R P \<Longrightarrow> P (w_store (fst c)) \<Longrightarrow> P (w_store (fst c'))"
  by (induction rule: pool_steps.induct) (auto dest: pool_step_keeps)

lemma pool_steps_append:
  "pool_steps R c es d \<Longrightarrow> pool_steps R d fs e \<Longrightarrow> pool_steps R c (es @ fs) e"
  by (induction rule: pool_steps.induct) (auto intro: step_intros)

section \<open>The immediate schedule is an interleaving\<close>

lemma exec_world: "fst (exec R srv p w) = fst (sync R p w)"
  by (induction p arbitrary: w) (simp_all add: split_beta Let_def)

definition answered :: "server \<Rightarrow> event list \<Rightarrow> bool" where
  "answered srv es \<longleftrightarrow> (\<forall>e \<in> set es. \<exists>i q. e = Reply i q (srv q))"

lemma exec_sync: "exec R srv p w = (fst (sync R p w), snd (exec R srv p w))"
  by (metis exec_world prod.collapse)

lemma reply_first:
  assumes "sync R (k r) v = (v', ps)" and "pool_steps R (v', ps @ rest) es d"
  shows "pool_steps R (v, Await q k # rest) (Reply 0 q r # es) d"
proof (rule steps_cons [OF _ assms(2)])
  show "pool_step R (v, Await q k # rest) (Reply 0 q r) (v', ps @ rest)"
    using reply [of 0 "Await q k # rest" q k R r v v' ps] assms(1) by simp
qed

lemma reply_any_first:
  assumes "sync R (k 0 r) v = (v', ps)" and "pool_steps R (v', ps @ rest) es d"
  shows "pool_steps R (v, AwaitAny (q # qs) k # rest) (Reply 0 q r # es) d"
proof (rule steps_cons [OF _ assms(2)])
  show "pool_step R (v, AwaitAny (q # qs) k # rest) (Reply 0 q r) (v', ps @ rest)"
    using reply_any [of 0 "AwaitAny (q # qs) k # rest" "q # qs" k 0 R r v v' ps] assms(1) by simp
qed

lemma exec_schedule:
  "\<exists>es. answered srv es \<and>
     pool_steps R (v, snd (sync R p w) @ rest) es (snd (exec R srv p w) v, rest)"
proof (induction p arbitrary: w v rest)
  case (Await q k)
  obtain es where "answered srv es" and
    "pool_steps R (fst (sync R (k (srv q)) v), snd (sync R (k (srv q)) v) @ rest) es
      (snd (exec R srv (k (srv q)) v) (fst (sync R (k (srv q)) v)), rest)"
    using Await.IH by blast
  then have "answered srv (Reply 0 q (srv q) # es)"
    and "pool_steps R (v, Await q k # rest) (Reply 0 q (srv q) # es)
      (snd (exec R srv (k (srv q)) v) (fst (sync R (k (srv q)) v)), rest)"
    by (auto simp: answered_def intro: reply_first [OF prod.collapse [symmetric]])
  then show ?case by (auto simp: split_beta Let_def exec_world)
next
  case (AwaitAny reqs k)
  show ?case
  proof (cases reqs)
    case Nil
    then show ?thesis by (auto simp: answered_def intro: exI [of _ "[]"])
  next
    case (Cons q qs)
    obtain es where "answered srv es" and
      "pool_steps R (fst (sync R (k 0 (srv q)) v), snd (sync R (k 0 (srv q)) v) @ rest) es
        (snd (exec R srv (k 0 (srv q)) v) (fst (sync R (k 0 (srv q)) v)), rest)"
      using AwaitAny.IH by blast
    then have "answered srv (Reply 0 q (srv q) # es)"
      and "pool_steps R (v, AwaitAny (q # qs) k # rest) (Reply 0 q (srv q) # es)
        (snd (exec R srv (k 0 (srv q)) v) (fst (sync R (k 0 (srv q)) v)), rest)"
      by (auto simp: answered_def intro: reply_any_first [OF prod.collapse [symmetric]])
    then show ?thesis using Cons by (auto simp: split_beta Let_def exec_world)
  qed
next
  case (Spawn p q)
  let ?w1 = "fst (sync R p w)"
  obtain es where es: "answered srv es"
    "pool_steps R (v, snd (sync R q ?w1) @ snd (sync R p w) @ rest) es
       (snd (exec R srv q ?w1) v, snd (sync R p w) @ rest)"
    using Spawn.IH(2) by blast
  obtain fs where fs: "answered srv fs"
    "pool_steps R (snd (exec R srv q ?w1) v, snd (sync R p w) @ rest) fs
       (snd (exec R srv p w) (snd (exec R srv q ?w1) v), rest)"
    using Spawn.IH(1) by blast
  from pool_steps_append [OF es(2) fs(2)] es(1) fs(1) show ?case
    by (auto simp: split_beta Let_def exec_world answered_def intro!: exI [of _ "es @ fs"])
next
  case Stop
  show ?case by (auto simp: answered_def intro: exI [of _ "[]"])
qed (simp_all add: split_beta Let_def)

text \<open>A process run on its own ends in a configuration the interleavings reach.\<close>

lemma run_is_interleaving:
  "\<exists>es. answered srv es \<and> pool_steps R (w, []) (Start p # es) (run R srv p w, [])"
proof -
  obtain es where answers: "answered srv es"
    and rest: "pool_steps R (fst (sync R p w), snd (sync R p w) @ []) es
      (snd (exec R srv p w) (fst (sync R p w)), [])"
    using exec_schedule by blast
  have "pool_step R (w, []) (Start p) (fst (sync R p w), snd (sync R p w) @ [])"
    using start [of R p w "fst (sync R p w)" "snd (sync R p w)" "[]"] by simp
  from steps_cons [OF this rest] answers show ?thesis
    by (auto simp: run_def split_beta Let_def exec_world)
qed

end
