(* ===== verification/Sample_World.thy ===== *)
theory Sample_World
  imports Effects
begin

text \<open>
  A concrete library and concrete worlds on which the properties with hypotheses are evaluated.
  The library's \<open>uniq\<close> functions keep the first element of every key, as lodash documents.
\<close>

definition sample_lib :: lib where
  "sample_lib =
     \<lparr>json_parse = (\<lambda>s. if s = ''{}'' then Inr (JObj []) else Inl (SyntaxError ''Unexpected token'')),
      json_stringify = (\<lambda>v. ''{}''), json_String = (\<lambda>v. ''[object Object]''),
      lodash_get = (\<lambda>ob k d. case ob of JObj ms \<Rightarrow> (case obj_get ms k of None \<Rightarrow> d | Some v \<Rightarrow> v)
                                        | _ \<Rightarrow> d),
      jwt_decode = (\<lambda>t. None),
      uniq_categories = uniq_from (\<lambda>c. c) [],
      uniqBy_packages = uniq_from package_identifier [],
      uniqBy_repos = uniq_from repo_identifier [],
      helm_revision = (\<lambda>bytes. Inr (length bytes)),
      helm_toBinary = (\<lambda>d. [length (hd_ociRepositories d)]),
      base64 = (\<lambda>s. s),
      ajv_validateSchema = (\<lambda>s. (True, None)),
      check_values = (\<lambda>v s d. Inr (True, None))\<rparr>"

lemma sample_lib_uniq: "lodash_uniq_spec sample_lib"
  by (simp add: lodash_uniq_spec_def sample_lib_def uniq_from_spec)

lemma sample_lib_simps [simp]:
  "uniqBy_packages sample_lib = uniq_from package_identifier []"
  "uniqBy_repos sample_lib = uniq_from repo_identifier []"
  "uniq_categories sample_lib = uniq_from (\<lambda>c. c) []"
  by (simp_all add: sample_lib_def)

definition sample_world :: "storage \<Rightarrow> world" where
  "sample_world ls =
     \<lparr>w_store = initialStore sample_lib ls, w_ls = ls, w_locations = [], w_theme = None,
      w_prefers_dark = False, w_log = [], w_sent = []\<rparr>"

definition oidc_storage :: storage where
  "oidc_storage = [(AuthTokenOIDCKey, ''true'')]"

definition token_storage :: storage where
  "token_storage = [(AuthTokenKey, ''token''), (AuthTokenOIDCKey, ''false'')]"

definition unavailable_server :: server where
  "unavailable_server q = Inl (ConnectError Unavailable ''no route'' [])"

lemma sample_storages [simp]:
  "usingOIDCToken oidc_storage" "\<not> usingOIDCToken token_storage"
  "getAuthToken oidc_storage = None" "getAuthToken token_storage = Some ''token''"
  by (simp_all add: oidc_storage_def token_storage_def usingOIDCToken_def getAuthToken_def)

lemma sample_world_simps [simp]:
  "w_ls (sample_world ls) = ls" "w_store (sample_world ls) = initialStore sample_lib ls"
  "w_locations (sample_world ls) = []" "w_sent (sample_world ls) = []" "w_log (sample_world ls) = []"
  by (simp_all add: sample_world_def)

end
