(* ===== verification/Auth_Actions.thy ===== *)
theory Auth_Actions
  imports Sample_World
begin

text \<open>
  The clients of the backend (\<open>shared/KubeappsGrpcClient.ts\<close>), authentication (\<open>shared/Auth.ts\<close>,
  \<open>actions/auth.ts\<close>) and the handling of errors all the other thunks share.
\<close>

section \<open>The gRPC client\<close>

text \<open>The token a request carries: the explicit one, or the stored one, if it is not empty.\<close>

definition request_token :: "string option \<Rightarrow> storage \<Rightarrow> string option" where
  "request_token token ls =
     (let t = (if truthy token then token else getAuthToken ls) in if truthy t then t else None)"

definition getClientMetadata :: "string option \<Rightarrow> storage \<Rightarrow> (string \<times> string) list option" where
  "getClientMetadata token ls =
     map_option (\<lambda>t. [(''Authorization'', ''Bearer '' @ t)]) (request_token token ls)"

definition rpc :: "string option \<Rightarrow> grpc_call \<Rightarrow> response thunk" where
  [thunk_simps]: "rpc token call =
     bindT readStorage (\<lambda>ls. awaitT (Grpc (request_token token ls) call))"

text \<open>A call whose error is translated by \<open>convertGrpcAuthError\<close>.\<close>

definition grpc :: "grpc_call \<Rightarrow> (response \<Rightarrow> 'r option) \<Rightarrow> 'r thunk" where
  [thunk_simps]: "grpc call d =
     bindT (tryT (rpc None call) (\<lambda>e. throwT (convertGrpcAuthError e))) (decodeT d)"

fun done_reply :: "response \<Rightarrow> unit option" where
  "done_reply RDone = Some ()"
| "done_reply _ = None"

fun bool_reply :: "response \<Rightarrow> bool option" where
  "bool_reply (RBool b) = Some b"
| "bool_reply _ = None"

fun names_reply :: "response \<Rightarrow> string list option" where
  "names_reply (RNames ns) = Some ns"
| "names_reply _ = None"

section \<open>Checking credentials\<close>

text \<open>\<open>e.code\<close>: only the errors of the gRPC client have one.\<close>

definition error_code :: "js_error \<Rightarrow> grpc_code option" where
  "error_code e = (case e of ConnectError c m md \<Rightarrow> Some c | _ \<Rightarrow> None)"

text \<open>The number of a status code, which a template string shows.\<close>

definition code_number :: "grpc_code \<Rightarrow> nat" where
  "code_number c = (case c of
     Canceled \<Rightarrow> 1 | UnknownCode \<Rightarrow> 2 | InvalidArgument \<Rightarrow> 3 | DeadlineExceeded \<Rightarrow> 4
   | NotFoundCode \<Rightarrow> 5 | AlreadyExists \<Rightarrow> 6 | PermissionDenied \<Rightarrow> 7 | ResourceExhausted \<Rightarrow> 8
   | FailedPrecondition \<Rightarrow> 9 | Aborted \<Rightarrow> 10 | OutOfRange \<Rightarrow> 11 | Unimplemented \<Rightarrow> 12
   | InternalCode \<Rightarrow> 13 | Unavailable \<Rightarrow> 14 | DataLoss \<Rightarrow> 15 | Unauthenticated \<Rightarrow> 16)"

definition show_code :: "grpc_code option \<Rightarrow> string" where
  "show_code c = (case c of None \<Rightarrow> ''undefined'' | Some c \<Rightarrow> show_nat (code_number c))"

definition validateToken :: "string \<Rightarrow> string \<Rightarrow> unit thunk" where
  "validateToken cluster token =
     tryT (thenT (rpc (Some token) (CheckNamespaceExists \<lparr>ctx_cluster = cluster, ctx_namespace = ''default''\<rparr>))
                 (returnT ()))
       (\<lambda>e. if error_code e = Some Unauthenticated
            then throwT (newError UnauthorizedNetworkError ''invalid token'')
            else if error_code e \<noteq> Some PermissionDenied then
              (if error_code e = Some NotFoundCode then throwT (newError NotFoundNetworkError ''not found'')
               else if error_code e = Some InternalCode
               then throwT (newError InternalServerNetworkError ''internal error'')
               else throwT (newError InternalServerNetworkError
                      (show_code (error_code e) @ '': '' @ error_message e)))
            else returnT ())"

text \<open>Whether the error carries the content type of the API server's own answers.\<close>

definition isErrorFromAPIsServer :: "js_error \<Rightarrow> bool" where
  "isErrorFromAPIsServer e =
     startsWith (case e of
         ConnectError c m md \<Rightarrow> (case map_of md ''content-type'' of None \<Rightarrow> [] | Some t \<Rightarrow> t)
       | _ \<Rightarrow> []) ''application/grpc-web''"

definition isAuthenticatedWithCookie :: "string \<Rightarrow> bool thunk" where
  "isAuthenticatedWithCookie cluster =
     tryT (thenT (rpc None (CheckNamespaceExists \<lparr>ctx_cluster = cluster, ctx_namespace = ''default''\<rparr>))
                 (returnT True))
       (\<lambda>e. if error_code e \<noteq> Some PermissionDenied then returnT False
            else if isErrorFromAPIsServer e then returnT True
            else returnT False)"

section \<open>Sessions\<close>

definition unsetAuthCookie :: "IConfigState \<Rightarrow> unit thunk" where
  [thunk_simps]: "unsetAuthCookie config =
     thenT (updateStorage (\<lambda>ls. AList.delete AuthTokenOIDCKey ls))
       (assignLocation (str_or (oauthLogoutURI config) ''/oauth2/sign_out''))"

definition authenticate :: "string \<Rightarrow> string \<Rightarrow> bool \<Rightarrow> unit thunk" where
  "authenticate cluster token oidc =
     thenT (dispatchT (AuthA Authenticating))
       (tryT
         (thenT (if \<not> oidc then validateToken cluster token else returnT ())
           (thenT (updateStorage (setAuthToken token oidc))
             (thenT (dispatchT (AuthA (SetAuthenticated True oidc)))
               (if oidc then dispatchT (AuthA (SetSessionExpired False)) else returnT ()))))
         (\<lambda>e. dispatchT (AuthA (AuthenticationError (error_toString e)))))"

definition logout :: "unit thunk" where
  "logout =
     thenT (bindT readStorage (\<lambda>ls.
              if usingOIDCToken ls
              then bindT getState (\<lambda>s. unsetAuthCookie (st_config s))
              else thenT (updateStorage unsetAuthToken)
                     (thenT (dispatchT (AuthA (SetAuthenticated False False)))
                       (dispatchT (NamespaceA ClearClusters)))))
       (updateStorage unsetStoredNamespace)"

definition expireSession :: "unit thunk" where
  "expireSession =
     thenT (bindT readStorage (\<lambda>ls.
              if usingOIDCToken ls then dispatchT (AuthA (SetSessionExpired True)) else returnT ()))
       logout"

definition logoutByAuthenticationError :: "unit thunk" where
  "logoutByAuthenticationError =
     thenT (spawnT logout)
       (thenT (dispatchT (AuthA (AuthenticationError ''Unauthorized'')))
         (spawnT expireSession))"

text \<open>\<open>dispatch(handleErrorAction(e, action))\<close>.\<close>

definition handleErrorAction :: "js_error \<Rightarrow> action \<Rightarrow> unit thunk" where
  "handleErrorAction e a =
     (if is_unauthorized e then spawnT logoutByAuthenticationError else dispatchT a)"

definition checkCookieAuthentication :: "string \<Rightarrow> bool thunk" where
  "checkCookieAuthentication cluster =
     thenT (dispatchT (AuthA Authenticating))
       (bindT (isAuthenticatedWithCookie cluster) (\<lambda>isAuthed.
          thenT (if isAuthed then authenticate cluster [] True
                 else dispatchT (AuthA (SetAuthenticated False False)))
            (returnT isAuthed)))"

section \<open>Running thunks on the store\<close>

text \<open>An action applied to one slice of the store.\<close>

definition applied :: "action \<Rightarrow> (IStoreState \<Rightarrow> IStoreState) \<Rightarrow> world \<Rightarrow> world" where
  "applied a f w = w\<lparr>w_store := f (w_store w), w_log := w_log w @ [a]\<rparr>"

lemma applied_simps [simp]:
  "w_store (applied a f w) = f (w_store w)" "w_ls (applied a f w) = w_ls w"
  "w_log (applied a f w) = w_log w @ [a]" "w_sent (applied a f w) = w_sent w"
  "w_locations (applied a f w) = w_locations w" "w_theme (applied a f w) = w_theme w"
  "w_prefers_dark (applied a f w) = w_prefers_dark w"
  by (simp_all add: applied_def)

lemma dispatch_auth [simp]:
  "dispatch_action (rootReducer L init) (AuthA a) w =
     (None, applied (AuthA a) (\<lambda>s. s\<lparr>st_auth := authReducer (st_auth s) (AuthA a)\<rparr>) w)"
  by (simp add: dispatch_action_def applied_def)

lemma dispatch_clear [simp]:
  "dispatch_action (rootReducer L init) (NamespaceA ClearClusters) w =
     (None, applied (NamespaceA ClearClusters)
        (\<lambda>s. s\<lparr>st_clusters := (st_clusters s)\<lparr>cl_clusters := init\<rparr>\<rparr>) w)"
  by (simp add: dispatch_action_def applied_def)

lemma dispatch_installed [simp]:
  "dispatch_action (rootReducer L init) (InstalledA a) w =
     (None, applied (InstalledA a) (\<lambda>s. s\<lparr>st_apps := installed_step L (st_apps s) a\<rparr>) w)"
  by (simp add: dispatch_action_def applied_def)

lemma dispatch_repos [simp]:
  "dispatch_action (rootReducer L init) (ReposA a) w =
     (None, applied (ReposA a) (\<lambda>s. s\<lparr>st_repos := repos_step (st_repos s) a\<rparr>) w)"
  by (simp add: dispatch_action_def applied_def)

lemma dispatch_operators [simp]:
  "dispatch_action (rootReducer L init) (OperatorA a) w =
     (None, applied (OperatorA a) (\<lambda>s. s\<lparr>st_operators := operator_step (st_operators s) a\<rparr>) w)"
  by (simp add: dispatch_action_def applied_def)

lemma dispatch_kube [simp]:
  "dispatch_action (rootReducer L init) (KubeA a) w =
     (None, applied (KubeA a) (\<lambda>s. s\<lparr>st_kube := kubeReducer (st_kube s) (KubeA a)\<rparr>) w)"
  by (simp add: dispatch_action_def applied_def)

lemma dispatch_packages [simp]:
  "packages_step L (st_packages (w_store w)) a = Inr p \<Longrightarrow>
     dispatch_action (rootReducer L init) (PackagesA a) w =
       (None, applied (PackagesA a) (\<lambda>s. s\<lparr>st_packages := p\<rparr>) w)"
  by (simp add: dispatch_action_def applied_def)

text \<open>A thunk started on the side that does not wait has finished when the other one goes on.\<close>

lemma exec_nowait: "snd (sync R p w) = [] \<Longrightarrow> snd (exec R srv p w) = (\<lambda>v. v)"
  by (induction p arbitrary: w) (auto simp: split_beta Let_def exec_world split: if_splits)

lemma run_spawn_nowait:
  "snd (sync R p w) = [] \<Longrightarrow> run R srv (Spawn p q) w = run R srv q (fst (sync R p w))"
  by (simp add: exec_nowait exec_world)

lemma oidc_marker_deleted [simp]:
  "\<not> usingOIDCToken (AList.delete AuthTokenOIDCKey ls)"
  "getAuthToken (AList.delete AuthTokenOIDCKey ls) = getAuthToken ls"
  by (simp_all add: usingOIDCToken_def getAuthToken_def)

section \<open>What a session change does\<close>

definition logged_out :: "IAuthState \<Rightarrow> IAuthState" where
  "logged_out a = a\<lparr>authenticated := False, oidcAuthenticated := False, authenticating := False\<rparr>"

text \<open>The world after \<open>logout\<close>, for the clusters the page was loaded with.\<close>

definition logout_world :: "IClusterState jsobj \<Rightarrow> world \<Rightarrow> world" where
  "logout_world init w =
     (if usingOIDCToken (w_ls w)
      then w\<lparr>w_locations := w_locations w @
               [str_or (oauthLogoutURI (st_config (w_store w))) ''/oauth2/sign_out''],
             w_ls := unsetStoredNamespace (AList.delete AuthTokenOIDCKey (w_ls w))\<rparr>
      else w\<lparr>w_store := (w_store w)\<lparr>st_auth := logged_out (st_auth (w_store w)),
               st_clusters := (st_clusters (w_store w))\<lparr>cl_clusters := init\<rparr>\<rparr>,
             w_log := w_log w @ [AuthA (SetAuthenticated False False), NamespaceA ClearClusters],
             w_ls := unsetStoredNamespace (unsetAuthToken (w_ls w))\<rparr>)"

definition expire_world :: "IClusterState jsobj \<Rightarrow> world \<Rightarrow> world" where
  "expire_world init w =
     logout_world init
       (if usingOIDCToken (w_ls w)
        then applied (AuthA (SetSessionExpired True))
               (\<lambda>s. s\<lparr>st_auth := (st_auth s)\<lparr>sessionExpired := True\<rparr>\<rparr>) w
        else w)"

definition unauthorized_world :: "IClusterState jsobj \<Rightarrow> world \<Rightarrow> world" where
  "unauthorized_world init w =
     expire_world init
       (applied (AuthA (AuthenticationError ''Unauthorized''))
          (\<lambda>s. s\<lparr>st_auth := (st_auth s)\<lparr>auth_error := Some ''Unauthorized'', authenticating := False\<rparr>\<rparr>)
          (logout_world init w))"

lemma sync_logout [simp]:
  "sync (rootReducer L init) (logout k h) w = sync (rootReducer L init) (k ()) (logout_world init w)"
  by (simp add: logout_def thunk_simps logout_world_def logged_out_def applied_def)

lemma exec_logout [simp]:
  "exec (rootReducer L init) srv (logout k h) w =
     exec (rootReducer L init) srv (k ()) (logout_world init w)"
  by (simp add: logout_def thunk_simps logout_world_def logged_out_def applied_def)

lemma run_logout [simp]:
  "run (rootReducer L init) srv (logout k h) w =
     run (rootReducer L init) srv (k ()) (logout_world init w)"
  by (simp add: run_def)

lemma sync_expireSession [simp]:
  "sync (rootReducer L init) (expireSession k h) w =
     sync (rootReducer L init) (k ()) (expire_world init w)"
  by (simp add: expireSession_def thunk_simps expire_world_def)

lemma exec_expireSession [simp]:
  "exec (rootReducer L init) srv (expireSession k h) w =
     exec (rootReducer L init) srv (k ()) (expire_world init w)"
  by (simp add: expireSession_def thunk_simps expire_world_def)

lemma run_expireSession [simp]:
  "run (rootReducer L init) srv (expireSession k h) w =
     run (rootReducer L init) srv (k ()) (expire_world init w)"
  by (simp add: run_def)

lemma sync_logoutByAuthenticationError [simp]:
  "sync (rootReducer L init) (logoutByAuthenticationError k h) w =
     sync (rootReducer L init) (k ()) (unauthorized_world init w)"
  by (simp add: logoutByAuthenticationError_def thunk_simps unauthorized_world_def split_beta)

lemma exec_logoutByAuthenticationError [simp]:
  "exec (rootReducer L init) srv (logoutByAuthenticationError k h) w =
     exec (rootReducer L init) srv (k ()) (unauthorized_world init w)"
  by (simp add: logoutByAuthenticationError_def thunk_simps unauthorized_world_def split_beta)

lemma run_logoutByAuthenticationError [simp]:
  "run (rootReducer L init) srv (logoutByAuthenticationError k h) w =
     run (rootReducer L init) srv (k ()) (unauthorized_world init w)"
  by (simp add: run_def)

lemma exec_handleErrorAction [simp]:
  "exec (rootReducer L init) srv (handleErrorAction e a k h) w =
     (if is_unauthorized e then exec (rootReducer L init) srv (k ()) (unauthorized_world init w)
      else exec (rootReducer L init) srv (dispatchT a k h) w)"
  by (simp add: handleErrorAction_def thunk_simps)

lemma run_handleErrorAction [simp]:
  "run (rootReducer L init) srv (handleErrorAction e a k h) w =
     (if is_unauthorized e then run (rootReducer L init) srv (k ()) (unauthorized_world init w)
      else run (rootReducer L init) srv (dispatchT a k h) w)"
  by (simp add: run_def)

lemma sync_handleErrorAction [simp]:
  "sync (rootReducer L init) (handleErrorAction e a k h) w =
     (if is_unauthorized e then sync (rootReducer L init) (k ()) (unauthorized_world init w)
      else sync (rootReducer L init) (dispatchT a k h) w)"
  by (simp add: handleErrorAction_def thunk_simps)

lemmas thunk_core = returnT_def throwT_def bindT_def thenT_def tryT_def

text \<open>Running through the two branches of a dispatch and of a call.\<close>

lemma run_dispatchT:
  "run R srv (dispatchT a k h) w =
     (case dispatch_action R a w of
        (None, w') \<Rightarrow> run R srv (k ()) w' | (Some e, w') \<Rightarrow> run R srv (h e) w')"
  by (simp add: thunk_simps split_beta split: option.split prod.split)

text \<open>The reply of a server to a call, as the thunk that sends it sees it.\<close>

definition call_result ::
  "server \<Rightarrow> storage \<Rightarrow> grpc_call \<Rightarrow> (response \<Rightarrow> 'r option) \<Rightarrow> js_error + 'r" where
  "call_result srv ls call d =
     (case srv (Grpc (request_token None ls) call) of
        Inl e \<Rightarrow> Inl (convertGrpcAuthError e)
      | Inr r \<Rightarrow> (case d r of None \<Rightarrow> Inl decode_error | Some x \<Rightarrow> Inr x))"

lemma run_grpc [simp]:
  "run R srv (grpc call d k h) w =
     (case call_result srv (w_ls w) call d of
        Inl e \<Rightarrow> run R srv (h e) (send [Grpc (request_token None (w_ls w)) call] w)
      | Inr x \<Rightarrow> run R srv (k x) (send [Grpc (request_token None (w_ls w)) call] w))"
  by (simp add: thunk_simps call_result_def decodeT_def split: sum.split option.split)

section \<open>Properties\<close>

text \<open>Whether the backend accepts a token: it answers, or it denies the authenticated user.\<close>

definition token_accepted :: "server \<Rightarrow> storage \<Rightarrow> string \<Rightarrow> string \<Rightarrow> bool" where
  "token_accepted srv ls cluster token =
     (case srv (Grpc (request_token (Some token) ls)
                 (CheckNamespaceExists \<lparr>ctx_cluster = cluster, ctx_namespace = ''default''\<rparr>)) of
        Inl e \<Rightarrow> error_code e = Some PermissionDenied
      | Inr r \<Rightarrow> True)"

definition token_error :: "js_error \<Rightarrow> js_error" where
  "token_error e =
     (if error_code e = Some Unauthenticated then newError UnauthorizedNetworkError ''invalid token''
      else if error_code e = Some NotFoundCode then newError NotFoundNetworkError ''not found''
      else if error_code e = Some InternalCode
      then newError InternalServerNetworkError ''internal error''
      else newError InternalServerNetworkError (show_code (error_code e) @ '': '' @ error_message e))"

lemma run_validateToken:
  "token_accepted srv (w_ls w) cluster token \<Longrightarrow>
     run R srv (validateToken cluster token k h) w =
       run R srv (k ()) (send [Grpc (request_token (Some token) (w_ls w))
         (CheckNamespaceExists \<lparr>ctx_cluster = cluster, ctx_namespace = ''default''\<rparr>)] w)"
  by (auto simp: validateToken_def thunk_simps token_accepted_def split: sum.splits)

lemma run_validateToken_error:
  assumes "\<not> token_accepted srv (w_ls w) cluster token"
  obtains e where "\<And>R k h. run R srv (validateToken cluster token k h) w =
       run R srv (h (token_error e)) (send [Grpc (request_token (Some token) (w_ls w))
         (CheckNamespaceExists \<lparr>ctx_cluster = cluster, ctx_namespace = ''default''\<rparr>)] w)"
proof -
  from assms obtain e where e: "srv (Grpc (request_token (Some token) (w_ls w))
      (CheckNamespaceExists \<lparr>ctx_cluster = cluster, ctx_namespace = ''default''\<rparr>)) = Inl e"
    and code: "error_code e \<noteq> Some PermissionDenied"
    by (auto simp: token_accepted_def split: sum.splits)
  show ?thesis
    by (rule that [of e]) (simp add: validateToken_def thunk_simps e code token_error_def)
qed

text \<open>
  C2: Signing in with a token. The dashboard sends the token once, keeps it in the local storage
  and reports the user as authenticated exactly when the backend accepts it (it answers, or denies
  an authenticated user); otherwise the storage is untouched and an error is recorded.
\<close>
theorem authenticate_token:
  "let w' = runT (rootReducer L init) srv (authenticate cluster token False) w;
       ok = token_accepted srv (w_ls w) cluster token;
       auth = st_auth (w_store w')
   in w_ls w' = (if ok then setAuthToken token False (w_ls w) else w_ls w) \<and>
      authenticated auth = ok \<and> \<not> authenticating auth \<and>
      (auth_error auth = None) = (ok \<and> auth_error (st_auth (w_store w)) = None) \<and>
      w_sent w' = w_sent w @ [Grpc (request_token (Some token) (w_ls w))
        (CheckNamespaceExists \<lparr>ctx_cluster = cluster, ctx_namespace = ''default''\<rparr>)]"
proof (cases "token_accepted srv (w_ls w) cluster token")
  case True
  then show ?thesis
    by (simp add: runT_def authenticate_def thenT_def tryT_def run_dispatchT run_validateToken)
      (simp add: thunk_simps)
next
  case False
  define w0 where "w0 = applied (AuthA Authenticating)
    (\<lambda>s. s\<lparr>st_auth := (st_auth s)\<lparr>authenticated := False, authenticating := True\<rparr>\<rparr>) w"
  have start: "dispatch_action (rootReducer L init) (AuthA Authenticating) w = (None, w0)"
    by (simp add: w0_def)
  have "\<not> token_accepted srv (w_ls w0) cluster token" using False by (simp add: w0_def)
  from run_validateToken_error [OF this] obtain e where
    "\<And>R k h. run R srv (validateToken cluster token k h) w0 =
       run R srv (h (token_error e)) (send [Grpc (request_token (Some token) (w_ls w0))
         (CheckNamespaceExists \<lparr>ctx_cluster = cluster, ctx_namespace = ''default''\<rparr>)] w0)"
    by blast
  with False show ?thesis
    by (simp add: runT_def authenticate_def thenT_def tryT_def run_dispatchT start del: dispatch_auth)
      (simp add: w0_def run_dispatchT)
qed

text \<open>
  An error of class \<open>UnauthorizedNetworkError\<close> under an OIDC session. The thunk signs the user out
  and sends the browser to the sign-out page once, but never marks the session as expired:
  \<open>logout\<close> has removed the OIDC marker before \<open>expireSession\<close> reads it.
\<close>
theorem oidc_logout_never_expires:
  assumes "usingOIDCToken (w_ls w)"
  shows "let w' = runT (rootReducer L init) srv logoutByAuthenticationError w
         in sessionExpired (st_auth (w_store w')) = sessionExpired (st_auth (w_store w)) \<and>
            \<not> authenticated (st_auth (w_store w')) \<and>
            auth_error (st_auth (w_store w')) = Some ''Unauthorized'' \<and>
            w_locations w' = w_locations w @
              [str_or (oauthLogoutURI (st_config (w_store w))) ''/oauth2/sign_out''] \<and>
            \<not> usingOIDCToken (w_ls w') \<and> getAuthToken (w_ls w') = None"
  using assms
  by (simp add: runT_def unauthorized_world_def expire_world_def logout_world_def logged_out_def)

theorem oidc_logout_never_expires_witness:
  "\<not> sessionExpired (st_auth (w_store
     (runT (rootReducer sample_lib []) unavailable_server logoutByAuthenticationError
       (sample_world oidc_storage))))"
  using oidc_logout_never_expires [of "sample_world oidc_storage" sample_lib "[]" unavailable_server]
  by (simp add: Let_def initialStore_def auth_initialState_def)

end
