(* ===== verification/Axios.thy ===== *)
theory Axios
  imports Auth_Actions
begin

text \<open>
  The HTTP clients (\<open>shared/AxiosInstance.ts\<close>): the header with the stored token, and the
  interceptor that turns the status of a failed request into an error of the dashboard and ends
  the session where the failure means that it is over.
\<close>

section \<open>JSON values in messages\<close>

text \<open>A value inside a template string.\<close>

definition show_json :: "lib \<Rightarrow> json option \<Rightarrow> string" where
  "show_json L v = (case v of None \<Rightarrow> ''undefined'' | Some (JStr s) \<Rightarrow> s | Some w \<Rightarrow> json_String L w)"

section \<open>Classifying a failed request\<close>

definition is403FromAuthProxy :: "nat \<Rightarrow> json \<Rightarrow> bool" where
  "is403FromAuthProxy status body =
     (if (case body of JStr s \<Rightarrow> s \<noteq> [] \<and> str_includes s ''system:serviceaccount'' | _ \<Rightarrow> False)
      then False
      else status = 403 \<and> (\<not> json_truthy body \<or> \<not> member_truthy body ''message''))"

definition isAnonymous :: "json \<Rightarrow> bool" where
  "isAnonymous body =
     (case (if member_truthy body ''message'' then json_member body ''message'' else Some body) of
        Some (JStr msg) \<Rightarrow> str_includes msg ''system:anonymous''
      | _ \<Rightarrow> False)"

text \<open>
  The message of the error: the string a reply consists of, else its \<open>message\<close>, else the error's
  own. Reading a member of a null body raises.
\<close>

definition failure_message :: "lib \<Rightarrow> axios_error \<Rightarrow> js_error + string" where
  "failure_message L err =
     (case ax_response err of
        None \<Rightarrow> Inr (ax_message err)
      | Some (status, JNull) \<Rightarrow> Inl (TypeError ''Cannot read properties of null'')
      | Some (status, JStr s) \<Rightarrow> Inr s
      | Some (status, body) \<Rightarrow>
          Inr (if member_truthy body ''message'' then show_json L (json_member body ''message'')
               else ax_message err))"

text \<open>One missing permission, as the message of a 403 lists it.\<close>

definition show_verb :: "lib \<Rightarrow> json \<Rightarrow> string" where
  "show_verb L v = (case v of JNull \<Rightarrow> [] | _ \<Rightarrow> show_json L (Some v))"

definition show_role :: "lib \<Rightarrow> json \<Rightarrow> string option" where
  "show_role L role =
     (case json_member role ''verbs'' of
        Some (JArr verbs) \<Rightarrow>
          Some (''apiGroup: \"'' @ show_json L (json_member role ''apiGroup'') @
                ''\", resource: \"'' @ show_json L (json_member role ''resource'') @
                ''\", action: \"'' @ join '', '' (map (show_verb L) verbs) @ ''\", '' @
                (if member_truthy role ''clusterWide'' then ''in all namespaces''
                 else ''namespace: '' @ show_json L (json_member role ''namespace'')))
      | _ \<Rightarrow> None)"

fun show_roles :: "lib \<Rightarrow> json list \<Rightarrow> string list option" where
  "show_roles L [] = Some []"
| "show_roles L (r # rs) =
     (case (show_role L r, show_roles L rs) of (Some s, Some ss) \<Rightarrow> Some (s # ss) | _ \<Rightarrow> None)"

definition forbidden_message :: "lib \<Rightarrow> string \<Rightarrow> string" where
  "forbidden_message L message =
     (case json_parse L message of
        Inr (JArr roles) \<Rightarrow>
          (case show_roles L roles of
             Some ss \<Rightarrow> ''Forbidden error, missing permissions: '' @ join ''; '' ss
           | None \<Rightarrow> message)
      | _ \<Rightarrow> message)"

text \<open>The error the caller sees.\<close>

definition failure_error :: "lib \<Rightarrow> nat option \<Rightarrow> string \<Rightarrow> js_error" where
  "failure_error L status message =
     (if status = Some 401 then newError UnauthorizedNetworkError message
      else if status = Some 403 then newError ForbiddenNetworkError (forbidden_message L message)
      else if status = Some 404 then newError NotFoundNetworkError message
      else if status = Some 409 then newError ConflictNetworkError message
      else if status = Some 422 then newError UnprocessableEntityError message
      else if status = Some 500 then newError InternalServerNetworkError message
      else JsError message)"

text \<open>Whether the failure ends the session.\<close>

definition ends_session :: "axios_error \<Rightarrow> bool" where
  "ends_session err =
     (case ax_response err of
        None \<Rightarrow> False
      | Some (status, body) \<Rightarrow>
          status = 401 \<or> (status = 403 \<and> (is403FromAuthProxy status body \<or> isAnonymous body)))"

section \<open>The interceptors\<close>

definition addAuthHeaders :: "storage \<Rightarrow> string option" where
  "addAuthHeaders ls = (if truthy (getAuthToken ls) then getAuthToken ls else None)"

definition dispatchErrorAndLogout :: "string \<Rightarrow> unit thunk" where
  "dispatchErrorAndLogout m =
     thenT (dispatchT (AuthA (AuthenticationError m))) (spawnT expireSession)"

definition addErrorHandling :: "lib \<Rightarrow> axios_error \<Rightarrow> 'r thunk" where
  "addErrorHandling L err =
     thenT (bindT readStorage (\<lambda>ls.
              if ax_code err = None \<and> ax_message err = ''Network Error'' \<and> ax_response err = None \<and>
                 usingOIDCToken ls
              then spawnT expireSession else returnT ()))
       (case failure_message L err of
          Inl e \<Rightarrow> throwT e
        | Inr message \<Rightarrow>
            thenT (if ends_session err then dispatchErrorAndLogout message else returnT ())
              (throwT (failure_error L (map_option fst (ax_response err)) message)))"

text \<open>A reply behind both interceptors, read at a shape.\<close>

definition axios_reply ::
  "lib \<Rightarrow> (http_data \<Rightarrow> 'r option) \<Rightarrow> js_error + response \<Rightarrow> (nat \<times> 'r) thunk" where
  "axios_reply L d reply =
     (case reply of
        Inl e \<Rightarrow> throwT e
      | Inr (RHttp status x) \<Rightarrow>
          (case d x of None \<Rightarrow> throwT decode_error | Some y \<Rightarrow> returnT (status, y))
      | Inr (RAxios err) \<Rightarrow> addErrorHandling L err
      | Inr _ \<Rightarrow> throwT decode_error)"

definition axiosWithAuth ::
  "lib \<Rightarrow> http_method \<Rightarrow> string \<Rightarrow> json option \<Rightarrow> (http_data \<Rightarrow> 'r option) \<Rightarrow> (nat \<times> 'r) thunk"
where
  "axiosWithAuth L m url body d =
     bindT readStorage (\<lambda>ls k h.
       Await (Http m url (addAuthHeaders ls) body) (\<lambda>r. axios_reply L d r k h))"

text \<open>The requests still open after the one at a position was answered.\<close>

definition remove_nth :: "nat \<Rightarrow> 'a list \<Rightarrow> 'a list" where
  "remove_nth i xs = take i xs @ drop (Suc i) xs"

text \<open>The data of the reply alone.\<close>

definition axiosData ::
  "lib \<Rightarrow> http_method \<Rightarrow> string \<Rightarrow> json option \<Rightarrow> (http_data \<Rightarrow> 'r option) \<Rightarrow> 'r thunk" where
  "axiosData L m url body d = bindT (axiosWithAuth L m url body d) (\<lambda>(status, x). returnT x)"

section \<open>Running the interceptors\<close>

definition failure_world :: "lib \<Rightarrow> IClusterState jsobj \<Rightarrow> axios_error \<Rightarrow> world \<Rightarrow> world" where
  "failure_world L init err w =
     (let w1 = (if ax_code err = None \<and> ax_message err = ''Network Error'' \<and> ax_response err = None \<and>
                   usingOIDCToken (w_ls w) then expire_world init w else w)
      in case failure_message L err of
           Inl e \<Rightarrow> w1
         | Inr message \<Rightarrow>
             if ends_session err
             then expire_world init (applied (AuthA (AuthenticationError message))
                    (\<lambda>s. s\<lparr>st_auth := (st_auth s)\<lparr>auth_error := Some message, authenticating := False\<rparr>\<rparr>) w1)
             else w1)"

definition thrown_failure :: "lib \<Rightarrow> axios_error \<Rightarrow> js_error" where
  "thrown_failure L err =
     (case failure_message L err of
        Inl e \<Rightarrow> e | Inr message \<Rightarrow> failure_error L (map_option fst (ax_response err)) message)"

lemma failure_world_slices [simp]:
  "st_operators (w_store (failure_world L init err w)) = st_operators (w_store w)"
  "st_kube (w_store (failure_world L init err w)) = st_kube (w_store w)"
  "w_sent (failure_world L init err w) = w_sent w"
  by (cases "failure_message L err"; simp add: failure_world_def expire_world_def logout_world_def Let_def)+

lemma exec_addErrorHandling:
  "exec (rootReducer L init) srv (addErrorHandling L err k h) w =
     exec (rootReducer L init) srv (h (thrown_failure L err)) (failure_world L init err w)"
  by (cases "failure_message L err")
    (simp_all add: addErrorHandling_def dispatchErrorAndLogout_def thunk_simps failure_world_def
      thrown_failure_def split_beta)

lemma run_addErrorHandling [simp]:
  "run (rootReducer L init) srv (addErrorHandling L err k h) w =
     run (rootReducer L init) srv (h (thrown_failure L err)) (failure_world L init err w)"
  by (simp add: run_def exec_addErrorHandling)

definition http_request :: "http_method \<Rightarrow> string \<Rightarrow> json option \<Rightarrow> storage \<Rightarrow> request" where
  "http_request m url body ls = Http m url (addAuthHeaders ls) body"

text \<open>What a request comes to: the value read, or the error thrown with the failure behind it.\<close>

definition http_result ::
  "lib \<Rightarrow> server \<Rightarrow> storage \<Rightarrow> http_method \<Rightarrow> string \<Rightarrow> json option \<Rightarrow> (http_data \<Rightarrow> 'r option)
     \<Rightarrow> (js_error \<times> axios_error option) + (nat \<times> 'r)" where
  "http_result L srv ls m url body d =
     (case srv (http_request m url body ls) of
        Inl e \<Rightarrow> Inl (e, None)
      | Inr (RHttp status x) \<Rightarrow>
          (case d x of None \<Rightarrow> Inl (decode_error, None) | Some y \<Rightarrow> Inr (status, y))
      | Inr (RAxios err) \<Rightarrow> Inl (thrown_failure L err, Some err)
      | Inr _ \<Rightarrow> Inl (decode_error, None))"

definition after_failure ::
  "lib \<Rightarrow> IClusterState jsobj \<Rightarrow> axios_error option \<Rightarrow> world \<Rightarrow> world" where
  "after_failure L init f w = (case f of None \<Rightarrow> w | Some err \<Rightarrow> failure_world L init err w)"

lemma after_failure_slices [simp]:
  "st_operators (w_store (after_failure L init f w)) = st_operators (w_store w)"
  "st_kube (w_store (after_failure L init f w)) = st_kube (w_store w)"
  "w_sent (after_failure L init f w) = w_sent w"
  by (simp_all add: after_failure_def split: option.split)

lemma run_axiosWithAuth [simp]:
  "run (rootReducer L init) srv (axiosWithAuth L m url body d k h) w =
     (let w' = send [http_request m url body (w_ls w)] w
      in case http_result L srv (w_ls w) m url body d of
           Inl (e, f) \<Rightarrow> run (rootReducer L init) srv (h e) (after_failure L init f w')
         | Inr y \<Rightarrow> run (rootReducer L init) srv (k y) w')"
  by (simp add: axiosWithAuth_def axios_reply_def bindT_def readStorage_def http_result_def
      http_request_def after_failure_def throwT_def returnT_def Let_def
      split: sum.split option.split response.split)

definition http_data ::
  "lib \<Rightarrow> server \<Rightarrow> storage \<Rightarrow> http_method \<Rightarrow> string \<Rightarrow> json option \<Rightarrow> (http_data \<Rightarrow> 'r option)
     \<Rightarrow> (js_error \<times> axios_error option) + 'r" where
  "http_data L srv ls m url body d = map_sum (\<lambda>e. e) snd (http_result L srv ls m url body d)"

lemma run_axiosData [simp]:
  "run (rootReducer L init) srv (axiosData L m url body d k h) w =
     (let w' = send [http_request m url body (w_ls w)] w
      in case http_data L srv (w_ls w) m url body d of
           Inl (e, f) \<Rightarrow> run (rootReducer L init) srv (h e) (after_failure L init f w')
         | Inr y \<Rightarrow> run (rootReducer L init) srv (k y) w')"
  by (auto simp: axiosData_def bindT_def returnT_def http_data_def Let_def split: sum.split)

section \<open>Properties\<close>


definition status_server :: "nat \<Rightarrow> json \<Rightarrow> server" where
  "status_server status body q =
     Inr (RAxios \<lparr>ax_code = Some ''ERR_BAD_REQUEST'', ax_message = ''Request failed'',
                  ax_response = Some (status, body)\<rparr>)"


text \<open>
  A 403 whose body is an API error with a message that does not name the anonymous user, the
  answer to a user without permission. Nothing is dispatched and the browser is left alone: the
  only change is the request itself.
\<close>
theorem http_403_keeps_session:
  assumes "srv (http_request m url b (w_ls w)) = Inr (RAxios err)"
    and "ax_response err = Some (403, JObj ms)"
    and "obj_get ms ''message'' = Some (JStr msg)" and "msg \<noteq> []"
    and "\<not> str_includes msg ''system:anonymous''"
  shows "runT (rootReducer L init) srv (axiosWithAuth L m url b d) w =
           send [http_request m url b (w_ls w)] w"
  using assms
  by (simp add: runT_def http_result_def after_failure_def failure_world_def ends_session_def
      failure_message_def member_truthy_def is403FromAuthProxy_def isAnonymous_def Let_def)

lemma denied_not_anonymous: "\<not> str_includes ''denied'' ''system:anonymous''"
  by code_simp

theorem http_403_keeps_session_witness:
  "w_log (runT (rootReducer sample_lib []) (status_server 403 (JObj [(''message'', JStr ''denied'')]))
     (axiosWithAuth sample_lib GET ''api'' None (\<lambda>x. Some x)) (sample_world oidc_storage)) = []"
  using http_403_keeps_session [of "status_server 403 (JObj [(''message'', JStr ''denied'')])" GET
      "''api''" None "sample_world oidc_storage"
      "\<lparr>ax_code = Some ''ERR_BAD_REQUEST'', ax_message = ''Request failed'',
        ax_response = Some (403, JObj [(''message'', JStr ''denied'')])\<rparr>"
      "[(''message'', JStr ''denied'')]" "''denied''" sample_lib "[]" "\<lambda>x. Some x"]
  by (simp add: status_server_def denied_not_anonymous)

end
