(* ===== verification/Config_Actions.thy ===== *)
theory Config_Actions
  imports Auth_Actions
begin

text \<open>
  The configuration of the dashboard and its theme (\<open>shared/Config.ts\<close>, \<open>actions/config.ts\<close>).
\<close>

section \<open>Themes\<close>

definition userThemeKey :: string where "userThemeKey = ''user-theme''"

text \<open>\<open>SupportedThemes[name]\<close>: \<open>undefined\<close> for a name that is no theme.\<close>

definition theme_of :: "string \<Rightarrow> SupportedThemes option" where
  "theme_of name =
     (if name = ''dark'' then Some dark else if name = ''light'' then Some light else None)"

definition chooseTheme :: "storage \<Rightarrow> bool \<Rightarrow> string option \<Rightarrow> SupportedThemes" where
  "chooseTheme ls prefers_dark systemName =
     (let systemTheme = (case systemName of None \<Rightarrow> None | Some n \<Rightarrow> theme_of n);
          userTheme = (case obj_get ls userThemeKey of None \<Rightarrow> None | Some n \<Rightarrow> theme_of n);
          browserTheme = (if prefers_dark then dark else light)
      in case userTheme of
           Some t \<Rightarrow> t
         | None \<Rightarrow> (case systemTheme of Some t \<Rightarrow> t | None \<Rightarrow> browserTheme))"

definition setTheme :: "SupportedThemes \<Rightarrow> unit thunk" where
  [thunk_simps]: "setTheme theme k h = SetTheme (theme_string theme) (k ())"

definition config_setUserTheme :: "SupportedThemes \<Rightarrow> unit thunk" where
  [thunk_simps]: "config_setUserTheme theme =
     thenT (setTheme theme) (updateStorage (obj_set userThemeKey (theme_string theme)))"

section \<open>Fetching the configuration\<close>

text \<open>The configuration comes from a plain client: a failure is an ordinary error.\<close>

definition config_request :: request where
  "config_request = Http GET api_config None None"

definition fetch_config :: "IConfig thunk" where
  [thunk_simps]: "fetch_config =
     bindT (awaitT config_request) (\<lambda>r. case r of
         RHttp status (DConfig c) \<Rightarrow> returnT c
       | RAxios err \<Rightarrow> throwT (JsError (ax_message err))
       | _ \<Rightarrow> throwT decode_error)"

fun plugins_reply :: "response \<Rightarrow> Plugin list option" where
  "plugins_reply (RPlugins ps) = Some ps"
| "plugins_reply _ = None"

definition getConfiguredPlugins :: "Plugin list thunk" where
  "getConfiguredPlugins = grpc GetConfiguredPlugins plugins_reply"

definition getConfig :: "unit thunk" where
  "getConfig =
     thenT (dispatchT (ConfigA RequestConfig))
       (tryT
         (bindT fetch_config (\<lambda>config.
          bindT getConfiguredPlugins (\<lambda>plugins.
            dispatchT (ConfigA (ReceiveConfig (config\<lparr>configuredPlugins := plugins\<rparr>))))))
         (\<lambda>e. dispatchT (ConfigA (ErrorConfig e))))"

definition getTheme :: "unit thunk" where
  "getTheme =
     tryT
       (bindT fetch_config (\<lambda>config k h. Read (\<lambda>w.
          (let theme = chooseTheme (w_ls w) (w_prefers_dark w) (config_theme config) in
           thenT (setTheme theme) (dispatchT (ConfigA (ReceiveTheme theme))) k h))))
       (\<lambda>e. dispatchT (ConfigA (ErrorConfig e)))"

definition setUserTheme :: "SupportedThemes \<Rightarrow> unit thunk" where
  "setUserTheme theme =
     thenT (config_setUserTheme theme) (dispatchT (ConfigA (ReceiveTheme theme)))"

section \<open>Running\<close>

lemma dispatch_config [simp]:
  "\<forall>c. a \<noteq> ReceiveConfig c \<Longrightarrow>
     dispatch_action (rootReducer L init) (ConfigA a) w =
       (None, applied (ConfigA a) (\<lambda>s. s\<lparr>st_config := configReducer (st_config s) (ConfigA a)\<rparr>) w)"
  by (simp add: dispatch_action_def applied_def)

lemma dispatch_receiveConfig [simp]:
  "dispatch_action (rootReducer L init) (ConfigA (ReceiveConfig c)) w =
     (None, applied (ConfigA (ReceiveConfig c))
        (\<lambda>s. s\<lparr>st_config := spread_config (st_config s) c,
               st_clusters := config_step (st_clusters s) c\<rparr>) w)"
  by (simp add: dispatch_action_def applied_def rootReducer_receiveConfig)

lemma theme_of_string [simp]: "theme_of (theme_string t) = Some t"
  by (cases t) (simp_all add: theme_of_def theme_string_def)

text \<open>The configuration a server answers with.\<close>

definition fetched_config :: "server \<Rightarrow> js_error + IConfig" where
  "fetched_config srv = (case srv config_request of
     Inl e \<Rightarrow> Inl e
   | Inr (RHttp status (DConfig c)) \<Rightarrow> Inr c
   | Inr (RAxios err) \<Rightarrow> Inl (JsError (ax_message err))
   | Inr _ \<Rightarrow> Inl decode_error)"

lemma run_fetch_config:
  "run R srv (fetch_config k h) w =
     (case fetched_config srv of
        Inl e \<Rightarrow> run R srv (h e) (send [config_request] w)
      | Inr c \<Rightarrow> run R srv (k c) (send [config_request] w))"
  by (auto simp: fetch_config_def fetched_config_def bindT_def awaitT_def throwT_def returnT_def
      split: sum.split response.split http_data.split)

lemma config_step_current:
  "cl_currentCluster (config_step s c) =
     (case config_clusters c of [] \<Rightarrow> None | k # ks \<Rightarrow> Some k)"
  by (simp add: config_step_def)

lemma config_step_wf_iff: "clusters_wf (config_step s c) = (config_clusters c \<noteq> [])"
proof (cases "config_clusters c")
  case Nil
  then show ?thesis by (simp add: clusters_wf_def)
qed (simp add: config_step_wf)

section \<open>Properties\<close>

text \<open>
  A theme the user chose is the one the page shows and keeps: choosing it sets it in the page, in
  the store and in the local storage, and the next time the theme is computed it wins over the
  theme of the configuration and over the preference of the browser.
\<close>
theorem user_theme_kept:
  "let w' = runT (rootReducer L init) srv (setUserTheme theme) w
   in w_theme w' = Some (theme_string theme) \<and>
      config_theme (st_config (w_store w')) = Some (theme_string theme) \<and>
      chooseTheme (w_ls w') prefers_dark systemName = theme"
  by (simp add: runT_def setUserTheme_def thunk_simps chooseTheme_def Let_def)

text \<open>
  Loading the configuration. When both the configuration and the plugins arrive, the store has
  them, the first cluster is selected and every cluster starts without a namespace; the well-formedness
  of the clusters is re-established whatever the state was. When a request fails, the error is
  recorded and the clusters are untouched.
\<close>
theorem config_loads_clusters:
  "let w' = runT (rootReducer L init) srv getConfig w;
       cfg = srv config_request;
       plugins = call_result srv (w_ls w) GetConfiguredPlugins plugins_reply;
       clusters = st_clusters (w_store w')
   in (case (cfg, plugins) of
         (Inr (RHttp status (DConfig c)), Inr ps) \<Rightarrow>
           loaded (st_config (w_store w')) \<and> configuredPlugins (st_config (w_store w')) = ps \<and>
           cl_currentCluster clusters = (case config_clusters c of [] \<Rightarrow> None | k # ks \<Rightarrow> Some k) \<and>
           clusters_wf clusters = (config_clusters c \<noteq> []) \<and>
           map_of (cl_clusters clusters) =
             (\<lambda>k. if k \<in> set (config_clusters c) then Some (fresh_cluster []) else None)
       | _ \<Rightarrow> config_error (st_config (w_store w')) \<noteq> None \<and>
              clusters = st_clusters (w_store w))"
proof -
  define w0 where "w0 = send [config_request] (applied (ConfigA RequestConfig)
    (\<lambda>s. s\<lparr>st_config := config_initialState\<rparr>) w)"
  have start: "runT (rootReducer L init) srv getConfig w =
      (case fetched_config srv of
         Inl e \<Rightarrow> run (rootReducer L init) srv (dispatchT (ConfigA (ErrorConfig e)) (\<lambda>_. Stop) (\<lambda>_. Stop)) w0
       | Inr c \<Rightarrow> run (rootReducer L init) srv
           (tryT (bindT getConfiguredPlugins (\<lambda>plugins.
              dispatchT (ConfigA (ReceiveConfig (c\<lparr>configuredPlugins := plugins\<rparr>)))))
              (\<lambda>e. dispatchT (ConfigA (ErrorConfig e))) (\<lambda>_. Stop) (\<lambda>_. Stop)) w0)"
    unfolding w0_def
    by (simp add: runT_def getConfig_def thenT_def tryT_def bindT_def run_dispatchT run_fetch_config
        split: sum.split)
  show ?thesis
  proof (cases "fetched_config srv")
    case (Inl e)
    then show ?thesis
      by (auto simp: start run_dispatchT w0_def fetched_config_def Let_def
          split: sum.splits response.splits http_data.splits)
  next
    case (Inr c)
    then have "\<exists>status. srv config_request = Inr (RHttp status (DConfig c))"
      by (auto simp: fetched_config_def split: sum.splits response.splits http_data.splits)
    then show ?thesis using Inr
      by (auto simp: start getConfiguredPlugins_def tryT_def bindT_def run_dispatchT w0_def Let_def
          config_step_wf_iff config_step_current fun_eq_iff spread_config_def split: sum.split)
  qed
qed

end
