(* ===== verification/Namespace_Actions.thy ===== *)
theory Namespace_Actions
  imports Auth_Actions
begin

text \<open>
  The thunks of the namespaces (\<open>actions/namespace.ts\<close>, the service class of
  \<open>shared/Namespace.ts\<close>) and the check of a permission (\<open>canI\<close> of \<open>shared/Kube.ts\<close>).
\<close>

section \<open>Services\<close>

definition namespace_list :: "string \<Rightarrow> string list thunk" where
  "namespace_list cluster = grpc (GetNamespaceNames cluster) names_reply"

definition namespace_create :: "string \<Rightarrow> string \<Rightarrow> string jsobj \<Rightarrow> unit thunk" where
  "namespace_create cluster namespace labels =
     grpc (CreateNamespace \<lparr>ctx_cluster = cluster, ctx_namespace = namespace\<rparr> labels) done_reply"

definition namespace_exists :: "string \<Rightarrow> string \<Rightarrow> bool thunk" where
  "namespace_exists cluster namespace =
     grpc (CheckNamespaceExists \<lparr>ctx_cluster = cluster, ctx_namespace = namespace\<rparr>) bool_reply"

text \<open>\<open>Kube.canI\<close> never raises: an error counts as a missing permission.\<close>

definition canI :: "string \<Rightarrow> string \<Rightarrow> string \<Rightarrow> string \<Rightarrow> string \<Rightarrow> bool thunk" where
  "canI cluster grp resource verb namespace =
     tryT (if cluster = [] then returnT False
           else bindT (rpc None (CanI \<lparr>ctx_cluster = cluster, ctx_namespace = namespace\<rparr>
                          grp resource verb)) (decodeT bool_reply))
       (\<lambda>e. returnT False)"

section \<open>Thunks\<close>

definition no_namespaces_error :: js_error where
  "no_namespaces_error = JsError ''The current account does not have access to any namespaces''"

definition fetchNamespaces :: "string \<Rightarrow> string list thunk" where
  "fetchNamespaces cluster =
     tryT
       (bindT (namespace_list cluster) (\<lambda>namespaceList.
          if namespaceList = []
          then thenT (dispatchT (NamespaceA (ErrorNamespaces cluster no_namespaces_error ''list'')))
                 (returnT [])
          else thenT (dispatchT (NamespaceA (ReceiveNamespaces cluster namespaceList)))
                 (returnT namespaceList)))
       (\<lambda>e. thenT (handleErrorAction e (NamespaceA (ErrorNamespaces cluster e ''list'')))
              (returnT []))"

definition createNamespace :: "string \<Rightarrow> string \<Rightarrow> string jsobj \<Rightarrow> bool thunk" where
  "createNamespace cluster ns labels =
     tryT
       (thenT (namespace_create cluster ns labels)
         (thenT (dispatchT (NamespaceA (PostNamespace cluster ns)))
           (thenT (spawnT (fetchNamespaces cluster)) (returnT True))))
       (\<lambda>e. thenT (handleErrorAction e (NamespaceA (ErrorNamespaces cluster e ''create'')))
              (returnT False))"

definition checkNamespaceExists :: "string \<Rightarrow> string \<Rightarrow> bool thunk" where
  "checkNamespaceExists cluster ns =
     tryT
       (thenT (dispatchT (NamespaceA (RequestNamespaceExists cluster ns)))
         (bindT (namespace_exists cluster ns) (\<lambda>exists.
           thenT (if exists then dispatchT (NamespaceA (ReceiveNamespaceExists cluster ns))
                  else returnT ())
             (returnT exists))))
       (\<lambda>e. thenT (handleErrorAction e (NamespaceA (ErrorNamespaces cluster e ''get'')))
              (returnT False))"

definition setNamespace :: "lib \<Rightarrow> string \<Rightarrow> string \<Rightarrow> unit thunk" where
  "setNamespace L cluster ns =
     thenT (bindT readStorage (\<lambda>ls.
              case setStoredNamespace L cluster ns ls of
                Inl e \<Rightarrow> throwT e
              | Inr ls' \<Rightarrow> updateStorage (\<lambda>_. ls')))
       (dispatchT (NamespaceA (SetNamespaceState cluster ns)))"

definition canCreate :: "string \<Rightarrow> unit thunk" where
  "canCreate cluster =
     tryT
       (bindT (canI cluster [] ''namespaces'' ''create'' []) (\<lambda>allowed.
          dispatchT (NamespaceA (SetAllowCreate cluster allowed))))
       (\<lambda>e. dispatchT (NamespaceA (ErrorNamespaces cluster e ''get'')))"

section \<open>Running\<close>

lemma dispatch_namespace:
  "namespace_step L init (w_ls w) (st_clusters (w_store w)) a = Inr c \<Longrightarrow>
     \<forall>k n. a \<noteq> SetNamespaceState k n \<Longrightarrow>
     dispatch_action (rootReducer L init) (NamespaceA a) w =
       (None, applied (NamespaceA a) (\<lambda>s. s\<lparr>st_clusters := c\<rparr>) w)"
  by (simp add: dispatch_action_def applied_def)

lemma dispatch_setNamespace [simp]:
  "dispatch_action (rootReducer L init) (NamespaceA (SetNamespaceState k n)) w =
     (None, applied (NamespaceA (SetNamespaceState k n))
        (\<lambda>s. s\<lparr>st_clusters := (put_cluster k
                 ((spread_cluster (st_clusters s) (current_key (st_clusters s)))
                    \<lparr>cs_currentNamespace := Some n, cs_error := None\<rparr>) (st_clusters s))
                 \<lparr>cl_currentCluster := Some k\<rparr>,
               st_operators := operatorReducer (st_operators s) (NamespaceA (SetNamespaceState k n))\<rparr>) w)"
  by (simp add: dispatch_action_def applied_def rootReducer_namespace)

lemma dispatch_errorNamespaces [simp]:
  "dispatch_action (rootReducer L init) (NamespaceA (ErrorNamespaces k e opn)) w =
     (None, applied (NamespaceA (ErrorNamespaces k e opn))
        (\<lambda>s. s\<lparr>st_clusters := put_cluster k
                 ((spread_cluster (st_clusters s) k)\<lparr>cs_error := Some (opn, e)\<rparr>) (st_clusters s)\<rparr>) w)"
  by (simp add: dispatch_action_def applied_def)

lemma dispatch_allowCreate [simp]:
  "dispatch_action (rootReducer L init) (NamespaceA (SetAllowCreate k b)) w =
     (None, applied (NamespaceA (SetAllowCreate k b))
        (\<lambda>s. s\<lparr>st_clusters := put_cluster k
                 ((spread_cluster (st_clusters s) k)\<lparr>cs_canCreateNS := Some b\<rparr>) (st_clusters s)\<rparr>) w)"
  by (simp add: dispatch_action_def applied_def)

text \<open>What a server answers to the question for a permission.\<close>

definition permission :: "server \<Rightarrow> storage \<Rightarrow> string \<Rightarrow> grpc_call \<Rightarrow> bool" where
  "permission srv ls cluster call \<longleftrightarrow>
     cluster \<noteq> [] \<and> srv (Grpc (request_token None ls) call) = Inr (RBool True)"

lemma run_canI:
  "run R srv (canI cluster grp resource verb ns k h) w =
     (let call = CanI \<lparr>ctx_cluster = cluster, ctx_namespace = ns\<rparr> grp resource verb
      in run R srv (k (permission srv (w_ls w) cluster call))
           (if cluster = [] then w else send [Grpc (request_token None (w_ls w)) call] w))"
proof (cases "srv (Grpc (request_token None (w_ls w))
    (CanI \<lparr>ctx_cluster = cluster, ctx_namespace = ns\<rparr> grp resource verb))")
  case (Inr r)
  then show ?thesis
    by (cases r) (auto simp: canI_def thunk_simps decodeT_def permission_def Let_def)
qed (auto simp: canI_def thunk_simps permission_def Let_def)

section \<open>Properties\<close>

text \<open>
  Selecting a namespace of another cluster. The entry of that cluster becomes a copy of the entry of the
  cluster selected before, with the new namespace: the namespaces and the permission to create one are
  those of the old cluster, whatever was known about the new one.
\<close>
theorem setNamespace_copies_current_cluster:
  assumes "setStoredNamespace L target ns (w_ls w) = Inr ls'"
    and "obj_get (cl_clusters (st_clusters (w_store w))) (current_key (st_clusters (w_store w))) = Some cur"
  shows "let w' = runT (rootReducer L init) srv (setNamespace L target ns) w;
             clusters' = st_clusters (w_store w')
         in cl_currentCluster clusters' = Some target \<and>
            obj_get (cl_clusters clusters') target =
              Some (cur\<lparr>cs_currentNamespace := Some ns, cs_error := None\<rparr>) \<and>
            w_ls w' = ls'"
  using assms
  by (simp add: runT_def setNamespace_def thunk_simps spread_cluster_def)

text \<open>
  Listing the namespaces of a known cluster. A non-empty answer is stored and a namespace is selected:
  the one selected before if there is one, otherwise one of the answer. An empty answer and an error other
  than a lost session are recorded and leave the namespaces as they are. The list that was stored, or the
  empty one, is what the thunk returns.
\<close>
theorem fetchNamespaces_selects:
  assumes "obj_get (cl_clusters (st_clusters (w_store w))) cluster = Some c"
    and "\<And>e. call_result srv (w_ls w) (GetNamespaceNames cluster) names_reply = Inl e \<Longrightarrow>
           \<not> is_unauthorized e"
  shows "let answer = call_result srv (w_ls w) (GetNamespaceNames cluster) names_reply;
             w' = runT (rootReducer L init) srv (fetchNamespaces cluster) w;
             c' = spread_cluster (st_clusters (w_store w')) cluster
         in (case answer of
               Inr (n # ns) \<Rightarrow>
                 cs_namespaces c' = Some (n # ns) \<and> cs_error c' = None \<and>
                 (if truthy (cs_currentNamespace c) then cs_currentNamespace c' = cs_currentNamespace c
                  else cs_currentNamespace c' \<in> Some ` set (n # ns))
             | Inr [] \<Rightarrow> c' = c\<lparr>cs_error := Some (''list'', no_namespaces_error)\<rparr>
             | Inl e \<Rightarrow> c' = c\<lparr>cs_error := Some (''list'', e)\<rparr>)"
proof -
  let ?req = "Grpc (request_token None (w_ls w)) (GetNamespaceNames cluster)"
  show ?thesis
  proof (cases "call_result srv (w_ls w) (GetNamespaceNames cluster) names_reply")
    case (Inl e)
    with assms show ?thesis
      by (simp add: runT_def fetchNamespaces_def namespace_list_def thunk_core run_dispatchT
          spread_cluster_def)
  next
    case (Inr names)
    show ?thesis
    proof (cases names)
      case Nil
      with Inr assms show ?thesis
        by (simp add: runT_def fetchNamespaces_def namespace_list_def thunk_core run_dispatchT
            spread_cluster_def)
    next
      case (Cons n ns)
      let ?c' = "c\<lparr>cs_namespaces := Some names, cs_currentNamespace :=
          Some (getCurrentNamespace L (w_ls w) cluster (cs_currentNamespace c) names), cs_error := None\<rparr>"
      have step: "dispatch_action (rootReducer L init) (NamespaceA (ReceiveNamespaces cluster names))
          (send [?req] w) = (None, applied (NamespaceA (ReceiveNamespaces cluster names))
            (\<lambda>s. s\<lparr>st_clusters := put_cluster cluster ?c' (st_clusters (w_store w))\<rparr>) (send [?req] w))"
        using assms(1) by (intro dispatch_namespace) (simp_all add: read_cluster_def)
      have "getCurrentNamespace L (w_ls w) cluster (cs_currentNamespace c) (n # ns) \<in> set (n # ns)"
        if "\<not> truthy (cs_currentNamespace c)"
        using that by (intro getCurrentNamespace_available) simp_all
      moreover have "Some (getCurrentNamespace L (w_ls w) cluster (cs_currentNamespace c) (n # ns)) =
          cs_currentNamespace c" if "truthy (cs_currentNamespace c)"
        using that by (cases "cs_currentNamespace c") (auto simp: getCurrentNamespace_def neq_Nil_conv)
      ultimately show ?thesis using Inr Cons step
        by (simp add: runT_def fetchNamespaces_def namespace_list_def thunk_core run_dispatchT
            spread_cluster_def) auto
    qed
  qed
qed

text \<open>
  A namespace that was selected survives the session: it is read back from the local storage when the
  namespaces of that cluster are listed again and none is selected, provided it is still among them.
\<close>
theorem selected_namespace_survives:
  assumes "setStoredNamespace L cluster ns (w_ls w) = Inr ls'" and "parseStoredNS L (w_ls w) = JObj ob"
    and "json_parse L (json_stringify L (JObj (obj_set cluster (JStr ns) ob)))
           = Inr (JObj (obj_set cluster (JStr ns) ob))"
    and "json_stringify L (JObj (obj_set cluster (JStr ns) ob)) \<noteq> []"
    and "\<And>d. lodash_get L (JObj (obj_set cluster (JStr ns) ob)) cluster d = JStr ns"
    and "ns \<noteq> []" and "ns \<in> set available" and "\<not> truthy current"
  shows "getCurrentNamespace L (w_ls (runT (rootReducer L init) srv (setNamespace L cluster ns) w))
           cluster current available = ns"
proof -
  have ls': "w_ls (runT (rootReducer L init) srv (setNamespace L cluster ns) w) = ls'"
    using assms(1) by (simp add: runT_def setNamespace_def thunk_simps)
  have "parseStoredNS L ls' = JObj (obj_set cluster (JStr ns) ob)"
    using assms(1-4) by (auto simp: setStoredNamespace_def json_assign_def parseStoredNS_def str_or_def)
  then have "getStoredNamespace L ls' cluster = JStr ns"
    using assms(5) by (simp add: getStoredNamespace_def)
  then show ?thesis unfolding ls' using assms(6-8)
    by (cases current) (auto simp: getCurrentNamespace_def json_available_def split: list.splits)
qed

definition sample_clusters :: IClustersState where
  "sample_clusters =
     \<lparr>cl_currentCluster = Some ''c1'',
      cl_clusters = [(''c1'', \<lparr>cs_currentNamespace = Some ''dev'', cs_namespaces = Some [''dev'', ''qa''],
                              cs_canCreateNS = Some True, cs_error = None\<rparr>),
                     (''c2'', fresh_cluster [])]\<rparr>"

definition two_clusters :: world where
  "two_clusters = (sample_world token_storage)
     \<lparr>w_store := (initialStore sample_lib token_storage)\<lparr>st_clusters := sample_clusters\<rparr>\<rparr>"

lemma two_clusters_simps [simp]:
  "w_ls two_clusters = token_storage" "st_clusters (w_store two_clusters) = sample_clusters"
  by (simp_all add: two_clusters_def)

lemma sample_stored:
  "setStoredNamespace sample_lib ''c2'' ''prod'' token_storage =
     Inr (obj_set namespaceKey ''{}'' token_storage)"
  by (simp add: setStoredNamespace_def parseStoredNS_def token_storage_def sample_lib_def json_assign_def
      AuthTokenKey_def AuthTokenOIDCKey_def namespaceKey_def)

theorem setNamespace_copies_current_cluster_witness:
  "cs_namespaces (spread_cluster (st_clusters (w_store
     (runT (rootReducer sample_lib []) unavailable_server (setNamespace sample_lib ''c2'' ''prod'')
        two_clusters))) ''c2'') = Some [''dev'', ''qa'']"
  using setNamespace_copies_current_cluster
    [OF sample_stored [folded two_clusters_simps(1)], of
      "\<lparr>cs_currentNamespace = Some ''dev'', cs_namespaces = Some [''dev'', ''qa''],
         cs_canCreateNS = Some True, cs_error = None\<rparr>" "[]" unavailable_server]
  by (simp add: Let_def spread_cluster_def sample_clusters_def current_key_def show_opt_def)

definition names_server :: "string list \<Rightarrow> server" where
  "names_server ns q = Inr (RNames ns)"

theorem fetchNamespaces_selects_witness:
  "cs_currentNamespace (spread_cluster (st_clusters (w_store
     (runT (rootReducer sample_lib []) (names_server [''prod'']) (fetchNamespaces ''c2'') two_clusters)))
       ''c2'') = Some ''prod''"
  using fetchNamespaces_selects [of two_clusters "''c2''" "fresh_cluster []" "names_server [''prod'']"
      sample_lib "[]"]
  by (simp add: Let_def sample_clusters_def call_result_def names_server_def fresh_cluster_def)

definition roundtrip_lib :: lib where
  "roundtrip_lib = sample_lib\<lparr>json_parse := (\<lambda>s. if s = ''{}'' then Inr (JObj [])
       else Inr (JObj [(''c1'', JStr ''qa'')])), json_stringify := (\<lambda>v. ''{\"c1\":\"qa\"}'')\<rparr>"

theorem selected_namespace_survives_witness:
  "getCurrentNamespace roundtrip_lib (w_ls (runT (rootReducer roundtrip_lib []) unavailable_server
     (setNamespace roundtrip_lib ''c1'' ''qa'') (sample_world token_storage)))
     ''c1'' None [''dev'', ''qa''] = ''qa''"
  by (rule selected_namespace_survives [where ob = "[]"])
    (simp_all add: roundtrip_lib_def sample_lib_def setStoredNamespace_def parseStoredNS_def
      token_storage_def json_assign_def AuthTokenKey_def AuthTokenOIDCKey_def namespaceKey_def)

end
