(* ===== verification/Package_Actions.thy ===== *)
theory Package_Actions
  imports Auth_Actions
begin

text \<open>
  The catalog's thunks (\<open>actions/availablepackages.ts\<close>) over the packages service
  (\<open>shared/PackagesService.ts\<close>).
\<close>

section \<open>Service\<close>

fun summaries_reply :: "response \<Rightarrow> GetAvailablePackageSummariesResponse option" where
  "summaries_reply (RSummaries r) = Some r"
| "summaries_reply _ = None"

fun versions_reply :: "response \<Rightarrow> PackageAppVersion list option" where
  "versions_reply (RVersions vs) = Some vs"
| "versions_reply _ = None"

fun detail_reply :: "response \<Rightarrow> AvailablePackageDetail option option" where
  "detail_reply (RDetail d) = Some d"
| "detail_reply _ = None"

fun metadatas_reply :: "response \<Rightarrow> PackageMetadata list option" where
  "metadatas_reply (RMetadatas ms) = Some ms"
| "metadatas_reply _ = None"

definition summaries_call ::
  "string \<Rightarrow> string \<Rightarrow> string \<Rightarrow> string \<Rightarrow> nat \<Rightarrow> string option \<Rightarrow> grpc_call" where
  "summaries_call cluster namespace repos token pageSize query =
     GetAvailablePackageSummaries \<lparr>ctx_cluster = cluster, ctx_namespace = namespace\<rparr> query
       (if repos \<noteq> [] then split_on (CHR '','') repos else []) pageSize token"

definition getAvailablePackageSummaries ::
  "string \<Rightarrow> string \<Rightarrow> string \<Rightarrow> string \<Rightarrow> nat \<Rightarrow> string option
     \<Rightarrow> GetAvailablePackageSummariesResponse thunk" where
  "getAvailablePackageSummaries cluster namespace repos token pageSize query =
     grpc (summaries_call cluster namespace repos token pageSize query) summaries_reply"

definition getAvailablePackageVersions ::
  "AvailablePackageReference option \<Rightarrow> PackageAppVersion list thunk" where
  "getAvailablePackageVersions r = grpc (GetAvailablePackageVersions r) versions_reply"

definition getAvailablePackageDetail ::
  "AvailablePackageReference option \<Rightarrow> string option \<Rightarrow> AvailablePackageDetail option thunk" where
  "getAvailablePackageDetail r version = grpc (GetAvailablePackageDetail r version) detail_reply"

text \<open>The one call whose errors are not translated.\<close>

definition getAvailablePackageMetadatas ::
  "AvailablePackageReference \<Rightarrow> string \<Rightarrow> PackageMetadata list thunk" where
  "getAvailablePackageMetadatas r version =
     bindT (rpc None (GetAvailablePackageMetadatas r version)) (decodeT metadatas_reply)"

section \<open>Thunks\<close>

text \<open>\<open>dispatch(handleErrorAction(e, createErrorPackage(new FetchError(e.message))))\<close>.\<close>

definition fail_package :: "js_error \<Rightarrow> unit thunk" where
  "fail_package e =
     handleErrorAction e (PackagesA (CreateErrorPackage (newError FetchError (error_message e))))"

definition already_fetching :: js_error where
  "already_fetching = JsError ''unexpected request, it was already fetching data''"

definition fetchAvailablePackageSummaries ::
  "string \<Rightarrow> string \<Rightarrow> string \<Rightarrow> string \<Rightarrow> nat \<Rightarrow> string option \<Rightarrow> unit thunk" where
  "fetchAvailablePackageSummaries cluster namespace repos token pageSize query =
     bindT getState (\<lambda>s.
       tryT
         (if pk_isFetching (st_packages s) then throwT already_fetching
          else thenT (dispatchT (PackagesA (RequestAvailablePackageSummaries token)))
                 (bindT (getAvailablePackageSummaries cluster namespace repos token pageSize query)
                   (\<lambda>response. dispatchT (PackagesA (ReceiveAvailablePackageSummaries response token)))))
         fail_package)"

definition fetchAvailablePackageVersions :: "AvailablePackageReference option \<Rightarrow> unit thunk" where
  "fetchAvailablePackageVersions r =
     thenT (dispatchT (PackagesA RequestSelectedAvailablePackageVersions))
       (tryT
         (bindT (getAvailablePackageVersions r)
           (\<lambda>vs. dispatchT (PackagesA (ReceiveSelectedAvailablePackageVersions vs))))
         fail_package)"

text \<open>\<open>detail?.version?.pkgVersion\<close>.\<close>

definition detail_version :: "AvailablePackageDetail option \<Rightarrow> string option" where
  "detail_version d = Option.bind d (\<lambda>p. map_option pav_pkgVersion (apd_version p))"

definition fetchAndSelectAvailablePackageDetail ::
  "AvailablePackageReference option \<Rightarrow> string option \<Rightarrow> unit thunk" where
  "fetchAndSelectAvailablePackageDetail r version =
     tryT
       (thenT (dispatchT (PackagesA RequestSelectedAvailablePackageDetail))
         (bindT (getAvailablePackageDetail r version) (\<lambda>d.
            if truthy (detail_version d)
            then dispatchT (PackagesA (ReceiveSelectedAvailablePackageDetail (the d)))
            else dispatchT (PackagesA (CreateErrorPackage
                   (newError FetchError ''could not find package version''))))))
       fail_package"

definition fetchAvailablePackageMetadatas :: "AvailablePackageReference \<Rightarrow> string \<Rightarrow> unit thunk" where
  "fetchAvailablePackageMetadatas r version =
     tryT
       (thenT (dispatchT (PackagesA RequestAvailablePackageMetadatas))
         (bindT (getAvailablePackageMetadatas r version)
           (\<lambda>ms. dispatchT (PackagesA (ReceiveAvailablePackageMetadatas ms)))))
       fail_package"

section \<open>Running\<close>

lemma packages_step_ok [simp]:
  "packages_step L s (CreateErrorPackage e) =
     Inr (s\<lparr>pk_isFetching := False, pk_hasFinishedFetching := False,
            pk_selected := (pk_selected s)\<lparr>sel_error := Some e\<rparr>\<rparr>)"
  "packages_step L s RequestSelectedAvailablePackageDetail =
     Inr (s\<lparr>pk_isFetching := True\<rparr>)"
  by (simp_all add: with_selected_def)

lemma dispatch_request_page [simp]:
  "dispatch_action (rootReducer L init) (PackagesA (RequestAvailablePackageSummaries t)) w =
     (None, applied (PackagesA (RequestAvailablePackageSummaries t))
        (\<lambda>s. s\<lparr>st_packages := (st_packages s)\<lparr>pk_isFetching := True\<rparr>\<rparr>) w)"
  by (simp add: dispatch_action_def applied_def)

lemma dispatch_receive_page [simp]:
  "dispatch_action (rootReducer L init) (PackagesA (ReceiveAvailablePackageSummaries r t)) w =
     (None, applied (PackagesA (ReceiveAvailablePackageSummaries r t))
        (\<lambda>s. s\<lparr>st_packages := receive_page L (st_packages s) r\<rparr>) w)"
  by (simp add: dispatch_action_def applied_def)

definition package_failed :: "js_error \<Rightarrow> IPackageState \<Rightarrow> IPackageState" where
  "package_failed e p =
     p\<lparr>pk_isFetching := False, pk_hasFinishedFetching := False,
       pk_selected := (pk_selected p)\<lparr>sel_error := Some e\<rparr>\<rparr>"

lemma dispatch_package_error [simp]:
  "dispatch_action (rootReducer L init) (PackagesA (CreateErrorPackage e)) w =
     (None, applied (PackagesA (CreateErrorPackage e))
        (\<lambda>s. s\<lparr>st_packages := package_failed e (st_packages s)\<rparr>) w)"
  by (simp add: dispatch_action_def applied_def package_failed_def with_selected_def)

text \<open>The world after an error of a catalog thunk.\<close>

definition fail_package_world :: "IClusterState jsobj \<Rightarrow> js_error \<Rightarrow> world \<Rightarrow> world" where
  "fail_package_world init e w =
     (if is_unauthorized e then unauthorized_world init w
      else applied (PackagesA (CreateErrorPackage (newError FetchError (error_message e))))
             (\<lambda>s. s\<lparr>st_packages := package_failed (newError FetchError (error_message e)) (st_packages s)\<rparr>)
             w)"

lemma run_fail_package [simp]:
  "run (rootReducer L init) srv (fail_package e k h) w =
     run (rootReducer L init) srv (k ()) (fail_package_world init e w)"
  by (simp add: fail_package_def fail_package_world_def run_dispatchT)

lemma sync_fail_package [simp]:
  "sync (rootReducer L init) (fail_package e k h) w =
     sync (rootReducer L init) (k ()) (fail_package_world init e w)"
  by (simp add: fail_package_def fail_package_world_def thunk_simps)

lemma unauthorized_world_packages [simp]:
  "st_packages (w_store (unauthorized_world init w)) = st_packages (w_store w)"
  "st_apps (w_store (unauthorized_world init w)) = st_apps (w_store w)"
  "st_repos (w_store (unauthorized_world init w)) = st_repos (w_store w)"
  "w_sent (unauthorized_world init w) = w_sent w"
  by (simp_all add: unauthorized_world_def expire_world_def logout_world_def)

section \<open>Properties\<close>

text \<open>
  C16: One page of the catalog, from a catalog that is not loading. The page is requested once; a reply is
  appended without duplicates and recorded as the last one exactly when it has no next page token; an
  error keeps the packages already there. The loading flag is lowered in every case but one: an error of a
  lost session, which only logs out, leaves the catalog loading.
\<close>
theorem fetch_page:
  assumes "\<not> pk_isFetching (st_packages (w_store w))"
  shows "let w' = runT (rootReducer L init) srv
                    (fetchAvailablePackageSummaries cluster namespace repos token pageSize query) w;
             call = summaries_call cluster namespace repos token pageSize query;
             p = st_packages (w_store w); p' = st_packages (w_store w')
         in w_sent w' = w_sent w @ [Grpc (request_token None (w_ls w)) call] \<and>
            (case call_result srv (w_ls w) call summaries_reply of
               Inr r \<Rightarrow>
                 pk_items p' = uniqBy_packages L (pk_items p @ gapsr_availablePackageSummaries r) \<and>
                 pk_hasFinishedFetching p' = (gapsr_nextPageToken r = []) \<and>
                 pk_nextPageToken p' = gapsr_nextPageToken r \<and> \<not> pk_isFetching p'
             | Inl e \<Rightarrow>
                 pk_items p' = pk_items p \<and> pk_isFetching p' = is_unauthorized e \<and>
                 sel_error (pk_selected p') =
                   (if is_unauthorized e then sel_error (pk_selected p)
                    else Some (newError FetchError (error_message e))))"
  using assms
  by (simp add: runT_def fetchAvailablePackageSummaries_def getAvailablePackageSummaries_def
      thunk_core getState_def run_dispatchT Let_def receive_page_def fail_package_world_def
      package_failed_def split: sum.split)

text \<open>
  A page asked for while another one is loading. No request is sent; the packages stay, an error is
  recorded, and the loading flag is lowered although the first request is still open.
\<close>
theorem fetch_page_while_loading:
  assumes "pk_isFetching (st_packages (w_store w))"
  shows "let w' = runT (rootReducer L init) srv
                    (fetchAvailablePackageSummaries cluster namespace repos token pageSize query) w
         in w_sent w' = w_sent w \<and>
            st_packages (w_store w') =
              package_failed (newError FetchError (error_message already_fetching))
                (st_packages (w_store w))"
  using assms
  by (simp add: runT_def fetchAvailablePackageSummaries_def thunk_core getState_def
      fail_package_world_def already_fetching_def Let_def)

section \<open>Interleaved pages\<close>

text \<open>The thunk of a page up to its request, and from its reply on.\<close>

definition page_requested :: "string \<Rightarrow> request \<Rightarrow> world \<Rightarrow> world" where
  "page_requested token q w = send [q] (applied (PackagesA (RequestAvailablePackageSummaries token))
     (\<lambda>s. s\<lparr>st_packages := (st_packages s)\<lparr>pk_isFetching := True\<rparr>\<rparr>) w)"

definition page_received ::
  "lib \<Rightarrow> string \<Rightarrow> GetAvailablePackageSummariesResponse \<Rightarrow> world \<Rightarrow> world" where
  "page_received L token r w = applied (PackagesA (ReceiveAvailablePackageSummaries r token))
     (\<lambda>s. s\<lparr>st_packages := receive_page L (st_packages s) r\<rparr>) w"

lemma sync_fetch_page:
  assumes "\<not> pk_isFetching (st_packages (w_store w))"
  obtains k where
    "sync (rootReducer L init) (fetchAvailablePackageSummaries cluster namespace repos token pageSize query
        (\<lambda>_. Stop) (\<lambda>_. Stop)) w =
      (page_requested token (Grpc (request_token None (w_ls w))
          (summaries_call cluster namespace repos token pageSize query)) w,
       [Await (Grpc (request_token None (w_ls w))
          (summaries_call cluster namespace repos token pageSize query)) k])"
    and "\<And>r v. sync (rootReducer L init) (k (Inr (RSummaries r))) v = (page_received L token r v, [])"
proof -
  let ?k = "\<lambda>r. case r of
       Inl e \<Rightarrow> fail_package (convertGrpcAuthError e) (\<lambda>_. Stop) (\<lambda>_. Stop)
     | Inr x \<Rightarrow> decodeT summaries_reply x
         (\<lambda>y. Dispatch (PackagesA (ReceiveAvailablePackageSummaries y token))
            (\<lambda>d. case d of None \<Rightarrow> Stop | Some e \<Rightarrow> fail_package e (\<lambda>_. Stop) (\<lambda>_. Stop)))
         (\<lambda>e. fail_package e (\<lambda>_. Stop) (\<lambda>_. Stop))"
  show ?thesis
  proof (rule that [of ?k])
    show "sync (rootReducer L init) (fetchAvailablePackageSummaries cluster namespace repos token pageSize
        query (\<lambda>_. Stop) (\<lambda>_. Stop)) w =
      (page_requested token (Grpc (request_token None (w_ls w))
          (summaries_call cluster namespace repos token pageSize query)) w,
       [Await (Grpc (request_token None (w_ls w))
          (summaries_call cluster namespace repos token pageSize query)) ?k])"
      using assms by (simp add: fetchAvailablePackageSummaries_def getAvailablePackageSummaries_def
          thunk_simps page_requested_def)
    show "sync (rootReducer L init) (?k (Inr (RSummaries r))) v = (page_received L token r v, [])" for r v
      by (simp add: decodeT_def thunk_simps page_received_def)
  qed
qed

lemma pool_start1: "sync R p w = (w', qs) \<Longrightarrow> pool_step R (w, ps) (Start p) (w', ps @ qs)"
  by (rule start)

lemma pool_reply1:
  assumes "sync R (k r) v = (v', [])"
  shows "pool_step R (v, Await q k # ps) (Reply 0 q r) (v', ps)"
  using reply [of 0 "Await q k # ps" q k R r v v' "[]"] assms by simp

text \<open>The world after the two replies.\<close>

definition overtaken ::
  "lib \<Rightarrow> string \<Rightarrow> request \<Rightarrow> request \<Rightarrow> GetAvailablePackageSummariesResponse \<Rightarrow>
     GetAvailablePackageSummariesResponse \<Rightarrow> world \<Rightarrow> world" where
  "overtaken L token q1 q2 r1 r2 w = page_received L token r2 (page_received L token r1 (page_requested token q2
     (applied (PackagesA ResetAvailablePackageSummaries)
        (\<lambda>s. s\<lparr>st_packages := (st_packages s)\<lparr>pk_hasFinishedFetching := False, pk_isFetching := False,
           pk_items := [], pk_nextPageToken := []\<rparr>\<rparr>) (page_requested token q1 w))))"

lemma overtaken_steps:
  assumes "\<not> pk_isFetching (st_packages (w_store w))"
    and q1: "q1 = Grpc (request_token None (w_ls w)) (summaries_call cluster namespace repos token pageSize query1)"
    and q2: "q2 = Grpc (request_token None (w_ls w)) (summaries_call cluster namespace repos token pageSize query2)"
  shows "pool_steps (rootReducer L init) (w, [])
      [Start (fetchAvailablePackageSummaries cluster namespace repos token pageSize query1
                (\<lambda>_. Stop) (\<lambda>_. Stop)),
       Start (dispatchT (PackagesA ResetAvailablePackageSummaries) (\<lambda>_. Stop) (\<lambda>_. Stop)),
       Start (fetchAvailablePackageSummaries cluster namespace repos token pageSize query2
                (\<lambda>_. Stop) (\<lambda>_. Stop)),
       Reply 0 q1 (Inr (RSummaries r1)), Reply 0 q2 (Inr (RSummaries r2))]
      (overtaken L token q1 q2 r1 r2 w, [])"
proof -
  let ?R = "rootReducer L init"
  define w1 where "w1 = page_requested token q1 w"
  define w2 where "w2 = applied (PackagesA ResetAvailablePackageSummaries)
    (\<lambda>s. s\<lparr>st_packages := (st_packages s)\<lparr>pk_hasFinishedFetching := False, pk_isFetching := False,
       pk_items := [], pk_nextPageToken := []\<rparr>\<rparr>) w1"
  define w3 where "w3 = page_requested token q2 w2"
  define w4 where "w4 = page_received L token r1 w3"
  define w5 where "w5 = page_received L token r2 w4"
  obtain k1 where k1: "sync ?R (fetchAvailablePackageSummaries cluster namespace repos token pageSize query1
      (\<lambda>_. Stop) (\<lambda>_. Stop)) w = (w1, [Await q1 k1])"
    and r1: "\<And>r v. sync ?R (k1 (Inr (RSummaries r))) v = (page_received L token r v, [])"
    using sync_fetch_page [OF assms(1), of L init cluster namespace repos token pageSize query1]
    unfolding w1_def q1 by blast
  have reset: "sync ?R (dispatchT (PackagesA ResetAvailablePackageSummaries) (\<lambda>_. Stop) (\<lambda>_. Stop)) w1 =
      (w2, [])"
    by (simp add: thunk_simps w2_def dispatch_action_def applied_def)
  have idle: "\<not> pk_isFetching (st_packages (w_store w2))" and ls: "w_ls w2 = w_ls w"
    by (simp_all add: w2_def w1_def page_requested_def)
  obtain k2 where k2: "sync ?R (fetchAvailablePackageSummaries cluster namespace repos token pageSize query2
      (\<lambda>_. Stop) (\<lambda>_. Stop)) w2 = (w3, [Await q2 k2])"
    and r2: "\<And>r v. sync ?R (k2 (Inr (RSummaries r))) v = (page_received L token r v, [])"
    using sync_fetch_page [OF idle, of L init cluster namespace repos token pageSize query2]
    unfolding w3_def ls q2 by blast
  note s1 = pool_start1 [OF k1, of "[]", unfolded append_Nil]
  note s2 = pool_start1 [OF reset, of "[Await q1 k1]", unfolded append_Nil2]
  note s3 = pool_start1 [OF k2, of "[Await q1 k1]", unfolded append_Cons append_Nil]
  note s4 = pool_reply1 [where k = k1 and r = "Inr (RSummaries r1)", OF r1,
      of w3 q1 "[Await q2 k2]", folded w4_def]
  note s5 = pool_reply1 [where k = k2 and r = "Inr (RSummaries r2)", OF r2,
      of w4 q2 "[]", folded w5_def]
  have "w5 = overtaken L token q1 q2 r1 r2 w" by (simp only: w5_def w4_def w3_def w2_def w1_def overtaken_def)
  then show ?thesis
    using steps_cons [OF s1 steps_cons [OF s2 steps_cons [OF s3 steps_cons [OF s4
          steps_cons [OF s5 steps_nil]]]]] by simp
qed

text \<open>
  C18: A search that overtakes another. A page is requested, the catalog is reset and a page of a second
  search is requested, and the first reply arrives before the second one. Then the catalog ends with
  the packages of the first search only: its reply is taken for the second one's, which is dropped when it
  arrives.
\<close>
theorem stale_page_wins:
  assumes "\<not> pk_isFetching (st_packages (w_store w))"
  shows "\<exists>w'. pool_steps (rootReducer L init) (w, [])
      [Start (fetchAvailablePackageSummaries cluster namespace repos token pageSize query1
                (\<lambda>_. Stop) (\<lambda>_. Stop)),
       Start (dispatchT (PackagesA ResetAvailablePackageSummaries) (\<lambda>_. Stop) (\<lambda>_. Stop)),
       Start (fetchAvailablePackageSummaries cluster namespace repos token pageSize query2
                (\<lambda>_. Stop) (\<lambda>_. Stop)),
       Reply 0 (Grpc (request_token None (w_ls w))
                  (summaries_call cluster namespace repos token pageSize query1)) (Inr (RSummaries r1)),
       Reply 0 (Grpc (request_token None (w_ls w))
                  (summaries_call cluster namespace repos token pageSize query2)) (Inr (RSummaries r2))]
      (w', []) \<and>
    pk_items (st_packages (w_store w')) =
      uniqBy_packages L (gapsr_availablePackageSummaries r1) \<and>
    \<not> pk_isFetching (st_packages (w_store w'))"
proof (intro exI conjI)
  let ?w = "overtaken L token (Grpc (request_token None (w_ls w)) (summaries_call cluster namespace repos token pageSize query1))
    (Grpc (request_token None (w_ls w)) (summaries_call cluster namespace repos token pageSize query2)) r1 r2 w"
  show "pool_steps (rootReducer L init) (w, [])
      [Start (fetchAvailablePackageSummaries cluster namespace repos token pageSize query1 (\<lambda>_. Stop) (\<lambda>_. Stop)),
       Start (dispatchT (PackagesA ResetAvailablePackageSummaries) (\<lambda>_. Stop) (\<lambda>_. Stop)),
       Start (fetchAvailablePackageSummaries cluster namespace repos token pageSize query2 (\<lambda>_. Stop) (\<lambda>_. Stop)),
       Reply 0 (Grpc (request_token None (w_ls w)) (summaries_call cluster namespace repos token pageSize query1))
         (Inr (RSummaries r1)),
       Reply 0 (Grpc (request_token None (w_ls w)) (summaries_call cluster namespace repos token pageSize query2))
         (Inr (RSummaries r2))] (?w, [])"
    by (rule overtaken_steps [OF assms refl refl])
qed (simp_all add: overtaken_def page_received_def page_requested_def receive_page_def)

text \<open>
  The metadata of a package. Whatever the server answers, the metadata never reaches the store: the
  request and the answer are dispatched, but no reducer takes them, so the packages are unchanged.
\<close>
theorem metadatas_never_stored:
  assumes "srv (Grpc (request_token None (w_ls w)) (GetAvailablePackageMetadatas r version)) =
    Inr (RMetadatas ms)"
  shows "let w' = runT (rootReducer L init) srv (fetchAvailablePackageMetadatas r version) w
         in st_packages (w_store w') = st_packages (w_store w) \<and>
            w_log w' = w_log w @ [PackagesA RequestAvailablePackageMetadatas,
                                  PackagesA (ReceiveAvailablePackageMetadatas ms)]"
  using assms
  by (simp add: runT_def fetchAvailablePackageMetadatas_def getAvailablePackageMetadatas_def
      thunk_simps decodeT_def Let_def)

section \<open>Witnesses\<close>

definition page_of :: "string list \<Rightarrow> GetAvailablePackageSummariesResponse" where
  "page_of ids = \<lparr>gapsr_availablePackageSummaries =
       map (\<lambda>i. \<lparr>aps_availablePackageRef = Some \<lparr>apr_context = None, apr_identifier = i, apr_plugin = None\<rparr>,
                  aps_name = i, aps_latestVersion = None, aps_iconUrl = [], aps_displayName = i,
                  aps_shortDescription = [], aps_categories = []\<rparr>) ids,
     gapsr_nextPageToken = [], gapsr_categories = []\<rparr>"

definition page_server :: "string list \<Rightarrow> server" where
  "page_server ids q = Inr (RSummaries (page_of ids))"

lemma sample_not_loading [simp]:
  "\<not> pk_isFetching (st_packages (initialStore sample_lib ls))"
  "pk_items (st_packages (initialStore sample_lib ls)) = []"
  by (simp_all add: initialStore_def packages_initialState_def)

theorem fetch_page_witness:
  "pk_hasFinishedFetching (st_packages (w_store (runT (rootReducer sample_lib [])
     (page_server [''bitnami/apache'']) (fetchAvailablePackageSummaries ''c1'' ''dev'' [] [] 20 None)
     (sample_world token_storage))))"
  using fetch_page [of "sample_world token_storage" sample_lib "[]" "page_server [''bitnami/apache'']"
      "''c1''" "''dev''" "[]" "[]" 20 None]
  by (simp add: Let_def call_result_def page_server_def page_of_def)

definition loading_world :: world where
  "loading_world = (sample_world token_storage)
     \<lparr>w_store := (initialStore sample_lib token_storage)
        \<lparr>st_packages := packages_initialState\<lparr>pk_isFetching := True\<rparr>\<rparr>\<rparr>"

theorem fetch_page_while_loading_witness:
  "\<not> pk_isFetching (st_packages (w_store (runT (rootReducer sample_lib [])
     (page_server []) (fetchAvailablePackageSummaries ''c1'' ''dev'' [] [] 20 None) loading_world)))"
  using fetch_page_while_loading [of loading_world sample_lib "[]" "page_server []" "''c1''" "''dev''"
      "[]" "[]" 20 None]
  by (simp add: loading_world_def Let_def package_failed_def)

lemma page_of_old:
  "map package_identifier (uniqBy_packages sample_lib (gapsr_availablePackageSummaries (page_of [''old'']))) =
     [Some ''old'']"
  by (simp add: page_of_def package_identifier_def)

lemma sample_idle: "\<not> pk_isFetching (st_packages (w_store (sample_world ls)))"
  by simp

theorem stale_page_wins_witness:
  "\<exists>w' es. pool_steps (rootReducer sample_lib []) (sample_world token_storage, []) es (w', []) \<and>
     map package_identifier (pk_items (st_packages (w_store w'))) = [Some ''old'']"
  using stale_page_wins [OF sample_idle, of sample_lib "[]" token_storage "''c1''" "''dev''" "[]" "[]"
      20 "Some ''old''" "Some ''new''" "page_of [''old'']" "page_of [''new'']"] page_of_old
  by metis

definition metadata_server :: server where
  "metadata_server q = Inr (RMetadatas [\<lparr>pm_mediaType = [], pm_artifactType = [], pm_digest = [],
     pm_name = ''sbom'', pm_description = [], pm_url = []\<rparr>])"

theorem metadatas_never_stored_witness:
  "sel_metadatas (pk_selected (st_packages (w_store (runT (rootReducer sample_lib []) metadata_server
     (fetchAvailablePackageMetadatas \<lparr>apr_context = None, apr_identifier = ''p'', apr_plugin = None\<rparr> ''1'')
     (sample_world token_storage))))) = []"
  using metadatas_never_stored [of metadata_server "sample_world token_storage"
      "\<lparr>apr_context = None, apr_identifier = ''p'', apr_plugin = None\<rparr>" "''1''"
      "[\<lparr>pm_mediaType = [], pm_artifactType = [], pm_digest = [],
         pm_name = ''sbom'', pm_description = [], pm_url = []\<rparr>]" sample_lib "[]"]
  by (simp add: metadata_server_def Let_def initialStore_def packages_initialState_def
      selected_initial_def)

end
