(* ===== verification/Installed_Actions.thy ===== *)
theory Installed_Actions
  imports Package_Actions
begin

text \<open>
  The thunks of the installed packages (\<open>actions/installedpackages.ts\<close>) over the service class of
  \<open>shared/InstalledPackage.ts\<close>, with the validation of values against a schema
  (\<open>validateSchema\<close>, \<open>validateValuesSchema\<close> of \<open>shared/schema.ts\<close>).
\<close>

section \<open>Service\<close>

fun installed_summaries_reply :: "response \<Rightarrow> InstalledPackageSummary list option" where
  "installed_summaries_reply (RInstalledSummaries ss) = Some ss"
| "installed_summaries_reply _ = None"

fun installed_detail_reply :: "response \<Rightarrow> InstalledPackageDetail option option" where
  "installed_detail_reply (RInstalledDetail d) = Some d"
| "installed_detail_reply _ = None"

fun resource_refs_reply :: "response \<Rightarrow> ResourceRef list option" where
  "resource_refs_reply (RResourceRefs rs) = Some rs"
| "resource_refs_reply _ = None"

definition getInstalledPackageSummaries ::
  "string \<Rightarrow> string option \<Rightarrow> string option \<Rightarrow> nat option \<Rightarrow> InstalledPackageSummary list thunk" where
  "getInstalledPackageSummaries cluster namespace pageToken pageSize =
     grpc (GetInstalledPackageSummaries
             \<lparr>ctx_cluster = cluster, ctx_namespace = (case namespace of None \<Rightarrow> [] | Some n \<Rightarrow> n)\<rparr>
             (case pageSize of None \<Rightarrow> 0 | Some n \<Rightarrow> n) (case pageToken of None \<Rightarrow> [] | Some t \<Rightarrow> t))
       installed_summaries_reply"

definition getInstalledPackageDetail ::
  "InstalledPackageReference option \<Rightarrow> InstalledPackageDetail option thunk" where
  "getInstalledPackageDetail r = grpc (GetInstalledPackageDetail r) installed_detail_reply"

definition getInstalledPackageResourceRefs ::
  "InstalledPackageReference option \<Rightarrow> ResourceRef list thunk" where
  "getInstalledPackageResourceRefs r = grpc (GetInstalledPackageResourceRefs r) resource_refs_reply"

definition createInstalledPackage ::
  "Context \<Rightarrow> string \<Rightarrow> AvailablePackageReference \<Rightarrow> string \<Rightarrow> string option
     \<Rightarrow> ReconciliationOptions option \<Rightarrow> unit thunk" where
  "createInstalledPackage target name r version values reconciliation =
     grpc (CreateInstalledPackage target name r version values reconciliation) done_reply"

definition service_updateInstalledPackage ::
  "InstalledPackageReference \<Rightarrow> string \<Rightarrow> string option \<Rightarrow> ReconciliationOptions option \<Rightarrow> unit thunk"
where
  "service_updateInstalledPackage r version values reconciliation =
     grpc (UpdateInstalledPackage r version values reconciliation) done_reply"

definition supports_rollback :: "InstalledPackageReference \<Rightarrow> bool" where
  "supports_rollback r =
     (case ipr_plugin r of
        None \<Rightarrow> False
      | Some p \<Rightarrow> plugin_name p \<noteq> [] \<and> plugin_name p \<in> set getPluginsSupportingRollback)"

definition service_rollbackInstalledPackage :: "InstalledPackageReference \<Rightarrow> nat \<Rightarrow> unit thunk" where
  "service_rollbackInstalledPackage r revision =
     (if supports_rollback r then grpc (RollbackInstalledPackage r revision) done_reply
      else returnT ())"

definition service_deleteInstalledPackage :: "InstalledPackageReference \<Rightarrow> unit thunk" where
  "service_deleteInstalledPackage r = grpc (DeleteInstalledPackage r) done_reply"

section \<open>Validation of the values\<close>

definition newline :: string where "newline = [CHR 0x0A]"

text \<open>The errors of the validator, one per line; a missing list shows as \<open>undefined\<close>.\<close>

definition error_text :: "(string \<times> string) list option \<Rightarrow> string" where
  "error_text errors = (case errors of
     None \<Rightarrow> ''undefined''
   | Some es \<Rightarrow> join newline (map (\<lambda>(path, msg). ''  - '' @ path @ '': '' @ msg) es))"

definition invalid_schema_error :: "(string \<times> string) list option \<Rightarrow> js_error" where
  "invalid_schema_error errors = newError UnprocessableEntityError
     (''The schema for this package is not valid. Please contact the package author. The following errors were found:'' @
      newline @ error_text errors)"

definition invalid_values_error :: "(string \<times> string) list option \<Rightarrow> js_error" where
  "invalid_values_error errors = newError UnprocessableEntityError
     (''The given values don't match the required format. The following errors were found:'' @
      newline @ error_text errors)"

text \<open>What installing and upgrading check first; parsing the values may raise.\<close>

definition validation_error ::
  "lib \<Rightarrow> string option \<Rightarrow> json option \<Rightarrow> string \<Rightarrow> js_error option" where
  "validation_error L values schema defaults =
     (case (values, schema) of
        (Some (v # vs), Some sch) \<Rightarrow>
          (case ajv_validateSchema L sch of
             (False, errors) \<Rightarrow> Some (invalid_schema_error errors)
           | (True, _) \<Rightarrow>
               (case check_values L (v # vs) sch defaults of
                  Inl e \<Rightarrow> Some e
                | Inr (valid, errors) \<Rightarrow>
                    (if valid then None else Some (invalid_values_error errors))))
      | _ \<Rightarrow> None)"

definition validateT :: "lib \<Rightarrow> string option \<Rightarrow> json option \<Rightarrow> string \<Rightarrow> unit thunk" where
  [thunk_simps]: "validateT L values schema defaults =
     (case validation_error L values schema defaults of None \<Rightarrow> returnT () | Some e \<Rightarrow> throwT e)"

section \<open>Thunks\<close>

text \<open>\<open>dispatch(handleErrorAction(e, errorInstalledPackage(error)))\<close>.\<close>

definition fail_installed :: "js_error \<Rightarrow> js_error \<Rightarrow> unit thunk" where
  "fail_installed e err = handleErrorAction e (InstalledA (ErrorInstalledPackage err))"

definition missing_information :: js_error where
  "missing_information = newError FetchWarning
     ''this package has missing information, some actions might not be available.''"

definition getInstalledPackage :: "InstalledPackageReference option \<Rightarrow> unit thunk" where
  "getInstalledPackage r =
     thenT (dispatchT (InstalledA RequestInstalledPackage))
       (tryT
         (bindT (getInstalledPackageDetail r) (\<lambda>detail.
          bindT
            (tryT
              (getAvailablePackageDetail (Option.bind detail ipd_availablePackageRef)
                 (Option.bind detail (\<lambda>d. map_option pav_pkgVersion (ipd_currentVersion d))))
              (\<lambda>e. thenT (fail_installed e missing_information) (returnT None)))
            (\<lambda>available. dispatchT (InstalledA (SelectInstalledPackage detail available)))))
         (\<lambda>e. fail_installed e (newCustomError FetchError ''Unable to get installed package'' (Some [e]))))"

definition getInstalledPkgStatus :: "InstalledPackageReference option \<Rightarrow> unit thunk" where
  "getInstalledPkgStatus r =
     thenT (dispatchT (InstalledA RequestInstalledPackageStatus))
       (tryT
         (bindT (getInstalledPackageDetail r) (\<lambda>detail.
            case detail of
              None \<Rightarrow> throwT (TypeError ''Cannot read properties of undefined (reading 'status')'')
            | Some d \<Rightarrow> dispatchT (InstalledA (ReceiveInstalledPackageStatus (ipd_status d)))))
         (\<lambda>e. fail_installed e
                (newCustomError FetchError ''Unable to refresh installed package'' (Some [e]))))"

definition deleteInstalledPackage :: "InstalledPackageReference \<Rightarrow> bool thunk" where
  "deleteInstalledPackage r =
     thenT (dispatchT (InstalledA RequestDeleteInstalledPackage))
       (tryT
         (thenT (service_deleteInstalledPackage r)
           (thenT (dispatchT (InstalledA ReceiveDeleteInstalledPackage)) (returnT True)))
         (\<lambda>e. thenT (fail_installed e (newError DeleteError (error_message e))) (returnT False)))"

definition fetchInstalledPackages :: "string \<Rightarrow> string option \<Rightarrow> InstalledPackageSummary list thunk" where
  "fetchInstalledPackages cluster namespace =
     thenT (dispatchT (InstalledA RequestInstalledPackageList))
       (tryT
         (bindT (getInstalledPackageSummaries cluster namespace None None) (\<lambda>ss.
            thenT (dispatchT (InstalledA (ReceiveInstalledPackageList ss))) (returnT ss)))
         (\<lambda>e. thenT (fail_installed e (newCustomError FetchError ''Unable to list apps'' (Some [e])))
                (returnT [])))"

definition not_enough_information :: string where
  "not_enough_information = ''This package does not contain enough information to be installed''"

definition installPackage ::
  "lib \<Rightarrow> string \<Rightarrow> string \<Rightarrow> AvailablePackageDetail \<Rightarrow> string \<Rightarrow> string option \<Rightarrow> json option
     \<Rightarrow> ReconciliationOptions option \<Rightarrow> bool thunk" where
  "installPackage L cluster namespace detail releaseName values schema reconciliation =
     thenT (dispatchT (InstalledA RequestInstallPackage))
       (tryT
         (thenT (validateT L values schema (apd_defaultValues detail))
           (case (apd_availablePackageRef detail, detail_version (Some detail)) of
              (Some r, Some (c # cs)) \<Rightarrow>
                thenT (createInstalledPackage \<lparr>ctx_cluster = cluster, ctx_namespace = namespace\<rparr>
                         releaseName r (c # cs) values reconciliation)
                  (thenT (dispatchT (InstalledA ReceiveInstallPackage)) (returnT True))
            | _ \<Rightarrow>
                thenT (dispatchT (InstalledA (ErrorInstalledPackage
                         (newError CreateError not_enough_information))))
                  (returnT False)))
         (\<lambda>e. thenT (fail_installed e (newError CreateError (error_message e))) (returnT False)))"

definition updateInstalledPackage ::
  "lib \<Rightarrow> InstalledPackageReference \<Rightarrow> AvailablePackageDetail \<Rightarrow> string option \<Rightarrow> json option
     \<Rightarrow> bool thunk" where
  "updateInstalledPackage L r detail values schema =
     thenT (dispatchT (InstalledA RequestUpdateInstalledPackage))
       (tryT
         (thenT (validateT L values schema (apd_defaultValues detail))
           (case detail_version (Some detail) of
              Some (c # cs) \<Rightarrow>
                thenT (service_updateInstalledPackage r (c # cs) values None)
                  (thenT (dispatchT (InstalledA ReceiveUpdateInstalledPackage)) (returnT True))
            | _ \<Rightarrow>
                thenT (dispatchT (InstalledA (ErrorInstalledPackage
                         (newError UpgradeError not_enough_information))))
                  (returnT False)))
         (\<lambda>e. thenT (fail_installed e (newError UpgradeError (error_message e))) (returnT False)))"

definition cannot_roll_back :: js_error where
  "cannot_roll_back = newError RollbackError
     ''This package cannot be rolled back; this operation is only available for Helm packages''"

definition rollbackInstalledPackage :: "InstalledPackageReference \<Rightarrow> nat \<Rightarrow> bool thunk" where
  "rollbackInstalledPackage r revision =
     (if supports_rollback r
      then thenT (dispatchT (InstalledA RequestRollbackInstalledPackage))
             (tryT
               (thenT (service_rollbackInstalledPackage r revision)
                 (thenT (dispatchT (InstalledA ReceiveRollbackInstalledPackage))
                   (thenT (spawnT (getInstalledPackage (Some r))) (returnT True))))
               (\<lambda>e. thenT (fail_installed e (newError RollbackError (error_message e)))
                      (returnT False)))
      else thenT (dispatchT (InstalledA (ErrorInstalledPackage cannot_roll_back)))
             (returnT False))"

section \<open>Running\<close>

definition fail_installed_world :: "IClusterState jsobj \<Rightarrow> js_error \<Rightarrow> js_error \<Rightarrow> world \<Rightarrow> world" where
  "fail_installed_world init e err w =
     (if is_unauthorized e then unauthorized_world init w
      else applied (InstalledA (ErrorInstalledPackage err))
             (\<lambda>s. s\<lparr>st_apps := (st_apps s)\<lparr>ip_isFetching := False, ip_error := Some err\<rparr>\<rparr>) w)"

lemma run_fail_installed [simp]:
  "run (rootReducer L init) srv (fail_installed e err k h) w =
     run (rootReducer L init) srv (k ()) (fail_installed_world init e err w)"
  by (simp add: fail_installed_def fail_installed_world_def run_dispatchT)

lemma exec_fail_installed [simp]:
  "exec (rootReducer L init) srv (fail_installed e err k h) w =
     exec (rootReducer L init) srv (k ()) (fail_installed_world init e err w)"
  by (simp add: fail_installed_def fail_installed_world_def thunk_simps)

section \<open>Properties\<close>


text \<open>
  Installing with values that pass the validation, of a package with a reference and a version. Exactly
  one creation is requested, for that reference, version and values in the target namespace, with the
  stored token. The thunk returns true exactly when the backend accepts it; the loading flag is lowered in
  every case but that of a lost session.
\<close>
theorem install_sends_validated:
  assumes "validation_error L values schema (apd_defaultValues detail) = None"
    and "apd_availablePackageRef detail = Some r" and "detail_version (Some detail) = Some v" and "v \<noteq> []"
  shows "let call = CreateInstalledPackage \<lparr>ctx_cluster = cluster, ctx_namespace = namespace\<rparr>
                      releaseName r v values reconciliation;
             answer = call_result srv (w_ls w) call done_reply
         in \<exists>w'. completes (rootReducer L init) srv
                 (installPackage L cluster namespace detail releaseName values schema reconciliation) w
                 (answer = Inr ()) w' \<and>
               w_sent w' = w_sent w @ [Grpc (request_token None (w_ls w)) call] \<and>
               ip_isFetching (st_apps (w_store w')) =
                 (case answer of Inl e \<Rightarrow> is_unauthorized e | Inr u \<Rightarrow> False)"
proof -
  from assms(4) obtain c cs where v: "v = c # cs" by (cases v) auto
  with assms show ?thesis
    by (auto simp: completes_def installPackage_def createInstalledPackage_def thunk_core validateT_def
        run_dispatchT fail_installed_world_def Let_def split: sum.split intro!: exI)
qed

text \<open>
  Rolling back a package of a plugin that is not the Helm plugin. Nothing is sent, the thunk returns
  false and says why; the state is not marked as loading.
\<close>
theorem rollback_only_helm:
  assumes "ipr_plugin r = Some plugin" and "plugin_name plugin \<noteq> PACKAGES_HELM"
  shows "\<exists>w'. completes (rootReducer L init) srv (rollbackInstalledPackage r revision) w False w' \<and>
          w_sent w' = w_sent w \<and> ip_error (st_apps (w_store w')) = Some cannot_roll_back \<and>
          \<not> ip_isFetching (st_apps (w_store w'))"
  using assms
  by (auto simp: completes_def rollbackInstalledPackage_def supports_rollback_def
      getPluginsSupportingRollback_def thunk_core run_dispatchT intro!: exI)

text \<open>
  Opening an installed package whose available package cannot be found. The detail of the installed
  package is asked for first and the available package after it, by the reference and the version of the
  detail. The installed package is selected all the same, with its revision and status; the missing part
  is a warning, not an error that hides the package.
\<close>
theorem installed_package_without_catalog_entry:
  assumes "call_result srv (w_ls w) (GetInstalledPackageDetail r) installed_detail_reply = Inr (Some d)"
    and "call_result srv (w_ls w) (GetAvailablePackageDetail (ipd_availablePackageRef d)
           (map_option pav_pkgVersion (ipd_currentVersion d))) detail_reply = Inl e"
    and "\<not> is_unauthorized e"
  shows "let w' = runT (rootReducer L init) srv (getInstalledPackage r) w; apps = st_apps (w_store w')
         in ip_selected apps = Some (select_package L (Some d)) \<and> ip_selectedDetails apps = None \<and>
            ip_error apps = Some missing_information \<and> \<not> ip_isFetching apps \<and>
            w_sent w' = w_sent w @
              [Grpc (request_token None (w_ls w)) (GetInstalledPackageDetail r),
               Grpc (request_token None (w_ls w)) (GetAvailablePackageDetail (ipd_availablePackageRef d)
                 (map_option pav_pkgVersion (ipd_currentVersion d)))]"
  using assms
  by (simp add: runT_def getInstalledPackage_def getInstalledPackageDetail_def
      getAvailablePackageDetail_def thunk_core run_dispatchT fail_installed_world_def Let_def)

section \<open>Witnesses\<close>

definition sample_detail :: AvailablePackageDetail where
  "sample_detail =
     \<lparr>apd_availablePackageRef =
        Some \<lparr>apr_context = None, apr_identifier = ''bitnami/apache'', apr_plugin = None\<rparr>,
      apd_name = ''apache'',
      apd_version = Some \<lparr>pav_pkgVersion = ''1.0.0'', pav_appVersion = ''2.4''\<rparr>,
      apd_repoUrl = [], apd_homeUrl = [], apd_iconUrl = [], apd_displayName = [],
      apd_shortDescription = [], apd_longDescription = [], apd_readme = [], apd_defaultValues = [],
      apd_additionalDefaultValues = [], apd_valuesSchema = [], apd_sourceUrls = [],
      apd_maintainers = [], apd_categories = [], apd_customDetail = None\<rparr>"

definition strict_lib :: lib where
  "strict_lib = sample_lib\<lparr>check_values :=
     (\<lambda>v s d. Inr (False, Some [(''/replicas'', ''must be integer'')]))\<rparr>"

definition done_server :: server where
  "done_server q = Inr RDone"


theorem install_sends_validated_witness:
  "\<exists>w'. completes (rootReducer sample_lib []) done_server
      (installPackage sample_lib ''c1'' ''dev'' sample_detail ''web'' None None None)
      (sample_world token_storage) True w' \<and> length (w_sent w') = 1"
  using install_sends_validated [of sample_lib None None sample_detail
      "\<lparr>apr_context = None, apr_identifier = ''bitnami/apache'', apr_plugin = None\<rparr>" "''1.0.0''"
      "''c1''" "''dev''" "''web''" None done_server "sample_world token_storage" "[]"]
  by (auto simp: validation_error_def sample_detail_def detail_version_def call_result_def
      done_server_def Let_def)

definition flux_installed :: InstalledPackageReference where
  "flux_installed = \<lparr>ipr_context = None, ipr_identifier = ''web'',
     ipr_plugin = Some \<lparr>plugin_name = PACKAGES_FLUX, plugin_version = ''v1alpha1''\<rparr>\<rparr>"

theorem rollback_only_helm_witness:
  "\<exists>w'. completes (rootReducer sample_lib []) done_server (rollbackInstalledPackage flux_installed 3)
      (sample_world token_storage) False w' \<and> w_sent w' = []"
  using rollback_only_helm [of flux_installed "\<lparr>plugin_name = PACKAGES_FLUX, plugin_version = ''v1alpha1''\<rparr>"
      sample_lib "[]" done_server 3 "sample_world token_storage"]
  by (auto simp: flux_installed_def)

definition installed_detail :: InstalledPackageDetail where
  "installed_detail =
     \<lparr>ipd_installedPackageRef = Some flux_installed, ipd_pkgVersionReference = None, ipd_name = ''web'',
      ipd_currentVersion = None, ipd_valuesApplied = [], ipd_reconciliationOptions = None,
      ipd_status = None, ipd_postInstallationNotes = [], ipd_availablePackageRef = None,
      ipd_latestMatchingVersion = None, ipd_latestVersion = None, ipd_customDetail = None\<rparr>"

definition half_server :: server where
  "half_server q = (case q of
     Grpc t (GetInstalledPackageDetail r) \<Rightarrow> Inr (RInstalledDetail (Some installed_detail))
   | _ \<Rightarrow> Inl (ConnectError NotFoundCode ''not found'' []))"

theorem installed_package_without_catalog_entry_witness:
  "ip_selected (st_apps (w_store (runT (rootReducer sample_lib []) half_server
     (getInstalledPackage (Some flux_installed)) (sample_world token_storage)))) =
   Some (select_package sample_lib (Some installed_detail))"
  using installed_package_without_catalog_entry [of half_server "sample_world token_storage"
      "Some flux_installed" installed_detail "newError NotFoundNetworkError []" sample_lib "[]"]
  by (simp add: call_result_def half_server_def convertGrpcAuthError_def network_class_def
      grpc_message_def Let_def)

end
