(* ===== verification/Repositories_Service.thy ===== *)
theory Repositories_Service
  imports Auth_Actions
begin

text \<open>
  The service of the package repositories (\<open>shared/PackageRepositoriesService.ts\<close>): the requests it
  builds from what the form submits, and its calls.
\<close>

section \<open>Building a request\<close>

definition any_nonempty :: "string list \<Rightarrow> bool" where
  "any_nonempty vs = list_ex (\<lambda>v. v \<noteq> []) vs"

text \<open>
  \<open>{...auth, f: v}\<close> on an auth that may be missing: a missing field has its protobuf default.
\<close>

definition auth_or_new :: "PackageRepositoryAuth option \<Rightarrow> PackageRepositoryAuth" where
  "auth_or_new auth = (case auth of
     None \<Rightarrow> \<lparr>pra_type = AUTH_UNSPECIFIED, pra_oneOf = NoAuthOneOf, pra_passCredentials = False\<rparr>
   | Some a \<Rightarrow> a)"

definition tls_or_new :: "PackageRepositoryTlsConfig option \<Rightarrow> PackageRepositoryTlsConfig" where
  "tls_or_new tls = (case tls of
     None \<Rightarrow> \<lparr>prt_insecureSkipVerify = False, prt_oneOf = NoTlsOneOf\<rparr> | Some t \<Rightarrow> t)"

definition with_oneOf :: "AuthOneOf \<Rightarrow> PackageRepositoryAuth option \<Rightarrow> PackageRepositoryAuth option" where
  "with_oneOf v auth = Some ((auth_or_new auth)\<lparr>pra_oneOf := v\<rparr>)"

definition with_tls :: "TlsOneOf \<Rightarrow> PackageRepositoryTlsConfig option \<Rightarrow> PackageRepositoryTlsConfig option"
where
  "with_tls v tls = Some ((tls_or_new tls)\<lparr>prt_oneOf := v\<rparr>)"

text \<open>
  The credentials the user entered. The first case is written \<open>case (AUTHORIZATION_HEADER, BEARER)\<close>,
  a comma expression whose value is \<open>BEARER\<close>: the other method has no case.
\<close>

definition entered_auth :: "IPkgRepoFormData \<Rightarrow> PackageRepositoryAuth option \<Rightarrow> PackageRepositoryAuth option"
where
  "entered_auth request auth =
     (case fo_authMethod request of
        BEARER \<Rightarrow>
          (if fo_authHeader request \<noteq> [] then with_oneOf (AuthHeader (fo_authHeader request)) auth
           else auth)
      | BASIC_AUTH \<Rightarrow>
          (let c = fo_basicAuth request in
           if any_nonempty [up_username c, up_password c]
           then with_oneOf (AuthUsernamePassword
                  \<lparr>up_username = up_username c, up_password = up_password c\<rparr>) auth
           else auth)
      | DOCKER_CONFIG_JSON \<Rightarrow>
          (let c = fo_dockerRegCreds request in
           if any_nonempty [dc_server c, dc_username c, dc_password c, dc_email c]
           then with_oneOf (AuthDockerCreds c) auth else auth)
      | SSH \<Rightarrow>
          (let c = fo_sshCreds request in
           if any_nonempty [sc_privateKey c, sc_knownHosts c]
           then with_oneOf (AuthSshCreds c) auth else auth)
      | TLS \<Rightarrow>
          (let c = fo_tlsCertKey request in
           if any_nonempty [tck_cert c, tck_key c]
           then with_oneOf (AuthTlsCertKey c) auth else auth)
      | OPAQUE \<Rightarrow>
          (let c = fo_opaqueCreds request in
           if any_nonempty (map snd (oc_data c))
           then with_oneOf (AuthOpaqueCreds c) auth else auth)
      | _ \<Rightarrow> auth)"

definition build_auth :: "IPkgRepoFormData \<Rightarrow> PackageRepositoryAuth option" where
  "build_auth request =
     (let a1 = (if fo_authMethod request \<noteq> AUTH_UNSPECIFIED
                then Some ((auth_or_new None)\<lparr>pra_type := fo_authMethod request\<rparr>) else None);
          a2 = (if \<not> fo_isUserManaged request then entered_auth request a1 else a1);
          a3 = (if fo_isUserManaged request \<and> fo_authMethod request \<noteq> AUTH_UNSPECIFIED \<and>
                   fo_secretAuthName request \<noteq> []
                then with_oneOf (AuthSecretRef \<lparr>skr_name = fo_secretAuthName request, skr_key = []\<rparr>) a2
                else a2)
      in if fo_passCredentials request
         then Some ((auth_or_new a3)\<lparr>pra_passCredentials := True\<rparr>) else a3)"

definition build_tls :: "IPkgRepoFormData \<Rightarrow> PackageRepositoryTlsConfig option" where
  "build_tls request =
     (let t1 = (if \<not> fo_isUserManaged request \<and> fo_customCA request \<noteq> []
                then with_tls (TlsCertAuthority (fo_customCA request)) None else None);
          t2 = (if fo_isUserManaged request \<and> fo_secretTLSName request \<noteq> []
                then with_tls (TlsSecretRef \<lparr>skr_name = fo_secretTLSName request, skr_key = []\<rparr>) t1
                else t1)
      in if fo_skipTLS request
         then Some ((tls_or_new t2)\<lparr>prt_insecureSkipVerify := True\<rparr>) else t2)"

definition buildAddRequest ::
  "string \<Rightarrow> IPkgRepoFormData \<Rightarrow> RequestDetail option \<Rightarrow> AddPackageRepositoryRequest" where
  "buildAddRequest cluster request detail =
     \<lparr>arq_context = \<lparr>ctx_cluster = cluster, ctx_namespace = fo_namespace request\<rparr>,
      arq_name = fo_name request, arq_description = fo_description request,
      arq_namespaceScoped = fo_isNamespaceScoped request, arq_type = fo_type request,
      arq_url = fo_url request, arq_interval = fo_interval request, arq_plugin = fo_plugin request,
      arq_customDetail = detail, arq_auth = build_auth request, arq_tlsConfig = build_tls request\<rparr>"

definition buildUpdateRequest ::
  "string \<Rightarrow> IPkgRepoFormData \<Rightarrow> RequestDetail option \<Rightarrow> UpdatePackageRepositoryRequest" where
  "buildUpdateRequest cluster request detail =
     (let r = buildAddRequest cluster request detail in
      \<lparr>urq_packageRepoRef = \<lparr>prr_context = Some (arq_context r), prr_identifier = arq_name r,
                               prr_plugin = arq_plugin r\<rparr>,
       urq_description = arq_description r, urq_url = arq_url r, urq_interval = arq_interval r,
       urq_customDetail = arq_customDetail r, urq_auth = arq_auth r,
       urq_tlsConfig = arq_tlsConfig r\<rparr>)"

section \<open>The custom detail\<close>

definition helm_typeName :: string where
  "helm_typeName = ''kubeappsapis.plugins.helm.packages.v1alpha1.HelmPackageRepositoryCustomDetail''"

definition flux_typeName :: string where
  "flux_typeName = ''kubeappsapis.plugins.fluxv2.packages.v1alpha1.FluxPackageRepositoryCustomDetail''"

text \<open>A Flux detail read as a Helm detail has none of its members.\<close>

definition as_helm :: "FormCustomDetail \<Rightarrow> HelmPackageRepositoryCustomDetail" where
  "as_helm d = (case d of
     FormHelm h \<Rightarrow> h
   | FormFlux f \<Rightarrow>
       \<lparr>hd_imagesPullSecret = None, hd_ociRepositories = [], hd_filterRule = None,
        hd_performValidation = False, hd_proxyOptions = None, hd_nodeSelector = [],
        hd_tolerations = [], hd_supplementalGroups = []\<rparr>)"

definition kept_pullSecret :: "DockerRegistryCredential option \<Rightarrow> DockerRegistryCredential option" where
  "kept_pullSecret secret = (case secret of
     Some (CredentialSecretRef s) \<Rightarrow> secret
   | Some (CredentialDocker c) \<Rightarrow>
       (if any_nonempty [dc_server c, dc_username c, dc_password c, dc_email c] then secret else None)
   | _ \<Rightarrow> None)"

definition kept_proxy :: "ProxyOptions option \<Rightarrow> ProxyOptions option" where
  "kept_proxy proxy = (case proxy of
     None \<Rightarrow> None
   | Some p \<Rightarrow>
       (if po_enabled p \<or> any_nonempty [po_httpProxy p, po_httpsProxy p, po_noProxy p] then Some p
        else None))"

definition helm_detail :: "HelmPackageRepositoryCustomDetail \<Rightarrow> HelmPackageRepositoryCustomDetail" where
  "helm_detail d =
     \<lparr>hd_imagesPullSecret = kept_pullSecret (hd_imagesPullSecret d),
      hd_ociRepositories = hd_ociRepositories d, hd_filterRule = hd_filterRule d,
      hd_performValidation = hd_performValidation d, hd_proxyOptions = kept_proxy (hd_proxyOptions d),
      hd_nodeSelector = [], hd_tolerations = [], hd_supplementalGroups = []\<rparr>"

definition buildEncodedCustomDetail :: "lib \<Rightarrow> IPkgRepoFormData \<Rightarrow> RequestDetail option" where
  "buildEncodedCustomDetail L request =
     (case fo_customDetail request of
        None \<Rightarrow> None
      | Some d \<Rightarrow>
          (if map_option plugin_name (fo_plugin request) = Some PACKAGES_HELM
           then Some (DetailBytes helm_typeName (helm_toBinary L (helm_detail (as_helm d))))
           else if map_option plugin_name (fo_plugin request) = Some PACKAGES_FLUX
           then Some (DetailObject flux_typeName d)
           else None))"

section \<open>Calls\<close>

fun repo_summaries_reply :: "response \<Rightarrow> PackageRepositorySummary list option" where
  "repo_summaries_reply (RRepoSummaries rs) = Some rs"
| "repo_summaries_reply _ = None"

fun repo_detail_reply :: "response \<Rightarrow> PackageRepositoryDetail option option" where
  "repo_detail_reply (RRepoDetail d) = Some d"
| "repo_detail_reply _ = None"

fun repo_ref_reply :: "response \<Rightarrow> PackageRepositoryReference option option" where
  "repo_ref_reply (RRepoRef r) = Some r"
| "repo_ref_reply _ = None"

fun permissions_reply :: "response \<Rightarrow> PackageRepositoriesPermissions list option" where
  "permissions_reply (RPermissions ps) = Some ps"
| "permissions_reply _ = None"

definition getPackageRepositorySummaries :: "Context \<Rightarrow> PackageRepositorySummary list thunk" where
  "getPackageRepositorySummaries context =
     grpc (GetPackageRepositorySummaries context) repo_summaries_reply"

definition getPackageRepositoryDetail ::
  "PackageRepositoryReference \<Rightarrow> PackageRepositoryDetail option thunk" where
  "getPackageRepositoryDetail r = grpc (GetPackageRepositoryDetail r) repo_detail_reply"

definition addPackageRepository ::
  "lib \<Rightarrow> string \<Rightarrow> IPkgRepoFormData \<Rightarrow> PackageRepositoryReference option thunk" where
  "addPackageRepository L cluster request =
     grpc (AddPackageRepository (buildAddRequest cluster request (buildEncodedCustomDetail L request)))
       repo_ref_reply"

definition updatePackageRepository ::
  "lib \<Rightarrow> string \<Rightarrow> IPkgRepoFormData \<Rightarrow> PackageRepositoryReference option thunk" where
  "updatePackageRepository L cluster request =
     grpc (UpdatePackageRepository
             (buildUpdateRequest cluster request (buildEncodedCustomDetail L request)))
       repo_ref_reply"

definition deletePackageRepository :: "PackageRepositoryReference \<Rightarrow> unit thunk" where
  "deletePackageRepository r = grpc (DeletePackageRepository r) done_reply"

definition getRepositoriesPermissions ::
  "string \<Rightarrow> string \<Rightarrow> PackageRepositoriesPermissions list thunk" where
  "getRepositoriesPermissions cluster namespace =
     bindT (rpc None (GetPackageRepositoryPermissions
              \<lparr>ctx_cluster = cluster, ctx_namespace = namespace\<rparr>))
       (decodeT permissions_reply)"

section \<open>Properties\<close>

text \<open>What the form's data mean: the credentials of every method that are not all empty.\<close>

definition intended_credentials :: "IPkgRepoFormData \<Rightarrow> AuthOneOf" where
  "intended_credentials f =
     (case fo_authMethod f of
        AUTHORIZATION_HEADER \<Rightarrow> (if fo_authHeader f = [] then NoAuthOneOf else AuthHeader (fo_authHeader f))
      | BEARER \<Rightarrow> (if fo_authHeader f = [] then NoAuthOneOf else AuthHeader (fo_authHeader f))
      | BASIC_AUTH \<Rightarrow> (if fo_basicAuth f = \<lparr>up_username = [], up_password = []\<rparr> then NoAuthOneOf
                       else AuthUsernamePassword (fo_basicAuth f))
      | DOCKER_CONFIG_JSON \<Rightarrow>
          (if fo_dockerRegCreds f = \<lparr>dc_server = [], dc_username = [], dc_password = [], dc_email = []\<rparr>
           then NoAuthOneOf else AuthDockerCreds (fo_dockerRegCreds f))
      | SSH \<Rightarrow> (if fo_sshCreds f = \<lparr>sc_privateKey = [], sc_knownHosts = []\<rparr> then NoAuthOneOf
                else AuthSshCreds (fo_sshCreds f))
      | TLS \<Rightarrow> (if fo_tlsCertKey f = \<lparr>tck_cert = [], tck_key = []\<rparr> then NoAuthOneOf
                else AuthTlsCertKey (fo_tlsCertKey f))
      | OPAQUE \<Rightarrow> (if set (map snd (oc_data (fo_opaqueCreds f))) \<subseteq> {[]} then NoAuthOneOf
                   else AuthOpaqueCreds (fo_opaqueCreds f))
      | AUTH_UNSPECIFIED \<Rightarrow> NoAuthOneOf)"

definition request_credentials :: "AddPackageRepositoryRequest \<Rightarrow> AuthOneOf" where
  "request_credentials r = pra_oneOf (auth_or_new (arq_auth r))"

lemma any_nonempty_set: "any_nonempty vs \<longleftrightarrow> \<not> set vs \<subseteq> {[]}"
  by (induction vs) (auto simp: any_nonempty_def)

text \<open>
  C15: The credentials of a repository whose secrets Kubeapps manages. The request carries exactly the
  credentials the form's method stands for, with one exception: an authorization header that was
  entered is not in the request.
\<close>
theorem request_carries_credentials:
  assumes "\<not> fo_isUserManaged f"
  shows "request_credentials (buildAddRequest cluster f detail) =
    (if fo_authMethod f = AUTHORIZATION_HEADER then NoAuthOneOf else intended_credentials f)"
  using assms
  by (cases "fo_authMethod f"; cases "fo_basicAuth f"; cases "fo_dockerRegCreds f"; cases "fo_sshCreds f";
      cases "fo_tlsCertKey f")
    (auto simp: request_credentials_def buildAddRequest_def build_auth_def entered_auth_def with_oneOf_def
      auth_or_new_def intended_credentials_def any_nonempty_set Let_def)

fun is_secret_ref :: "AuthOneOf \<Rightarrow> bool" where
  "is_secret_ref (AuthSecretRef r) = True"
| "is_secret_ref _ = False"

fun is_tls_ref :: "TlsOneOf \<Rightarrow> bool" where
  "is_tls_ref (TlsSecretRef r) = True"
| "is_tls_ref _ = False"

lemma entered_auth_no_ref:
  "\<not> is_secret_ref (pra_oneOf (auth_or_new a)) \<Longrightarrow> \<not> is_secret_ref (pra_oneOf (auth_or_new (entered_auth f a)))"
  by (cases "fo_authMethod f") (auto simp: entered_auth_def with_oneOf_def auth_or_new_def Let_def)

text \<open>
  Who manages the secrets decides what a request contains. With secrets the user manages, it names
  secrets and carries no credentials of its own, and it names one exactly when a method and a secret are
  given; with secrets Kubeapps manages it never refers to one. The same holds for the certificate
  authority.
\<close>
theorem managed_secrets_split:
  "let r = buildAddRequest cluster f detail; auth = request_credentials r;
       tls = prt_oneOf (tls_or_new (arq_tlsConfig r))
   in (if fo_isUserManaged f
       then auth = (if fo_authMethod f = AUTH_UNSPECIFIED \<or> fo_secretAuthName f = [] then NoAuthOneOf
                    else AuthSecretRef \<lparr>skr_name = fo_secretAuthName f, skr_key = []\<rparr>) \<and>
            tls = (if fo_secretTLSName f = [] then NoTlsOneOf
                   else TlsSecretRef \<lparr>skr_name = fo_secretTLSName f, skr_key = []\<rparr>)
       else \<not> is_secret_ref auth \<and> \<not> is_tls_ref tls)"
proof (cases "fo_isUserManaged f")
  case True
  then show ?thesis
    by (simp add: request_credentials_def buildAddRequest_def build_auth_def build_tls_def with_oneOf_def
        with_tls_def auth_or_new_def tls_or_new_def Let_def)
next
  case False
  have "\<not> is_secret_ref (pra_oneOf (auth_or_new (entered_auth f a)))"
    if "a = None \<or> a = Some ((auth_or_new None)\<lparr>pra_type := t\<rparr>)" for a t
    using that by (intro entered_auth_no_ref) (auto simp: auth_or_new_def)
  then have "\<not> is_secret_ref (request_credentials (buildAddRequest cluster f detail))"
    using False
    by (auto simp: request_credentials_def buildAddRequest_def build_auth_def auth_or_new_def Let_def
        split: option.splits)
  with False show ?thesis
    by (simp add: buildAddRequest_def build_tls_def with_tls_def tls_or_new_def Let_def)
qed

text \<open>
  Updating a repository. The update request names the repository by the form's name, namespace and
  plugin, and carries the credentials, certificates and custom detail an addition would.
\<close>
theorem update_request_agrees:
  "let u = buildUpdateRequest cluster f detail; r = buildAddRequest cluster f detail
   in prr_identifier (urq_packageRepoRef u) = fo_name f \<and>
      prr_context (urq_packageRepoRef u) = Some \<lparr>ctx_cluster = cluster, ctx_namespace = fo_namespace f\<rparr> \<and>
      prr_plugin (urq_packageRepoRef u) = fo_plugin f \<and>
      urq_auth u = arq_auth r \<and> urq_tlsConfig u = arq_tlsConfig r \<and> urq_customDetail u = detail"
  by (simp add: buildUpdateRequest_def buildAddRequest_def Let_def)

section \<open>Witnesses\<close>

definition sample_form :: IPkgRepoFormData where
  "sample_form =
     \<lparr>fo_authMethod = AUTHORIZATION_HEADER, fo_isUserManaged = False, fo_authHeader = ''Custom abc'',
      fo_basicAuth = \<lparr>up_username = [], up_password = []\<rparr>,
      fo_dockerRegCreds = \<lparr>dc_server = [], dc_username = [], dc_password = [], dc_email = []\<rparr>,
      fo_sshCreds = \<lparr>sc_privateKey = [], sc_knownHosts = []\<rparr>, fo_opaqueCreds = \<lparr>oc_data = []\<rparr>,
      fo_tlsCertKey = \<lparr>tck_cert = [], tck_key = []\<rparr>, fo_secretAuthName = [], fo_secretTLSName = [],
      fo_customCA = [], fo_description = [], fo_interval = ''10m'', fo_name = ''bitnami'',
      fo_passCredentials = False,
      fo_plugin = Some \<lparr>plugin_name = PACKAGES_HELM, plugin_version = ''v1alpha1''\<rparr>,
      fo_skipTLS = False, fo_type = ''helm'', fo_url = ''https://charts'', fo_customDetail = None,
      fo_namespace = ''kubeapps'', fo_isNamespaceScoped = False\<rparr>"

theorem request_carries_credentials_witness:
  "request_credentials (buildAddRequest ''c1'' sample_form None) = NoAuthOneOf \<and>
   fo_authHeader sample_form = ''Custom abc''"
  using request_carries_credentials [of sample_form "''c1''" None] by (simp add: sample_form_def)

end
