(* ===== verification/Repo_Actions.thy ===== *)
theory Repo_Actions
  imports Repositories_Service Package_Actions
begin

text \<open>The thunks of the package repositories (\<open>actions/repos.ts\<close>).\<close>

section \<open>Thunks\<close>

definition convertPkgRepoDetailToSummary :: "PackageRepositoryDetail \<Rightarrow> PackageRepositorySummary" where
  "convertPkgRepoDetailToSummary d =
     \<lparr>prsum_packageRepoRef = prd_packageRepoRef d, prsum_name = prd_name d,
      prsum_description = prd_description d, prsum_namespaceScoped = prd_namespaceScoped d,
      prsum_type = prd_type d, prsum_url = prd_url d, prsum_status = prd_status d,
      prsum_requiresAuth = (prd_auth d \<noteq> None)\<rparr>"

text \<open>\<open>dispatch(handleErrorAction(e, errorRepos(err, op)))\<close>.\<close>

definition fail_repos :: "js_error \<Rightarrow> js_error \<Rightarrow> repo_op \<Rightarrow> unit thunk" where
  "fail_repos e err opn = handleErrorAction e (ReposA (ErrorRepos err opn))"

text \<open>An undefined cluster is the empty string of the message.\<close>

definition repos_context :: "IStoreState \<Rightarrow> string \<Rightarrow> Context" where
  "repos_context s namespace =
     \<lparr>ctx_cluster = (if namespace \<noteq> [] then opt_string (cl_currentCluster (st_clusters s))
                     else kubeappsCluster (st_config s)),
      ctx_namespace = namespace\<rparr>"

definition fetchRepoSummaries :: "lib \<Rightarrow> string \<Rightarrow> bool \<Rightarrow> unit thunk" where
  "fetchRepoSummaries L namespace listGlobal =
     bindT getState (\<lambda>s.
       tryT
         (thenT (dispatchT (ReposA (RequestRepoSummaries namespace)))
           (bindT (getPackageRepositorySummaries (repos_context s namespace)) (\<lambda>repos.
              if \<not> listGlobal \<or> namespace = helmGlobalNamespace (st_config s)
              then dispatchT (ReposA (ReceiveRepoSummaries repos))
              else
                thenT (dispatchT (ReposA (RequestRepoSummaries [])))
                  (bindT (getPackageRepositorySummaries
                            \<lparr>ctx_cluster = kubeappsCluster (st_config s), ctx_namespace = []\<rparr>)
                    (\<lambda>globalRepos.
                       dispatchT (ReposA (ReceiveRepoSummaries
                         (uniqBy_repos L (repos @ globalRepos)))))))))
         (\<lambda>e. fail_repos e e OpFetch))"

definition empty_answer :: "lib \<Rightarrow> string \<Rightarrow> js_error" where
  "empty_answer L what = JsError (what @ '': '' @ json_stringify L (JObj []))"

definition fetchRepoDetail :: "lib \<Rightarrow> PackageRepositoryReference \<Rightarrow> bool thunk" where
  "fetchRepoDetail L r =
     tryT
       (thenT (dispatchT (ReposA RequestRepoDetail))
         (bindT (getPackageRepositoryDetail r) (\<lambda>detail.
            case detail of
              None \<Rightarrow>
                thenT (dispatchT (ReposA (ErrorRepos
                         (empty_answer L ''Can't get the repository'') OpFetch)))
                  (returnT False)
            | Some d \<Rightarrow> thenT (dispatchT (ReposA (ReceiveRepoDetail d))) (returnT True))))
       (\<lambda>e. thenT (fail_repos e e OpFetch) (returnT False))"

text \<open>
  Adding and updating share their shape: a request that answers with a reference, the detail
  behind the reference, and the action that takes its summary.
\<close>

definition addRepo :: "lib \<Rightarrow> IPkgRepoFormData \<Rightarrow> bool thunk" where
  "addRepo L request =
     bindT getState (\<lambda>s.
       tryT
         (thenT (dispatchT (ReposA AddOrUpdateRepo))
           (bindT (addPackageRepository L (opt_string (cl_currentCluster (st_clusters s))) request)
             (\<lambda>ref. case ref of
                None \<Rightarrow>
                  thenT (dispatchT (ReposA (ErrorRepos
                           (empty_answer L ''Can't create the repository'') OpCreate)))
                    (returnT False)
              | Some r \<Rightarrow>
                  bindT (getPackageRepositoryDetail r) (\<lambda>detail. case detail of
                     None \<Rightarrow>
                       thenT (dispatchT (ReposA (ErrorRepos
                                (empty_answer L ''The repo wasn't created'') OpCreate)))
                         (returnT False)
                   | Some d \<Rightarrow>
                       thenT (dispatchT (ReposA (AddedRepo (convertPkgRepoDetailToSummary d))))
                         (returnT True)))))
         (\<lambda>e. thenT (fail_repos e e OpCreate) (returnT False)))"

definition updateRepo :: "lib \<Rightarrow> IPkgRepoFormData \<Rightarrow> bool thunk" where
  "updateRepo L request =
     bindT getState (\<lambda>s.
       tryT
         (thenT (dispatchT (ReposA AddOrUpdateRepo))
           (bindT (updatePackageRepository L (opt_string (cl_currentCluster (st_clusters s))) request)
             (\<lambda>ref. case ref of
                None \<Rightarrow>
                  thenT (dispatchT (ReposA (ErrorRepos
                           (empty_answer L ''Can't update the repository'') OpUpdate)))
                    (returnT False)
              | Some r \<Rightarrow>
                  bindT (getPackageRepositoryDetail r) (\<lambda>detail. case detail of
                     None \<Rightarrow>
                       thenT (dispatchT (ReposA (ErrorRepos
                                (empty_answer L ''The repo wasn't updated'') OpUpdate)))
                         (returnT False)
                   | Some d \<Rightarrow>
                       thenT (dispatchT (ReposA (RepoUpdated (convertPkgRepoDetailToSummary d))))
                         (returnT True)))))
         (\<lambda>e. thenT (fail_repos e e OpUpdate) (returnT False)))"

definition deleteRepo :: "PackageRepositoryReference \<Rightarrow> bool thunk" where
  "deleteRepo r =
     tryT (thenT (deletePackageRepository r) (returnT True))
       (\<lambda>e. thenT (fail_repos e e OpDelete) (returnT False))"

definition package_not_found :: "string \<Rightarrow> string \<Rightarrow> js_error" where
  "package_not_found package namespace = newError NotFoundNetworkError
     (''Package '' @ package @ '' not found in the repository '' @ namespace @ ''.'')"

definition no_matching_package :: "InstalledPackageDetail option \<Rightarrow> string \<Rightarrow> js_error" where
  "no_matching_package app repoName = newError NotFoundNetworkError
     (''The installed application ''  @ CHR 0x27 # show_opt (map_option ipd_name app) @ CHR 0x27 #
      '' does not have any matching package in the repository '' @ CHR 0x27 # repoName @ CHR 0x27 #
      ''. Are you sure you installed this application from a repository?'')"

text \<open>The first request is outside of the \<open>try\<close>: its failure rejects the thunk's promise.\<close>

definition findPackageInRepo ::
  "string \<Rightarrow> string \<Rightarrow> string \<Rightarrow> InstalledPackageDetail option \<Rightarrow> bool thunk" where
  "findPackageInRepo cluster repoNamespace repoName app =
     thenT (dispatchT (ReposA RequestRepoDetail))
       (let ctx = \<lparr>ctx_cluster = cluster, ctx_namespace = repoNamespace\<rparr>;
            ref = Option.bind app ipd_availablePackageRef
        in case (map_option apr_identifier ref, Option.bind ref apr_plugin) of
             (Some (c # cs), Some plugin) \<Rightarrow>
               bindT (getPackageRepositoryDetail
                        \<lparr>prr_context = Some ctx, prr_identifier = repoName, prr_plugin = Some plugin\<rparr>)
                 (\<lambda>detail.
                    tryT
                      (thenT (getAvailablePackageVersions
                                (Some \<lparr>apr_context = Some ctx, apr_identifier = c # cs,
                                       apr_plugin = Some plugin\<rparr>))
                        (case detail of
                           None \<Rightarrow>
                             thenT (dispatchT (ReposA (ErrorRepos
                                      (package_not_found (c # cs) repoNamespace) OpFetch)))
                               (returnT False)
                         | Some d \<Rightarrow>
                             thenT (dispatchT (ReposA (ReceiveRepoDetail d))) (returnT True)))
                      (\<lambda>e. thenT (fail_repos e (package_not_found (c # cs) repoNamespace) OpFetch)
                             (returnT False)))
           | _ \<Rightarrow>
               thenT (dispatchT (ReposA (ErrorRepos (no_matching_package app repoName) OpFetch)))
                 (returnT False))"

definition fetchReposPermissions :: "string \<Rightarrow> string \<Rightarrow> bool thunk" where
  "fetchReposPermissions cluster namespace =
     tryT
       (thenT (dispatchT (ReposA (RequestReposPermissions
                 \<lparr>ctx_cluster = cluster, ctx_namespace = namespace\<rparr>)))
         (bindT (getRepositoriesPermissions cluster namespace) (\<lambda>ps.
            thenT (dispatchT (ReposA (ReceiveReposPermissions ps))) (returnT True))))
       (\<lambda>e. thenT (fail_repos e e OpFetch) (returnT False))"

section \<open>Running\<close>

definition fail_repos_world ::
  "IClusterState jsobj \<Rightarrow> js_error \<Rightarrow> js_error \<Rightarrow> repo_op \<Rightarrow> world \<Rightarrow> world" where
  "fail_repos_world init e err opn w =
     (if is_unauthorized e then unauthorized_world init w
      else applied (ReposA (ErrorRepos err opn))
             (\<lambda>s. s\<lparr>st_repos := (st_repos s)\<lparr>rp_errors := repo_error (rp_errors (st_repos s)) opn err,
                                           rp_isFetching := False\<rparr>\<rparr>) w)"

lemma run_fail_repos [simp]:
  "run (rootReducer L init) srv (fail_repos e err opn k h) w =
     run (rootReducer L init) srv (k ()) (fail_repos_world init e err opn w)"
  by (simp add: fail_repos_def fail_repos_world_def run_dispatchT)

lemma uniqBy_tail:
  assumes u: "uniqBy_spec key u"
  shows "\<exists>zs. u (xs @ ys) = u xs @ zs \<and> set zs \<subseteq> set ys"
proof (induction ys rule: rev_induct)
  case Nil
  then show ?case by simp
next
  case (snoc y ys)
  then obtain zs where zs: "u (xs @ ys) = u xs @ zs" "set zs \<subseteq> set ys" by blast
  have "u ((xs @ ys) @ [y]) =
      (if key y \<in> key ` set (xs @ ys) then u (xs @ ys) else u (xs @ ys) @ [y])"
    using u unfolding uniqBy_spec_def by blast
  then have "u (xs @ ys @ [y]) = u xs @ zs \<or> u (xs @ ys @ [y]) = u xs @ (zs @ [y])"
    using zs(1) by (simp split: if_splits)
  then show ?case
  proof
    assume "u (xs @ ys @ [y]) = u xs @ zs"
    then show ?thesis using zs(2) by (intro exI [of _ zs]) auto
  next
    assume "u (xs @ ys @ [y]) = u xs @ (zs @ [y])"
    then show ?thesis using zs(2) by (intro exI [of _ "zs @ [y]"]) auto
  qed
qed

section \<open>Properties\<close>

text \<open>
  The repositories of a namespace together with the global ones. Both lists are requested, the second
  one from the cluster Kubeapps runs in. The store then has the namespace's repositories followed by the
  global ones, one per identifier, the namespace's taking precedence: a global repository with the
  identifier of one of the namespace is not shown, even though it is a different repository.
\<close>
theorem repos_with_global:
  fixes namespace :: string
  assumes "lodash_uniq_spec L" and "namespace \<noteq> helmGlobalNamespace (st_config (w_store w))"
    and "call_result srv (w_ls w) (GetPackageRepositorySummaries (repos_context (w_store w) namespace))
           repo_summaries_reply = Inr local"
    and "call_result srv (w_ls w) (GetPackageRepositorySummaries
           \<lparr>ctx_cluster = kubeappsCluster (st_config (w_store w)), ctx_namespace = []\<rparr>)
           repo_summaries_reply = Inr globals"
  shows "let shown = rp_reposSummaries (st_repos (w_store
                       (runT (rootReducer L init) srv (fetchRepoSummaries L namespace True) w)))
         in distinct (map repo_identifier shown) \<and>
            repo_identifier ` set shown = repo_identifier ` set (local @ globals) \<and>
            (\<exists>zs. shown = uniqBy_repos L local @ zs \<and> set zs \<subseteq> set globals)"
proof -
  have shown: "rp_reposSummaries (st_repos (w_store
      (runT (rootReducer L init) srv (fetchRepoSummaries L namespace True) w))) =
      uniqBy_repos L (local @ globals)"
    using assms
    by (simp add: runT_def fetchRepoSummaries_def getPackageRepositorySummaries_def thunk_core
        getState_def run_dispatchT)
  have u: "uniqBy_spec repo_identifier (uniqBy_repos L)"
    using assms(1) by (simp add: lodash_uniq_spec_def)
  show ?thesis
    unfolding shown Let_def
    using uniqBy_distinct [OF u] uniqBy_keys [OF u, of "local @ globals"] uniqBy_tail [OF u] by blast
qed

text \<open>
  Adding a repository. The new repository is requested from the cluster selected in the store and read
  back by the reference in the answer; the list of repositories then has its summary, sorted by name
  without regard to case, and the thunk returns true.
\<close>
theorem added_repo_listed:
  assumes "call_result srv (w_ls w) (AddPackageRepository
             (buildAddRequest (opt_string (cl_currentCluster (st_clusters (w_store w)))) form
               (buildEncodedCustomDetail L form))) repo_ref_reply = Inr (Some r)"
    and "call_result srv (w_ls w) (GetPackageRepositoryDetail r) repo_detail_reply = Inr (Some d)"
  shows "\<exists>w'. completes (rootReducer L init) srv (addRepo L form) w True w' \<and>
          (let repos = rp_reposSummaries (st_repos (w_store w')) in
             set repos = insert (convertPkgRepoDetailToSummary d)
               (set (rp_reposSummaries (st_repos (w_store w)))) \<and>
             sorted (map repo_sort_key repos)) \<and>
          \<not> rp_isFetching (st_repos (w_store w')) \<and> length (w_sent w') = length (w_sent w) + 2"
  using assms
  by (auto simp: completes_def addRepo_def addPackageRepository_def getPackageRepositoryDetail_def
      thunk_core getState_def run_dispatchT Let_def intro!: exI)

section \<open>Witnesses\<close>

definition sample_repo :: "string \<Rightarrow> string \<Rightarrow> PackageRepositorySummary" where
  "sample_repo name url =
     \<lparr>prsum_packageRepoRef = Some \<lparr>prr_context = None, prr_identifier = name, prr_plugin = None\<rparr>,
      prsum_name = name, prsum_description = [], prsum_namespaceScoped = False, prsum_type = ''helm'',
      prsum_url = url, prsum_status = None, prsum_requiresAuth = False\<rparr>"

definition repos_server :: server where
  "repos_server q = (case q of
     Grpc t (GetPackageRepositorySummaries ctx) \<Rightarrow>
       Inr (RRepoSummaries [sample_repo ''bitnami'' (if ctx_namespace ctx = [] then ''global'' else ''local'')])
   | Grpc t (AddPackageRepository r) \<Rightarrow>
       Inr (RRepoRef (Some \<lparr>prr_context = None, prr_identifier = arq_name r, prr_plugin = None\<rparr>))
   | Grpc t (GetPackageRepositoryDetail r) \<Rightarrow>
       Inr (RRepoDetail (Some \<lparr>prd_packageRepoRef = Some r, prd_name = prr_identifier r, prd_description = [],
         prd_namespaceScoped = False, prd_type = ''helm'', prd_url = [], prd_interval = [],
         prd_tlsConfig = None, prd_auth = None, prd_customDetail = None, prd_status = None\<rparr>))
   | _ \<Rightarrow> Inr RDone)"

lemma repos_server_lists:
  "call_result repos_server ls (GetPackageRepositorySummaries ctx) repo_summaries_reply =
     Inr [sample_repo ''bitnami'' (if ctx_namespace ctx = [] then ''global'' else ''local'')]"
  by (simp add: call_result_def repos_server_def)

theorem repos_with_global_witness:
  "\<exists>zs. rp_reposSummaries (st_repos (w_store (runT (rootReducer sample_lib []) repos_server
      (fetchRepoSummaries sample_lib ''dev'' True) (sample_world token_storage)))) =
      sample_repo ''bitnami'' ''local'' # zs"
proof -
  have other: "''dev'' \<noteq> helmGlobalNamespace (st_config (w_store (sample_world token_storage)))"
    by (simp add: initialStore_def config_initialState_def)
  have "uniqBy_repos sample_lib [sample_repo ''bitnami'' ''local''] = [sample_repo ''bitnami'' ''local'']"
    by simp
  with repos_with_global [OF sample_lib_uniq other repos_server_lists repos_server_lists, of "[]"]
  show ?thesis by (auto simp: Let_def repos_context_def)
qed

theorem added_repo_listed_witness:
  "\<exists>w'. completes (rootReducer sample_lib []) repos_server (addRepo sample_lib sample_form)
      (sample_world token_storage) True w' \<and> length (w_sent w') = 2"
proof -
  have add: "call_result repos_server (w_ls (sample_world token_storage)) (AddPackageRepository
      (buildAddRequest (opt_string (cl_currentCluster (st_clusters (w_store (sample_world token_storage)))))
        sample_form (buildEncodedCustomDetail sample_lib sample_form))) repo_ref_reply =
      Inr (Some \<lparr>prr_context = None, prr_identifier = ''bitnami'', prr_plugin = None\<rparr>)"
    by (simp add: call_result_def repos_server_def buildAddRequest_def sample_form_def)
  have detail: "call_result repos_server (w_ls (sample_world token_storage)) (GetPackageRepositoryDetail
      \<lparr>prr_context = None, prr_identifier = ''bitnami'', prr_plugin = None\<rparr>) repo_detail_reply =
      Inr (Some \<lparr>prd_packageRepoRef =
             Some \<lparr>prr_context = None, prr_identifier = ''bitnami'', prr_plugin = None\<rparr>,
           prd_name = ''bitnami'', prd_description = [], prd_namespaceScoped = False, prd_type = ''helm'',
           prd_url = [], prd_interval = [], prd_tlsConfig = None, prd_auth = None,
           prd_customDetail = None, prd_status = None\<rparr>)"
    by (simp add: call_result_def repos_server_def)
  from added_repo_listed [OF add detail, of "[]"] show ?thesis by auto
qed

end
