(* ===== verification/Kube_Actions.thy ===== *)
theory Kube_Actions
  imports Axios
begin

text \<open>
  Kubernetes resources: references (\<open>shared/ResourceRef.ts\<close>), the discovery of resource kinds
  and service accounts (\<open>shared/Kube.ts\<close>), secrets (\<open>shared/Secret.ts\<close>) and the thunks of
  \<open>actions/kube.tsx\<close>.
\<close>

section \<open>References\<close>

text \<open>A reference with the cluster and the plural it is fetched by.\<close>

record ClusterResourceRef = ResourceRef +
  cref_cluster :: string
  cref_plural :: string
  cref_namespaced :: bool
  cref_filter :: "json option"

text \<open>
  The constructor: a namespaced resource without a namespace of its own gets the one of the
  release; one that is not namespaced has none.
\<close>

definition new_ResourceRef ::
  "string \<Rightarrow> string \<Rightarrow> bool \<Rightarrow> string \<Rightarrow> ResourceRef option \<Rightarrow> ClusterResourceRef" where
  "new_ResourceRef cluster plural namespaced releaseNamespace data =
     (let d = (case data of
                 None \<Rightarrow> \<lparr>rr_apiVersion = [], rr_kind = [], rr_name = [], rr_namespace = []\<rparr>
               | Some r \<Rightarrow> r)
      in \<lparr>rr_apiVersion = rr_apiVersion d, rr_kind = rr_kind d, rr_name = rr_name d,
          rr_namespace =
            (if namespaced then str_or (rr_namespace d) (str_or releaseNamespace []) else []),
          cref_cluster = cluster, cref_plural = plural, cref_namespaced = namespaced,
          cref_filter = None\<rparr>)"

definition fromCRD :: "string \<Rightarrow> IKind \<Rightarrow> string \<Rightarrow> string \<Rightarrow> json \<Rightarrow> ClusterResourceRef" where
  "fromCRD r_kind kind cluster namespace ownerReference =
     (new_ResourceRef cluster (kind_plural kind) (kind_namespaced kind) namespace
        (Some \<lparr>rr_apiVersion = kind_apiVersion kind, rr_kind = r_kind, rr_name = [], rr_namespace = []\<rparr>))
       \<lparr>cref_filter := Some (JObj [(''metadata'', JObj [(''ownerReferences'', JArr [ownerReference])])])\<rparr>"

definition keyForResourceRef :: "ResourceRef \<Rightarrow> string" where
  "keyForResourceRef r =
     rr_apiVersion r @ ''/'' @ rr_kind r @ ''/'' @ rr_namespace r @ ''/'' @ rr_name r"

lemma last_segment:
  assumes "a @ CHR ''/'' # x = b @ CHR ''/'' # y" and "CHR ''/'' \<notin> set x" and "CHR ''/'' \<notin> set y"
  shows "a = b \<and> x = y"
proof -
  have "takeWhile (\<lambda>c. c \<noteq> CHR ''/'') (rev x @ CHR ''/'' # rev a) = rev x"
    "takeWhile (\<lambda>c. c \<noteq> CHR ''/'') (rev y @ CHR ''/'' # rev b) = rev y"
    using assms(2,3) by (subst takeWhile_append2; force)+
  moreover have "rev x @ CHR ''/'' # rev a = rev y @ CHR ''/'' # rev b"
    using assms(1) by (metis append.assoc append_Cons append_Nil rev.simps(2) rev_append)
  ultimately have "x = y" by (metis rev_rev_ident)
  with assms(1) show ?thesis by simp
qed

text \<open>
  The key under which a resource is kept. Two references have the same key only if they are the
  same reference, because a kind, a namespace and a name have no slash (an API version may have one).
\<close>
theorem resource_keys_distinct:
  assumes "keyForResourceRef r = keyForResourceRef s"
    and "\<forall>x \<in> {r, s}. CHR ''/'' \<notin> set (rr_kind x) \<union> set (rr_namespace x) \<union> set (rr_name x)"
  shows "r = s"
proof -
  from assms(1) have "(rr_apiVersion r @ ''/'' @ rr_kind r @ ''/'' @ rr_namespace r) @ CHR ''/'' # rr_name r =
      (rr_apiVersion s @ ''/'' @ rr_kind s @ ''/'' @ rr_namespace s) @ CHR ''/'' # rr_name s"
    by (simp add: keyForResourceRef_def)
  from last_segment [OF this] assms(2)
  have 1: "rr_name r = rr_name s"
    "(rr_apiVersion r @ ''/'' @ rr_kind r) @ CHR ''/'' # rr_namespace r =
     (rr_apiVersion s @ ''/'' @ rr_kind s) @ CHR ''/'' # rr_namespace s" by auto
  from last_segment [OF 1(2)] assms(2)
  have 2: "rr_namespace r = rr_namespace s"
    "rr_apiVersion r @ CHR ''/'' # rr_kind r = rr_apiVersion s @ CHR ''/'' # rr_kind s" by auto
  from last_segment [OF 2(2)] assms(2) have "rr_kind r = rr_kind s" "rr_apiVersion r = rr_apiVersion s"
    by auto
  with 1 2 show ?thesis by simp
qed

theorem resource_keys_distinct_witness:
  "keyForResourceRef \<lparr>rr_apiVersion = ''apps/v1'', rr_kind = ''Deployment'', rr_name = ''web'',
     rr_namespace = ''dev''\<rparr> \<noteq>
   keyForResourceRef \<lparr>rr_apiVersion = ''apps/v1'', rr_kind = ''Deployment'', rr_name = ''dev'',
     rr_namespace = ''web''\<rparr>"
  using resource_keys_distinct [of
      "\<lparr>rr_apiVersion = ''apps/v1'', rr_kind = ''Deployment'', rr_name = ''web'', rr_namespace = ''dev''\<rparr>"
      "\<lparr>rr_apiVersion = ''apps/v1'', rr_kind = ''Deployment'', rr_name = ''dev'', rr_namespace = ''web''\<rparr>"]
  by auto

section \<open>Kinds\<close>

fun groups_shape :: "http_data \<Rightarrow> string list option" where
  "groups_shape (DGroups gs) = Some gs"
| "groups_shape _ = None"

fun api_resources_shape :: "http_data \<Rightarrow> APIResource list option option" where
  "api_resources_shape (DAPIResources rs) = Some rs"
| "api_resources_shape _ = None"

definition getAPIGroups :: "lib \<Rightarrow> string \<Rightarrow> string list thunk" where
  "getAPIGroups L cluster = axiosData L GET (k8s_apis cluster) None groups_shape"

text \<open>Subresources, whose names have a slash, are left out.\<close>

definition addResource :: "string \<Rightarrow> APIResource \<Rightarrow> IKind jsobj \<Rightarrow> IKind jsobj" where
  "addResource version r result =
     (if CHR ''/'' \<notin> set (ar_name r)
      then obj_set (ar_kind r)
             \<lparr>kind_apiVersion = version, kind_plural = ar_name r, kind_namespaced = ar_namespaced r\<rparr>
             result
      else result)"

definition addResources :: "string \<Rightarrow> APIResource list option \<Rightarrow> IKind jsobj \<Rightarrow> IKind jsobj" where
  "addResources version rs result =
     (case rs of None \<Rightarrow> result | Some xs \<Rightarrow> foldl (\<lambda>acc r. addResource version r acc) result xs)"

text \<open>
  The requests of all groups are open at the same time; every reply is added to the result when
  it arrives. The first failure rejects, and the other replies are still received.
\<close>

primrec drain_kinds :: "lib \<Rightarrow> nat \<Rightarrow> request list \<Rightarrow> unit thunk" where
  "drain_kinds L 0 qs = returnT ()"
| "drain_kinds L (Suc n) qs = (\<lambda>k h. AwaitAny qs (\<lambda>i r.
     axios_reply L api_resources_shape r
       (\<lambda>_. drain_kinds L n (remove_nth i qs) k h)
       (\<lambda>_. drain_kinds L n (remove_nth i qs) k h)))"

primrec gather_kinds ::
  "lib \<Rightarrow> nat \<Rightarrow> (request \<times> string) list \<Rightarrow> IKind jsobj \<Rightarrow> IKind jsobj thunk" where
  "gather_kinds L 0 pending result = returnT result"
| "gather_kinds L (Suc n) pending result = (\<lambda>k h. AwaitAny (map fst pending) (\<lambda>i r.
     axios_reply L api_resources_shape r
       (\<lambda>(status, rs).
          gather_kinds L n (remove_nth i pending) (addResources (snd (pending ! i)) rs result) k h)
       (\<lambda>e. thenT (spawnT (drain_kinds L n (map fst (remove_nth i pending)))) (throwT e) k h)))"

definition getResourceKinds_service :: "lib \<Rightarrow> string \<Rightarrow> string list \<Rightarrow> IKind jsobj thunk" where
  "getResourceKinds_service L cluster groups =
     bindT (axiosData L GET (k8s_v1 cluster) None api_resources_shape) (\<lambda>core.
       bindT readStorage (\<lambda>ls k h.
         let pending = map (\<lambda>g. (http_request GET (k8s_groupVersion cluster g) None ls, g)) groups
         in Send (map fst pending)
              (gather_kinds L (length pending) pending (addResources ''v1'' core []) k h)))"

definition getResourceKinds :: "lib \<Rightarrow> string \<Rightarrow> unit thunk" where
  "getResourceKinds L cluster =
     thenT (dispatchT (KubeA RequestResourceKinds))
       (tryT
         (bindT (getAPIGroups L cluster) (\<lambda>groups.
          bindT (getResourceKinds_service L cluster groups) (\<lambda>kinds.
            dispatchT (KubeA (ReceiveResourceKinds kinds)))))
         (\<lambda>e. dispatchT (KubeA (ReceiveKindsError e))))"

section \<open>Service accounts and secrets\<close>

fun secret_names_reply :: "response \<Rightarrow> SecretType jsobj option" where
  "secret_names_reply (RSecretNames ns) = Some ns"
| "secret_names_reply _ = None"

definition getServiceAccountNames :: "string \<Rightarrow> string \<Rightarrow> string list thunk" where
  "getServiceAccountNames cluster namespace =
     grpc (GetServiceAccountNames \<lparr>ctx_cluster = cluster, ctx_namespace = namespace\<rparr>) names_reply"

definition getDockerConfigSecretNames :: "string \<Rightarrow> string \<Rightarrow> string list thunk" where
  "getDockerConfigSecretNames cluster namespace =
     bindT (grpc (GetSecretNames \<lparr>ctx_cluster = cluster, ctx_namespace = namespace\<rparr>) secret_names_reply)
       (\<lambda>names. returnT (map fst (filter (\<lambda>(name, ty). ty = SECRET_DOCKER_CONFIG_JSON) names)))"

definition dockercfg :: "lib \<Rightarrow> string \<Rightarrow> string \<Rightarrow> string \<Rightarrow> string \<Rightarrow> json" where
  "dockercfg L user password email server =
     JObj [(''auths'', JObj [(server, JObj
       [(''username'', JStr user), (''password'', JStr password), (''email'', JStr email),
        (''auth'', JStr (base64 L (user @ '':'' @ password)))])])]"

definition createPullSecret ::
  "lib \<Rightarrow> string \<Rightarrow> string \<Rightarrow> string \<Rightarrow> string \<Rightarrow> string \<Rightarrow> string \<Rightarrow> string \<Rightarrow> unit thunk" where
  "createPullSecret L cluster name user password email server namespace =
     grpc (CreateSecret \<lparr>ctx_cluster = cluster, ctx_namespace = namespace\<rparr> name
             [(''.dockerconfigjson'', json_stringify L (dockercfg L user password email server))])
       done_reply"

section \<open>Resources of an installed package\<close>

text \<open>A response of the resources stream: the reference it is about and the manifest.\<close>

record GetResourcesResponse =
  grr_resourceRef :: "ResourceRef option"
  grr_manifest :: string

definition processGetResourcesResponse :: "lib \<Rightarrow> GetResourcesResponse \<Rightarrow> unit thunk" where
  "processGetResourcesResponse L r =
     (case grr_resourceRef r of
        None \<Rightarrow> dispatchT (KubeA (ReceiveResourcesError
                  (JsError ''received resource without a resource reference'')))
      | Some ref \<Rightarrow>
          (case json_parse L (grr_manifest r) of
             Inl e \<Rightarrow> throwT e
           | Inr resource \<Rightarrow> dispatchT (KubeA (ReceiveResource (keyForResourceRef ref) resource))))"

text \<open>
  The responses of the stream one after the other. A response that raises ends the loop: its
  promise is rejected without a handler, and the error callback of the request is never called.
\<close>

fun process_stream :: "lib \<Rightarrow> GetResourcesResponse list \<Rightarrow> unit thunk" where
  "process_stream L [] = returnT ()"
| "process_stream L (r # rs) = thenT (processGetResourcesResponse L r) (process_stream L rs)"

definition getResources_stream ::
  "lib \<Rightarrow> InstalledPackageReference \<Rightarrow> ResourceRef list \<Rightarrow> bool \<Rightarrow> GetResourcesResponse list
     \<Rightarrow> unit thunk" where
  "getResources_stream L pkg refs watch responses =
     thenT (dispatchT (KubeA (RequestResources pkg refs watch))) (spawnT (process_stream L responses))"

section \<open>Properties\<close>

text \<open>The items a prefix of the stream that can be read leaves.\<close>

fun stream_items :: "lib \<Rightarrow> GetResourcesResponse list \<Rightarrow> IKubeItem jsobj \<Rightarrow> IKubeItem jsobj" where
  "stream_items L [] items = items"
| "stream_items L (r # rs) items =
     (case grr_resourceRef r of
        None \<Rightarrow> stream_items L rs items
      | Some ref \<Rightarrow>
          (case json_parse L (grr_manifest r) of
             Inl e \<Rightarrow> items
           | Inr v \<Rightarrow> stream_items L rs
               (obj_set (keyForResourceRef ref)
                  \<lparr>ki_isFetching = False, ki_item = Some v, ki_error = None\<rparr> items)))"

lemma sync_process_stream:
  "kube_items (st_kube (w_store (fst (sync (rootReducer L init) (process_stream L rs (\<lambda>_. Stop) (\<lambda>_. Stop)) w)))) =
     stream_items L rs (kube_items (st_kube (w_store w)))"
proof (induction rs arbitrary: w)
  case Nil
  then show ?case by (simp add: thunk_simps)
next
  case (Cons r rs)
  show ?case
    by (auto simp: thunk_simps processGetResourcesResponse_def Cons.IH split: option.split sum.split)
qed

lemma snd_sync_process_stream:
  "snd (sync (rootReducer L init) (process_stream L rs (\<lambda>_. Stop) (\<lambda>_. Stop)) w) = []"
proof (induction rs arbitrary: w)
  case Nil
  then show ?case by (simp add: thunk_simps)
next
  case (Cons r rs)
  show ?case
    by (auto simp: thunk_simps processGetResourcesResponse_def Cons.IH split: option.split sum.split)
qed

text \<open>
  C22: The stream of resources. Every response with a reference and a manifest that parses replaces the item
  of its reference, in the order of arrival, up to the first manifest that does not parse: from there on
  the stream is dead, and no error is recorded for it. A response without a reference changes no item.
\<close>
theorem resource_stream_items:
  "kube_items (st_kube (w_store (runT (rootReducer L init) srv
      (getResources_stream L pkg refs watch responses) w))) =
     stream_items L responses (kube_items (st_kube (w_store w)))"
  by (simp add: runT_def getResources_stream_def thenT_def run_dispatchT spawnT_def run_spawn_nowait
      snd_sync_process_stream sync_process_stream del: run_simps(11))

end
