(* ===== verification/Operator_Actions.thy ===== *)
theory Operator_Actions
  imports Axios "HOL-Library.Multiset"
begin

text \<open>
  Operators: the client of the OLM APIs (\<open>shared/Operators.ts\<close>) and its thunks
  (\<open>actions/operators.ts\<close>).
\<close>

section \<open>Client\<close>

fun any_shape :: "http_data \<Rightarrow> http_data option" where
  "any_shape x = Some x"

fun manifests_shape :: "http_data \<Rightarrow> IPackageManifest list option" where
  "manifests_shape (DManifests ms) = Some ms"
| "manifests_shape _ = None"

fun manifest_shape :: "http_data \<Rightarrow> IPackageManifest option" where
  "manifest_shape (DManifest m) = Some m"
| "manifest_shape _ = None"

fun csvs_shape :: "http_data \<Rightarrow> IClusterServiceVersion list option" where
  "csvs_shape (DCSVs cs) = Some cs"
| "csvs_shape _ = None"

fun csv_shape :: "http_data \<Rightarrow> IClusterServiceVersion option" where
  "csv_shape (DCSV c) = Some c"
| "csv_shape _ = None"

fun resources_shape :: "http_data \<Rightarrow> IResource list option" where
  "resources_shape (DResources rs) = Some rs"
| "resources_shape _ = None"

fun resource_shape :: "http_data \<Rightarrow> IResource option" where
  "resource_shape (DResource r) = Some r"
| "resource_shape _ = None"

definition isOLMInstalled :: "lib \<Rightarrow> string \<Rightarrow> string \<Rightarrow> bool thunk" where
  "isOLMInstalled L cluster namespace =
     bindT (axiosWithAuth L GET (k8s_operators cluster namespace) None any_shape)
       (\<lambda>(status, x). returnT (status = 200))"

definition operators_getOperators :: "lib \<Rightarrow> string \<Rightarrow> string \<Rightarrow> IPackageManifest list thunk" where
  "operators_getOperators L cluster namespace =
     axiosData L GET (k8s_operators cluster namespace) None manifests_shape"

definition operators_getOperator :: "lib \<Rightarrow> string \<Rightarrow> string \<Rightarrow> string \<Rightarrow> IPackageManifest thunk" where
  "operators_getOperator L cluster namespace name =
     axiosData L GET (k8s_operator cluster namespace name) None manifest_shape"

definition operators_getCSVs :: "lib \<Rightarrow> string \<Rightarrow> string \<Rightarrow> IClusterServiceVersion list thunk" where
  "operators_getCSVs L cluster namespace =
     axiosData L GET (k8s_clusterServiceVersions cluster namespace) None csvs_shape"

definition operators_getCSV :: "lib \<Rightarrow> string \<Rightarrow> string \<Rightarrow> string \<Rightarrow> IClusterServiceVersion thunk" where
  "operators_getCSV L cluster namespace name =
     axiosData L GET (k8s_clusterServiceVersion cluster namespace name) None csv_shape"

definition operators_createResource ::
  "lib \<Rightarrow> string \<Rightarrow> string \<Rightarrow> string \<Rightarrow> string \<Rightarrow> json \<Rightarrow> IResource thunk" where
  "operators_createResource L cluster namespace apiVersion resource body =
     axiosData L POST (k8s_resources cluster namespace apiVersion resource) (Some body) resource_shape"

definition operators_listResources ::
  "lib \<Rightarrow> string \<Rightarrow> string \<Rightarrow> string \<Rightarrow> string \<Rightarrow> IResource list thunk" where
  "operators_listResources L cluster namespace apiVersion resource =
     axiosData L GET (k8s_resources cluster namespace apiVersion resource) None resources_shape"

definition operators_getResource ::
  "lib \<Rightarrow> string \<Rightarrow> string \<Rightarrow> string \<Rightarrow> string \<Rightarrow> string \<Rightarrow> IResource thunk" where
  "operators_getResource L cluster namespace apiVersion crd name =
     axiosData L GET (k8s_resource cluster namespace apiVersion crd name) None resource_shape"

definition operators_deleteResource ::
  "lib \<Rightarrow> string \<Rightarrow> string \<Rightarrow> string \<Rightarrow> string \<Rightarrow> string \<Rightarrow> http_data thunk" where
  "operators_deleteResource L cluster namespace apiVersion plural name =
     axiosData L DELETE (k8s_resource cluster namespace apiVersion plural name) None any_shape"

definition operators_updateResource ::
  "lib \<Rightarrow> string \<Rightarrow> string \<Rightarrow> string \<Rightarrow> string \<Rightarrow> string \<Rightarrow> json \<Rightarrow> IResource thunk" where
  "operators_updateResource L cluster namespace apiVersion resource name body =
     axiosData L PUT (k8s_resource cluster namespace apiVersion resource name) (Some body) resource_shape"

definition operator_group :: "string \<Rightarrow> json" where
  "operator_group namespace =
     JObj [(''apiVersion'', JStr ''operators.coreos.com/v1''), (''kind'', JStr ''OperatorGroup''),
           (''metadata'', JObj [(''generateName'', JStr ''default-''), (''namespace'', JStr namespace)]),
           (''spec'', JObj [(''targetNamespaces'', JArr [JStr namespace])])]"

text \<open>Installing an operator needs an operator group in its namespace, but in \<open>operators\<close>.\<close>

definition createOperatorGroupIfNotExists :: "lib \<Rightarrow> string \<Rightarrow> string \<Rightarrow> unit thunk" where
  "createOperatorGroupIfNotExists L cluster namespace =
     (if namespace = ''operators'' then returnT ()
      else bindT (axiosData L GET (k8s_operatorGroups cluster namespace) None resources_shape) (\<lambda>items.
             if items \<noteq> [] then returnT ()
             else thenT (axiosData L POST (k8s_operatorGroups cluster namespace)
                          (Some (operator_group namespace)) any_shape)
                    (returnT ())))"

definition subscription_body :: "string \<Rightarrow> string \<Rightarrow> string \<Rightarrow> string \<Rightarrow> string \<Rightarrow> json" where
  "subscription_body namespace name channel installPlanApproval csv =
     JObj [(''apiVersion'', JStr ''operators.coreos.com/v1alpha1''), (''kind'', JStr ''Subscription''),
           (''metadata'', JObj [(''name'', JStr name), (''namespace'', JStr namespace)]),
           (''spec'', JObj [(''channel'', JStr channel),
              (''installPlanApproval'', JStr installPlanApproval), (''name'', JStr name),
              (''source'', JStr ''operatorhubio-catalog''), (''sourceNamespace'', JStr ''olm''),
              (''startingCSV'', JStr csv)])]"

definition operators_createOperator ::
  "lib \<Rightarrow> string \<Rightarrow> string \<Rightarrow> string \<Rightarrow> string \<Rightarrow> string \<Rightarrow> string \<Rightarrow> IResource thunk" where
  "operators_createOperator L cluster namespace name channel installPlanApproval csv =
     thenT (createOperatorGroupIfNotExists L cluster namespace)
       (axiosData L POST (k8s_subscription cluster namespace name)
          (Some (subscription_body namespace name channel installPlanApproval csv)) resource_shape)"

definition operators_listSubscriptions :: "lib \<Rightarrow> string \<Rightarrow> string \<Rightarrow> IResource list thunk" where
  "operators_listSubscriptions L cluster namespace =
     axiosData L GET (k8s_subscriptions cluster namespace) None resources_shape"

definition getDefaultChannel :: "IPackageManifest \<Rightarrow> IPackageManifestChannel option" where
  "getDefaultChannel operator =
     find (\<lambda>ch. ch_name ch = pmf_defaultChannel operator) (pmf_channels operator)"

definition global_channel :: "IPackageManifestChannel option \<Rightarrow> bool" where
  "global_channel channel = (case channel of
     None \<Rightarrow> False
   | Some ch \<Rightarrow>
       (case find (\<lambda>m. im_type m = ''AllNamespaces'') (ch_installModes ch) of
          None \<Rightarrow> False | Some m \<Rightarrow> im_supported m))"

definition getIcon :: "string \<Rightarrow> IClusterServiceVersion \<Rightarrow> string" where
  "getIcon placeholder csv = (case csv_icon csv of
     [] \<Rightarrow> placeholder
   | i # is \<Rightarrow> ''data:'' @ icon_mediatype i @ '';base64,'' @ icon_base64data i)"

definition findOwnedKind :: "IClusterServiceVersion \<Rightarrow> string \<Rightarrow> ICRD option" where
  "findOwnedKind csv kind = (case csv_owned csv of
     None \<Rightarrow> None | Some crds \<Rightarrow> find (\<lambda>c. crd_kind c = kind) crds)"

section \<open>Thunks\<close>

definition checkOLMInstalled :: "lib \<Rightarrow> string \<Rightarrow> string \<Rightarrow> bool thunk" where
  "checkOLMInstalled L cluster namespace =
     thenT (dispatchT (OperatorA CheckingOLM))
       (tryT
         (bindT (isOLMInstalled L cluster namespace) (\<lambda>installed.
            thenT (if installed then dispatchT (OperatorA OLMInstalled) else returnT ())
              (returnT installed)))
         (\<lambda>e. thenT (dispatchT (OperatorA (ErrorOLMCheck e))) (returnT False)))"

text \<open>
  Sorting by name. The comparison never answers that two elements are equal, so the order of
  elements with the same name is left open; here they keep theirs.
\<close>

definition manifest_key :: "IPackageManifest \<Rightarrow> string" where
  "manifest_key m = md_name (pmf_metadata m)"

definition csv_key :: "IClusterServiceVersion \<Rightarrow> string" where
  "csv_key c = md_name (csv_metadata c)"

definition getOperators :: "lib \<Rightarrow> string \<Rightarrow> string \<Rightarrow> unit thunk" where
  "getOperators L cluster namespace =
     thenT (dispatchT (OperatorA RequestOperators))
       (tryT
         (bindT (operators_getOperators L cluster namespace) (\<lambda>operators.
            dispatchT (OperatorA (ReceiveOperators (sort_key manifest_key operators)))))
         (\<lambda>e. dispatchT (OperatorA (ErrorOperators e))))"

definition getOperator :: "lib \<Rightarrow> string \<Rightarrow> string \<Rightarrow> string \<Rightarrow> unit thunk" where
  "getOperator L cluster namespace name =
     thenT (dispatchT (OperatorA RequestOperator))
       (tryT
         (bindT (operators_getOperator L cluster namespace name) (\<lambda>operator.
            dispatchT (OperatorA (ReceiveOperator operator))))
         (\<lambda>e. dispatchT (OperatorA (ErrorOperators e))))"

definition getCSVs :: "lib \<Rightarrow> string \<Rightarrow> string \<Rightarrow> IClusterServiceVersion list thunk" where
  "getCSVs L cluster namespace =
     thenT (dispatchT (OperatorA RequestCSVs))
       (tryT
         (bindT (operators_getCSVs L cluster namespace) (\<lambda>csvs.
            thenT (dispatchT (OperatorA (ReceiveCSVs (sort_key csv_key csvs))))
              (returnT (sort_key csv_key csvs))))
         (\<lambda>e. thenT (dispatchT (OperatorA (ErrorCSVs e))) (returnT [])))"

definition getCSV :: "lib \<Rightarrow> string \<Rightarrow> string \<Rightarrow> string \<Rightarrow> IClusterServiceVersion option thunk" where
  "getCSV L cluster namespace name =
     thenT (dispatchT (OperatorA RequestCSV))
       (tryT
         (bindT (operators_getCSV L cluster namespace name) (\<lambda>csv.
            thenT (dispatchT (OperatorA (ReceiveCSV csv))) (returnT (Some csv))))
         (\<lambda>e. thenT (dispatchT (OperatorA (ErrorCSVs e))) (returnT None)))"

definition createResource ::
  "lib \<Rightarrow> string \<Rightarrow> string \<Rightarrow> string \<Rightarrow> string \<Rightarrow> json \<Rightarrow> bool thunk" where
  "createResource L cluster namespace apiVersion resource body =
     thenT (dispatchT (OperatorA CreatingResource))
       (tryT
         (bindT (operators_createResource L cluster namespace apiVersion resource body) (\<lambda>r.
            thenT (dispatchT (OperatorA (ResourceCreated r))) (returnT True)))
         (\<lambda>e. thenT (dispatchT (OperatorA (ErrorResourceCreate e))) (returnT False)))"

definition deleteResource :: "lib \<Rightarrow> string \<Rightarrow> string \<Rightarrow> string \<Rightarrow> IResource \<Rightarrow> bool thunk" where
  "deleteResource L cluster namespace plural resource =
     thenT (dispatchT (OperatorA DeletingResource))
       (tryT
         (thenT (operators_deleteResource L cluster namespace (res_apiVersion resource) plural
                   (md_name (res_metadata resource)))
           (thenT (dispatchT (OperatorA ResourceDeleted)) (returnT True)))
         (\<lambda>e. thenT (dispatchT (OperatorA (ErrorResourceDelete e))) (returnT False)))"

definition updateResource ::
  "lib \<Rightarrow> string \<Rightarrow> string \<Rightarrow> string \<Rightarrow> string \<Rightarrow> string \<Rightarrow> json \<Rightarrow> bool thunk" where
  "updateResource L cluster namespace apiVersion resource name body =
     thenT (dispatchT (OperatorA UpdatingResource))
       (tryT
         (bindT (operators_updateResource L cluster namespace apiVersion resource name body) (\<lambda>r.
            thenT (dispatchT (OperatorA (ResourceUpdated r))) (returnT True)))
         (\<lambda>e. thenT (dispatchT (OperatorA (ErrorResourceUpdate e))) (returnT False)))"

text \<open>\<open>plural.group\<close>: the plural is the part before the first dot.\<close>

definition parseCRD :: "string \<Rightarrow> string \<times> string" where
  "parseCRD crdName =
     (let parsed = split_on CHR ''.'' crdName in (hd parsed, join ''.'' (tl parsed)))"

definition crd_apiVersion :: "ICRD \<Rightarrow> string" where
  "crd_apiVersion crd = snd (parseCRD (crd_name crd)) @ ''/'' @ crd_version crd"

text \<open>
  The resources of all the custom resource definitions are requested at the same time; every
  reply is appended when it arrives, every failure is recorded.
\<close>

primrec gather_resources :: "lib \<Rightarrow> nat \<Rightarrow> request list \<Rightarrow> IResource list \<Rightarrow> IResource list thunk" where
  "gather_resources L 0 pending resources = returnT resources"
| "gather_resources L (Suc n) pending resources = (\<lambda>k h. AwaitAny pending (\<lambda>i r.
     axios_reply L resources_shape r
       (\<lambda>(status, items).
          gather_resources L n (remove_nth i pending) (resources @ items) k h)
       (\<lambda>e. thenT (dispatchT (OperatorA (ErrorCustomResource e)))
              (gather_resources L n (remove_nth i pending) resources) k h)))"

definition owned_requests :: "string \<Rightarrow> storage \<Rightarrow> IClusterServiceVersion list \<Rightarrow> request list" where
  "owned_requests cluster ls csvs =
     concat (map (\<lambda>csv. map (\<lambda>crd.
         http_request GET (k8s_resources cluster (md_namespace (csv_metadata csv)) (crd_apiVersion crd)
           (fst (parseCRD (crd_name crd)))) None ls)
       (case csv_owned csv of None \<Rightarrow> [] | Some crds \<Rightarrow> crds)) csvs)"

definition getResources :: "lib \<Rightarrow> string \<Rightarrow> string \<Rightarrow> IResource list thunk" where
  "getResources L cluster namespace =
     thenT (dispatchT (OperatorA RequestCustomResources))
       (bindT (getCSVs L cluster namespace) (\<lambda>csvs.
          bindT readStorage (\<lambda>ls.
            let pending = owned_requests cluster ls csvs in
            bindT (\<lambda>k h. Send pending (gather_resources L (length pending) pending [] k h)) (\<lambda>resources.
              thenT (dispatchT (OperatorA (ReceiveCustomResources resources)))
                (returnT resources)))))"

definition getResource ::
  "lib \<Rightarrow> string \<Rightarrow> string \<Rightarrow> string \<Rightarrow> string \<Rightarrow> string \<Rightarrow> unit thunk" where
  "getResource L cluster namespace csvName crdName resourceName =
     thenT (dispatchT (OperatorA RequestCustomResource))
       (bindT (getCSV L cluster namespace csvName) (\<lambda>csv. case csv of
          None \<Rightarrow> dispatchT (OperatorA (ErrorCustomResource
                    (JsError (''CSV '' @ csvName @ '' not found in '' @ namespace))))
        | Some c \<Rightarrow>
            (case Option.bind (csv_owned c) (find (\<lambda>d. crd_name d = crdName)) of
               None \<Rightarrow> dispatchT (OperatorA (ErrorCustomResource
                         (JsError (''Not found a valid CRD definition for '' @ csvName @ ''/'' @ crdName))))
             | Some crd \<Rightarrow>
                 tryT
                   (bindT (operators_getResource L cluster namespace (crd_apiVersion crd)
                             (fst (parseCRD (crd_name crd))) resourceName)
                     (\<lambda>resource. dispatchT (OperatorA (ReceiveCustomResource resource))))
                   (\<lambda>e. dispatchT (OperatorA (ErrorCustomResource e))))))"

definition createOperator ::
  "lib \<Rightarrow> string \<Rightarrow> string \<Rightarrow> string \<Rightarrow> string \<Rightarrow> string \<Rightarrow> string \<Rightarrow> bool thunk" where
  "createOperator L cluster namespace name channel installPlanApproval csv =
     thenT (dispatchT (OperatorA CreatingOperator))
       (tryT
         (bindT (operators_createOperator L cluster namespace name channel installPlanApproval csv) (\<lambda>r.
            thenT (dispatchT (OperatorA (OperatorCreated r))) (returnT True)))
         (\<lambda>e. thenT (dispatchT (OperatorA (ErrorOperatorCreate e))) (returnT False)))"

definition listSubscriptions :: "lib \<Rightarrow> string \<Rightarrow> string \<Rightarrow> bool thunk" where
  "listSubscriptions L cluster namespace =
     thenT (dispatchT (OperatorA RequestSubscriptions))
       (tryT
         (bindT (operators_listSubscriptions L cluster ''operators'') (\<lambda>globalSubs.
          bindT (if namespace \<noteq> ''operators'' then operators_listSubscriptions L cluster namespace
                 else returnT []) (\<lambda>subs.
            thenT (dispatchT (OperatorA (ReceiveSubscriptions (globalSubs @ subs))))
              (returnT True))))
         (\<lambda>e. thenT (dispatchT (OperatorA (ErrorSubscriptionList e))) (returnT False)))"

section \<open>Properties\<close>

text \<open>
  Checking that OLM is installed. The check is marked as running and answers true exactly for status
  200. It is marked as finished after an error and after status 200; after any other successful status
  it stays marked as running, because no action is dispatched.
\<close>
theorem olm_check_settles:
  "let result = http_result L srv (w_ls w) GET (k8s_operators cluster namespace) None any_shape
   in \<exists>w'. completes (rootReducer L init) srv (checkOLMInstalled L cluster namespace) w
          (case result of Inr (status, x) \<Rightarrow> status = 200 | Inl e \<Rightarrow> False) w' \<and>
        fe_OLM (op_isFetchingElem (st_operators (w_store w'))) =
          (case result of Inr (status, x) \<Rightarrow> status \<noteq> 200 | Inl e \<Rightarrow> False)"
proof (cases "http_result L srv (w_ls w) GET (k8s_operators cluster namespace) None any_shape")
  case (Inl ef)
  then show ?thesis
    by (cases ef) (auto simp: completes_def checkOLMInstalled_def isOLMInstalled_def thunk_core
        run_dispatchT Let_def set_fetching_def fail_operator_def intro!: exI)
next
  case (Inr sx)
  obtain status x where sx: "sx = (status, x)" by (cases sx)
  show ?thesis
  proof (cases "status = 200")
    case True
    with Inr sx show ?thesis
      by (auto simp: completes_def checkOLMInstalled_def isOLMInstalled_def thunk_core
          run_dispatchT Let_def set_fetching_def intro!: exI)
  next
    case False
    with Inr sx show ?thesis
      by (auto simp: completes_def checkOLMInstalled_def isOLMInstalled_def thunk_core
          run_dispatchT Let_def set_fetching_def intro!: exI)
  qed
qed

text \<open>
  Listing operators. What is stored are the operators of the answer, each as often as it was there,
  sorted by name; an error is recorded instead, without a selected operator.
\<close>
theorem operators_sorted:
  "let answer = http_data L srv (w_ls w) GET (k8s_operators cluster namespace) None manifests_shape;
       ops = st_operators (w_store (runT (rootReducer L init) srv (getOperators L cluster namespace) w))
   in (case answer of
         Inr ms \<Rightarrow> sorted (map manifest_key (op_operators ops)) \<and>
                   mset (op_operators ops) = mset ms
       | Inl (e, f) \<Rightarrow> op_operators ops = op_operators (st_operators (w_store w)) \<and>
                         oe_fetch (err_operator (op_errors ops)) = Some e \<and> op_operator ops = None)"
  by (auto simp: runT_def getOperators_def operators_getOperators_def thunk_core run_dispatchT Let_def
      set_fetching_def fail_operator_def no_error_def split: sum.split)

text \<open>
  Installing an operator. The subscription is requested last, and an operator group is created before it
  exactly when the namespace is not the global one and has no group yet; existing groups are asked
  for first, except in the global namespace.
\<close>
theorem operator_group_first:
  assumes "http_data L srv (w_ls w) GET (k8s_operatorGroups cluster namespace) None resources_shape = Inr groups"
    and "http_data L srv (w_ls w) POST (k8s_operatorGroups cluster namespace)
           (Some (operator_group namespace)) any_shape = Inr x"
    and "http_data L srv (w_ls w) POST (k8s_subscription cluster namespace name)
           (Some (subscription_body namespace name channel approval csv)) resource_shape = Inr r"
  shows "\<exists>w'. completes (rootReducer L init) srv
            (createOperator L cluster namespace name channel approval csv) w True w' \<and>
          w_sent w' = w_sent w @
            (if namespace = ''operators'' then []
             else http_request GET (k8s_operatorGroups cluster namespace) None (w_ls w) #
                  (if groups = [] then [http_request POST (k8s_operatorGroups cluster namespace)
                                          (Some (operator_group namespace)) (w_ls w)] else [])) @
            [http_request POST (k8s_subscription cluster namespace name)
               (Some (subscription_body namespace name channel approval csv)) (w_ls w)]"
  using assms
  by (auto simp: completes_def createOperator_def operators_createOperator_def
      createOperatorGroupIfNotExists_def thunk_core run_dispatchT Let_def intro!: exI)

definition olm_server :: server where
  "olm_server q = (case q of
     Http GET url t body \<Rightarrow> Inr (RHttp 200 (DResources []))
   | _ \<Rightarrow> Inr (RHttp 201 (DResource
       \<lparr>res_apiVersion = ''operators.coreos.com/v1alpha1'', res_kind = ''Subscription'', res_type = [],
        res_spec = JNull, res_status = JNull,
        res_metadata = \<lparr>md_name = ''etcd'', md_namespace = ''dev'', md_annotations = [],
          md_creationTimestamp = [], md_selfLink = [], md_resourceVersion = [],
          md_deletionTimestamp = None, md_uid = []\<rparr>\<rparr>)))"

theorem operator_group_first_witness:
  "\<exists>w'. completes (rootReducer sample_lib []) olm_server
      (createOperator sample_lib ''c1'' ''dev'' ''etcd'' ''stable'' ''Automatic'' ''etcd.v1'')
      (sample_world token_storage) True w' \<and> length (w_sent w') = 3"
  using operator_group_first [of sample_lib olm_server "sample_world token_storage" "''c1''" "''dev''" "[]"
      _ "''etcd''" "''stable''" "''Automatic''" "''etcd.v1''" _ "[]"]
  by (fastforce simp: http_data_def http_result_def http_request_def olm_server_def)

end
