(* ===== verification/Jq_Filter.thy ===== *)
theory Jq_Filter
  imports Messages
begin

text \<open>
  The filter of a Helm repository (\<open>shared/jq.ts\<close>): the names and switches of the form as a jq
  expression with variables, and back.
\<close>

section \<open>Rules\<close>

definition filter_var :: "nat \<Rightarrow> string" where
  "filter_var i = ''$var'' @ show_nat i"

definition toFilterRule :: "string \<Rightarrow> bool \<Rightarrow> bool \<Rightarrow> RepositoryFilterRule" where
  "toFilterRule names regex exclude =
     (let (jq, variables) =
        (if regex then (''.name | test($var)'', [(''$var'', names)])
         else
           (let namesArray = map trim (split_on CHR '','' names);
                vars = map filter_var [0 ..< length namesArray]
            in (join '' or '' (map (\<lambda>v. ''.name == '' @ v) vars), zip vars namesArray)))
      in \<lparr>rule_jq = jq @ (if exclude then '' | not'' else []), rule_variables = variables\<rparr>)"

definition toParams :: "RepositoryFilterRule \<Rightarrow> string \<times> bool \<times> bool" where
  "toParams rule =
     (join '', '' (map snd (rule_variables rule)),
      str_includes (rule_jq rule) ''| test'', str_includes (rule_jq rule) ''| not'')"

section \<open>Facts\<close>

lemma digit_chars: "list_all (\<lambda>k :: nat. char_of (48 + k) \<in> set ''0123456789'') [0 ..< 10]"
  by code_simp

lemma show_nat_chars: "set (show_nat n) \<subseteq> set ''0123456789''"
proof (induction n rule: show_nat.induct)
  case (1 n)
  have digit: "char_of (48 + k) \<in> set ''0123456789''" if "k < 10" for k :: nat
    using digit_chars that by (simp add: list_all_iff)
  show ?case
  proof (cases "n < 10")
    case True
    then have "show_nat n = [char_of (48 + n)]" by (subst show_nat.simps) simp
    then show ?thesis using digit [OF True] by (simp only: list.set) blast
  next
    case False
    have "set (show_nat n) = set (show_nat (n div 10)) \<union> {char_of (48 + n mod 10)}"
      using False by (subst show_nat.simps) (simp del: of_char_of char_of_nat)
    then show ?thesis using 1 [OF False] digit [of "n mod 10"] by auto
  qed
qed

text \<open>Where a marker character occurs once, the marker and what follows it are found there only.\<close>

lemma includes_after_mark:
  assumes "c \<notin> set a" and "c \<notin> set b"
  shows "str_includes (a @ c # b) (c # p) = startsWith b p"
proof -
  have "str_includes (a @ c # b) (c # p) \<longleftrightarrow> (\<exists>y. b = p @ y)"
  proof
    assume "str_includes (a @ c # b) (c # p)"
    then obtain x y where "a @ c # b = x @ (c # p) @ y" by (auto simp: str_includes_iff)
    then have "a @ c # b = x @ c # (p @ y)" by simp
    then have "a = x \<and> b = p @ y" using append_Cons_eq_iff [OF assms] by blast
    then show "\<exists>y. b = p @ y" by blast
  next
    assume "\<exists>y. b = p @ y"
    then obtain y where "b = p @ y" by blast
    then show "str_includes (a @ c # b) (c # p)"
      unfolding str_includes_iff by (intro exI [of _ a] exI [of _ y]) simp
  qed
  also have "\<dots> = startsWith b p"
    by (auto simp: startsWith_def append_eq_conv_conj) (metis append_take_drop_id)
  finally show ?thesis .
qed

lemma not_includes_mark: "c \<notin> set s \<Longrightarrow> \<not> str_includes s (c # p)"
  by (auto simp: str_includes_iff)

lemma names_jq_chars:
  "CHR ''|'' \<notin> set (join '' or '' (map (\<lambda>v. ''.name == '' @ v) (map filter_var is)))"
proof -
  have "CHR ''|'' \<notin> set (show_nat i)" for i
    using show_nat_chars [of i] by auto
  then have parts: "CHR ''|'' \<notin> set '' or '' \<union> \<Union> (set ` set (map (\<lambda>v. ''.name == '' @ v) (map filter_var is)))"
    by (auto simp: filter_var_def)
  then show ?thesis using set_join by blast
qed

lemma split_on_not_empty: "split_on c s \<noteq> []"
  by (induction s) (auto split: list.split)

section \<open>Properties\<close>

text \<open>
  C23: The filter of a repository survives being written as a jq rule. Reading the rule back gives the
  switches as they were, a regular expression unchanged, and otherwise the same names, trimmed and
  separated by a comma and a space.
\<close>
theorem filter_rule_round_trip:
  "toParams (toFilterRule names regex exclude) =
     ((if regex then names else join '', '' (map trim (split_on CHR '','' names))), regex, exclude)"
proof (cases regex)
  case True
  have "str_includes ''.name | test($var)'' ''| test''" "\<not> str_includes ''.name | test($var)'' ''| not''"
    "str_includes ''.name | test($var) | not'' ''| test''" "str_includes ''.name | test($var) | not'' ''| not''"
    by code_simp+
  then show ?thesis using True by (simp add: toFilterRule_def toParams_def)
next
  case False
  define ns where "ns = map trim (split_on CHR '','' names)"
  define vars where "vars = map filter_var [0 ..< length ns]"
  define jq where "jq = join '' or '' (map (\<lambda>v. ''.name == '' @ v) vars)"
  have chars: "CHR ''|'' \<notin> set jq" unfolding jq_def vars_def by (rule names_jq_chars)
  have excluded: "str_includes (jq @ '' | not'') ''| not''" "\<not> str_includes (jq @ '' | not'') ''| test''"
    using includes_after_mark [of "CHR ''|''" "jq @ '' ''" "'' not''" "'' not''"]
      includes_after_mark [of "CHR ''|''" "jq @ '' ''" "'' not''" "'' test''"] chars
    by (simp_all add: startsWith_def)
  have plain: "\<not> str_includes jq ''| not''" "\<not> str_includes jq ''| test''"
    by (rule not_includes_mark [OF chars])+
  have "map snd (zip vars ns) = ns" by (simp add: vars_def)
  moreover have "toFilterRule names regex exclude =
      \<lparr>rule_jq = jq @ (if exclude then '' | not'' else []), rule_variables = zip vars ns\<rparr>"
    using False by (simp only: toFilterRule_def Let_def if_False prod.case flip: ns_def)
      (simp only: vars_def jq_def)
  ultimately show ?thesis using False excluded plain
    by (cases exclude) (simp_all add: toParams_def ns_def)
qed

end
