(* ===== verification/Repo_Form.thy ===== *)
theory Repo_Form
  imports Repo_Actions Jq_Filter
begin

text \<open>
  The form of a package repository (\<open>components/Config/PkgRepoList/PkgRepoForm.tsx\<close>): its state, the
  loading of the repository being edited, the handlers of its fields and the submission. The state is
  one record; a handler is a function on it, and \<open>form_step\<close> is one event followed by the effect on the
  authentication provider that runs after every rendering.
\<close>

section \<open>Libraries\<close>

text \<open>
  \<open>fromBinary\<close> of the two custom details, what the constructor of a repository message makes of a custom
  detail given as bytes, and what the constructor of opaque credentials makes of a JSON value.
\<close>

record form_codec =
  helm_fromBinary :: "nat list \<Rightarrow> js_error + HelmPackageRepositoryCustomDetail"
  flux_fromBinary :: "nat list \<Rightarrow> js_error + FluxPackageRepositoryCustomDetail"
  any_from_bytes :: "nat list \<Rightarrow> AnyMsg"
  opaque_from_json :: "json \<Rightarrow> string jsobj"

definition default_helm_detail :: HelmPackageRepositoryCustomDetail where
  "default_helm_detail =
     \<lparr>hd_imagesPullSecret = None, hd_ociRepositories = [], hd_filterRule = None,
      hd_performValidation = False, hd_proxyOptions = None, hd_nodeSelector = [],
      hd_tolerations = [], hd_supplementalGroups = []\<rparr>"

text \<open>
  What protobuf documents: decoding no bytes gives the message with every field at its default, and a
  constructor copies the fields its argument has, of which an array of bytes has none. A JSON object
  of strings is a map of strings.
\<close>

definition empty_any :: AnyMsg where
  "empty_any = \<lparr>any_typeUrl = [], any_value = []\<rparr>"

definition protobuf_spec :: "form_codec \<Rightarrow> bool" where
  "protobuf_spec F \<longleftrightarrow> helm_fromBinary F [] = Inr default_helm_detail \<and>
     (\<forall>bytes. any_from_bytes F bytes = empty_any)"

definition json_strings :: "string jsobj \<Rightarrow> json" where
  "json_strings m = JObj (map (\<lambda>(k, v). (k, JStr v)) m)"

definition opaque_spec :: "form_codec \<Rightarrow> lib \<Rightarrow> bool" where
  "opaque_spec F L \<longleftrightarrow>
     (\<forall>m. json_parse L (json_stringify L (json_strings m)) = Inr (json_strings m) \<and>
          json_stringify L (json_strings m) \<noteq> [] \<and> opaque_from_json F (json_strings m) = m)"

section \<open>State\<close>

text \<open>The variables of the authentication.\<close>

record AuthForm =
  rf_authProvider :: string
  rf_showAuthProviderDetails :: bool
  rf_authMethod :: AuthType
  rf_helmPSAuthMethod :: AuthType
  rf_authCustomHeader :: string
  rf_basicPassword :: string
  rf_basicUser :: string
  rf_isNamespaceScoped :: bool
  rf_bearerToken :: string
  rf_secretEmail :: string
  rf_secretUser :: string
  rf_secretPassword :: string
  rf_secretServer :: string
  rf_sshKnownHosts :: string
  rf_sshPrivateKey :: string
  rf_tlsAuthCert :: string
  rf_tlsAuthKey :: string
  rf_opaqueData :: string
  rf_secretAuthName :: string

text \<open>The pull secret of the registry and the switches of the user-managed secrets.\<close>

record SecretsForm = AuthForm +
  rf_useSameAuthCreds :: bool
  rf_pullSecretEmail :: string
  rf_pullSecretUser :: string
  rf_pullSecretPassword :: string
  rf_pullSecretServer :: string
  rf_secretPSName :: string
  rf_secretTLSName :: string
  rf_isUserManagedSecret :: bool
  rf_isUserManagedPSSecret :: bool
  rf_isUserManagedCASecret :: bool

text \<open>
  The rest of the form. A repository without detail in the store is the empty object, whose members are
  \<open>undefined\<close>: the fields it is copied to are options.
\<close>

record RepoForm = SecretsForm +
  rf_name :: "string option"
  rf_url :: "string option"
  rf_description :: "string option"
  rf_plugin :: Plugin
  rf_type :: "string option"
  rf_ociRepositories :: string
  rf_filterNames :: string
  rf_filterExclude :: bool
  rf_filterRegex :: bool
  rf_syncInterval :: "string option"
  rf_performValidation :: bool
  rf_customCA :: string
  rf_skipTLS :: bool
  rf_passCredentials :: bool
  rf_proxyOptionsEnabled :: bool
  rf_proxyOptionsHttpProxy :: string
  rf_proxyOptionsHttpsProxy :: string
  rf_proxyOptionsNoProxy :: string
  rf_accordion :: "bool list"
  rf_isInstalling :: bool

definition initialInterval :: string where "initialInterval = ''10m''"

definition no_plugin :: Plugin where "no_plugin = \<lparr>plugin_name = [], plugin_version = []\<rparr>"

definition repo_skips_tls :: "PackageRepositoryDetail option \<Rightarrow> bool" where
  "repo_skips_tls repo =
     (case Option.bind repo prd_tlsConfig of None \<Rightarrow> False | Some t \<Rightarrow> prt_insecureSkipVerify t)"

definition repo_passes_credentials :: "PackageRepositoryDetail option \<Rightarrow> bool" where
  "repo_passes_credentials repo =
     (case Option.bind repo prd_auth of None \<Rightarrow> False | Some a \<Rightarrow> pra_passCredentials a)"

definition initial_form :: "PackageRepositoryDetail option \<Rightarrow> RepoForm" where
  "initial_form repo =
     \<lparr>rf_authProvider = [], rf_showAuthProviderDetails = False, rf_authMethod = AUTH_UNSPECIFIED,
      rf_helmPSAuthMethod = AUTH_UNSPECIFIED, rf_authCustomHeader = [], rf_basicPassword = [],
      rf_basicUser = [], rf_isNamespaceScoped = True, rf_bearerToken = [], rf_secretEmail = [],
      rf_secretUser = [], rf_secretPassword = [], rf_secretServer = [], rf_sshKnownHosts = [],
      rf_sshPrivateKey = [], rf_tlsAuthCert = [], rf_tlsAuthKey = [], rf_opaqueData = [],
      rf_secretAuthName = [], rf_useSameAuthCreds = False, rf_pullSecretEmail = [],
      rf_pullSecretUser = [], rf_pullSecretPassword = [], rf_pullSecretServer = [],
      rf_secretPSName = [], rf_secretTLSName = [], rf_isUserManagedSecret = False,
      rf_isUserManagedPSSecret = False, rf_isUserManagedCASecret = False, rf_name = Some [],
      rf_url = Some [], rf_description = Some [], rf_plugin = no_plugin, rf_type = Some [],
      rf_ociRepositories = [], rf_filterNames = [], rf_filterExclude = False,
      rf_filterRegex = False, rf_syncInterval = Some initialInterval, rf_performValidation = True,
      rf_customCA = [], rf_skipTLS = repo_skips_tls repo,
      rf_passCredentials = repo_passes_credentials repo, rf_proxyOptionsEnabled = False,
      rf_proxyOptionsHttpProxy = ''false'', rf_proxyOptionsHttpsProxy = ''false'',
      rf_proxyOptionsNoProxy = [], rf_accordion = [True, False, False, False],
      rf_isInstalling = False\<rparr>"

section \<open>Loading a repository\<close>

text \<open>
  The repository in the store: the empty object until its detail is received. Its custom detail is what
  the constructor of the message makes of what the reducer passes to it.
\<close>

definition stored_detail :: "RepoDetailState option \<Rightarrow> PackageRepositoryDetail option" where
  "stored_detail repo = map_option rd_detail repo"

definition stored_customDetail :: "form_codec \<Rightarrow> RepoDetailState option \<Rightarrow> AnyMsg option" where
  "stored_customDetail F repo = (case map_option rd_customDetail repo of
     Some (CustomAny a) \<Rightarrow> Some a
   | Some (CustomValue bytes) \<Rightarrow> Some (any_from_bytes F bytes)
   | _ \<Rightarrow> None)"

definition repo_auth :: "PackageRepositoryDetail option \<Rightarrow> AuthOneOf" where
  "repo_auth repo =
     (case Option.bind repo prd_auth of None \<Rightarrow> NoAuthOneOf | Some a \<Rightarrow> pra_oneOf a)"

definition repo_tls :: "PackageRepositoryDetail option \<Rightarrow> TlsOneOf" where
  "repo_tls repo =
     (case Option.bind repo prd_tlsConfig of None \<Rightarrow> NoTlsOneOf | Some t \<Rightarrow> prt_oneOf t)"

definition repo_plugin :: "PackageRepositoryDetail option \<Rightarrow> Plugin option" where
  "repo_plugin repo = Option.bind (Option.bind repo prd_packageRepoRef) prr_plugin"

definition load_basic :: "PackageRepositoryDetail option \<Rightarrow> RepoForm \<Rightarrow> RepoForm" where
  "load_basic repo s =
     s\<lparr>rf_name := map_option prd_name repo, rf_url := map_option prd_url repo,
       rf_type := map_option prd_type repo,
       rf_plugin := (case repo_plugin repo of None \<Rightarrow> no_plugin | Some p \<Rightarrow> p),
       rf_isNamespaceScoped := (case repo of None \<Rightarrow> False | Some r \<Rightarrow> prd_namespaceScoped r),
       rf_description := map_option prd_description repo,
       rf_skipTLS := repo_skips_tls repo, rf_passCredentials := repo_passes_credentials repo,
       rf_syncInterval := map_option prd_interval repo,
       rf_customCA := (case repo_tls repo of TlsCertAuthority ca \<Rightarrow> ca | _ \<Rightarrow> [])\<rparr>"

fun header_of :: "AuthOneOf \<Rightarrow> string" where
  "header_of (AuthHeader h) = h"
| "header_of _ = []"

fun user_password_of :: "AuthOneOf \<Rightarrow> UsernamePassword" where
  "user_password_of (AuthUsernamePassword c) = c"
| "user_password_of _ = \<lparr>up_username = [], up_password = []\<rparr>"

fun docker_of :: "AuthOneOf \<Rightarrow> DockerCredentials" where
  "docker_of (AuthDockerCreds c) = c"
| "docker_of _ = \<lparr>dc_server = [], dc_username = [], dc_password = [], dc_email = []\<rparr>"

fun ssh_of :: "AuthOneOf \<Rightarrow> SshCredentials" where
  "ssh_of (AuthSshCreds c) = c"
| "ssh_of _ = \<lparr>sc_privateKey = [], sc_knownHosts = []\<rparr>"

fun cert_key_of :: "AuthOneOf \<Rightarrow> TlsCertKey" where
  "cert_key_of (AuthTlsCertKey c) = c"
| "cert_key_of _ = \<lparr>tck_cert = [], tck_key = []\<rparr>"

fun opaque_of :: "lib \<Rightarrow> AuthOneOf \<Rightarrow> string" where
  "opaque_of L (AuthOpaqueCreds c) = json_stringify L (json_strings (oc_data c))"
| "opaque_of L _ = []"

fun secret_of :: "AuthOneOf \<Rightarrow> string" where
  "secret_of (AuthSecretRef r) = skr_name r"
| "secret_of _ = []"

definition load_auth :: "lib \<Rightarrow> PackageRepositoryDetail option \<Rightarrow> RepoForm \<Rightarrow> RepoForm" where
  "load_auth L repo s =
     (let auth = repo_auth repo in
      s\<lparr>rf_authCustomHeader := header_of auth, rf_bearerToken := header_of auth,
        rf_basicPassword := up_password (user_password_of auth),
        rf_basicUser := up_username (user_password_of auth),
        rf_secretEmail := dc_email (docker_of auth), rf_secretPassword := dc_password (docker_of auth),
        rf_secretServer := dc_server (docker_of auth), rf_secretUser := dc_username (docker_of auth),
        rf_sshKnownHosts := sc_knownHosts (ssh_of auth),
        rf_sshPrivateKey := sc_privateKey (ssh_of auth),
        rf_tlsAuthCert := tck_cert (cert_key_of auth), rf_tlsAuthKey := tck_key (cert_key_of auth),
        rf_opaqueData := opaque_of L auth,
        rf_authMethod := (case Option.bind repo prd_auth of
                            None \<Rightarrow> AUTH_UNSPECIFIED | Some a \<Rightarrow> pra_type a),
        rf_secretAuthName := secret_of auth,
        rf_secretTLSName := (case repo_tls repo of TlsSecretRef r \<Rightarrow> skr_name r | _ \<Rightarrow> []),
        rf_isUserManagedSecret := is_secret_ref auth,
        rf_isUserManagedCASecret := is_tls_ref (repo_tls repo)\<rparr>)"

text \<open>The pull secret of a Helm detail; a detail without one leaves the form's fields alone.\<close>

definition load_pullSecret :: "DockerRegistryCredential option \<Rightarrow> RepoForm \<Rightarrow> RepoForm" where
  "load_pullSecret secret s = (case secret of
     Some (CredentialSecretRef name) \<Rightarrow>
       s\<lparr>rf_useSameAuthCreds := False, rf_isUserManagedPSSecret := True,
         rf_helmPSAuthMethod := DOCKER_CONFIG_JSON, rf_secretPSName := name,
         rf_pullSecretEmail := [], rf_pullSecretUser := [], rf_pullSecretPassword := [],
         rf_pullSecretServer := []\<rparr>
   | Some (CredentialDocker c) \<Rightarrow>
       s\<lparr>rf_useSameAuthCreds := False, rf_isUserManagedPSSecret := False,
         rf_helmPSAuthMethod := DOCKER_CONFIG_JSON, rf_secretPSName := [],
         rf_pullSecretEmail := dc_email c, rf_pullSecretUser := dc_username c,
         rf_pullSecretPassword := dc_password c, rf_pullSecretServer := dc_server c\<rparr>
   | _ \<Rightarrow> s)"

definition load_filter :: "RepositoryFilterRule option \<Rightarrow> RepoForm \<Rightarrow> RepoForm" where
  "load_filter rule s = (case rule of
     Some r \<Rightarrow>
       (if rule_jq r \<noteq> []
        then (let (names, regex, exclude) = toParams r
              in s\<lparr>rf_filterRegex := regex, rf_filterExclude := exclude, rf_filterNames := names\<rparr>)
        else s)
   | None \<Rightarrow> s)"

definition load_proxy :: "ProxyOptions option \<Rightarrow> RepoForm \<Rightarrow> RepoForm" where
  "load_proxy proxy s = (case proxy of
     Some p \<Rightarrow>
       (if po_enabled p
        then s\<lparr>rf_proxyOptionsEnabled := True, rf_proxyOptionsHttpProxy := po_httpProxy p,
               rf_proxyOptionsHttpsProxy := po_httpsProxy p, rf_proxyOptionsNoProxy := po_noProxy p\<rparr>
        else s)
   | None \<Rightarrow> s)"

definition load_helm :: "HelmPackageRepositoryCustomDetail \<Rightarrow> RepoForm \<Rightarrow> RepoForm" where
  "load_helm d s =
     load_pullSecret (hd_imagesPullSecret d)
       (load_proxy (hd_proxyOptions d)
         (load_filter (hd_filterRule d)
           (s\<lparr>rf_ociRepositories := join '', '' (hd_ociRepositories d),
              rf_performValidation := hd_performValidation d\<rparr>)))"

text \<open>The whole effect; a detail that does not decode raises in it.\<close>

definition load_repo ::
  "form_codec \<Rightarrow> lib \<Rightarrow> RepoDetailState option \<Rightarrow> RepoForm \<Rightarrow> js_error + RepoForm" where
  "load_repo F L stored s =
     (let repo = stored_detail stored;
          name = map_option plugin_name (repo_plugin repo);
          s1 = load_auth L repo (load_basic repo s)
      in case stored_customDetail F stored of
           None \<Rightarrow> Inr s1
         | Some c \<Rightarrow>
             (if name = Some PACKAGES_HELM
              then (case helm_fromBinary F (any_value c) of
                      Inl e \<Rightarrow> Inl e | Inr d \<Rightarrow> Inr (load_helm d s1))
              else if name = Some PACKAGES_FLUX
              then (case flux_fromBinary F (any_value c) of
                      Inl e \<Rightarrow> Inl e | Inr d \<Rightarrow> Inr (s1\<lparr>rf_authProvider := fd_provider d\<rparr>))
              else Inr s1))"

section \<open>The authentication provider\<close>

definition hasAuthProvider :: "RepoForm \<Rightarrow> bool" where
  "hasAuthProvider s \<longleftrightarrow> rf_authProvider s \<noteq> []"

definition handleFluxAuthProviderAuthChange :: "RepoForm \<Rightarrow> RepoForm" where
  "handleFluxAuthProviderAuthChange s =
     s\<lparr>rf_authMethod := AUTH_UNSPECIFIED, rf_showAuthProviderDetails := True,
       rf_authProvider := (if hasAuthProvider s then rf_authProvider s else ''generic'')\<rparr>"

definition clearAuthProvider :: "RepoForm \<Rightarrow> RepoForm" where
  "clearAuthProvider s = s\<lparr>rf_showAuthProviderDetails := False, rf_authProvider := []\<rparr>"

text \<open>The effect that runs after a rendering.\<close>

definition auth_effect :: "RepoForm \<Rightarrow> RepoForm" where
  "auth_effect s =
     (if rf_authMethod s = AUTH_UNSPECIFIED
      then (if hasAuthProvider s then handleFluxAuthProviderAuthChange s else s)
      else clearAuthProvider s)"

lemma auth_effect_idem: "auth_effect (auth_effect s) = auth_effect s"
  by (simp add: auth_effect_def handleFluxAuthProviderAuthChange_def clearAuthProvider_def
      hasAuthProvider_def)

section \<open>The submission\<close>

definition final_header :: "RepoForm \<Rightarrow> string" where
  "final_header s = (case rf_authMethod s of
     AUTHORIZATION_HEADER \<Rightarrow> rf_authCustomHeader s
   | BEARER \<Rightarrow> rf_bearerToken s
   | _ \<Rightarrow> [])"

definition oci_list :: "string \<Rightarrow> string list" where
  "oci_list repositories =
     (if repositories \<noteq> [] then map trim (split_on CHR '','' repositories) else [])"

text \<open>Without a scheme, the URL of a Helm repository is taken to be HTTPS.\<close>

definition final_url :: "RepoForm \<Rightarrow> string" where
  "final_url s =
     (if plugin_name (rf_plugin s) = PACKAGES_HELM \<and>
         \<not> (case rf_url s of None \<Rightarrow> False
             | Some u \<Rightarrow> startsWith u ''http'' \<or> startsWith u ''oci://'')
      then ''https://'' @ show_opt (rf_url s) else opt_string (rf_url s))"

definition form_filter :: "RepoForm \<Rightarrow> RepositoryFilterRule option" where
  "form_filter s =
     (if rf_type s = Some STORAGE_HELM \<and> rf_filterNames s \<noteq> []
      then Some (toFilterRule (rf_filterNames s) (rf_filterRegex s) (rf_filterExclude s)) else None)"

definition currentNsConfig :: "string \<Rightarrow> IConfig" where
  "currentNsConfig globalNs = (IConfig.truncate config_initialState)\<lparr>helmGlobalNamespace := globalNs\<rparr>"

text \<open>\<open>!managed ? value : ""\<close>.\<close>

definition unless :: "bool \<Rightarrow> string \<Rightarrow> string" where
  "unless managed v = (if managed then [] else v)"

definition form_data :: "string \<Rightarrow> string \<Rightarrow> RepoForm \<Rightarrow> string jsobj \<Rightarrow> IPkgRepoFormData" where
  "form_data namespace globalNs s opaque =
     (let m = rf_isUserManagedSecret s; ca = rf_isUserManagedCASecret s in
      \<lparr>fo_authMethod = rf_authMethod s, fo_isUserManaged = m,
       fo_authHeader = unless m (final_header s),
       fo_basicAuth = \<lparr>up_username = unless m (rf_basicUser s),
                       up_password = unless m (rf_basicPassword s)\<rparr>,
       fo_dockerRegCreds = \<lparr>dc_server = unless m (rf_secretServer s),
                            dc_username = unless m (rf_secretUser s),
                            dc_password = unless m (rf_secretPassword s),
                            dc_email = unless m (rf_secretEmail s)\<rparr>,
       fo_sshCreds = \<lparr>sc_privateKey = unless m (rf_sshPrivateKey s),
                      sc_knownHosts = unless m (rf_sshKnownHosts s)\<rparr>,
       fo_opaqueCreds = \<lparr>oc_data = opaque\<rparr>,
       fo_tlsCertKey = \<lparr>tck_cert = unless m (rf_tlsAuthCert s), tck_key = unless m (rf_tlsAuthKey s)\<rparr>,
       fo_secretAuthName = unless (\<not> m) (rf_secretAuthName s),
       fo_secretTLSName = unless (\<not> ca) (rf_secretTLSName s),
       fo_customCA = unless ca (rf_customCA s), fo_description = opt_string (rf_description s),
       fo_interval = opt_string (rf_syncInterval s), fo_name = opt_string (rf_name s),
       fo_passCredentials = rf_passCredentials s, fo_plugin = Some (rf_plugin s),
       fo_skipTLS = rf_skipTLS s, fo_type = opt_string (rf_type s), fo_url = final_url s,
       fo_customDetail = None,
       fo_namespace = (if rf_isNamespaceScoped s then namespace
         else getGlobalNamespaceOrNamespace namespace (plugin_name (rf_plugin s))
                (currentNsConfig globalNs)),
       fo_isNamespaceScoped = rf_isNamespaceScoped s\<rparr>)"

definition form_pullSecret :: "RepoForm \<Rightarrow> DockerRegistryCredential option" where
  "form_pullSecret s =
     (if rf_helmPSAuthMethod s \<noteq> DOCKER_CONFIG_JSON then None
      else if rf_isUserManagedPSSecret s
      then Some (CredentialSecretRef
             (if rf_useSameAuthCreds s then rf_secretAuthName s else rf_secretPSName s))
      else Some (CredentialDocker
             (if rf_useSameAuthCreds s
              then \<lparr>dc_server = rf_secretServer s, dc_username = rf_secretUser s,
                    dc_password = rf_secretPassword s, dc_email = rf_secretEmail s\<rparr>
              else \<lparr>dc_server = rf_pullSecretServer s, dc_username = rf_pullSecretUser s,
                    dc_password = rf_pullSecretPassword s, dc_email = rf_pullSecretEmail s\<rparr>)))"

definition with_customDetail :: "RepoForm \<Rightarrow> IPkgRepoFormData \<Rightarrow> IPkgRepoFormData" where
  "with_customDetail s request =
     (if plugin_name (rf_plugin s) = PACKAGES_HELM
      then request\<lparr>fo_customDetail := Some (FormHelm
             (default_helm_detail\<lparr>hd_ociRepositories := oci_list (rf_ociRepositories s),
                                  hd_performValidation := rf_performValidation s,
                                  hd_filterRule := form_filter s,
                                  hd_imagesPullSecret := form_pullSecret s\<rparr>))\<rparr>
      else if plugin_name (rf_plugin s) = PACKAGES_FLUX \<and> hasAuthProvider s
      then request\<lparr>fo_customDetail := Some (FormFlux \<lparr>fd_provider = rf_authProvider s\<rparr>),
                   fo_authMethod := AUTH_UNSPECIFIED\<rparr>
      else request)"

text \<open>\<open>data: !isUserManagedSecret && opaqueData ? JSON.parse(opaqueData) : {}\<close>.\<close>

definition parse_opaque :: "form_codec \<Rightarrow> lib \<Rightarrow> RepoForm \<Rightarrow> js_error + string jsobj" where
  "parse_opaque F L s =
     (if \<not> rf_isUserManagedSecret s \<and> rf_opaqueData s \<noteq> []
      then (case json_parse L (rf_opaqueData s) of
              Inl e \<Rightarrow> Inl e | Inr v \<Rightarrow> Inr (opaque_from_json F v))
      else Inr [])"

datatype install_outcome =
    AlreadyInstalling
  | InstallRaises js_error
  | Submits IPkgRepoFormData

text \<open>
  A submission up to its \<open>await onSubmit(request)\<close>. The mark \<open>isInstallingRef\<close> is raised first and lowered
  after the wait: an error in between leaves it raised.
\<close>

definition install ::
  "form_codec \<Rightarrow> lib \<Rightarrow> string \<Rightarrow> string \<Rightarrow> RepoForm \<Rightarrow> install_outcome \<times> RepoForm" where
  "install F L namespace globalNs s =
     (if rf_isInstalling s then (AlreadyInstalling, s)
      else (case parse_opaque F L s of
              Inl e \<Rightarrow> (InstallRaises e, s\<lparr>rf_isInstalling := True\<rparr>)
            | Inr data \<Rightarrow> (Submits (with_customDetail s (form_data namespace globalNs s data)),
                           s\<lparr>rf_isInstalling := True\<rparr>)))"

definition install_done :: "RepoForm \<Rightarrow> RepoForm" where
  "install_done s = s\<lparr>rf_isInstalling := False\<rparr>"

section \<open>The handlers\<close>

text \<open>A field of text with its handler takes the text; a switch is negated.\<close>

datatype text_field =
    NameChange | DescriptionChange | IntervalChange | URLChange | AuthCustomHeaderChange
  | AuthBearerTokenChange | CustomCAChange | BasicUserChange | BasicPasswordChange
  | OCIRepositoriesChange | FilterNamesChange | ProxyOptionsHttpProxy | ProxyOptionsHttpsProxy
  | ProxyOptionsNoProxy | AuthSecretUserChange | AuthSecretPasswordChange | AuthSecretEmailChange
  | AuthSecretServerChange | ImgPSUserChange | ImgPSPasswordChange | ImgPSEmailChange
  | ImgPSServerChange | SshKnownHostsChange | SshPrivateKeyChange | TlsAuthCertChange
  | TlsAuthKeyChange | OpaqueDataChange | SecretAuthNameChange | SecretPSNameChange
  | SecretTLSNameChange | FluxAuthProviderChange

datatype toggle_field =
    PerformValidationChange | RepoScopeChange | SkipTLSChange | PassCredentialsChange
  | FilterRegexChange | FilterExcludeChange | ProxyOptionsEnabled | IsUserManagedSecretChange
  | IsUserManagedPSSecretChange | IsUserManagedCASecretChange | UseSameAuthCredsChange

fun handle_text :: "text_field \<Rightarrow> string \<Rightarrow> RepoForm \<Rightarrow> RepoForm" where
  "handle_text NameChange v s = s\<lparr>rf_name := Some v\<rparr>"
| "handle_text DescriptionChange v s = s\<lparr>rf_description := Some v\<rparr>"
| "handle_text IntervalChange v s = s\<lparr>rf_syncInterval := Some v\<rparr>"
| "handle_text URLChange v s = s\<lparr>rf_url := Some v\<rparr>"
| "handle_text AuthCustomHeaderChange v s = s\<lparr>rf_authCustomHeader := v\<rparr>"
| "handle_text AuthBearerTokenChange v s = s\<lparr>rf_bearerToken := v\<rparr>"
| "handle_text CustomCAChange v s = s\<lparr>rf_customCA := v\<rparr>"
| "handle_text BasicUserChange v s = s\<lparr>rf_basicUser := v\<rparr>"
| "handle_text BasicPasswordChange v s = s\<lparr>rf_basicPassword := v\<rparr>"
| "handle_text OCIRepositoriesChange v s = s\<lparr>rf_ociRepositories := v\<rparr>"
| "handle_text FilterNamesChange v s = s\<lparr>rf_filterNames := v\<rparr>"
| "handle_text ProxyOptionsHttpProxy v s = s\<lparr>rf_proxyOptionsHttpProxy := v\<rparr>"
| "handle_text ProxyOptionsHttpsProxy v s = s\<lparr>rf_proxyOptionsHttpsProxy := v\<rparr>"
| "handle_text ProxyOptionsNoProxy v s = s\<lparr>rf_proxyOptionsNoProxy := v\<rparr>"
| "handle_text AuthSecretUserChange v s = s\<lparr>rf_secretUser := v\<rparr>"
| "handle_text AuthSecretPasswordChange v s = s\<lparr>rf_secretPassword := v\<rparr>"
| "handle_text AuthSecretEmailChange v s = s\<lparr>rf_secretEmail := v\<rparr>"
| "handle_text AuthSecretServerChange v s = s\<lparr>rf_secretServer := v\<rparr>"
| "handle_text ImgPSUserChange v s = s\<lparr>rf_pullSecretUser := v\<rparr>"
| "handle_text ImgPSPasswordChange v s = s\<lparr>rf_pullSecretPassword := v\<rparr>"
| "handle_text ImgPSEmailChange v s = s\<lparr>rf_pullSecretEmail := v\<rparr>"
| "handle_text ImgPSServerChange v s = s\<lparr>rf_pullSecretServer := v\<rparr>"
| "handle_text SshKnownHostsChange v s = s\<lparr>rf_sshKnownHosts := v\<rparr>"
| "handle_text SshPrivateKeyChange v s = s\<lparr>rf_sshPrivateKey := v\<rparr>"
| "handle_text TlsAuthCertChange v s = s\<lparr>rf_tlsAuthCert := v\<rparr>"
| "handle_text TlsAuthKeyChange v s = s\<lparr>rf_tlsAuthKey := v\<rparr>"
| "handle_text OpaqueDataChange v s = s\<lparr>rf_opaqueData := v\<rparr>"
| "handle_text SecretAuthNameChange v s = s\<lparr>rf_secretAuthName := v\<rparr>"
| "handle_text SecretPSNameChange v s = s\<lparr>rf_secretPSName := v\<rparr>"
| "handle_text SecretTLSNameChange v s = s\<lparr>rf_secretTLSName := v\<rparr>"
| "handle_text FluxAuthProviderChange v s = s\<lparr>rf_authProvider := v\<rparr>"

fun handle_toggle :: "toggle_field \<Rightarrow> RepoForm \<Rightarrow> RepoForm" where
  "handle_toggle PerformValidationChange s = s\<lparr>rf_performValidation := \<not> rf_performValidation s\<rparr>"
| "handle_toggle RepoScopeChange s = s\<lparr>rf_isNamespaceScoped := \<not> rf_isNamespaceScoped s\<rparr>"
| "handle_toggle SkipTLSChange s = s\<lparr>rf_skipTLS := \<not> rf_skipTLS s\<rparr>"
| "handle_toggle PassCredentialsChange s = s\<lparr>rf_passCredentials := \<not> rf_passCredentials s\<rparr>"
| "handle_toggle FilterRegexChange s = s\<lparr>rf_filterRegex := \<not> rf_filterRegex s\<rparr>"
| "handle_toggle FilterExcludeChange s = s\<lparr>rf_filterExclude := \<not> rf_filterExclude s\<rparr>"
| "handle_toggle ProxyOptionsEnabled s = s\<lparr>rf_proxyOptionsEnabled := \<not> rf_proxyOptionsEnabled s\<rparr>"
| "handle_toggle IsUserManagedSecretChange s = s\<lparr>rf_isUserManagedSecret := \<not> rf_isUserManagedSecret s\<rparr>"
| "handle_toggle IsUserManagedPSSecretChange s = s\<lparr>rf_isUserManagedPSSecret := \<not> rf_isUserManagedPSSecret s\<rparr>"
| "handle_toggle IsUserManagedCASecretChange s = s\<lparr>rf_isUserManagedCASecret := \<not> rf_isUserManagedCASecret s\<rparr>"
| "handle_toggle UseSameAuthCredsChange s = s\<lparr>rf_useSameAuthCreds := \<not> rf_useSameAuthCreds s\<rparr>"

definition toggleAccordion :: "nat \<Rightarrow> RepoForm \<Rightarrow> RepoForm" where
  "toggleAccordion i s = s\<lparr>rf_accordion := (rf_accordion s)[i := \<not> rf_accordion s ! i]\<rparr>"

text \<open>
  Choosing a method forgets the provider. With the Docker configuration, a pull secret is suggested,
  and the same credentials for it unless the user has entered others.
\<close>

definition handleAuthRadioButtonChange :: "AuthType \<Rightarrow> RepoForm \<Rightarrow> RepoForm" where
  "handleAuthRadioButtonChange m s =
     (let s1 = (clearAuthProvider (s\<lparr>rf_authMethod := m\<rparr>))\<lparr>rf_useSameAuthCreds := False\<rparr> in
      if m = DOCKER_CONFIG_JSON
      then s1\<lparr>rf_helmPSAuthMethod := DOCKER_CONFIG_JSON,
              rf_useSameAuthCreds :=
                (rf_secretPSName s = [] \<and> rf_pullSecretServer s = [] \<and> rf_pullSecretEmail s = [] \<and>
                 rf_pullSecretUser s = [] \<and> rf_pullSecretPassword s = [])\<rparr>
      else s1)"

definition handleImgPSChange :: "AuthType \<Rightarrow> RepoForm \<Rightarrow> RepoForm" where
  "handleImgPSChange m s = s\<lparr>rf_helmPSAuthMethod := m\<rparr>"

text \<open>A method the plugin does not support with the type is reset.\<close>

definition supported_method :: "Plugin \<Rightarrow> string option \<Rightarrow> AuthType \<Rightarrow> AuthType" where
  "supported_method plugin type m =
     (if m \<in> set (getSupportedPackageRepositoryAuthTypes plugin type) then m else AUTH_UNSPECIFIED)"

definition handleTypeRadioButtonChange :: "string \<Rightarrow> RepoForm \<Rightarrow> RepoForm" where
  "handleTypeRadioButtonChange newType s =
     s\<lparr>rf_type := Some newType,
       rf_authMethod := supported_method (rf_plugin s) (Some newType) (rf_authMethod s)\<rparr>"

definition type_or_helm :: "string option \<Rightarrow> string option" where
  "type_or_helm t = (if truthy t then t else Some STORAGE_HELM)"

definition handlePluginRadioButtonChange :: "string \<Rightarrow> string \<Rightarrow> string \<Rightarrow> RepoForm \<Rightarrow> RepoForm" where
  "handlePluginRadioButtonChange namespace globalNs name s =
     (let newPlugin = getPluginByName name;
          s1 = s\<lparr>rf_plugin := newPlugin,
                 rf_syncInterval := (if truthy (rf_syncInterval s) then rf_syncInterval s
                                     else Some initialInterval),
                 rf_authMethod := supported_method newPlugin (rf_type s) (rf_authMethod s)\<rparr>
      in if plugin_name newPlugin = PACKAGES_HELM
         then s1\<lparr>rf_type := type_or_helm (rf_type s),
                 rf_isNamespaceScoped :=
                   (\<not> isGlobalNamespace namespace PACKAGES_HELM (currentNsConfig globalNs))\<rparr>
         else if plugin_name newPlugin = PACKAGES_FLUX
         then s1\<lparr>rf_type := type_or_helm (rf_type s), rf_isNamespaceScoped := True\<rparr>
         else s1)"

datatype form_event =
    TextChange text_field string
  | Toggle toggle_field
  | Accordion nat
  | AuthRadio AuthType
  | ProviderRadio
  | ImgPSRadio AuthType
  | TypeRadio string
  | PluginRadio string
  | RepoReceived "RepoDetailState option"
  | InstallClick
  | InstallSettled

text \<open>
  One event: its handler, the effect on the provider, and what a click on the submit button leads to.
\<close>

fun form_step :: "form_codec \<Rightarrow> lib \<Rightarrow> string \<Rightarrow> string \<Rightarrow> form_event \<Rightarrow> RepoForm \<Rightarrow>
    js_error + (install_outcome option \<times> RepoForm)" where
  "form_step F L ns g (TextChange f v) s = Inr (None, auth_effect (handle_text f v s))"
| "form_step F L ns g (Toggle f) s = Inr (None, auth_effect (handle_toggle f s))"
| "form_step F L ns g (Accordion i) s = Inr (None, auth_effect (toggleAccordion i s))"
| "form_step F L ns g (AuthRadio m) s = Inr (None, auth_effect (handleAuthRadioButtonChange m s))"
| "form_step F L ns g ProviderRadio s = Inr (None, auth_effect (handleFluxAuthProviderAuthChange s))"
| "form_step F L ns g (ImgPSRadio m) s = Inr (None, auth_effect (handleImgPSChange m s))"
| "form_step F L ns g (TypeRadio t) s = Inr (None, auth_effect (handleTypeRadioButtonChange t s))"
| "form_step F L ns g (PluginRadio n) s =
     Inr (None, auth_effect (handlePluginRadioButtonChange ns g n s))"
| "form_step F L ns g (RepoReceived repo) s =
     (case load_repo F L repo s of Inl e \<Rightarrow> Inl e | Inr t \<Rightarrow> Inr (None, auth_effect t))"
| "form_step F L ns g InstallClick s = (let (r, t) = install F L ns g s in Inr (Some r, t))"
| "form_step F L ns g InstallSettled s = Inr (None, install_done s)"

text \<open>A session of the form: the outcomes of the submissions, in order, or the error of a rendering.\<close>

fun form_run :: "form_codec \<Rightarrow> lib \<Rightarrow> string \<Rightarrow> string \<Rightarrow> form_event list \<Rightarrow> RepoForm \<Rightarrow>
    js_error + (install_outcome list \<times> RepoForm)" where
  "form_run F L ns g [] s = Inr ([], s)"
| "form_run F L ns g (e # es) s =
     (case form_step F L ns g e s of
        Inl err \<Rightarrow> Inl err
      | Inr (r, t) \<Rightarrow>
          (case form_run F L ns g es t of
             Inl err \<Rightarrow> Inl err
           | Inr (rs, u) \<Rightarrow> Inr ((case r of None \<Rightarrow> rs | Some q \<Rightarrow> q # rs), u)))"

section \<open>Blocked submissions\<close>

lemma auth_effect_installing [simp]: "rf_isInstalling (auth_effect s) = rf_isInstalling s"
  by (simp add: auth_effect_def handleFluxAuthProviderAuthChange_def clearAuthProvider_def)

lemma handle_text_installing [simp]: "rf_isInstalling (handle_text f v s) = rf_isInstalling s"
  by (cases f) simp_all

lemma handle_toggle_installing [simp]: "rf_isInstalling (handle_toggle f s) = rf_isInstalling s"
  by (cases f) simp_all

lemma handlers_installing [simp]:
  "rf_isInstalling (toggleAccordion i s) = rf_isInstalling s"
  "rf_isInstalling (handleAuthRadioButtonChange m s) = rf_isInstalling s"
  "rf_isInstalling (handleFluxAuthProviderAuthChange s) = rf_isInstalling s"
  "rf_isInstalling (handleImgPSChange m s) = rf_isInstalling s"
  "rf_isInstalling (handleTypeRadioButtonChange t s) = rf_isInstalling s"
  "rf_isInstalling (handlePluginRadioButtonChange ns g n s) = rf_isInstalling s"
  by (simp_all add: toggleAccordion_def handleAuthRadioButtonChange_def clearAuthProvider_def
      handleFluxAuthProviderAuthChange_def handleImgPSChange_def handleTypeRadioButtonChange_def
      handlePluginRadioButtonChange_def Let_def)

lemma load_helm_installing [simp]: "rf_isInstalling (load_helm d s) = rf_isInstalling s"
  by (simp add: load_helm_def load_pullSecret_def load_proxy_def load_filter_def Let_def
      split: option.splits DockerRegistryCredential.splits prod.splits)

lemma load_repo_installing: "load_repo F L repo s = Inr t \<Longrightarrow> rf_isInstalling t = rf_isInstalling s"
  by (auto simp: load_repo_def load_auth_def load_basic_def Let_def
      split: option.splits sum.splits if_splits)

lemma form_step_blocked:
  assumes "form_step F L ns g e s = Inr (r, t)" and "rf_isInstalling s" and "e \<noteq> InstallSettled"
  shows "rf_isInstalling t \<and> r \<in> {None, Some AlreadyInstalling}"
  using assms by (cases e) (auto simp: install_def dest: load_repo_installing split: sum.splits)

lemma form_run_blocked:
  "\<lbrakk>form_run F L ns g es s = Inr (rs, u); rf_isInstalling s; InstallSettled \<notin> set es\<rbrakk>
    \<Longrightarrow> (\<forall>r \<in> set rs. r = AlreadyInstalling) \<and> rf_isInstalling u"
proof (induction es arbitrary: s rs)
  case (Cons e es)
  then obtain r t rs' where e: "form_step F L ns g e s = Inr (r, t)"
    and es: "form_run F L ns g es t = Inr (rs', u)" and rs: "rs = (case r of None \<Rightarrow> rs' | Some q \<Rightarrow> q # rs')"
    by (auto split: sum.splits)
  then show ?case using form_step_blocked [OF e] Cons.prems(2,3) Cons.IH [OF es] by auto
qed simp

text \<open>
  Opaque credentials that are not JSON block the form. The submission raises, whatever the chosen
  method is, and nothing is sent; from then on every submission is taken for a second one and ignored,
  also after the user has corrected the field.
\<close>
theorem invalid_opaque_blocks_form:
  assumes "\<not> rf_isInstalling s" and "\<not> rf_isUserManagedSecret s" and "rf_opaqueData s \<noteq> []"
    and "json_parse L (rf_opaqueData s) = Inl e"
    and "form_run F L ns g es (snd (install F L ns g s)) = Inr (rs, u)"
    and "InstallSettled \<notin> set es"
  shows "fst (install F L ns g s) = InstallRaises e \<and> (\<forall>r \<in> set rs. r = AlreadyInstalling)"
  using assms form_run_blocked [OF assms(5) _ assms(6)] by (simp add: install_def parse_opaque_def)

section \<open>Supported methods\<close>

definition method_ok :: "RepoForm \<Rightarrow> bool" where
  "method_ok s \<longleftrightarrow> rf_authMethod s = AUTH_UNSPECIFIED \<or>
     rf_authMethod s \<in> set (getSupportedPackageRepositoryAuthTypes (rf_plugin s) (rf_type s))"

text \<open>What the page lets the user do, and which repositories it is given.\<close>

definition repo_supported :: "PackageRepositoryDetail option \<Rightarrow> bool" where
  "repo_supported repo \<longleftrightarrow>
     (let m = (case Option.bind repo prd_auth of None \<Rightarrow> AUTH_UNSPECIFIED | Some a \<Rightarrow> pra_type a);
          p = (case repo_plugin repo of None \<Rightarrow> no_plugin | Some p \<Rightarrow> p)
      in m = AUTH_UNSPECIFIED \<or>
         m \<in> set (getSupportedPackageRepositoryAuthTypes p (map_option prd_type repo)))"

fun event_enabled :: "form_event \<Rightarrow> RepoForm \<Rightarrow> bool" where
  "event_enabled (AuthRadio m) s \<longleftrightarrow> m = AUTH_UNSPECIFIED \<or>
     m \<in> set (getSupportedPackageRepositoryAuthTypes (rf_plugin s) (rf_type s))"
| "event_enabled ProviderRadio s \<longleftrightarrow>
     plugin_name (rf_plugin s) = PACKAGES_FLUX \<and> rf_type s = Some STORAGE_OCI"
| "event_enabled (ImgPSRadio m) s \<longleftrightarrow> m \<in> {AUTH_UNSPECIFIED, DOCKER_CONFIG_JSON}"
| "event_enabled (TypeRadio t) s \<longleftrightarrow> t \<in> {STORAGE_HELM, STORAGE_OCI}"
| "event_enabled (PluginRadio n) s \<longleftrightarrow> n \<in> {PACKAGES_HELM, PACKAGES_FLUX}"
| "event_enabled (RepoReceived repo) s \<longleftrightarrow> repo_supported (stored_detail repo)"
| "event_enabled (Accordion i) s \<longleftrightarrow> i < 4"
| "event_enabled _ s \<longleftrightarrow> True"

inductive form_steps :: "form_codec \<Rightarrow> lib \<Rightarrow> string \<Rightarrow> string \<Rightarrow> RepoForm \<Rightarrow> RepoForm \<Rightarrow> bool"
  for F L ns g s where
  start [step_intros]: "form_steps F L ns g s s"
| event [step_intros]: "\<lbrakk>form_steps F L ns g s t; event_enabled e t; form_step F L ns g e t = Inr (r, u)\<rbrakk>
    \<Longrightarrow> form_steps F L ns g s u"

lemma auth_effect_method_ok [simp]: "method_ok (auth_effect s) = method_ok s"
  by (simp add: method_ok_def auth_effect_def handleFluxAuthProviderAuthChange_def clearAuthProvider_def)

lemma handle_text_method_ok [simp]: "method_ok (handle_text f v s) = method_ok s"
  by (cases f) (simp_all add: method_ok_def)

lemma handle_toggle_method_ok [simp]: "method_ok (handle_toggle f s) = method_ok s"
  by (cases f) (simp_all add: method_ok_def)

lemma handlers_method_ok:
  "method_ok (toggleAccordion i s) = method_ok s" "method_ok (handleImgPSChange m s) = method_ok s"
  "method_ok (install_done s) = method_ok s"
  "method_ok (handleFluxAuthProviderAuthChange s)" "method_ok (handleTypeRadioButtonChange t s)"
  "event_enabled (AuthRadio m) s \<Longrightarrow> method_ok (handleAuthRadioButtonChange m s)"
  by (auto simp: method_ok_def toggleAccordion_def handleAuthRadioButtonChange_def clearAuthProvider_def
      handleFluxAuthProviderAuthChange_def handleImgPSChange_def handleTypeRadioButtonChange_def
      supported_method_def install_done_def Let_def)

lemma supported_type_or_helm:
  "getSupportedPackageRepositoryAuthTypes p (type_or_helm t) = getSupportedPackageRepositoryAuthTypes p t"
  by (cases t) (auto simp: getSupportedPackageRepositoryAuthTypes_def type_or_helm_def truthy_def
      STORAGE_HELM_def STORAGE_OCI_def)

lemma plugin_method_ok: "method_ok (handlePluginRadioButtonChange ns g n s)"
  by (simp add: handlePluginRadioButtonChange_def method_ok_def Let_def supported_type_or_helm
      supported_method_def)

lemma load_helm_method [simp]:
  "rf_authMethod (load_helm d s) = rf_authMethod s" "rf_plugin (load_helm d s) = rf_plugin s"
  "rf_type (load_helm d s) = rf_type s"
  by (simp_all add: load_helm_def load_pullSecret_def load_proxy_def load_filter_def Let_def
      split: option.splits DockerRegistryCredential.splits prod.splits)

lemma load_repo_method:
  assumes "load_repo F L stored s = Inr t"
  shows "rf_authMethod t = (case Option.bind (stored_detail stored) prd_auth of
                              None \<Rightarrow> AUTH_UNSPECIFIED | Some a \<Rightarrow> pra_type a) \<and>
    rf_plugin t = (case repo_plugin (stored_detail stored) of None \<Rightarrow> no_plugin | Some p \<Rightarrow> p) \<and>
    rf_type t = map_option prd_type (stored_detail stored)"
  using assms
  by (auto simp: load_repo_def load_auth_def load_basic_def Let_def
      split: option.splits sum.splits if_splits)

lemma form_step_method_ok:
  assumes "form_step F L ns g e s = Inr (r, t)" and "event_enabled e s" and "method_ok s"
  shows "method_ok t"
proof (cases e)
  case (RepoReceived repo)
  then obtain u where u: "load_repo F L repo s = Inr u" "t = auth_effect u"
    using assms(1) by (auto split: sum.splits)
  have "method_ok u"
    using load_repo_method [OF u(1)] assms(2) RepoReceived
    by (simp add: method_ok_def repo_supported_def Let_def)
  then show ?thesis using u(2) by simp
next
  case (PluginRadio n)
  then show ?thesis using assms(1) by (auto simp: plugin_method_ok)
next
  case InstallClick
  then show ?thesis using assms
    by (auto simp: install_def method_ok_def split: sum.splits if_splits)
qed (use assms handlers_method_ok in auto)


lemma form_steps_method_ok: "form_steps F L ns g s t \<Longrightarrow> method_ok s \<Longrightarrow> method_ok t"
  by (induction rule: form_steps.induct) (blast intro: form_step_method_ok)+

lemma supported_opt_string:
  "getSupportedPackageRepositoryAuthTypes p (Some (opt_string t)) =
     getSupportedPackageRepositoryAuthTypes p t"
  by (cases t) (simp_all add: getSupportedPackageRepositoryAuthTypes_def opt_string_def STORAGE_HELM_def
      STORAGE_OCI_def)



section \<open>Editing a repository\<close>

text \<open>
  The authentications and certificates a request can produce: the credentials are those of the type and
  not all empty, a reference has a name and no key, and nothing is there only by default.
\<close>

fun credentials_of_type :: "AuthType \<Rightarrow> AuthOneOf \<Rightarrow> bool" where
  "credentials_of_type t (AuthUsernamePassword c) \<longleftrightarrow>
     t = BASIC_AUTH \<and> any_nonempty [up_username c, up_password c]"
| "credentials_of_type t (AuthTlsCertKey c) \<longleftrightarrow> t = TLS \<and> any_nonempty [tck_cert c, tck_key c]"
| "credentials_of_type t (AuthDockerCreds c) \<longleftrightarrow>
     t = DOCKER_CONFIG_JSON \<and> any_nonempty [dc_server c, dc_username c, dc_password c, dc_email c]"
| "credentials_of_type t (AuthHeader h) \<longleftrightarrow> t \<in> {BEARER, AUTHORIZATION_HEADER} \<and> h \<noteq> []"
| "credentials_of_type t (AuthSecretRef r) \<longleftrightarrow> t \<noteq> AUTH_UNSPECIFIED \<and> skr_name r \<noteq> [] \<and> skr_key r = []"
| "credentials_of_type t (AuthSshCreds c) \<longleftrightarrow> t = SSH \<and> any_nonempty [sc_privateKey c, sc_knownHosts c]"
| "credentials_of_type t (AuthOpaqueCreds c) \<longleftrightarrow> t = OPAQUE \<and> any_nonempty (map snd (oc_data c))"
| "credentials_of_type t NoAuthOneOf \<longleftrightarrow> True"

definition auth_canonical :: "PackageRepositoryAuth option \<Rightarrow> bool" where
  "auth_canonical auth = (case auth of
     None \<Rightarrow> True
   | Some a \<Rightarrow> credentials_of_type (pra_type a) (pra_oneOf a) \<and>
       (pra_type a \<noteq> AUTH_UNSPECIFIED \<or> pra_passCredentials a))"

definition tls_canonical :: "PackageRepositoryTlsConfig option \<Rightarrow> bool" where
  "tls_canonical tls = (case tls of
     None \<Rightarrow> True
   | Some t \<Rightarrow> (case prt_oneOf t of
        NoTlsOneOf \<Rightarrow> prt_insecureSkipVerify t
      | TlsCertAuthority ca \<Rightarrow> ca \<noteq> []
      | TlsSecretRef r \<Rightarrow> skr_name r \<noteq> [] \<and> skr_key r = []))"

text \<open>
  The update request of an edit without changes: the repository is loaded into a fresh form, the effect
  on the provider runs, and the form is submitted.
\<close>

definition edit_request ::
  "form_codec \<Rightarrow> lib \<Rightarrow> string \<Rightarrow> string \<Rightarrow> RepoDetailState \<Rightarrow> IPkgRepoFormData option" where
  "edit_request F L ns g repo =
     (case form_run F L ns g [RepoReceived (Some repo), InstallClick] (initial_form (Some (rd_detail repo))) of
        Inr ([Submits f], s) \<Rightarrow> Some f
      | _ \<Rightarrow> None)"

definition has_scheme :: "string \<Rightarrow> bool" where
  "has_scheme u \<longleftrightarrow> startsWith u ''http'' \<or> startsWith u ''oci://''"

text \<open>What the custom detail leaves alone in a loaded form.\<close>

lemma load_repo_cases:
  assumes "load_repo F L stored s = Inr t"
  obtains "t = load_auth L (stored_detail stored) (load_basic (stored_detail stored) s)"
  | d where "t = load_helm d (load_auth L (stored_detail stored) (load_basic (stored_detail stored) s))"
  | p where "t = (load_auth L (stored_detail stored) (load_basic (stored_detail stored) s))\<lparr>rf_authProvider := p\<rparr>"
  using assms by (auto simp: load_repo_def Let_def split: option.splits sum.splits if_splits)

lemma load_helm_fields [simp]:
  "rf_authCustomHeader (load_helm d s) = rf_authCustomHeader s"
  "rf_bearerToken (load_helm d s) = rf_bearerToken s"
  "rf_basicPassword (load_helm d s) = rf_basicPassword s" "rf_basicUser (load_helm d s) = rf_basicUser s"
  "rf_secretEmail (load_helm d s) = rf_secretEmail s" "rf_secretPassword (load_helm d s) = rf_secretPassword s"
  "rf_secretServer (load_helm d s) = rf_secretServer s" "rf_secretUser (load_helm d s) = rf_secretUser s"
  "rf_sshKnownHosts (load_helm d s) = rf_sshKnownHosts s"
  "rf_sshPrivateKey (load_helm d s) = rf_sshPrivateKey s" "rf_tlsAuthCert (load_helm d s) = rf_tlsAuthCert s"
  "rf_tlsAuthKey (load_helm d s) = rf_tlsAuthKey s" "rf_opaqueData (load_helm d s) = rf_opaqueData s"
  "rf_secretAuthName (load_helm d s) = rf_secretAuthName s"
  "rf_secretTLSName (load_helm d s) = rf_secretTLSName s"
  "rf_isUserManagedSecret (load_helm d s) = rf_isUserManagedSecret s"
  "rf_isUserManagedCASecret (load_helm d s) = rf_isUserManagedCASecret s"
  "rf_customCA (load_helm d s) = rf_customCA s" "rf_skipTLS (load_helm d s) = rf_skipTLS s"
  "rf_passCredentials (load_helm d s) = rf_passCredentials s" "rf_url (load_helm d s) = rf_url s"
  "rf_name (load_helm d s) = rf_name s"
  "rf_description (load_helm d s) = rf_description s" "rf_syncInterval (load_helm d s) = rf_syncInterval s"
  "rf_isNamespaceScoped (load_helm d s) = rf_isNamespaceScoped s"
  by (simp_all add: load_helm_def load_pullSecret_def load_proxy_def load_filter_def Let_def
      split: option.splits DockerRegistryCredential.splits prod.splits)

text \<open>The effect on the provider changes neither the method nor what a request is built from.\<close>

lemma auth_effect_fields [simp]:
  "rf_authMethod (auth_effect s) = rf_authMethod s"
  "rf_authCustomHeader (auth_effect s) = rf_authCustomHeader s"
  "rf_basicPassword (auth_effect s) = rf_basicPassword s"
  "rf_basicUser (auth_effect s) = rf_basicUser s"
  "rf_isNamespaceScoped (auth_effect s) = rf_isNamespaceScoped s"
  "rf_bearerToken (auth_effect s) = rf_bearerToken s"
  "rf_secretEmail (auth_effect s) = rf_secretEmail s"
  "rf_secretUser (auth_effect s) = rf_secretUser s"
  "rf_secretPassword (auth_effect s) = rf_secretPassword s"
  "rf_secretServer (auth_effect s) = rf_secretServer s"
  "rf_sshKnownHosts (auth_effect s) = rf_sshKnownHosts s"
  "rf_sshPrivateKey (auth_effect s) = rf_sshPrivateKey s"
  "rf_tlsAuthCert (auth_effect s) = rf_tlsAuthCert s"
  "rf_tlsAuthKey (auth_effect s) = rf_tlsAuthKey s"
  "rf_opaqueData (auth_effect s) = rf_opaqueData s"
  "rf_secretAuthName (auth_effect s) = rf_secretAuthName s"
  "rf_secretTLSName (auth_effect s) = rf_secretTLSName s"
  "rf_isUserManagedSecret (auth_effect s) = rf_isUserManagedSecret s"
  "rf_isUserManagedCASecret (auth_effect s) = rf_isUserManagedCASecret s"
  "rf_name (auth_effect s) = rf_name s" "rf_url (auth_effect s) = rf_url s"
  "rf_description (auth_effect s) = rf_description s" "rf_plugin (auth_effect s) = rf_plugin s"
  "rf_type (auth_effect s) = rf_type s" "rf_syncInterval (auth_effect s) = rf_syncInterval s"
  "rf_customCA (auth_effect s) = rf_customCA s" "rf_skipTLS (auth_effect s) = rf_skipTLS s"
  "rf_passCredentials (auth_effect s) = rf_passCredentials s"
  "rf_ociRepositories (auth_effect s) = rf_ociRepositories s"
  "rf_performValidation (auth_effect s) = rf_performValidation s"
  "rf_filterNames (auth_effect s) = rf_filterNames s"
  "rf_filterRegex (auth_effect s) = rf_filterRegex s"
  "rf_filterExclude (auth_effect s) = rf_filterExclude s"
  "rf_helmPSAuthMethod (auth_effect s) = rf_helmPSAuthMethod s"
  by (simp_all add: auth_effect_def handleFluxAuthProviderAuthChange_def clearAuthProvider_def)

lemma auth_effect_request [simp]:
  "form_data ns g (auth_effect s) data = form_data ns g s data"
  "parse_opaque F L (auth_effect s) = parse_opaque F L s"
  by (simp_all only: form_data_def parse_opaque_def final_header_def final_url_def auth_effect_fields)

lemma form_data_method: "fo_authMethod (form_data ns g s data) = rf_authMethod s"
  by (simp add: form_data_def Let_def)

lemma auth_effect_provider: "hasAuthProvider (auth_effect s) \<Longrightarrow> rf_authMethod s = AUTH_UNSPECIFIED"
  by (simp add: auth_effect_def hasAuthProvider_def clearAuthProvider_def split: if_splits)

lemma with_customDetail_method:
  assumes "fo_authMethod r = rf_authMethod s" and "fo_customDetail r = None"
  shows "\<exists>d. with_customDetail (auth_effect s) r = r\<lparr>fo_customDetail := d\<rparr>"
proof -
  have r: "r = r\<lparr>fo_customDetail := None\<rparr>" using assms(2) by (cases r) simp
  show ?thesis
  proof (cases "hasAuthProvider (auth_effect s)")
    case True
    then have m: "fo_authMethod r = AUTH_UNSPECIFIED" using auth_effect_provider assms(1) by simp
    have "\<exists>d. r\<lparr>fo_customDetail := c, fo_authMethod := AUTH_UNSPECIFIED\<rparr> = r\<lparr>fo_customDetail := d\<rparr>" for c
      using m by (intro exI [of _ c], cases r) simp
    then show ?thesis using r by (auto simp: with_customDetail_def)
  next
    case False
    then show ?thesis using r by (auto simp: with_customDetail_def)
  qed
qed


lemma build_customDetail [simp]:
  "build_auth (r\<lparr>fo_customDetail := d\<rparr>) = build_auth r" "build_tls (r\<lparr>fo_customDetail := d\<rparr>) = build_tls r"
  by (cases r, simp only: build_auth_def build_tls_def entered_auth_def IPkgRepoFormData.simps)+

lemma unless_simps [simp]: "unless True v = []" "unless False v = v"
  by (simp_all add: unless_def)

text \<open>What the loaded form holds of the authentication and the certificates.\<close>

lemma load_auth_fields:
  assumes "load_repo F L (Some repo) s = Inr t" and "d = rd_detail repo"
  shows "rf_authMethod t = (case prd_auth d of None \<Rightarrow> AUTH_UNSPECIFIED | Some a \<Rightarrow> pra_type a)"
    "rf_passCredentials t = repo_passes_credentials (Some d)"
    "rf_isUserManagedSecret t = is_secret_ref (repo_auth (Some d))"
    "rf_secretAuthName t = secret_of (repo_auth (Some d))"
    "rf_authCustomHeader t = header_of (repo_auth (Some d))" "rf_bearerToken t = header_of (repo_auth (Some d))"
    "rf_basicUser t = up_username (user_password_of (repo_auth (Some d)))"
    "rf_basicPassword t = up_password (user_password_of (repo_auth (Some d)))"
    "rf_secretServer t = dc_server (docker_of (repo_auth (Some d)))"
    "rf_secretUser t = dc_username (docker_of (repo_auth (Some d)))"
    "rf_secretPassword t = dc_password (docker_of (repo_auth (Some d)))"
    "rf_secretEmail t = dc_email (docker_of (repo_auth (Some d)))"
    "rf_sshPrivateKey t = sc_privateKey (ssh_of (repo_auth (Some d)))"
    "rf_sshKnownHosts t = sc_knownHosts (ssh_of (repo_auth (Some d)))"
    "rf_tlsAuthCert t = tck_cert (cert_key_of (repo_auth (Some d)))"
    "rf_tlsAuthKey t = tck_key (cert_key_of (repo_auth (Some d)))"
    "rf_opaqueData t = opaque_of L (repo_auth (Some d))"
  by (rule load_repo_cases [OF assms(1)];
      simp add: assms(2) stored_detail_def load_auth_def load_basic_def Let_def)+

lemma load_rest_fields:
  assumes "load_repo F L (Some repo) s = Inr t" and "d = rd_detail repo"
  shows "rf_skipTLS t = repo_skips_tls (Some d)"
    "rf_isUserManagedCASecret t = is_tls_ref (repo_tls (Some d))"
    "rf_secretTLSName t = (case repo_tls (Some d) of TlsSecretRef r \<Rightarrow> skr_name r | _ \<Rightarrow> [])"
    "rf_customCA t = (case repo_tls (Some d) of TlsCertAuthority ca \<Rightarrow> ca | _ \<Rightarrow> [])"
    "rf_url t = Some (prd_url d)" "rf_name t = Some (prd_name d)" "rf_description t = Some (prd_description d)"
    "rf_syncInterval t = Some (prd_interval d)"
    "rf_plugin t = (case repo_plugin (Some d) of None \<Rightarrow> no_plugin | Some p \<Rightarrow> p)"
    "rf_isNamespaceScoped t = prd_namespaceScoped d"
  by (rule load_repo_cases [OF assms(1)];
      simp add: assms(2) stored_detail_def load_auth_def load_basic_def Let_def)+

lemma parse_opaque_loaded:
  assumes "load_repo F L (Some repo) s = Inr t" and "d = rd_detail repo" and "opaque_spec F L"
  shows "parse_opaque F L t =
    Inr (case repo_auth (Some d) of AuthOpaqueCreds c \<Rightarrow> oc_data c | _ \<Rightarrow> [])"
proof -
  have rt: "json_parse L (json_stringify L (json_strings m)) = Inr (json_strings m)"
      "json_stringify L (json_strings m) \<noteq> []" "opaque_from_json F (json_strings m) = m" for m
    using assms(3) by (simp_all add: opaque_spec_def)
  show ?thesis
    unfolding parse_opaque_def load_auth_fields [OF assms(1,2)]
    by (cases "repo_auth (Some d)") (simp_all add: rt)
qed


definition lost_header :: "PackageRepositoryAuth option \<Rightarrow> bool" where
  "lost_header auth = (case auth of
     None \<Rightarrow> False
   | Some a \<Rightarrow> pra_type a = AUTHORIZATION_HEADER \<and> header_of (pra_oneOf a) \<noteq> [])"

definition without_credentials :: "PackageRepositoryAuth option \<Rightarrow> PackageRepositoryAuth option" where
  "without_credentials auth = map_option (\<lambda>a. a\<lparr>pra_oneOf := NoAuthOneOf\<rparr>) auth"

lemma form_data_auth:
  "fo_isUserManaged (form_data ns g s data) = rf_isUserManagedSecret s"
  "fo_authHeader (form_data ns g s data) = unless (rf_isUserManagedSecret s) (final_header s)"
  "fo_basicAuth (form_data ns g s data) =
     \<lparr>up_username = unless (rf_isUserManagedSecret s) (rf_basicUser s),
      up_password = unless (rf_isUserManagedSecret s) (rf_basicPassword s)\<rparr>"
  "fo_dockerRegCreds (form_data ns g s data) =
     \<lparr>dc_server = unless (rf_isUserManagedSecret s) (rf_secretServer s),
      dc_username = unless (rf_isUserManagedSecret s) (rf_secretUser s),
      dc_password = unless (rf_isUserManagedSecret s) (rf_secretPassword s),
      dc_email = unless (rf_isUserManagedSecret s) (rf_secretEmail s)\<rparr>"
  "fo_sshCreds (form_data ns g s data) =
     \<lparr>sc_privateKey = unless (rf_isUserManagedSecret s) (rf_sshPrivateKey s),
      sc_knownHosts = unless (rf_isUserManagedSecret s) (rf_sshKnownHosts s)\<rparr>"
  "fo_opaqueCreds (form_data ns g s data) = \<lparr>oc_data = data\<rparr>"
  "fo_tlsCertKey (form_data ns g s data) =
     \<lparr>tck_cert = unless (rf_isUserManagedSecret s) (rf_tlsAuthCert s),
      tck_key = unless (rf_isUserManagedSecret s) (rf_tlsAuthKey s)\<rparr>"
  "fo_secretAuthName (form_data ns g s data) = unless (\<not> rf_isUserManagedSecret s) (rf_secretAuthName s)"
  "fo_passCredentials (form_data ns g s data) = rf_passCredentials s"
  by (simp_all add: form_data_def Let_def)

lemma form_data_rest:
  "fo_secretTLSName (form_data ns g s data) = unless (\<not> rf_isUserManagedCASecret s) (rf_secretTLSName s)"
  "fo_customCA (form_data ns g s data) = unless (rf_isUserManagedCASecret s) (rf_customCA s)"
  "fo_skipTLS (form_data ns g s data) = rf_skipTLS s"
  "fo_description (form_data ns g s data) = opt_string (rf_description s)"
  "fo_interval (form_data ns g s data) = opt_string (rf_syncInterval s)"
  "fo_name (form_data ns g s data) = opt_string (rf_name s)"
  "fo_url (form_data ns g s data) = final_url s" "fo_plugin (form_data ns g s data) = Some (rf_plugin s)"
  "fo_customDetail (form_data ns g s data) = None"
  by (simp_all add: form_data_def Let_def)

lemma loaded_auth:
  assumes load: "load_repo F L (Some repo) s = Inr t" "d = rd_detail repo" and can: "auth_canonical (prd_auth d)"
    and data: "data = (case repo_auth (Some d) of AuthOpaqueCreds c \<Rightarrow> oc_data c | _ \<Rightarrow> [])"
  shows "build_auth (form_data ns g t data) =
    (if lost_header (prd_auth d) then without_credentials (prd_auth d) else prd_auth d)"
proof (cases "prd_auth d")
  case None
  then show ?thesis
    by (simp add: build_auth_def form_data_method form_data_auth load_auth_fields [OF load] repo_auth_def
        repo_passes_credentials_def entered_auth_def lost_header_def)
next
  case (Some a)
  obtain m v p where a: "a = \<lparr>pra_type = m, pra_oneOf = v, pra_passCredentials = p\<rparr>" by (cases a)
  have fields: "repo_auth (Some d) = v" "repo_passes_credentials (Some d) = p"
    using Some a by (simp_all add: repo_auth_def repo_passes_credentials_def)
  note simps = build_auth_def form_data_method form_data_auth load_auth_fields [OF load] fields Some a
    entered_auth_def with_oneOf_def auth_or_new_def lost_header_def without_credentials_def final_header_def
    Let_def
  show ?thesis
  proof (cases v)
    case NoAuthOneOf
    then show ?thesis using can data
      by (cases m) (auto simp: simps auth_canonical_def any_nonempty_def)
  next
    case (AuthUsernamePassword c)
    then show ?thesis using can data by (cases c) (auto simp: simps auth_canonical_def)
  next
    case (AuthTlsCertKey c)
    then show ?thesis using can data by (cases c) (auto simp: simps auth_canonical_def)
  next
    case (AuthDockerCreds c)
    then show ?thesis using can data by (cases c) (auto simp: simps auth_canonical_def)
  next
    case (AuthHeader h)
    then show ?thesis using can data by (auto simp: simps auth_canonical_def)
  next
    case (AuthSecretRef r)
    then show ?thesis using can data by (cases r) (auto simp: simps auth_canonical_def)
  next
    case (AuthSshCreds c)
    then show ?thesis using can data by (cases c) (auto simp: simps auth_canonical_def)
  next
    case (AuthOpaqueCreds c)
    then show ?thesis using can data fields by (cases c) (auto simp: simps auth_canonical_def)
  qed
qed


text \<open>Whether the form's switches fit the certificates: one switch decides for both.\<close>

definition tls_fits_auth :: "PackageRepositoryDetail \<Rightarrow> bool" where
  "tls_fits_auth d \<longleftrightarrow> repo_tls (Some d) = NoTlsOneOf \<or>
     is_tls_ref (repo_tls (Some d)) = is_secret_ref (repo_auth (Some d))"

lemma loaded_tls:
  assumes load: "load_repo F L (Some repo) s = Inr t" "d = rd_detail repo"
    and can: "tls_canonical (prd_tlsConfig d)"
  shows "build_tls (form_data ns g t data) = prd_tlsConfig d \<longleftrightarrow> tls_fits_auth d"
proof (cases "prd_tlsConfig d")
  case None
  then show ?thesis
    by (simp add: build_tls_def form_data_auth form_data_rest load_auth_fields [OF load] load_rest_fields [OF load]
        repo_tls_def repo_skips_tls_def tls_fits_auth_def Let_def)
next
  case (Some c)
  obtain k v where c: "c = \<lparr>prt_insecureSkipVerify = k, prt_oneOf = v\<rparr>" by (cases c)
  have fields: "repo_tls (Some d) = v" "repo_skips_tls (Some d) = k"
    using Some c by (simp_all add: repo_tls_def repo_skips_tls_def)
  note simps = build_tls_def form_data_auth form_data_rest load_auth_fields [OF load] load_rest_fields [OF load]
    fields Some c with_tls_def tls_or_new_def tls_fits_auth_def Let_def
  show ?thesis
  proof (cases v)
    case NoTlsOneOf
    then show ?thesis using can by (simp add: simps tls_canonical_def)
  next
    case (TlsCertAuthority ca)
    then show ?thesis using can by (simp add: simps tls_canonical_def)
  next
    case (TlsSecretRef r)
    then show ?thesis using can by (cases r) (simp add: simps tls_canonical_def)
  qed
qed

lemma edit_request_eq:
  assumes load: "load_repo F L (Some repo) (initial_form (Some (rd_detail repo))) = Inr t" "d = rd_detail repo"
    and "opaque_spec F L"
    and data: "data = (case repo_auth (Some d) of AuthOpaqueCreds c \<Rightarrow> oc_data c | _ \<Rightarrow> [])"
  obtains c where "edit_request F L ns g repo = Some ((form_data ns g t data)\<lparr>fo_customDetail := c\<rparr>)"
proof -
  have "\<not> rf_isInstalling t"
    using load_repo_installing [OF load(1)] by (simp add: initial_form_def)
  then have "edit_request F L ns g repo = Some (with_customDetail (auth_effect t) (form_data ns g t data))"
    using load(1) parse_opaque_loaded [OF load assms(3)] data by (simp add: edit_request_def install_def)
  moreover have "\<exists>c. with_customDetail (auth_effect t) (form_data ns g t data) =
      (form_data ns g t data)\<lparr>fo_customDetail := c\<rparr>"
    by (rule with_customDetail_method) (simp_all add: form_data_method form_data_rest)
  ultimately show ?thesis using that by auto
qed


text \<open>
  The certificate authority under an edit without changes. It is kept exactly when it is entered and so
  are the credentials, or both are references to secrets: the request follows the switch of the
  authentication, and the switch of the certificate authority in the form has no say.
\<close>
theorem edit_keeps_ca:
  assumes "load_repo F L (Some repo) (initial_form (Some (rd_detail repo))) = Inr t"
    and "opaque_spec F L" and "tls_canonical (prd_tlsConfig (rd_detail repo))"
  shows "\<exists>f. edit_request F L ns g repo = Some f \<and>
    (urq_tlsConfig (buildUpdateRequest cluster f detail) = prd_tlsConfig (rd_detail repo) \<longleftrightarrow>
     tls_fits_auth (rd_detail repo))"
proof -
  define d where "d = rd_detail repo"
  define data where "data = (case repo_auth (Some d) of AuthOpaqueCreds c \<Rightarrow> oc_data c | _ \<Rightarrow> [])"
  obtain f c where f: "f = (form_data ns g t data)\<lparr>fo_customDetail := c\<rparr>"
    and request: "edit_request F L ns g repo = Some f"
    using edit_request_eq [OF assms(1) d_def assms(2) data_def] by metis
  have "build_tls f = prd_tlsConfig d \<longleftrightarrow> tls_fits_auth d"
    using loaded_tls [OF assms(1) d_def] assms(3) by (simp add: f d_def)
  with request show ?thesis
    by (intro exI [of _ f]) (simp add: buildUpdateRequest_def buildAddRequest_def d_def Let_def)
qed


lemma helm_detail_no_proxy:
  assumes "fst (install F L ns g s) = Submits f" and "plugin_name (rf_plugin s) = PACKAGES_HELM"
  shows "\<exists>h. fo_customDetail f = Some (FormHelm h) \<and> hd_proxyOptions h = None \<and>
    hd_ociRepositories h = oci_list (rf_ociRepositories s)"
  using assms
  by (auto simp: install_def with_customDetail_def default_helm_detail_def split: sum.splits if_splits)

text \<open>
  Editing a Helm repository from the store. The reducer replaces the custom detail by its bytes, which
  the constructor of the repository message turns into an empty detail: the form shows no OCI
  repositories, no filter and no validation, and an edit without changes submits the default detail,
  whatever the repository had.
\<close>
theorem edit_loses_helm_detail:
  assumes "protobuf_spec F" and "opaque_spec F L"
    and "repo_detail_plugin d = Some PACKAGES_HELM" and "prd_customDetail d \<noteq> None"
    and "rp_repoDetail (reposReducer rs (ReposA (ReceiveRepoDetail d))) = Some repo"
  shows "\<exists>t f h. load_repo F L (Some repo) (initial_form (Some (rd_detail repo))) = Inr t \<and>
    rf_ociRepositories t = [] \<and> rf_filterNames t = [] \<and> \<not> rf_performValidation t \<and>
    edit_request F L ns g repo = Some f \<and> fo_customDetail f = Some (FormHelm h) \<and>
    helm_detail h = default_helm_detail"
proof -
  have repo: "repo = repoWithCustomDetail d" using assms(5) by simp
  have d: "rd_detail repo = d" by (simp add: repo repoWithCustomDetail_def)
  have plugin: "map_option plugin_name (repo_plugin (Some d)) = Some PACKAGES_HELM"
    using assms(3) by (simp add: repo_detail_plugin_def repo_plugin_def)
  have custom: "stored_customDetail F (Some repo) = Some empty_any"
    using assms(1,3,4)
    by (auto simp: stored_customDetail_def repo repoWithCustomDetail_def protobuf_spec_def split: option.splits)
  let ?s = "initial_form (Some d)"
  define t where "t = load_helm default_helm_detail (load_auth L (Some d) (load_basic (Some d) ?s))"
  have load: "load_repo F L (Some repo) ?s = Inr t"
    using custom plugin assms(1)
    by (simp add: load_repo_def stored_detail_def d protobuf_spec_def empty_any_def t_def Let_def)
  have t: "rf_ociRepositories t = []" "rf_filterNames t = []" "\<not> rf_performValidation t"
      "rf_helmPSAuthMethod t = AUTH_UNSPECIFIED" "\<not> rf_isInstalling t"
    by (simp_all add: t_def load_helm_def default_helm_detail_def load_pullSecret_def load_proxy_def
        load_filter_def load_auth_def load_basic_def initial_form_def Let_def)
  have "plugin_name (rf_plugin t) = PACKAGES_HELM"
    using load_rest_fields(9) [OF load refl] plugin d by (auto split: option.splits)
  moreover obtain data where "parse_opaque F L t = Inr data"
    using parse_opaque_loaded [OF load refl assms(2)] by blast
  ultimately have "edit_request F L ns g repo = Some ((form_data ns g t data)\<lparr>fo_customDetail :=
      Some (FormHelm default_helm_detail)\<rparr>)"
    using load t d
    by (simp add: edit_request_def install_def with_customDetail_def oci_list_def form_filter_def
        form_pullSecret_def default_helm_detail_def)
  then show ?thesis
    using load t d
    by (auto simp: helm_detail_def default_helm_detail_def kept_pullSecret_def kept_proxy_def intro!: exI)
qed


section \<open>Witnesses\<close>

text \<open>
  A JSON printer and parser for objects of strings: every character is marked with a dot and every string
  ends in a comma.
\<close>

definition print_word :: "string \<Rightarrow> string" where
  "print_word w = concat (map (\<lambda>c. [CHR ''.'', c]) w) @ '',''"

fun parse_words :: "string \<Rightarrow> string list" where
  "parse_words (m # c # s) =
     (if m = CHR ''.'' then (case parse_words s of [] \<Rightarrow> [[c]] | w # ws \<Rightarrow> (c # w) # ws)
      else [] # parse_words (c # s))"
| "parse_words [m] = [[]]"
| "parse_words [] = []"

fun pair_up :: "string list \<Rightarrow> string jsobj" where
  "pair_up (k # v # ws) = (k, v) # pair_up ws"
| "pair_up _ = []"

definition print_strings :: "string jsobj \<Rightarrow> string" where
  "print_strings m = ''{'' @ concat (map (\<lambda>(k, v). print_word k @ print_word v) m)"

lemma parse_print_word: "parse_words (print_word w @ s) = w # parse_words s"
proof (induction w)
  case Nil
  then show ?case by (cases s) (simp_all add: print_word_def)
next
  case (Cons c w)
  then show ?case by (simp add: print_word_def)
qed

lemma parse_print_strings: "pair_up (parse_words (tl (print_strings m))) = m"
  by (induction m) (auto simp: print_strings_def parse_print_word)

fun object_strings :: "json \<Rightarrow> string jsobj" where
  "object_strings (JObj ms) = concat (map (\<lambda>(k, v). case v of JStr s \<Rightarrow> [(k, s)] | _ \<Rightarrow> []) ms)"
| "object_strings _ = []"

lemma object_strings_json [simp]: "object_strings (json_strings m) = m"
  by (induction m) (auto simp: json_strings_def)

definition opaque_lib :: lib where
  "opaque_lib = sample_lib\<lparr>json_stringify := (\<lambda>v. print_strings (object_strings v)),
     json_parse := (\<lambda>s. case s of
        c # w \<Rightarrow> (if c = CHR ''{'' then Inr (json_strings (pair_up (parse_words w)))
                  else Inl (SyntaxError ''Unexpected token''))
      | [] \<Rightarrow> Inl (SyntaxError ''Unexpected end''))\<rparr>"

definition sample_codec :: form_codec where
  "sample_codec =
     \<lparr>helm_fromBinary = (\<lambda>bytes. if bytes = [] then Inr default_helm_detail
                                 else Inl (JsError ''premature EOF'')),
      flux_fromBinary = (\<lambda>bytes. Inr \<lparr>fd_provider = []\<rparr>),
      any_from_bytes = (\<lambda>bytes. empty_any), opaque_from_json = object_strings\<rparr>"

lemma opaque_lib_json:
  "json_stringify opaque_lib v = print_strings (object_strings v)"
  "json_parse opaque_lib (CHR ''{'' # w) = Inr (json_strings (pair_up (parse_words w)))"
  by (simp_all add: opaque_lib_def)

lemma sample_codec_specs: "protobuf_spec sample_codec" "opaque_spec sample_codec opaque_lib"
proof -
  have brace: "print_strings m = CHR ''{'' # tl (print_strings m)" for m by (simp add: print_strings_def)
  have "json_parse opaque_lib (print_strings m) = Inr (json_strings m)" for m
    by (subst brace) (simp only: opaque_lib_json parse_print_strings)
  moreover have "print_strings m \<noteq> []" for m by (simp add: print_strings_def)
  ultimately show "opaque_spec sample_codec opaque_lib"
    by (simp add: opaque_spec_def opaque_lib_json sample_codec_def)
qed (simp add: protobuf_spec_def sample_codec_def)

lemma sample_codec_empty: "helm_fromBinary sample_codec (any_value empty_any) = Inr default_helm_detail"
  by (simp add: sample_codec_def empty_any_def)

definition edited_repo :: PackageRepositoryDetail where
  "edited_repo =
     \<lparr>prd_packageRepoRef = Some \<lparr>prr_context = None, prr_identifier = ''bitnami'',
        prr_plugin = Some \<lparr>plugin_name = PACKAGES_HELM, plugin_version = ''v1alpha1''\<rparr>\<rparr>,
      prd_name = ''bitnami'', prd_description = ''charts'', prd_namespaceScoped = True, prd_type = ''helm'',
      prd_url = ''https://charts'', prd_interval = ''10m'',
      prd_tlsConfig = Some \<lparr>prt_insecureSkipVerify = False,
        prt_oneOf = TlsSecretRef \<lparr>skr_name = ''ca'', skr_key = []\<rparr>\<rparr>,
      prd_auth = Some \<lparr>pra_type = BEARER, pra_oneOf = AuthHeader ''token'', pra_passCredentials = False\<rparr>,
      prd_customDetail = Some \<lparr>any_typeUrl = helm_typeName, any_value = [18, 1, 97]\<rparr>,
      prd_status = None\<rparr>"

definition edited_state :: RepoDetailState where
  "edited_state = repoWithCustomDetail edited_repo"

lemma edited_detail: "rd_detail edited_state = edited_repo"
  by (simp add: edited_state_def repoWithCustomDetail_def)

lemma edited_plugin: "repo_detail_plugin edited_repo = Some PACKAGES_HELM"
  by (simp add: repo_detail_plugin_def edited_repo_def)

lemma edited_names:
  "repo_plugin (Some edited_repo) = Some \<lparr>plugin_name = PACKAGES_HELM, plugin_version = ''v1alpha1''\<rparr>"
  by (simp add: repo_plugin_def edited_repo_def)

lemma edited_custom: "stored_customDetail sample_codec (Some edited_state) = Some empty_any"
proof -
  obtain c where "prd_customDetail edited_repo = Some c" by (simp add: edited_repo_def)
  then show ?thesis
    by (simp add: stored_customDetail_def edited_state_def repoWithCustomDetail_def edited_plugin sample_codec_def)
qed

definition edited_form :: RepoForm where
  "edited_form = load_helm default_helm_detail (load_auth opaque_lib (Some edited_repo)
     (load_basic (Some edited_repo) (initial_form (Some edited_repo))))"

lemma edited_load:
  "load_repo sample_codec opaque_lib (Some edited_state) (initial_form (Some (rd_detail edited_state))) =
     Inr edited_form"
  unfolding edited_detail
  by (simp add: edited_form_def load_repo_def stored_detail_def edited_detail edited_custom edited_names
      sample_codec_empty Let_def)


theorem edit_keeps_ca_witness:
  "\<exists>f. edit_request sample_codec opaque_lib ''dev'' ''kubeapps'' edited_state = Some f \<and>
     urq_tlsConfig (buildUpdateRequest ''c1'' f None) \<noteq> prd_tlsConfig edited_repo"
  using edit_keeps_ca [OF edited_load sample_codec_specs(2), of "''dev''" "''kubeapps''" "''c1''" None]
  by (auto simp: edited_detail edited_repo_def tls_canonical_def tls_fits_auth_def repo_tls_def repo_auth_def)

theorem edit_loses_helm_detail_witness:
  "\<exists>f h. edit_request sample_codec opaque_lib ''dev'' ''kubeapps'' edited_state = Some f \<and>
     fo_customDetail f = Some (FormHelm h) \<and> hd_ociRepositories h = []"
proof -
  have "prd_customDetail edited_repo \<noteq> None" by (simp add: edited_repo_def)
  from edit_loses_helm_detail [OF sample_codec_specs edited_plugin this, of repos_initialState edited_state
      "''dev''" "''kubeapps''"]
  show ?thesis by (auto simp: edited_state_def helm_detail_def default_helm_detail_def)
qed

theorem invalid_opaque_blocks_form_witness:
  "fst (install sample_codec opaque_lib ''dev'' ''kubeapps''
     ((initial_form None)\<lparr>rf_opaqueData := ''oops''\<rparr>)) = InstallRaises (SyntaxError ''Unexpected token'')"
  using invalid_opaque_blocks_form [of "(initial_form None)\<lparr>rf_opaqueData := ''oops''\<rparr>" opaque_lib
      "SyntaxError ''Unexpected token''" sample_codec "''dev''" "''kubeapps''" "[]"]
  by (simp add: initial_form_def opaque_lib_def)


end
