(* ===== verification/Yaml_Paths.thy ===== *)
theory Yaml_Paths
  imports Messages
begin

text \<open>
  The values of a package as a YAML document (\<open>shared/yamlUtils.ts\<close>): reading, setting and deleting
  the value at a JSON pointer, and the modifications an upgrade applies again
  (\<open>components/UpgradeForm/UpgradeForm.tsx\<close>). The document type and its operations are those of the
  \<open>yaml\<close> package, lodash's \<open>set\<close> and the unescaping of \<open>fast-json-patch\<close>: they are the members of
  a record the definitions take as an argument.
\<close>

section \<open>The libraries\<close>

text \<open>
  What \<open>getIn\<close> finds: nothing, the value of a scalar, or a collection, here with the plain value
  its \<open>toJSON\<close> returns.
\<close>

datatype ynode = YUndefined | YScalar json | YNode json

text \<open>
  \<open>yaml_isEmpty\<close> is \<open>isEmpty(doc.contents)\<close> and \<open>yaml_hasItems\<close> is
  \<open>doc.contents && !isEmpty(doc.contents.items)\<close>; \<open>lodash_set p v\<close> is \<open>set({}, p, v)\<close>.
\<close>

record 'd yaml =
  yaml_parseDocument :: "string \<Rightarrow> 'd"
  yaml_toString :: "'d \<Rightarrow> js_error + string"
  yaml_isEmpty :: "'d \<Rightarrow> bool"
  yaml_hasItems :: "'d \<Rightarrow> bool"
  yaml_getIn :: "'d \<Rightarrow> string list \<Rightarrow> ynode"
  yaml_setIn :: "'d \<Rightarrow> string list \<Rightarrow> json option \<Rightarrow> js_error + 'd"
  yaml_deleteIn :: "'d \<Rightarrow> string list \<Rightarrow> js_error + 'd"
  lodash_set :: "string \<Rightarrow> json \<Rightarrow> json"
  unescapePathComponent :: "string \<Rightarrow> string"

section \<open>Paths\<close>

definition drop_first_slash :: "string \<Rightarrow> string" where
  "drop_first_slash path =
     (case strip_prefix ''/'' path of None \<Rightarrow> path | Some r \<Rightarrow> r)"

definition splitPathBySlash :: "string \<Rightarrow> string list" where
  "splitPathBySlash path = split_on CHR ''/'' (drop_first_slash path)"

definition unescapePath :: "'d yaml \<Rightarrow> string list \<Rightarrow> string list" where
  "unescapePath Y path = map (unescapePathComponent Y) path"

definition parsePath :: "'d yaml \<Rightarrow> string \<Rightarrow> string list" where
  "parsePath Y path = unescapePath Y (splitPathBySlash path)"

text \<open>The longest prefix whose elements are all there; \<open>null\<close> counts as missing.\<close>

definition node_missing :: "ynode \<Rightarrow> bool" where
  "node_missing n \<longleftrightarrow> n = YUndefined \<or> n = YScalar JNull"

fun defined_from :: "'d yaml \<Rightarrow> 'd \<Rightarrow> string list \<Rightarrow> string list \<Rightarrow> string list" where
  "defined_from Y doc currentPath [] = currentPath"
| "defined_from Y doc currentPath (p # ps) =
     (if node_missing (yaml_getIn Y doc (currentPath @ [p])) then currentPath
      else defined_from Y doc (currentPath @ [p]) ps)"

definition getDefinedPath :: "'d yaml \<Rightarrow> string list \<Rightarrow> 'd \<Rightarrow> string list" where
  "getDefinedPath Y allElementsButTheLast doc = defined_from Y doc [] allElementsButTheLast"

text \<open>
  The path to set and the value to set there. In an empty document the whole path is one key for
  lodash. Where the parent of the path is undefined, the value is wrapped in the missing objects and
  set at the first missing key. An undefined value stays undefined: only a deletion has none, and it
  uses the path alone.
\<close>

definition parsePathAndValue ::
  "'d yaml \<Rightarrow> 'd \<Rightarrow> string \<Rightarrow> json option \<Rightarrow> string list \<times> json option" where
  "parsePathAndValue Y doc path value =
     (if yaml_isEmpty Y doc
      then ([], map_option (lodash_set Y (drop_first_slash path)) value)
      else
        (let splitPath = splitPathBySlash path;
             allElementsButTheLast = take (length splitPath - 1) splitPath
         in if yaml_getIn Y doc allElementsButTheLast = YUndefined
            then
              (let definedPath = getDefinedPath Y allElementsButTheLast doc;
                   remainingPath = drop (length definedPath + 1) splitPath
               in (unescapePath Y (take (length definedPath + 1) splitPath),
                   map_option (lodash_set Y (join ''.'' remainingPath)) value))
            else (unescapePath Y splitPath, value)))"

section \<open>Reading and writing values\<close>

text \<open>A missing document has no values, and \<open>null\<close> has no \<open>toJSON\<close>.\<close>

definition getPathValueInYamlNode :: "'d yaml \<Rightarrow> 'd option \<Rightarrow> string \<Rightarrow> json option" where
  "getPathValueInYamlNode Y values path =
     (case values of
        None \<Rightarrow> None
      | Some doc \<Rightarrow>
          (case yaml_getIn Y doc (parsePath Y path) of
             YUndefined \<Rightarrow> None
           | YScalar v \<Rightarrow> (if v = JNull then None else Some v)
           | YNode v \<Rightarrow> Some v))"

definition getPathValueInYamlNodeWithDefault ::
  "'d yaml \<Rightarrow> 'd option \<Rightarrow> string \<Rightarrow> json option \<Rightarrow> json option" where
  "getPathValueInYamlNodeWithDefault Y values path defaultValue =
     (case getPathValueInYamlNode Y values path of
        None \<Rightarrow> defaultValue
      | Some v \<Rightarrow> (if v = JNull then defaultValue else Some v))"

definition setPathValueInYamlNode ::
  "'d yaml \<Rightarrow> 'd \<Rightarrow> string \<Rightarrow> json option \<Rightarrow> js_error + 'd" where
  "setPathValueInYamlNode Y doc path newValue =
     (let (splitPath, value) = parsePathAndValue Y doc path newValue
      in yaml_setIn Y doc splitPath value)"

definition setValue :: "'d yaml \<Rightarrow> string \<Rightarrow> string \<Rightarrow> json option \<Rightarrow> js_error + string" where
  "setValue Y values path newValue =
     (let doc = yaml_parseDocument Y values;
          (splitPath, value) = parsePathAndValue Y doc path newValue
      in case yaml_setIn Y doc splitPath value of
           Inl e \<Rightarrow> Inl e
         | Inr doc' \<Rightarrow> yaml_toString Y doc')"

text \<open>The empty document is printed as an empty line.\<close>

definition deleteValue :: "'d yaml \<Rightarrow> string \<Rightarrow> string \<Rightarrow> js_error + string" where
  "deleteValue Y values path =
     (let doc = yaml_parseDocument Y values
      in case yaml_deleteIn Y doc (fst (parsePathAndValue Y doc path None)) of
           Inl e \<Rightarrow> Inl e
         | Inr doc' \<Rightarrow> if yaml_hasItems Y doc' then yaml_toString Y doc' else Inr [CHR 0x0A])"

section \<open>The modifications of an upgrade\<close>

record Operation =
  patch_op :: string
  patch_path :: string
  patch_value :: "json option"

fun applyModifications :: "'d yaml \<Rightarrow> Operation list \<Rightarrow> string \<Rightarrow> js_error + string" where
  "applyModifications Y [] values = Inr values"
| "applyModifications Y (m # ms) values =
     (case (if patch_op m = ''remove'' then deleteValue Y values (patch_path m)
            else setValue Y values (patch_path m) (patch_value m)) of
        Inl e \<Rightarrow> Inl e
      | Inr values' \<Rightarrow> applyModifications Y ms values')"

section \<open>What the libraries promise\<close>

text \<open>The member of a plain value at a path, and the value with one member at a path.\<close>

fun json_at :: "json \<Rightarrow> string list \<Rightarrow> json option" where
  "json_at v [] = Some v"
| "json_at v (k # ks) =
     (case v of JObj ms \<Rightarrow> Option.bind (obj_get ms k) (\<lambda>m. json_at m ks) | _ \<Rightarrow> None)"

fun json_nest :: "string list \<Rightarrow> json \<Rightarrow> json" where
  "json_nest [] v = v"
| "json_nest (k # ks) v = JObj [(k, json_nest ks v)]"

definition node_json :: "ynode \<Rightarrow> json option" where
  "node_json n = (case n of YUndefined \<Rightarrow> None | YScalar v \<Rightarrow> Some v | YNode v \<Rightarrow> Some v)"

text \<open>
  A key lodash takes as it is: not empty, without the characters of its path syntax, no index and not
  one of the names it refuses to set.
\<close>

definition plain_key :: "string \<Rightarrow> bool" where
  "plain_key k \<longleftrightarrow> k \<noteq> [] \<and> set k \<inter> set ''.[]'' = {} \<and> hd k \<notin> set ''0123456789'' \<and>
     k \<notin> {''__proto__'', ''constructor'', ''prototype''}"

text \<open>
  The documented behaviour. \<open>setIn\<close> sets a value at the root and below an object; what was set is
  what \<open>getIn\<close> reads at that path and below once the document has been printed and parsed again;
  \<open>set\<close> nests plain keys separated by dots; unescaping only touches a tilde, and turns \<open>~1\<close> into a
  slash.
\<close>

definition yaml_spec :: "'d yaml \<Rightarrow> bool" where
  "yaml_spec Y \<longleftrightarrow>
     (\<forall>d v. \<exists>d'. yaml_setIn Y d [] v = Inr d') \<and>
     (\<forall>d p k v ms. yaml_getIn Y d p = YNode (JObj ms) \<longrightarrow> (\<exists>d'. yaml_setIn Y d (p @ [k]) v = Inr d')) \<and>
     (\<forall>d p v d' t q. yaml_setIn Y d p (Some v) = Inr d' \<longrightarrow> yaml_toString Y d' = Inr t \<longrightarrow>
        node_json (yaml_getIn Y (yaml_parseDocument Y t) (p @ q)) = json_at v q) \<and>
     (\<forall>ks v. ks \<noteq> [] \<longrightarrow> (\<forall>k \<in> set ks. plain_key k) \<longrightarrow> lodash_set Y (join ''.'' ks) v = json_nest ks v) \<and>
     (\<forall>a. CHR ''~'' \<notin> set a \<longrightarrow> unescapePathComponent Y a = a) \<and>
     (\<forall>a b. CHR ''~'' \<notin> set a \<longrightarrow> CHR ''~'' \<notin> set b \<longrightarrow>
        unescapePathComponent Y (a @ ''~1'' @ b) = a @ ''/'' @ b)"

lemma yaml_setIn_below:
  "yaml_spec Y \<Longrightarrow> yaml_getIn Y d p = YNode (JObj ms) \<Longrightarrow> \<exists>d'. yaml_setIn Y d (p @ [k]) v = Inr d'"
  unfolding yaml_spec_def by blast

lemma yaml_reads_back:
  "yaml_spec Y \<Longrightarrow> yaml_setIn Y d p (Some v) = Inr d' \<Longrightarrow> yaml_toString Y d' = Inr t \<Longrightarrow>
     node_json (yaml_getIn Y (yaml_parseDocument Y t) (p @ q)) = json_at v q"
  unfolding yaml_spec_def by blast

lemma lodash_set_nests:
  "yaml_spec Y \<Longrightarrow> ks \<noteq> [] \<Longrightarrow> \<forall>k \<in> set ks. plain_key k \<Longrightarrow> lodash_set Y (join ''.'' ks) v = json_nest ks v"
  unfolding yaml_spec_def by blast

lemma unescape_plain_path:
  "yaml_spec Y \<Longrightarrow> \<forall>k \<in> set ks. CHR ''~'' \<notin> set k \<Longrightarrow> unescapePath Y ks = ks"
  unfolding yaml_spec_def unescapePath_def by (simp add: map_idI)

lemma unescape_slash:
  "yaml_spec Y \<Longrightarrow> CHR ''~'' \<notin> set a \<Longrightarrow> CHR ''~'' \<notin> set b \<Longrightarrow>
     unescapePathComponent Y (a @ ''~1'' @ b) = a @ ''/'' @ b"
  unfolding yaml_spec_def by blast

lemma json_at_nest: "json_at (json_nest ks v) ks = Some v"
  by (induction ks) simp_all

section \<open>Facts about paths\<close>

text \<open>A component of a path that needs no escaping.\<close>

definition plain_component :: "string \<Rightarrow> bool" where
  "plain_component k \<longleftrightarrow> plain_key k \<and> CHR ''/'' \<notin> set k \<and> CHR ''~'' \<notin> set k"

lemma drop_first_slash_id: "s = [] \<or> hd s \<noteq> CHR ''/'' \<Longrightarrow> drop_first_slash s = s"
  by (cases s) (auto simp: drop_first_slash_def)

lemma hd_not_in: "s \<noteq> [] \<Longrightarrow> c \<notin> set s \<Longrightarrow> hd s \<noteq> c"
  by (cases s) auto

lemma take_butlast: "take (length ks - Suc 0) ks = butlast ks"
  by (simp add: butlast_conv_take)

lemma join_hd: "ks \<noteq> [] \<Longrightarrow> hd ks \<noteq> [] \<Longrightarrow> join sep ks \<noteq> [] \<and> hd (join sep ks) = hd (hd ks)"
  by (cases ks; cases "tl ks") auto

lemma split_plain_path:
  assumes "ks \<noteq> []" and "\<forall>k \<in> set ks. plain_component k"
  shows "splitPathBySlash (join ''/'' ks) = ks"
proof -
  have head: "hd ks \<noteq> []" "CHR ''/'' \<notin> set (hd ks)"
    using assms hd_in_set [OF assms(1)] by (auto simp: plain_component_def plain_key_def)
  then have "hd (join ''/'' ks) \<noteq> CHR ''/''"
    using join_hd [OF assms(1) head(1), of "''/''"] hd_not_in [OF head] by simp
  then show ?thesis
    using assms by (auto simp: splitPathBySlash_def drop_first_slash_id plain_component_def intro: split_on_join)
qed

lemma defined_from_prefix: "\<exists>qs. defined_from Y d cur ps = cur @ qs \<and> (\<exists>rs. ps = qs @ rs)"
proof (induction ps arbitrary: cur)
  case (Cons p ps)
  show ?case
  proof (cases "node_missing (yaml_getIn Y d (cur @ [p]))")
    case False
    then show ?thesis using Cons.IH [of "cur @ [p]"] by auto
  qed auto
qed simp

lemma defined_from_there:
  "\<not> node_missing (yaml_getIn Y d cur) \<Longrightarrow> \<not> node_missing (yaml_getIn Y d (defined_from Y d cur ps))"
  by (induction ps arbitrary: cur) auto

text \<open>
  The path can be set: its parent is an object, or it is undefined and the last element of the path
  that is there is an object.
\<close>

definition settable :: "'d yaml \<Rightarrow> 'd \<Rightarrow> string list \<Rightarrow> bool" where
  "settable Y d ks \<longleftrightarrow>
     (case yaml_getIn Y d (butlast ks) of
        YNode (JObj ms) \<Rightarrow> True
      | YUndefined \<Rightarrow>
          (case yaml_getIn Y d (getDefinedPath Y (butlast ks) d) of YNode (JObj ms) \<Rightarrow> True | _ \<Rightarrow> False)
      | _ \<Rightarrow> False)"

lemma set_plain_path:
  assumes Y: "yaml_spec Y" and doc: "\<not> yaml_isEmpty Y d"
    and ks: "ks \<noteq> []" "\<forall>k \<in> set ks. plain_component k" and settable: "settable Y d ks"
  obtains p q where "ks = p @ q"
    and "parsePathAndValue Y d (join ''/'' ks) (Some v) = (p, Some (json_nest q v))"
    and "\<And>w. \<exists>d'. yaml_setIn Y d p w = Inr d'"
proof (cases "yaml_getIn Y d (butlast ks)")
  case YUndefined
  define def where "def = getDefinedPath Y (butlast ks) d"
  obtain ms where obj: "yaml_getIn Y d def = YNode (JObj ms)"
    using settable YUndefined by (auto simp: settable_def def_def split: ynode.splits json.splits)
  obtain rs where rs: "butlast ks = def @ rs"
    using defined_from_prefix [of Y d "[]" "butlast ks"] by (auto simp: def_def getDefinedPath_def)
  have "rs \<noteq> []" using rs obj YUndefined by auto
  then obtain r rs' where "rs = r # rs'" by (cases rs) auto
  then have split: "ks = (def @ [r]) @ (rs' @ [last ks])"
    using rs ks(1) by (metis append.assoc append_Cons append_Nil append_butlast_last_id)
  let ?p = "def @ [r]" and ?q = "rs' @ [last ks]"
  have plain: "\<forall>k \<in> set ?q. plain_key k" "\<forall>k \<in> set ?p. CHR ''~'' \<notin> set k"
    using ks(2) split unfolding plain_component_def by (metis Un_iff set_append)+
  have "take (length def + 1) ks = ?p" "drop (length def + 1) ks = ?q"
    using split by (metis append_eq_conv_conj length_append_singleton Suc_eq_plus1)+
  then have "parsePathAndValue Y d (join ''/'' ks) (Some v) = (?p, Some (json_nest ?q v))"
    using YUndefined doc plain unescape_plain_path [OF Y plain(2)] lodash_set_nests [OF Y, of ?q v]
    by (simp add: parsePathAndValue_def split_plain_path [OF ks] Let_def
        take_butlast flip: def_def)
  with that [OF split] yaml_setIn_below [OF Y obj] show thesis by blast
next
  case (YNode j)
  then obtain ms where obj: "yaml_getIn Y d (butlast ks) = YNode (JObj ms)"
    using settable by (auto simp: settable_def split: json.splits)
  have "parsePathAndValue Y d (join ''/'' ks) (Some v) = (ks, Some (json_nest [] v))"
    using YNode doc ks unescape_plain_path [OF Y, of ks]
    by (simp add: parsePathAndValue_def split_plain_path [OF ks] plain_component_def Let_def
        take_butlast)
  with that [of ks "[]"] yaml_setIn_below [OF Y obj, of "last ks"] ks(1) show thesis by simp
next
  case (YScalar j)
  with settable show thesis by (simp add: settable_def)
qed

section \<open>Properties\<close>


text \<open>
  A value below a key with a slash, whose path escapes the slash. The parents of a path are looked up
  before they are unescaped, so the object under that key is taken for missing: it is replaced by an
  object with the new value alone, and its other members are lost.
\<close>
theorem escaped_parent_overwritten:
  assumes "yaml_spec Y" and "d = yaml_parseDocument Y values" and "\<not> yaml_isEmpty Y d"
    and "yaml_getIn Y d [] = YNode (JObj ms0)" and "yaml_getIn Y d [a @ ''/'' @ b] = YNode (JObj ms)"
    and "yaml_getIn Y d [a @ ''~1'' @ b] = YUndefined"
    and "plain_component a" and "plain_component b" and "plain_component k"
  shows "\<exists>d'. setValue Y values (a @ ''~1'' @ b @ ''/'' @ k) (Some v) = yaml_toString Y d' \<and>
    (\<forall>t. yaml_toString Y d' = Inr t \<longrightarrow>
       node_json (yaml_getIn Y (yaml_parseDocument Y t) [a @ ''/'' @ b]) = Some (JObj [(k, v)]))"
proof -
  let ?e = "a @ ''~1'' @ b"
  have path: "a @ ''~1'' @ b @ ''/'' @ k = join ''/'' [?e, k]" by simp
  have a: "a \<noteq> []" "hd a \<noteq> CHR ''/''"
    using assms(7) hd_not_in [of a "CHR ''/''"] by (simp_all add: plain_component_def plain_key_def)
  have noslash: "CHR ''/'' \<notin> set ?e" "CHR ''/'' \<notin> set k"
    using assms(7-9) by (auto simp: plain_component_def)
  have "drop_first_slash (join ''/'' [?e, k]) = join ''/'' [?e, k]"
    using a by (intro drop_first_slash_id) (cases a, auto)
  then have split: "splitPathBySlash (join ''/'' [?e, k]) = [?e, k]"
    using noslash split_on_join [of "[?e, k]" "CHR ''/''"] by (simp add: splitPathBySlash_def)
  have set: "lodash_set Y k v = JObj [(k, v)]"
    using lodash_set_nests [OF assms(1), of "[k]" v] assms(9) by (simp add: plain_component_def)
  have "unescapePathComponent Y ?e = a @ ''/'' @ b"
    using assms(7,8) by (intro unescape_slash [OF assms(1)]) (simp_all add: plain_component_def)
  then have pv: "parsePathAndValue Y d (join ''/'' [?e, k]) (Some v) = ([a @ ''/'' @ b], Some (JObj [(k, v)]))"
    using assms(3,6) set unfolding parsePathAndValue_def split
    by (simp add: getDefinedPath_def node_missing_def unescapePath_def)
  obtain d' where d': "yaml_setIn Y d ([] @ [a @ ''/'' @ b]) (Some (JObj [(k, v)])) = Inr d'"
    using yaml_setIn_below [OF assms(1,4)] by blast
  have "setValue Y values (join ''/'' [?e, k]) (Some v) = yaml_toString Y d'"
    using d' pv assms(2) by (simp add: setValue_def)
  with yaml_reads_back [OF assms(1) d', of _ "[]"] path show ?thesis by auto
qed

section \<open>Witnesses\<close>

text \<open>
  Documents that are plain values, with four texts to parse and print, satisfy what the libraries
  promise.
\<close>

fun json_put :: "string list \<Rightarrow> json \<Rightarrow> json \<Rightarrow> json option" where
  "json_put [] w d = Some w"
| "json_put (k # ks) w (JObj ms) =
     (if ks = [] then Some (JObj (obj_set k w ms))
      else (case obj_get ms k of
              None \<Rightarrow> None
            | Some c \<Rightarrow> map_option (\<lambda>c'. JObj (obj_set k c' ms)) (json_put ks w c)))"
| "json_put (k # ks) w d = None"

lemma json_put_at: "json_put p w d = Some d' \<Longrightarrow> json_at d' (p @ q) = json_at w q"
  by (induction p w d arbitrary: d' rule: json_put.induct) (auto split: option.splits if_splits)

lemma json_put_below: "json_at d p = Some (JObj ms) \<Longrightarrow> \<exists>d'. json_put (p @ [k]) w d = Some d'"
  by (induction d p rule: json_at.induct) (auto split: json.splits simp: bind_eq_Some_conv)

fun unescape_tilde :: "string \<Rightarrow> string" where
  "unescape_tilde (c # d # cs) =
     (if c = CHR ''~'' \<and> d = CHR ''1'' then CHR ''/'' # unescape_tilde cs
      else c # unescape_tilde (d # cs))"
| "unescape_tilde cs = cs"

lemma unescape_tilde_plain: "CHR ''~'' \<notin> set a \<Longrightarrow> unescape_tilde a = a"
  by (induction a rule: unescape_tilde.induct) auto

lemma unescape_tilde_slash:
  "CHR ''~'' \<notin> set a \<Longrightarrow> CHR ''~'' \<notin> set b \<Longrightarrow> unescape_tilde (a @ ''~1'' @ b) = a @ ''/'' @ b"
proof (induction a)
  case Nil
  then show ?case by (simp add: unescape_tilde_plain)
next
  case (Cons x a)
  then show ?case by (cases a) auto
qed

definition sample_texts :: "(string \<times> json) list" where
  "sample_texts =
     [(''replicas'', JObj [(''replicas'', JNum 1)]),
      (''replicas,image'', JObj [(''replicas'', JNum 1), (''image'', JObj [(''tag'', JStr ''v2'')])]),
      (''xy'', JObj [(''a/b'', JObj [(''x'', JNum 1), (''y'', JNum 2)])]),
      (''x'', JObj [(''a/b'', JObj [(''x'', JNum 3)])])]"

definition sample_yaml :: "json yaml" where
  "sample_yaml =
     \<lparr>yaml_parseDocument = (\<lambda>t. case map_of sample_texts t of None \<Rightarrow> JNull | Some d \<Rightarrow> d),
      yaml_toString = (\<lambda>d. case map_of (map prod.swap sample_texts) d of
         None \<Rightarrow> Inl (JsError ''unprintable'') | Some t \<Rightarrow> Inr t),
      yaml_isEmpty = (\<lambda>d. d = JNull),
      yaml_hasItems = (\<lambda>d. case d of JObj ms \<Rightarrow> ms \<noteq> [] | _ \<Rightarrow> False),
      yaml_getIn = (\<lambda>d p. case json_at d p of
         None \<Rightarrow> YUndefined | Some (JObj ms) \<Rightarrow> YNode (JObj ms) | Some v \<Rightarrow> YScalar v),
      yaml_setIn = (\<lambda>d p v. case v of None \<Rightarrow> Inr d
         | Some w \<Rightarrow> (case json_put p w d of None \<Rightarrow> Inl (JsError ''no collection'') | Some d' \<Rightarrow> Inr d')),
      yaml_deleteIn = (\<lambda>d p. Inr d),
      lodash_set = (\<lambda>p v. json_nest (split_on CHR ''.'' p) v),
      unescapePathComponent = unescape_tilde\<rparr>"

lemma sample_print_parse:
  "map_of (map prod.swap sample_texts) d = Some t \<Longrightarrow> map_of sample_texts t = Some d"
  by (auto simp: sample_texts_def split: if_splits)

lemma sample_yaml_spec: "yaml_spec sample_yaml"
proof -
  have reads: "node_json (yaml_getIn sample_yaml (yaml_parseDocument sample_yaml t) (p @ q)) = json_at v q"
    if "yaml_setIn sample_yaml d p (Some v) = Inr d'" and "yaml_toString sample_yaml d' = Inr t"
    for d p v d' t q
  proof -
    have "json_put p v d = Some d'" using that(1) by (simp add: sample_yaml_def split: option.splits)
    moreover have "yaml_parseDocument sample_yaml t = d'"
      using that(2) by (auto simp: sample_yaml_def sample_print_parse split: option.splits)
    ultimately show ?thesis
      by (auto simp: sample_yaml_def node_json_def json_put_at split: option.splits json.splits)
  qed
  have below: "\<exists>d'. yaml_setIn sample_yaml d (p @ [k]) v = Inr d'"
    if "yaml_getIn sample_yaml d p = YNode (JObj ms)" for d p k v ms
  proof (cases v)
    case (Some w)
    have "json_at d p = Some (JObj ms)"
      using that by (auto simp: sample_yaml_def split: option.splits json.splits)
    then obtain d' where "json_put (p @ [k]) w d = Some d'" using json_put_below by blast
    then show ?thesis using Some by (simp add: sample_yaml_def)
  qed (simp add: sample_yaml_def)
  have nests: "lodash_set sample_yaml (join ''.'' ks) v = json_nest ks v"
    if "ks \<noteq> []" and "\<forall>k \<in> set ks. plain_key k" for ks v
    using that split_on_join [of ks "CHR ''.''"] by (auto simp: sample_yaml_def plain_key_def)
  have root: "\<exists>d'. yaml_setIn sample_yaml d [] v = Inr d'" for d v
    by (cases v) (simp_all add: sample_yaml_def)
  have unescape: "unescapePathComponent sample_yaml = unescape_tilde" by (simp add: sample_yaml_def)
  show ?thesis
    unfolding yaml_spec_def unescape
    by (intro conjI allI impI; (rule root | erule below | erule (1) reads | erule (1) nests
        | erule unescape_tilde_plain | erule (1) unescape_tilde_slash))
qed


theorem escaped_parent_overwritten_witness:
  "\<exists>d'. setValue sample_yaml ''xy'' ''a~1b/x'' (Some (JNum 3)) = yaml_toString sample_yaml d' \<and>
    (\<forall>t. yaml_toString sample_yaml d' = Inr t \<longrightarrow>
       node_json (yaml_getIn sample_yaml (yaml_parseDocument sample_yaml t) [''a/b'']) =
         Some (JObj [(''x'', JNum 3)]))"
  using escaped_parent_overwritten [OF sample_yaml_spec refl, of "''xy''" _ "''a''" "''b''" _ "''x''" "JNum 3"]
  by (simp add: sample_yaml_def sample_texts_def plain_component_def plain_key_def)

end
