(* ===== verification/Schema_Forms.thy ===== *)
theory Schema_Forms
  imports Yaml_Paths Sample_World
begin

text \<open>
  The form built from the schema of a package (\<open>shared/schema.ts\<close>): the parameters with their
  deployed, default and current values, the update of one of them, and the schema as text. Lodash's
  \<open>findIndex\<close> and \<open>isEmpty\<close> are the members of a record.
\<close>

section \<open>Members of JSON values\<close>

text \<open>The members \<open>Object.keys\<close> lists: those of an object, the indices of an array or a string.\<close>

fun object_entries :: "json \<Rightarrow> (string \<times> json) list" where
  "object_entries (JObj ms) = ms"
| "object_entries (JArr xs) = zip (map show_nat [0..<length xs]) xs"
| "object_entries (JStr s) = zip (map show_nat [0..<length s]) (map (\<lambda>c. JStr [c]) s)"
| "object_entries _ = []"

text \<open>A read of a member; members inherited from a prototype are not modelled.\<close>

definition js_member :: "json \<Rightarrow> string \<Rightarrow> json option" where
  "js_member v k = (case v of
     JArr xs \<Rightarrow> if k = ''length'' then Some (JNum (int (length xs))) else map_of (object_entries v) k
   | JStr s \<Rightarrow> if k = ''length'' then Some (JNum (int (length s))) else map_of (object_entries v) k
   | _ \<Rightarrow> map_of (object_entries v) k)"

fun json_height :: "json \<Rightarrow> nat" where
  "json_height (JObj ms) = Suc (foldr (\<lambda>m h. max (json_height (snd m)) h) ms 0)"
| "json_height (JArr xs) = Suc (foldr (\<lambda>v h. max (json_height v) h) xs 0)"
| "json_height _ = 0"

lemma foldr_max_le: "x \<in> set xs \<Longrightarrow> f x \<le> foldr (\<lambda>v h. max (f v) h) xs (0::nat)"
  by (induction xs) auto

lemma object_entries_height:
  assumes "(k, v) \<in> set (object_entries p)"
  shows "json_height v \<le> json_height p"
  using assms
proof (cases p)
  case (JObj ms)
  with assms foldr_max_le [of "(k, v)" ms "\<lambda>m. json_height (snd m)"] show ?thesis by auto
next
  case (JArr xs)
  with assms foldr_max_le [of v xs json_height] show ?thesis by (auto dest: set_zip_rightD)
next
  case (JStr s)
  with assms show ?thesis by (auto dest!: set_zip_rightD)
qed auto

lemma show_nat_digits: "c \<in> set (show_nat n) \<Longrightarrow> (of_char c :: nat) \<le> 57"
proof (induction n rule: show_nat.induct)
  case (1 n)
  then show ?case
    by (subst (asm) (2) show_nat.simps) (auto split: if_splits simp: show_nat.simps [of n])
qed

text \<open>Only an object has a member whose name is no index.\<close>

lemma js_member_letter:
  assumes "js_member v k = Some p" and "k \<noteq> ''length''" and "\<exists>c \<in> set k. 57 < (of_char c :: nat)"
  obtains ms where "v = JObj ms" and "(k, p) \<in> set ms"
proof (cases v)
  case (JObj ms)
  with assms(1) that show thesis by (auto simp: js_member_def dest: map_of_SomeD)
next
  case (JArr xs)
  with assms have "k \<in> show_nat ` {0..<length xs}"
    by (auto simp: js_member_def dest!: map_of_SomeD set_zip_leftD split: if_splits)
  with assms(3) show thesis by (auto dest!: show_nat_digits)
next
  case (JStr s)
  with assms have "k \<in> show_nat ` {0..<length s}"
    by (auto simp: js_member_def dest!: map_of_SomeD set_zip_leftD split: if_splits)
  with assms(3) show thesis by (auto dest!: show_nat_digits)
qed (use assms(1) in \<open>auto simp: js_member_def\<close>)

lemma properties_height:
  assumes "js_member v ''properties'' = Some p"
  shows "json_height p < json_height v"
proof -
  obtain ms where "v = JObj ms" and "(''properties'', p) \<in> set ms"
    using assms by (rule js_member_letter) simp_all
  then show ?thesis using foldr_max_le [of "(''properties'', p)" ms "\<lambda>m. json_height (snd m)"] by auto
qed

section \<open>Building the form\<close>

text \<open>
  A parameter. The members of the schema it spreads are those of \<open>fp_schema\<close>; the members the code
  adds are options, because the update below may leave an object with a current value alone. The
  current value of an object is the list of its parameters once one of them has been updated.
\<close>

datatype form_param =
  FormParam (fp_key: "string option") (fp_title: "json option") (fp_schema: "json option")
    (fp_hasProperties: "bool option") (fp_params: "form_param list option")
    (fp_enum: "string list option") (fp_isRequired: "bool option") (fp_examples: "json option")
    (fp_deployedValue: "json option") (fp_defaultValue: "json option") (fp_currentValue: form_value)
    (fp_isCustomComponent: "json option")
and form_value = Plain "json option" | Nested "form_param list"

record form_lib =
  lodash_isEmpty :: "json \<Rightarrow> bool"
  lodash_findIndex :: "form_param list \<Rightarrow> string \<Rightarrow> int"

text \<open>\<open>item?.toString() ?? ""\<close>.\<close>

definition item_text :: "lib \<Rightarrow> json \<Rightarrow> string" where
  "item_text L item = (case item of JNull \<Rightarrow> [] | v \<Rightarrow> json_String L v)"

text \<open>An example of a property: the member of an example object, or the example itself.\<close>

definition example_text :: "lib \<Rightarrow> string \<Rightarrow> json \<Rightarrow> string" where
  "example_text L propertyKey item =
     (if (case item of JNull \<Rightarrow> True | JArr xs \<Rightarrow> True | JObj ms \<Rightarrow> True | _ \<Rightarrow> False)
      then (case js_member item propertyKey of None \<Rightarrow> [] | Some v \<Rightarrow> item_text L v)
      else item_text L item)"

text \<open>Reading a member of a null property raises, and so does \<open>map\<close> on what is no array.\<close>

definition param_examples :: "lib \<Rightarrow> json option \<Rightarrow> string \<Rightarrow> json \<Rightarrow> js_error + json option" where
  "param_examples L schemaExamples propertyKey schemaProperty =
     (if schemaProperty = JNull then Inl (TypeError ''Cannot read properties of null'')
      else (case schemaExamples of
         Some (JArr (item # items)) \<Rightarrow>
           Inr (Some (JArr (map (\<lambda>i. JStr (example_text L propertyKey i)) (item # items))))
       | Some (JStr (c # cs)) \<Rightarrow> Inl (TypeError ''map is not a function'')
       | _ \<Rightarrow> Inr (js_member schemaProperty ''examples'')))"

definition param_enum :: "lib \<Rightarrow> json \<Rightarrow> js_error + string list option" where
  "param_enum L schemaProperty = (case js_member schemaProperty ''enum'' of
     None \<Rightarrow> Inr None
   | Some JNull \<Rightarrow> Inr None
   | Some (JArr items) \<Rightarrow> Inr (Some (map (item_text L) items))
   | Some _ \<Rightarrow> Inl (TypeError ''map is not a function''))"

text \<open>\<open>a || b\<close> on members.\<close>

definition member_or :: "json option \<Rightarrow> json option \<Rightarrow> json option" where
  "member_or a b = (case a of None \<Rightarrow> b | Some v \<Rightarrow> if json_truthy v then a else b)"

definition hasProperties :: "json \<Rightarrow> bool" where
  "hasProperties schemaProperty =
     (case js_member schemaProperty ''properties'' of None \<Rightarrow> False | Some p \<Rightarrow> json_truthy p)"

text \<open>The parameter of one property, once its nested parameters are known.\<close>

definition form_param_of ::
  "'d yaml \<Rightarrow> lib \<Rightarrow> 'd option \<Rightarrow> 'd option \<Rightarrow> string \<Rightarrow> 'd option \<Rightarrow> string \<Rightarrow> string \<Rightarrow> json
     \<Rightarrow> json option \<Rightarrow> form_param list \<Rightarrow> js_error + form_param" where
  "form_param_of Y L currentValues packageValues deploymentEvent deployedValues itemPath propertyKey
     schemaProperty examples nested =
     (case param_enum L schemaProperty of
        Inl e \<Rightarrow> Inl e
      | Inr enum \<Rightarrow>
          (let isLeaf = (\<not> hasProperties schemaProperty);
               isUpgrading = (deploymentEvent = ''upgrade'' \<and> deployedValues \<noteq> None);
               default = js_member schemaProperty ''default''
           in Inr (FormParam (Some itemPath)
                (member_or (js_member schemaProperty ''title'') (Some (JStr propertyKey)))
                (Some schemaProperty)
                (Some (\<not> isLeaf))
                (if isLeaf then None else Some nested)
                enum
                (Some False)
                examples
                (if isLeaf \<and> isUpgrading then getPathValueInYamlNode Y deployedValues itemPath
                 else Some (JStr []))
                (if isLeaf then getPathValueInYamlNodeWithDefault Y packageValues itemPath default
                 else Some (JStr []))
                (Plain (if isLeaf then getPathValueInYamlNodeWithDefault Y currentValues itemPath default
                        else Some (JStr [])))
                (member_or (js_member schemaProperty ''customComponent'')
                   (js_member schemaProperty ''x-is-custom-component'')))))"

function retrieveBasicFormParams ::
  "form_lib \<Rightarrow> 'd yaml \<Rightarrow> lib \<Rightarrow> 'd option \<Rightarrow> 'd option \<Rightarrow> json \<Rightarrow> string \<Rightarrow> 'd option \<Rightarrow> string
     \<Rightarrow> js_error + form_param list" where
  "retrieveBasicFormParams F Y L currentValues packageValues schema deploymentEvent deployedValues parentPath =
     (case js_member schema ''properties'' of
        None \<Rightarrow> Inr []
      | Some properties \<Rightarrow>
          (if \<not> json_truthy properties \<or> lodash_isEmpty F properties then Inr []
           else map_sum (\<lambda>e. e) concat (traverse (\<lambda>(propertyKey, schemaProperty).
             (let itemPath = parentPath @ propertyKey in
              case param_examples L (js_member schema ''examples'') propertyKey schemaProperty of
                Inl e \<Rightarrow> Inl e
              | Inr examples \<Rightarrow>
                  (case retrieveBasicFormParams F Y L currentValues packageValues schemaProperty
                          deploymentEvent deployedValues (itemPath @ ''/'') of
                     Inl e \<Rightarrow> Inl e
                   | Inr nested \<Rightarrow>
                       map_sum (\<lambda>e. e)
                         (\<lambda>param. param # (if hasProperties schemaProperty then [] else nested))
                         (form_param_of Y L currentValues packageValues deploymentEvent deployedValues
                            itemPath propertyKey schemaProperty examples nested))))
             (object_entries properties))))"
  by pat_completeness auto
termination
  by (relation "measure (\<lambda>(F, Y, L, c, p, schema, e, d, path). json_height schema)")
    (auto dest!: properties_height object_entries_height intro: le_less_trans)

declare retrieveBasicFormParams.simps [simp del]

section \<open>Updating the form\<close>

text \<open>A read by index, and \<open>splice(index, 1, x)\<close>: a negative index counts from the end.\<close>

definition js_nth :: "'a list \<Rightarrow> int \<Rightarrow> 'a option" where
  "js_nth xs i = (if 0 \<le> i \<and> i < int (length xs) then Some (xs ! nat i) else None)"

definition js_splice1 :: "'a list \<Rightarrow> int \<Rightarrow> 'a \<Rightarrow> 'a list" where
  "js_splice1 xs i x =
     (let n = int (length xs); j = nat (if i < 0 then max (n + i) 0 else min i n)
      in take j xs @ x # drop (Suc j) xs)"

definition only_value :: "json option \<Rightarrow> form_param" where
  "only_value value = FormParam None None None None None None None None None None (Plain value) None"

fun with_current :: "form_value \<Rightarrow> form_param \<Rightarrow> form_param" where
  "with_current v (FormParam k t s h ps en r ex dep def cur cust) =
     FormParam k t s h ps en r ex dep def v cust"

text \<open>The parameters of an object, replaced in place, are also its current value.\<close>

fun with_params :: "form_param list \<Rightarrow> form_param \<Rightarrow> form_param" where
  "with_params qs (FormParam k t s h ps en r ex dep def cur cust) =
     FormParam k t s h (Some qs) en r ex dep def (Nested qs) cust"

definition replace_param :: "form_param list \<Rightarrow> int \<Rightarrow> json option \<Rightarrow> form_param list" where
  "replace_param paramsList i value =
     js_splice1 paramsList i
       (case js_nth paramsList i of None \<Rightarrow> only_value value | Some p \<Rightarrow> with_current (Plain value) p)"

lemma js_nth_in_set: "js_nth xs i = Some x \<Longrightarrow> x \<in> set xs"
  by (auto simp: js_nth_def split: if_splits)

lemma nested_params_smaller:
  assumes "js_nth ps i = Some p" and "fp_params p = Some qs"
  shows "size_list size qs < size_list size ps"
proof -
  have "size_list size qs < size p" using assms(2) by (cases p) simp
  also have "size p \<le> size_list size ps"
    using js_nth_in_set [OF assms(1)] by (rule size_list_estimation') simp
  finally show ?thesis .
qed

function updateCurrentConfigByKey ::
  "form_lib \<Rightarrow> form_param list \<Rightarrow> string \<Rightarrow> json option \<Rightarrow> nat \<Rightarrow> form_param list" where
  "updateCurrentConfigByKey F paramsList key value depth =
     (let indexLeaf = lodash_findIndex F paramsList key;
          a = join ''/'' (take depth (split_on CHR ''/'' key));
          index = lodash_findIndex F paramsList a
      in case js_nth paramsList indexLeaf of
           Some leaf \<Rightarrow> replace_param paramsList indexLeaf value
         | None \<Rightarrow>
             (case js_nth paramsList index of
                None \<Rightarrow> replace_param paramsList indexLeaf value
              | Some p \<Rightarrow>
                  (case fp_params p of
                     None \<Rightarrow> replace_param paramsList indexLeaf value
                   | Some params \<Rightarrow>
                       paramsList[nat index :=
                         with_params (updateCurrentConfigByKey F params key value (depth + 1)) p])))"
  by pat_completeness auto
termination
  by (relation "measure (\<lambda>(F, ps, k, v, d). size_list size ps)") (auto intro: nested_params_smaller)

declare updateCurrentConfigByKey.simps [simp del]

section \<open>The schema as text\<close>

text \<open>\<open>JSON.parse\<close> of the text, or the empty object where it is empty or does not parse.\<close>

definition schemaToObject :: "lib \<Rightarrow> string option \<Rightarrow> json" where
  "schemaToObject L schema =
     (case json_parse L (case schema of None \<Rightarrow> ''{}'' | Some s \<Rightarrow> str_or s ''{}'') of
        Inl e \<Rightarrow> JObj []
      | Inr v \<Rightarrow> v)"

section \<open>Facts about the update\<close>

text \<open>The documented \<open>findIndex\<close>: the first element with the key, or -1.\<close>

definition findIndex_spec :: "form_lib \<Rightarrow> bool" where
  "findIndex_spec F \<longleftrightarrow>
     (\<forall>ps k. (lodash_findIndex F ps k = -1 \<and> (\<forall>p \<in> set ps. fp_key p \<noteq> Some k)) \<or>
        (\<exists>i < length ps. lodash_findIndex F ps k = int i \<and> fp_key (ps ! i) = Some k))"

lemma findIndex_None:
  "findIndex_spec F \<Longrightarrow> js_nth ps (lodash_findIndex F ps k) = None \<Longrightarrow> \<forall>p \<in> set ps. fp_key p \<noteq> Some k"
  unfolding findIndex_spec_def js_nth_def
  by (metis nat_int of_nat_0_le_iff of_nat_less_iff option.distinct(1))

lemma findIndex_Some:
  assumes "findIndex_spec F" and "js_nth ps (lodash_findIndex F ps k) = Some p"
  obtains i where "i < length ps" and "lodash_findIndex F ps k = int i" and "ps ! i = p"
    and "fp_key (ps ! i) = Some k"
proof -
  have "lodash_findIndex F ps k \<noteq> -1" using assms(2) by (auto simp: js_nth_def split: if_splits)
  then obtain i where "i < length ps" and "lodash_findIndex F ps k = int i" and "fp_key (ps ! i) = Some k"
    using assms(1) unfolding findIndex_spec_def by blast
  with that assms(2) show thesis by (simp add: js_nth_def)
qed

text \<open>
  The keys of a form: at every level distinct, one component longer than the level above and with the
  key of the object above as their beginning.
\<close>

fun param_wf :: "nat \<Rightarrow> form_param \<Rightarrow> bool" where
  "param_wf d (FormParam k t s h ps en r ex dep def cur cust) =
     (\<exists>key. k = Some key \<and> length (split_on CHR ''/'' key) = d \<and>
        (case ps of
           None \<Rightarrow> True
         | Some qs \<Rightarrow>
             distinct (map fp_key qs) \<and>
             (\<forall>q \<in> set qs. param_wf (Suc d) q \<and>
                (\<exists>qk. fp_key q = Some qk \<and> take d (split_on CHR ''/'' qk) = split_on CHR ''/'' key))))"

definition params_wf :: "nat \<Rightarrow> form_param list \<Rightarrow> bool" where
  "params_wf d ps \<longleftrightarrow> distinct (map fp_key ps) \<and> (\<forall>p \<in> set ps. param_wf d p)"

text \<open>The parameters without nested ones, with their current values.\<close>

fun leaf_values :: "form_param \<Rightarrow> (string option \<times> form_value) list" where
  "leaf_values (FormParam k t s h ps en r ex dep def cur cust) =
     (case ps of None \<Rightarrow> [(k, cur)] | Some qs \<Rightarrow> concat (map leaf_values qs))"

definition form_leaves :: "form_param list \<Rightarrow> (string option \<times> form_value) list" where
  "form_leaves ps = concat (map leaf_values ps)"

definition set_leaf :: "string \<Rightarrow> json option \<Rightarrow> string option \<times> form_value \<Rightarrow> string option \<times> form_value" where
  "set_leaf key value l = (if fst l = Some key then (Some key, Plain value) else l)"

lemma leaf_prefix:
  "param_wf d p \<Longrightarrow> l \<in> set (leaf_values p) \<Longrightarrow>
     \<exists>key pk. fst l = Some key \<and> fp_key p = Some pk \<and> length (split_on CHR ''/'' pk) = d \<and>
       take d (split_on CHR ''/'' key) = split_on CHR ''/'' pk"
proof (induction d p rule: param_wf.induct)
  case (1 d k t s h ps en r ex dep def cur cust)
  then obtain key where key: "k = Some key" "length (split_on CHR ''/'' key) = d" by auto
  show ?case
  proof (cases ps)
    case None
    then show ?thesis using 1(3) key by auto
  next
    case (Some qs)
    with 1(3) obtain q where q: "q \<in> set qs" "l \<in> set (leaf_values q)" by auto
    with 1(2) Some key have wf: "param_wf (Suc d) q"
      and up: "\<exists>qk. fp_key q = Some qk \<and> take d (split_on CHR ''/'' qk) = split_on CHR ''/'' key" by auto
    from 1(1) [OF Some q(1) wf q(2)] key
    obtain lk qk where "fst l = Some lk" "fp_key q = Some qk"
      "take (Suc d) (split_on CHR ''/'' lk) = split_on CHR ''/'' qk" by auto
    moreover have "take d (split_on CHR ''/'' lk) = take d (take (Suc d) (split_on CHR ''/'' lk))"
      by (simp add: min_def)
    ultimately show ?thesis using key up by auto
  qed
qed

lemma split_on_eq [simp]: "split_on c s = split_on c t \<longleftrightarrow> s = t"
  by (metis join_split_on)

text \<open>A leaf lies below the one parameter whose key begins its own.\<close>

lemma leaf_owner:
  assumes "params_wf d ps" and "p \<in> set ps" and "q \<in> set ps"
    and "Some key \<in> fst ` set (leaf_values p)" and "Some key \<in> fst ` set (leaf_values q)"
  shows "p = q"
proof -
  from assms obtain l m where l: "l \<in> set (leaf_values p)" "fst l = Some key"
    and m: "m \<in> set (leaf_values q)" "fst m = Some key" by auto
  with leaf_prefix [of d p l] leaf_prefix [of d q m] assms(1-3)
  have "fp_key p = fp_key q" by (auto simp: params_wf_def)
  then show ?thesis using assms(1-3) by (auto simp: params_wf_def dest: inj_onD [of fp_key "set ps"] simp: distinct_map)
qed

lemma form_leaves_update:
  assumes "params_wf d ps" and "i < length ps" and "Some key \<in> fst ` set (leaf_values (ps ! i))"
    and "leaf_values p' = map (set_leaf key v) (leaf_values (ps ! i))"
  shows "form_leaves (ps[i := p']) = map (set_leaf key v) (form_leaves ps)"
proof -
  have "leaf_values (ps[i := p'] ! j) = map (set_leaf key v) (leaf_values (ps ! j))" if "j < length ps" for j
  proof (cases "j = i")
    case False
    have "Some key \<notin> fst ` set (leaf_values (ps ! j))"
    proof
      assume "Some key \<in> fst ` set (leaf_values (ps ! j))"
      then have "ps ! j = ps ! i" using leaf_owner [OF assms(1)] assms(2,3) that by simp
      then have "map fp_key ps ! j = map fp_key ps ! i" using that assms(2) by simp
      then show False using assms(1,2) that False by (auto simp: params_wf_def nth_eq_iff_index_eq simp del: nth_map)
    qed
    then have "map (set_leaf key v) (leaf_values (ps ! j)) = leaf_values (ps ! j)"
      by (intro map_idI) (auto simp: set_leaf_def image_iff)
    with False show ?thesis by simp
  qed (use assms in simp)
  then have "map leaf_values (ps[i := p']) = map (map (set_leaf key v) \<circ> leaf_values) ps"
    by (intro nth_equalityI) simp_all
  then show ?thesis by (simp add: form_leaves_def map_concat)
qed

lemma js_splice1_nth: "i < length ps \<Longrightarrow> js_splice1 ps (int i) x = ps[i := x]"
  by (simp add: js_splice1_def upd_conv_take_nth_drop min_def)

lemma wf_key_unique:
  "params_wf d ps \<Longrightarrow> p \<in> set ps \<Longrightarrow> i < length ps \<Longrightarrow> fp_key (ps ! i) = fp_key p \<Longrightarrow> ps ! i = p"
  by (metis params_wf_def distinct_map inj_onD nth_mem)

text \<open>The parameter that owns a leaf either is the leaf, or has a shorter key.\<close>

lemma leaf_here:
  assumes "param_wf d p" and "l \<in> set (leaf_values p)" and "fst l = Some key"
  shows "fp_key p = Some key \<longleftrightarrow> fp_params p = None"
proof (cases p)
  case (FormParam k t s h ps en r ex dep def cur cust)
  show ?thesis
  proof (cases ps)
    case (Some qs)
    with assms FormParam obtain q where q: "q \<in> set qs" "l \<in> set (leaf_values q)" "param_wf (Suc d) q"
      by auto
    from leaf_prefix [OF q(3,2)] assms(3) obtain qk
      where "length (split_on CHR ''/'' qk) = Suc d"
        and "take (Suc d) (split_on CHR ''/'' key) = split_on CHR ''/'' qk" by auto
    then have "Suc d \<le> length (split_on CHR ''/'' key)" by (metis length_take min.cobounded1)
    then show ?thesis using assms(1) FormParam Some by auto
  qed (use assms FormParam in auto)
qed

lemma update_leaves:
  "findIndex_spec F \<Longrightarrow> params_wf d ps \<Longrightarrow> Some key \<in> fst ` set (form_leaves ps) \<Longrightarrow>
    form_leaves (updateCurrentConfigByKey F ps key v d) = map (set_leaf key v) (form_leaves ps)"
proof (induction F ps key v d rule: updateCurrentConfigByKey.induct)
  case (1 F ps key v d)
  obtain p l where p: "p \<in> set ps" "l \<in> set (leaf_values p)" "fst l = Some key"
    using 1(4) by (auto simp: form_leaves_def)
  have wf: "param_wf d p" using 1(3) p(1) by (simp add: params_wf_def)
  from leaf_prefix [OF wf p(2)] p(3) obtain pk where pk: "fp_key p = Some pk"
    "take d (split_on CHR ''/'' key) = split_on CHR ''/'' pk" by auto
  show ?case
  proof (cases "js_nth ps (lodash_findIndex F ps key)")
    case (Some leaf)
    then obtain i where found: "i < length ps" "lodash_findIndex F ps key = int i"
      "fp_key (ps ! i) = Some key" "js_nth ps (lodash_findIndex F ps key) = Some (ps ! i)"
      using 1(2) by (elim findIndex_Some) auto
    have "length (split_on CHR ''/'' key) = d"
      using 1(3) found(1,3) by (cases "ps ! i") (auto simp: params_wf_def dest!: nth_mem [of i])
    with pk have "ps ! i = p" using wf_key_unique [OF 1(3) p(1) found(1)] found(3) by simp
    moreover have "fp_params p = None" using leaf_here [OF wf p(2,3)] found(3) calculation by simp
    ultimately have "leaf_values (with_current (Plain v) (ps ! i)) = map (set_leaf key v) (leaf_values (ps ! i))"
      using found(3) by (cases p) (simp add: set_leaf_def)
    moreover have "Some key \<in> fst ` set (leaf_values (ps ! i))"
      using p \<open>ps ! i = p\<close> by (auto intro: rev_image_eqI)
    ultimately show ?thesis
      using form_leaves_update [OF 1(3) found(1)] found
      by (simp add: updateCurrentConfigByKey.simps [of F ps] replace_param_def js_splice1_nth)
  next
    case None
    then have "fp_key p \<noteq> Some key" using p(1) findIndex_None [OF 1(2)] by blast
    with leaf_here [OF wf p(2,3)] obtain qs where qs: "fp_params p = Some qs" by auto
    have a: "join ''/'' (take d (split_on CHR ''/'' key)) = pk" using pk(2) by (simp add: join_split_on)
    obtain q where "js_nth ps (lodash_findIndex F ps pk) = Some q"
      using findIndex_None [OF 1(2), of ps pk] p(1) pk(1) by fastforce
    then obtain j where found: "j < length ps" "lodash_findIndex F ps pk = int j"
      "fp_key (ps ! j) = Some pk" "js_nth ps (lodash_findIndex F ps pk) = Some (ps ! j)"
      using 1(2) by (elim findIndex_Some) auto
    then have j: "ps ! j = p" using wf_key_unique [OF 1(3) p(1) found(1)] pk(1) by simp
    have below: "params_wf (Suc d) qs" "Some key \<in> fst ` set (form_leaves qs)"
      using wf qs p(2,3) by (cases p; auto simp: params_wf_def form_leaves_def intro: rev_image_eqI)+
    let ?qs = "updateCurrentConfigByKey F qs key v (d + 1)"
    have "form_leaves ?qs = map (set_leaf key v) (form_leaves qs)"
      using 1(1) [OF refl refl refl None, of p qs] 1(2) below found j qs a by auto
    then have "leaf_values (with_params ?qs (ps ! j)) = map (set_leaf key v) (leaf_values (ps ! j))"
      using qs j by (cases p) (simp add: form_leaves_def)
    moreover have "Some key \<in> fst ` set (leaf_values (ps ! j))"
      using p j by (auto intro: rev_image_eqI)
    ultimately show ?thesis
      using form_leaves_update [OF 1(3) found(1)] found j qs None a
      by (simp add: updateCurrentConfigByKey.simps [of F ps])
  qed
qed

section \<open>Properties\<close>

text \<open>
  A schema whose property names are distinct and have no slash, at every level. The names of a parsed object
  are distinct in any case.
\<close>

inductive plain_schema :: "json \<Rightarrow> bool" where
  plain_schemaI: "(\<And>p k v. js_member s ''properties'' = Some p \<Longrightarrow> (k, v) \<in> set (object_entries p) \<Longrightarrow>
       CHR ''/'' \<notin> set k \<and> plain_schema v) \<Longrightarrow>
     (\<And>p. js_member s ''properties'' = Some p \<Longrightarrow> distinct (map fst (object_entries p))) \<Longrightarrow> plain_schema s"

inductive_cases plain_schemaE: "plain_schema s"

definition below_path :: "string list \<Rightarrow> string" where
  "below_path segs = concat (map (\<lambda>s. s @ ''/'') segs)"

lemma below_path_snoc: "below_path segs @ k @ ''/'' = below_path (segs @ [k])"
  by (simp add: below_path_def)

lemma split_below_path:
  "\<forall>s \<in> set segs. CHR ''/'' \<notin> set s \<Longrightarrow> CHR ''/'' \<notin> set k \<Longrightarrow>
     split_on CHR ''/'' (below_path segs @ k) = segs @ [k]"
  by (induction segs) (simp_all add: below_path_def split_on_no_sep split_on_sep)

lemma no_properties_no_params:
  "\<not> hasProperties schema \<Longrightarrow>
     retrieveBasicFormParams F Y L cur pkg schema ev dep path = Inr ps \<Longrightarrow> ps = []"
  by (auto simp: retrieveBasicFormParams.simps [of F Y L cur pkg schema] hasProperties_def split: option.splits)

definition params_below :: "string list \<Rightarrow> form_param list \<Rightarrow> bool" where
  "params_below segs ps \<longleftrightarrow> params_wf (Suc (length segs)) ps \<and>
     (\<forall>p \<in> set ps. \<exists>k. fp_key p = Some (below_path segs @ k) \<and> CHR ''/'' \<notin> set k)"

lemma form_param_of_wf:
  assumes "form_param_of Y L cur pkg ev dep (below_path segs @ k) k sp ex nested = Inr p"
    and "\<forall>s \<in> set segs. CHR ''/'' \<notin> set s" and "CHR ''/'' \<notin> set k"
    and "params_below (segs @ [k]) nested"
  shows "param_wf (Suc (length segs)) p \<and> fp_key p = Some (below_path segs @ k)"
proof -
  have nested: "\<exists>qk. fp_key q = Some qk \<and> take (Suc (length segs)) (split_on CHR ''/'' qk) = segs @ [k]"
    if "q \<in> set nested" for q
  proof -
    from assms(4) that obtain j where "fp_key q = Some (below_path (segs @ [k]) @ j)" "CHR ''/'' \<notin> set j"
      by (auto simp: params_below_def)
    with split_below_path [of "segs @ [k]" j] assms(2,3) show ?thesis by auto
  qed
  from assms(1) show ?thesis using assms(4) nested
    by (auto simp: form_param_of_def Let_def split_below_path [OF assms(2,3)] params_below_def params_wf_def
        split: sum.splits)
qed

lemma params_below_keys:
  assumes keys: "map fp_key ps = map (\<lambda>kv. Some (below_path segs @ fst kv)) kvs"
    and "\<forall>p \<in> set ps. param_wf (Suc (length segs)) p" and "distinct (map fst kvs)"
    and "\<And>k v. (k, v) \<in> set kvs \<Longrightarrow> CHR ''/'' \<notin> set k"
  shows "params_below segs ps"
proof -
  have "distinct (map (\<lambda>kv. Some (below_path segs @ fst kv)) kvs)"
    using assms(3) by (simp add: distinct_map inj_on_def)
  moreover have "\<exists>k. fp_key p = Some (below_path segs @ k) \<and> CHR ''/'' \<notin> set k" if "p \<in> set ps" for p
  proof -
    have "fp_key p \<in> set (map fp_key ps)" using that by simp
    then obtain kv where "kv \<in> set kvs" "fp_key p = Some (below_path segs @ fst kv)"
      using keys by auto
    then show ?thesis using assms(4) [of "fst kv" "snd kv"] by auto
  qed
  ultimately show ?thesis using keys assms(2) by (simp add: params_below_def params_wf_def)
qed

lemma retrieved_below:
  "retrieveBasicFormParams F Y L cur pkg schema ev dep path = Inr ps \<Longrightarrow> plain_schema schema \<Longrightarrow>
     path = below_path segs \<Longrightarrow> \<forall>s \<in> set segs. CHR ''/'' \<notin> set s \<Longrightarrow> params_below segs ps"
proof (induction F Y L cur pkg schema ev dep path arbitrary: ps segs rule: retrieveBasicFormParams.induct)
  case (1 F Y L cur pkg schema ev dep path)
  show ?case
  proof (cases "js_member schema ''properties''")
    case None
    with 1(2) show ?thesis by (simp add: retrieveBasicFormParams.simps [of F Y L cur pkg schema] params_below_def params_wf_def)
  next
    case (Some properties)
    show ?thesis
    proof (cases "\<not> json_truthy properties \<or> lodash_isEmpty F properties")
      case True
      with Some 1(2) show ?thesis
        by (simp add: retrieveBasicFormParams.simps [of F Y L cur pkg schema] params_below_def params_wf_def)
    next
      case False
      let ?f = "\<lambda>(propertyKey, schemaProperty).
             (let itemPath = path @ propertyKey in
              case param_examples L (js_member schema ''examples'') propertyKey schemaProperty of
                Inl e \<Rightarrow> Inl e
              | Inr examples \<Rightarrow>
                  (case retrieveBasicFormParams F Y L cur pkg schemaProperty ev dep (itemPath @ ''/'') of
                     Inl e \<Rightarrow> Inl e
                   | Inr nested \<Rightarrow>
                       map_sum (\<lambda>e. e) (\<lambda>param. param # (if hasProperties schemaProperty then [] else nested))
                         (form_param_of Y L cur pkg ev dep itemPath propertyKey schemaProperty examples nested)))"
      from 1(2) Some False obtain yss where yss: "traverse ?f (object_entries properties) = Inr yss" "ps = concat yss"
        by (auto simp: retrieveBasicFormParams.simps [of F Y L cur pkg schema] map_sum_def split: sum.splits)
      have plain: "CHR ''/'' \<notin> set k" "plain_schema v" if "(k, v) \<in> set (object_entries properties)" for k v
        using 1(3) Some that by (auto elim: plain_schemaE)
      have dist: "distinct (map fst (object_entries properties))" using 1(3) Some by (auto elim: plain_schemaE)
      have one: "\<exists>p. ys = [p] \<and> param_wf (Suc (length segs)) p \<and> fp_key p = Some (below_path segs @ k)"
        if kv: "(k, v) \<in> set (object_entries properties)" and ys: "?f (k, v) = Inr ys" for k v ys
      proof -
        from ys obtain ex nested p where ex: "param_examples L (js_member schema ''examples'') k v = Inr ex"
          and nested: "retrieveBasicFormParams F Y L cur pkg v ev dep ((path @ k) @ ''/'') = Inr nested"
          and p: "form_param_of Y L cur pkg ev dep (path @ k) k v ex nested = Inr p"
          and ys': "ys = p # (if hasProperties v then [] else nested)"
          by (auto simp: Let_def map_sum_def split: sum.splits)
        have "params_below (segs @ [k]) nested"
          using 1(1) [OF Some False kv refl refl ex nested plain(2) [OF kv]] 1(4,5) plain(1) [OF kv]
          by (simp add: below_path_def)
        with form_param_of_wf [of Y L cur pkg ev dep segs k v ex nested p] p 1(4,5) plain(1) [OF kv]
          no_properties_no_params [OF _ nested] ys'
        show ?thesis by auto
      qed
      have "list_all2 (\<lambda>(k, v) ys. \<exists>p. ys = [p] \<and> param_wf (Suc (length segs)) p \<and>
          fp_key p = Some (below_path segs @ k)) (object_entries properties) yss"
        by (rule list.rel_mono_strong [OF traverse_Inr [OF yss(1)]]) (use one in blast)
      then have keys: "map fp_key ps = map (\<lambda>kv. Some (below_path segs @ fst kv)) (object_entries properties) \<and>
          (\<forall>p \<in> set ps. param_wf (Suc (length segs)) p)"
        unfolding yss(2) by (induction rule: list_all2_induct) auto
      with dist plain(1) show ?thesis by (intro params_below_keys) auto
    qed
  qed
qed

text \<open>
  C21: The shape of every form built from a schema. Where the property names are distinct and have no slash, every
  parameter has a key, keys are distinct at every level, and the key of a nested parameter is the key of the
  object it belongs to and one more component.
\<close>
theorem retrieved_form_wf:
  assumes "plain_schema schema"
    and "retrieveBasicFormParams F Y L cur pkg schema ev dep [] = Inr ps"
  shows "params_wf 1 ps"
  using retrieved_below [OF assms(2,1), of "[]"] by (simp add: params_below_def below_path_def)

text \<open>
  Saving a parameter of the form. In a form whose keys are those of a schema, updating the parameter
  with a key, at whatever depth it is, sets the current value of that parameter and leaves the current
  value of every other one, and the order of them all, as they are.
\<close>
theorem update_changes_one_param:
  assumes "findIndex_spec F" and "params_wf 1 ps" and "Some key \<in> fst ` set (form_leaves ps)"
  shows "form_leaves (updateCurrentConfigByKey F ps key value 1) =
    map (set_leaf key value) (form_leaves ps)"
  using assms by (rule update_leaves)

text \<open>
  Saving a parameter the form does not have, neither by its key nor by the object its key begins with.
  Nothing is refused: the last parameter of the form is replaced by an object with the value alone, because
  the index -1 counts from the end of the list.
\<close>
theorem unknown_param_overwrites_last:
  assumes "findIndex_spec F" and "ps \<noteq> []"
    and "\<forall>p \<in> set ps. fp_key p \<noteq> Some key \<and> fp_key p \<noteq> Some (hd (split_on CHR ''/'' key))"
  shows "updateCurrentConfigByKey F ps key value 1 = butlast ps @ [only_value value]"
proof -
  have a: "join ''/'' (take 1 (split_on CHR ''/'' key)) = hd (split_on CHR ''/'' key)"
    by (cases "split_on CHR ''/'' key") simp_all
  have gone: "lodash_findIndex F ps k = -1" if "\<forall>p \<in> set ps. fp_key p \<noteq> Some k" for k
    using assms(1) that unfolding findIndex_spec_def by (metis nth_mem)
  have "js_splice1 ps (-1) x = butlast ps @ [x]" for x
    using assms(2) by (cases ps rule: rev_cases) (simp_all add: js_splice1_def nat_diff_distrib)
  then show ?thesis
    using assms(3) gone [of key] gone [of "hd (split_on CHR ''/'' key)"]
    by (simp add: updateCurrentConfigByKey.simps [of F ps] a [simplified] replace_param_def js_nth_def)
qed

section \<open>Witnesses\<close>

fun first_index :: "form_param list \<Rightarrow> string \<Rightarrow> nat option" where
  "first_index [] k = None"
| "first_index (p # ps) k = (if fp_key p = Some k then Some 0 else map_option Suc (first_index ps k))"

definition sample_form_lib :: form_lib where
  "sample_form_lib =
     \<lparr>lodash_isEmpty = (\<lambda>v. v = JObj []),
      lodash_findIndex = (\<lambda>ps k. case first_index ps k of None \<Rightarrow> -1 | Some i \<Rightarrow> int i)\<rparr>"

lemma first_index_None: "first_index ps k = None \<Longrightarrow> \<forall>p \<in> set ps. fp_key p \<noteq> Some k"
  by (induction ps) (auto split: if_splits)

lemma first_index_Some: "first_index ps k = Some i \<Longrightarrow> i < length ps \<and> fp_key (ps ! i) = Some k"
  by (induction ps arbitrary: i) (auto split: if_splits)

lemma sample_form_spec: "findIndex_spec sample_form_lib"
proof -
  have "lodash_findIndex sample_form_lib ps k = -1 \<and> (\<forall>p \<in> set ps. fp_key p \<noteq> Some k) \<or>
    (\<exists>i < length ps. lodash_findIndex sample_form_lib ps k = int i \<and> fp_key (ps ! i) = Some k)" for ps k
    using first_index_None [of ps k] first_index_Some [of ps k]
    by (cases "first_index ps k") (auto simp: sample_form_lib_def)
  then show ?thesis by (simp add: findIndex_spec_def)
qed

definition leaf_param :: "string \<Rightarrow> form_param" where
  "leaf_param key = FormParam (Some key) None None (Some False) None None (Some False) None None None
     (Plain (Some (JNum 1))) None"

definition sample_params :: "form_param list" where
  "sample_params =
     [leaf_param ''replicas'',
      FormParam (Some ''image'') None None (Some True) (Some [leaf_param ''image/name'', leaf_param ''image/tag''])
        None (Some False) None None None (Plain (Some (JStr []))) None]"

theorem update_changes_one_param_witness:
  "form_leaves (updateCurrentConfigByKey sample_form_lib sample_params ''image/tag'' (Some (JNum 2)) 1) =
     [(Some ''replicas'', Plain (Some (JNum 1))), (Some ''image/name'', Plain (Some (JNum 1))),
      (Some ''image/tag'', Plain (Some (JNum 2)))]"
  using update_changes_one_param [OF sample_form_spec, of sample_params "''image/tag''" "Some (JNum 2)"]
  by (simp add: sample_params_def leaf_param_def params_wf_def form_leaves_def set_leaf_def)

theorem unknown_param_overwrites_last_witness:
  "updateCurrentConfigByKey sample_form_lib sample_params ''port'' (Some (JNum 2)) 1 =
     [leaf_param ''replicas'', only_value (Some (JNum 2))]"
  using unknown_param_overwrites_last [OF sample_form_spec, of sample_params "''port''" "Some (JNum 2)"]
  by (simp add: sample_params_def leaf_param_def)

definition sample_form_schema :: json where
  "sample_form_schema = JObj [(''properties'', JObj [(''image'', JObj [(''properties'', JObj [(''tag'', JBool True)])])])]"

lemma sample_form_schema_plain: "plain_schema sample_form_schema"
proof -
  have leaf: "plain_schema (JBool True)" by (rule plain_schemaI) (simp_all add: js_member_def)
  have "plain_schema (JObj [(''properties'', JObj [(''tag'', JBool True)])])"
    by (rule plain_schemaI) (use leaf in \<open>auto simp: js_member_def\<close>)
  then show ?thesis unfolding sample_form_schema_def
    by (intro plain_schemaI) (auto simp: js_member_def)
qed

theorem retrieved_form_wf_witness:
  "\<exists>ps. retrieveBasicFormParams sample_form_lib (sample_yaml :: json yaml) sample_lib None None sample_form_schema ''install'' None [] = Inr ps \<and>
     length ps = 1 \<and> params_wf 1 ps"
proof -
  have "\<exists>p. retrieveBasicFormParams sample_form_lib (sample_yaml :: json yaml) sample_lib None None sample_form_schema ''install'' None [] = Inr [p]"
    by (simp add: sample_form_schema_def retrieveBasicFormParams.simps js_member_def sample_form_lib_def
        param_examples_def form_param_of_def param_enum_def hasProperties_def Let_def)
  then show ?thesis using retrieved_form_wf [OF sample_form_schema_plain] by fastforce
qed

end
