(* ===== verification/Catalog_View.thy ===== *)
theory Catalog_View
  imports Repo_Actions Operator_Actions
begin

text \<open>
  The catalog page (\<open>components/Catalog/Catalog.tsx\<close>, \<open>CatalogItems.tsx\<close>) and the list of operators
  (\<open>components/OperatorList/OperatorList.tsx\<close>): the filters and their representation in the query of the
  URL, the packages and operators that pass them, the flags of the pagination and the items shown.
  The parser of query strings (\<open>qs\<close>) is a parameter.
\<close>

section \<open>Filters\<close>

type_synonym filters = "string list jsobj"

definition SEARCH :: string where "SEARCH = ''Search''"
definition FILTER_TYPE :: string where "FILTER_TYPE = ''Type''"
definition REPO :: string where "REPO = ''Repository''"
definition CATEGORY :: string where "CATEGORY = ''Category''"
definition OPERATOR_PROVIDER :: string where "OPERATOR_PROVIDER = ''Provider''"
definition PKG_TYPE :: string where "PKG_TYPE = ''Plugin''"

definition filterNames :: "string list" where
  "filterNames = [SEARCH, FILTER_TYPE, REPO, CATEGORY, OPERATOR_PROVIDER, PKG_TYPE]"

lemmas filter_name_defs = SEARCH_def FILTER_TYPE_def REPO_def CATEGORY_def OPERATOR_PROVIDER_def PKG_TYPE_def

definition initialFilterState :: filters where
  "initialFilterState = map (\<lambda>f. (f, [])) filterNames"

text \<open>The values of a filter; the six names are always there.\<close>

definition filter_values :: "filters \<Rightarrow> string \<Rightarrow> string list" where
  "filter_values fs f = (case obj_get fs f of None \<Rightarrow> [] | Some vs \<Rightarrow> vs)"

section \<open>Filters as a query\<close>

text \<open>\<open>replace(/,/g, "__")\<close> and \<open>replace(/__/g, ",")\<close>.\<close>

fun replace_commas :: "string \<Rightarrow> string" where
  "replace_commas [] = []"
| "replace_commas (c # cs) =
     (if c = CHR '','' then ''__'' @ replace_commas cs else c # replace_commas cs)"

fun restore_commas :: "string \<Rightarrow> string" where
  "restore_commas (a # b # cs) =
     (if a = CHR ''_'' \<and> b = CHR ''_'' then CHR '','' # restore_commas cs
      else a # restore_commas (b # cs))"
| "restore_commas cs = cs"

definition filter_query :: "string \<times> string list \<Rightarrow> string" where
  "filter_query f =
     fst f @ ''='' @ join '','' (map (\<lambda>v. encodeURIComponent (replace_commas v)) (snd f))"

definition activeFilters :: "filters \<Rightarrow> filters" where
  "activeFilters fs = filter (\<lambda>f. snd f \<noteq> []) fs"

definition filtersToQuery :: "filters \<Rightarrow> string" where
  "filtersToQuery fs =
     (if activeFilters fs = [] then []
      else ''?'' @ join ''&'' (map filter_query (activeFilters fs)))"

text \<open>
  The filters of a location. \<open>Q\<close> is \<open>qs.parse\<close> without the question mark, every value as a string;
  \<open>{...initialFilterState(), ...newFilters}\<close> keeps the names that are not in the query.
\<close>

definition newFilters :: "string jsobj \<Rightarrow> filters" where
  "newFilters propsFilter = map (\<lambda>(f, v). (f, map restore_commas (split_on CHR '','' v))) propsFilter"

definition spread_filters :: "filters \<Rightarrow> filters \<Rightarrow> filters" where
  "spread_filters base new = fold (\<lambda>(f, vs). obj_set f vs) new base"

definition queryToFilters :: "(string \<Rightarrow> string jsobj) \<Rightarrow> string \<Rightarrow> filters" where
  "queryToFilters Q search = spread_filters initialFilterState (newFilters (Q search))"

definition pushFilters :: "string option \<Rightarrow> string option \<Rightarrow> filters \<Rightarrow> string" where
  "pushFilters cluster namespace fs =
     app_catalog (opt_string cluster) (opt_string namespace) @ filtersToQuery fs"

text \<open>What the handlers push.\<close>

definition addFilter :: "filters \<Rightarrow> string \<Rightarrow> string \<Rightarrow> filters" where
  "addFilter fs type value = obj_set type (filter_values fs type @ [value]) fs"

definition removeFilter :: "filters \<Rightarrow> string \<Rightarrow> string \<Rightarrow> filters" where
  "removeFilter fs type value = obj_set type (filter (\<lambda>v. v \<noteq> value) (filter_values fs type)) fs"

definition clearAllFilters :: filters where
  "clearAllFilters = []"

definition trimStart :: "string \<Rightarrow> string" where
  "trimStart s = dropWhile is_space s"

definition setSearchFilter :: "filters \<Rightarrow> string \<Rightarrow> filters" where
  "setSearchFilter fs term =
     obj_set SEARCH (if trimStart term \<noteq> [] then [trimStart term] else []) fs"

text \<open>What the requests for packages use.\<close>

definition searchFilter :: "filters \<Rightarrow> string" where
  "searchFilter fs = restore_commas (join '','' (filter_values fs SEARCH))"

definition reposFilter :: "filters \<Rightarrow> string" where
  "reposFilter fs = join '','' (filter_values fs REPO)"

section \<open>The round trip of the filters\<close>

text \<open>
  What \<open>qs\<close> documents: pairs are separated by ampersands, keys and values are percent-decoded, and commas
  in a value are kept.
\<close>

definition qs_spec :: "(string \<Rightarrow> string jsobj) \<Rightarrow> bool" where
  "qs_spec Q \<longleftrightarrow> Q [] = [] \<and>
     (\<forall>ps. ps \<noteq> [] \<and> distinct (map fst ps) \<and> (\<forall>p \<in> set ps. fst p \<in> set filterNames) \<longrightarrow>
        Q (''?'' @ join ''&'' (map (\<lambda>p. fst p @ ''='' @ join '','' (map encodeURIComponent (snd p))) ps)) =
          map (\<lambda>p. (fst p, join '','' (snd p))) ps)"

text \<open>A value without an underscore before an underscore or a comma.\<close>

fun query_safe :: "string \<Rightarrow> bool" where
  "query_safe (a # b # cs) \<longleftrightarrow>
     \<not> (a = CHR ''_'' \<and> (b = CHR ''_'' \<or> b = CHR '','')) \<and> query_safe (b # cs)"
| "query_safe cs \<longleftrightarrow> True"

lemma restore_plain: "c \<noteq> CHR ''_'' \<Longrightarrow> restore_commas (c # s) = c # restore_commas s"
  by (cases s) simp_all

lemma restore_replace: "restore_commas (replace_commas v) = v \<longleftrightarrow> query_safe v"
proof (induction v rule: query_safe.induct)
  case (1 a b cs)
  consider "a = CHR '',''" | "a \<noteq> CHR '',''" "a \<noteq> CHR ''_''" | "a = CHR ''_''" "b = CHR ''_'' \<or> b = CHR '',''"
    | "a = CHR ''_''" "b \<noteq> CHR ''_''" "b \<noteq> CHR '',''" by blast
  then show ?case
  proof cases
    case 4
    then show ?thesis using 1 by (simp add: restore_plain)
  qed (use 1 in \<open>auto simp: restore_plain\<close>)
qed simp_all

lemma replace_no_comma: "CHR '','' \<notin> set (replace_commas v)"
  by (induction v) auto

lemma split_replaced:
  "vs \<noteq> [] \<Longrightarrow> split_on CHR '','' (join '','' (map replace_commas vs)) = map replace_commas vs"
  by (rule split_on_join) (auto simp: replace_no_comma)

lemma spread_filters_get:
  "distinct (map fst new) \<Longrightarrow>
     obj_get (spread_filters base new) f = (case map_of new f of None \<Rightarrow> obj_get base f | Some vs \<Rightarrow> Some vs)"
proof (induction new arbitrary: base)
  case Nil
  then show ?case by (simp add: spread_filters_def)
next
  case (Cons p new)
  then have "map_of new (fst p) = None" by (simp add: map_of_eq_None_iff)
  then show ?case using Cons
    by (cases p) (simp add: spread_filters_def split: option.splits)
qed

lemma initial_values: "filter_values initialFilterState f = []"
  by (auto simp: filter_values_def initialFilterState_def map_of_map_keys split: option.splits
      dest!: map_of_SomeD)

lemma map_of_active:
  "distinct (map fst fs) \<Longrightarrow> map_of (activeFilters fs) f =
     (case map_of fs f of None \<Rightarrow> None | Some vs \<Rightarrow> if vs = [] then None else Some vs)"
proof (induction fs)
  case (Cons p fs)
  then have "map_of fs (fst p) = None" by (simp add: map_of_eq_None_iff)
  moreover from this have "map_of (filter (\<lambda>f. snd f \<noteq> []) fs) (fst p) = None"
    by (auto simp: map_of_eq_None_iff)
  ultimately show ?case using Cons
    by (cases p) (auto simp: activeFilters_def split: option.splits)
qed (simp add: activeFilters_def)

lemma parsed_filters:
  assumes "qs_spec Q" and "distinct (map fst fs)" and "set (map fst fs) \<subseteq> set filterNames"
  shows "newFilters (Q (filtersToQuery fs)) =
    map (\<lambda>(f, vs). (f, map (\<lambda>v. restore_commas (replace_commas v)) vs)) (activeFilters fs)"
proof (cases "activeFilters fs = []")
  case True
  then show ?thesis using assms(1) by (simp add: filtersToQuery_def qs_spec_def newFilters_def)
next
  case False
  define ps where "ps = map (\<lambda>(f, vs). (f, map replace_commas vs)) (activeFilters fs)"
  have sub: "set (activeFilters fs) \<subseteq> set fs" "\<forall>p \<in> set (activeFilters fs). snd p \<noteq> []"
    by (auto simp: activeFilters_def)
  have keys: "map fst ps = map fst (activeFilters fs)" by (simp add: ps_def case_prod_unfold comp_def)
  have ps: "ps \<noteq> []" "distinct (map fst ps)" "\<forall>p \<in> set ps. fst p \<in> set filterNames"
  proof -
    show "ps \<noteq> []" using False by (simp add: ps_def)
    show "distinct (map fst ps)" unfolding keys using assms(2)
      by (simp add: activeFilters_def distinct_map_filter)
    have "set (map fst ps) \<subseteq> set filterNames" unfolding keys using assms(3) sub(1) by auto
    then show "\<forall>p \<in> set ps. fst p \<in> set filterNames" by auto
  qed
  have query: "filtersToQuery fs = ''?'' @ join ''&''
      (map (\<lambda>p. fst p @ ''='' @ join '','' (map encodeURIComponent (snd p))) ps)"
    using False by (simp add: filtersToQuery_def ps_def filter_query_def [abs_def] case_prod_unfold comp_def)
  from assms(1) have "Q (''?'' @ join ''&''
      (map (\<lambda>p. fst p @ ''='' @ join '','' (map encodeURIComponent (snd p))) ps)) =
      map (\<lambda>p. (fst p, join '','' (snd p))) ps"
    unfolding qs_spec_def using ps by blast
  then have "Q (filtersToQuery fs) = map (\<lambda>p. (fst p, join '','' (snd p))) ps" by (simp only: query)
  then show ?thesis
    using sub(2) by (auto simp: newFilters_def ps_def case_prod_unfold split_replaced)
qed

lemma queried_values:
  assumes "qs_spec Q" and "distinct (map fst fs)" and "set (map fst fs) \<subseteq> set filterNames"
  shows "filter_values (queryToFilters Q (filtersToQuery fs)) f =
    map (\<lambda>v. restore_commas (replace_commas v)) (filter_values fs f)"
proof -
  let ?new = "map (\<lambda>(f, vs). (f, map (\<lambda>v. restore_commas (replace_commas v)) vs)) (activeFilters fs)"
  have "distinct (map fst ?new)"
    using assms(2) by (simp add: case_prod_unfold comp_def activeFilters_def distinct_map_filter)
  moreover have "map_of ?new f = map_option (map (\<lambda>v. restore_commas (replace_commas v))) (map_of (activeFilters fs) f)"
    by (simp add: map_of_map)
  ultimately show ?thesis
    using parsed_filters [OF assms] initial_values [of f] map_of_active [OF assms(2), of f]
    by (auto simp: queryToFilters_def filter_values_def spread_filters_get split: option.splits if_splits)
qed

text \<open>
  C29: The filters survive the URL. Visiting the location that the catalog pushes for its filters gives the
  same filters back, in the same order, exactly when no value has an underscore followed by an underscore or
  by a comma: commas are written as two underscores.
\<close>
theorem filters_round_trip:
  assumes "qs_spec Q" and "distinct (map fst fs)" and "set (map fst fs) \<subseteq> set filterNames"
  shows "(\<forall>f. filter_values (queryToFilters Q (filtersToQuery fs)) f = filter_values fs f) \<longleftrightarrow>
    (\<forall>f v. v \<in> set (filter_values fs f) \<longrightarrow> query_safe v)"
proof -
  have "map g vs = vs \<longleftrightarrow> (\<forall>v. v \<in> set vs \<longrightarrow> g v = v)" for g and vs :: "string list"
    using map_eq_conv [of g vs "\<lambda>v. v"] by auto
  then show ?thesis by (auto simp: queried_values [OF assms] restore_replace)
qed


section \<open>Packages and operators that pass the filters\<close>

text \<open>\<open>category.replace(/([a-z])([A-Z][a-z])/g, "$1 $2")\<close>: a match takes its three characters.\<close>

definition is_lower :: "char \<Rightarrow> bool" where
  "is_lower c \<longleftrightarrow> (let n = of_char c :: nat in 97 \<le> n \<and> n \<le> 122)"

fun split_words :: "string \<Rightarrow> string" where
  "split_words (a # b # c # s) =
     (if is_lower a \<and> is_upper b \<and> is_lower c then a # CHR '' '' # b # c # split_words s
      else a # split_words (b # c # s))"
| "split_words s = s"

definition categoryToReadable :: "string \<Rightarrow> string" where
  "categoryToReadable category =
     (if category = [] then ''Unknown'' else dropWhile is_space (split_words category))"

text \<open>\<open>get(c, "metadata.annotations.categories", "")\<close>.\<close>

definition getOperatorCategories :: "IClusterServiceVersion \<Rightarrow> string list" where
  "getOperatorCategories c =
     map categoryToReadable (split_on CHR '','' (opt_string (obj_get (md_annotations (csv_metadata c)) ''categories'')))"

text \<open>A regular expression of an escaped text, without regard to case.\<close>

definition matches_text :: "string \<Rightarrow> string \<Rightarrow> bool" where
  "matches_text pat s \<longleftrightarrow> str_includes (toLowerCase s) (toLowerCase pat)"

text \<open>An inactive filter lets everything pass.\<close>

definition passes :: "filters \<Rightarrow> string \<Rightarrow> (string list \<Rightarrow> bool) \<Rightarrow> bool" where
  "passes fs f accepts \<longleftrightarrow> filter_values fs f = [] \<or> accepts (filter_values fs f)"

definition plugin_arg_of :: "Plugin option \<Rightarrow> plugin_arg" where
  "plugin_arg_of p = (case p of None \<Rightarrow> NoPlugin | Some q \<Rightarrow> PluginObj q)"

definition summary_plugin :: "AvailablePackageSummary \<Rightarrow> Plugin option" where
  "summary_plugin c = Option.bind (aps_availablePackageRef c) apr_plugin"

definition summary_repo :: "AvailablePackageSummary \<Rightarrow> string option" where
  "summary_repo c =
     map_option (\<lambda>r. hd (split_on CHR ''/'' (apr_identifier r))) (aps_availablePackageRef c)"

definition package_shown :: "filters \<Rightarrow> AvailablePackageSummary \<Rightarrow> bool" where
  "package_shown fs c \<longleftrightarrow>
     passes fs FILTER_TYPE (\<lambda>vs. ''Packages'' \<in> set vs) \<and>
     passes fs PKG_TYPE (\<lambda>vs. getPluginPackageName (plugin_arg_of (summary_plugin c)) True \<in> set vs) \<and>
     filter_values fs OPERATOR_PROVIDER = [] \<and>
     passes fs REPO (\<lambda>vs. summary_repo c \<in> Some ` set vs) \<and>
     passes fs CATEGORY (\<lambda>vs. list_ex (\<lambda>k. categoryToReadable k \<in> set vs) (aps_categories c))"

definition shown_packages ::
  "filters \<Rightarrow> AvailablePackageSummary list \<Rightarrow> AvailablePackageSummary list" where
  "shown_packages fs summaries = filter (package_shown fs) summaries"

definition csv_matches :: "string \<Rightarrow> IClusterServiceVersion \<Rightarrow> bool" where
  "csv_matches pat c \<longleftrightarrow> matches_text pat (md_name (csv_metadata c)) \<or>
     (case csv_owned c of None \<Rightarrow> False
      | Some crds \<Rightarrow> list_ex (\<lambda>crd. matches_text pat (crd_displayName crd)) crds)"

definition csv_shown :: "filters \<Rightarrow> IClusterServiceVersion \<Rightarrow> bool" where
  "csv_shown fs c \<longleftrightarrow>
     passes fs FILTER_TYPE (\<lambda>vs. ''Operators'' \<in> set vs) \<and> filter_values fs REPO = [] \<and>
     csv_matches (searchFilter fs) c \<and>
     passes fs OPERATOR_PROVIDER (\<lambda>vs. csv_provider c \<in> set vs) \<and>
     passes fs CATEGORY (\<lambda>vs. list_ex (\<lambda>v. v \<in> set (getOperatorCategories c)) vs)"

definition shown_csvs :: "filters \<Rightarrow> IClusterServiceVersion list \<Rightarrow> IClusterServiceVersion list" where
  "shown_csvs fs csvs = filter (csv_shown fs) csvs"

section \<open>The values the filters offer\<close>

definition allRepos :: "lib \<Rightarrow> string option \<Rightarrow> PackageRepositorySummary list \<Rightarrow> string list" where
  "allRepos L namespace repos =
     sort (uniq_categories L (map prsum_name
       (filter (\<lambda>r. \<not> prsum_namespaceScoped r \<or> repo_namespace r = namespace) repos)))"

definition allPlugins :: "lib \<Rightarrow> Plugin list \<Rightarrow> string list" where
  "allPlugins L plugins =
     sort (uniq_categories L (map (\<lambda>p. getPluginPackageName (PluginObj p) True)
       (filter (\<lambda>p. str_includes (plugin_name p) ''.packages'') plugins)))"

definition allProviders :: "lib \<Rightarrow> IClusterServiceVersion list \<Rightarrow> string list" where
  "allProviders L csvs = uniq_categories L (map csv_provider csvs)"

definition allCategories :: "lib \<Rightarrow> string list \<Rightarrow> IClusterServiceVersion list \<Rightarrow> string list" where
  "allCategories L categories csvs =
     sort (uniq_categories L
       (map categoryToReadable categories @ concat (map getOperatorCategories csvs)))"

section \<open>Items\<close>

record ICatalogItem =
  ci_type :: string
  ci_id :: string
  ci_name :: string
  ci_summary :: "AvailablePackageSummary option"
  ci_crd :: "ICRD option"
  ci_icon :: string
  ci_csv :: string

definition packageItem :: "AvailablePackageSummary \<Rightarrow> ICatalogItem option" where
  "packageItem c = (case aps_availablePackageRef c of
     None \<Rightarrow> None
   | Some r \<Rightarrow> (case apr_plugin r of
        None \<Rightarrow> None
      | Some p \<Rightarrow> Some
          \<lparr>ci_type = plugin_name p @ ''/'' @ plugin_version p, ci_id = ''package/'' @ apr_identifier r,
           ci_name = aps_displayName c, ci_summary = Some c, ci_crd = None, ci_icon = [], ci_csv = []\<rparr>))"

definition crdItems :: "string \<Rightarrow> IClusterServiceVersion \<Rightarrow> ICatalogItem list" where
  "crdItems placeholder csv = (case csv_owned csv of
     None \<Rightarrow> []
   | Some crds \<Rightarrow> map (\<lambda>crd.
       \<lparr>ci_type = ''operator'',
        ci_id = ''operator/'' @ md_name (csv_metadata csv) @ ''/'' @ crd_name crd,
        ci_name = str_or (crd_displayName crd) (crd_name crd), ci_summary = None, ci_crd = Some crd,
        ci_icon = getIcon placeholder csv, ci_csv = md_name (csv_metadata csv)\<rparr>) crds)"

text \<open>Before the first page is there, nothing is shown; then everything by name, without regard to case.\<close>

definition item_key :: "ICatalogItem \<Rightarrow> string" where
  "item_key i = toLowerCase (ci_name i)"

definition sortedItems :: "string \<Rightarrow> AvailablePackageSummary list \<Rightarrow> IClusterServiceVersion list \<Rightarrow>
    bool \<Rightarrow> bool \<Rightarrow> ICatalogItem list" where
  "sortedItems placeholder summaries csvs isFirstPage hasLoadedFirstPage =
     (if \<not> hasLoadedFirstPage \<and> isFirstPage then []
      else sort_key item_key
             (List.map_filter packageItem summaries @ concat (map (crdItems placeholder) csvs)))"

section \<open>The flags of the pagination\<close>

record CatalogState =
  cat_filters :: filters
  cat_localNextPageToken :: string
  cat_hasRequestedFirstPage :: bool
  cat_hasLoadedFirstPage :: bool
  cat_isFirstPage :: bool

definition catalog_initialState :: CatalogState where
  "catalog_initialState =
     \<lparr>cat_filters = initialFilterState, cat_localNextPageToken = [], cat_hasRequestedFirstPage = False,
      cat_hasLoadedFirstPage = False, cat_isFirstPage = False\<rparr>"

text \<open>The clean-up when the cluster, the namespace or what is searched changes.\<close>

definition catalog_cleanup :: "CatalogState \<Rightarrow> CatalogState \<times> unit thunk" where
  "catalog_cleanup s =
     (s\<lparr>cat_localNextPageToken := [], cat_isFirstPage := False\<rparr>,
      thenT (dispatchT (PackagesA ResetAvailablePackageSummaries))
        (dispatchT (PackagesA ResetSelectedAvailablePackageDetail)))"

definition first_page_effect :: "bool \<Rightarrow> CatalogState \<Rightarrow> CatalogState" where
  "first_page_effect fetching s =
     (let s1 = (if fetching then s\<lparr>cat_hasRequestedFirstPage := True, cat_isFirstPage := True\<rparr> else s)
      in if cat_hasRequestedFirstPage s \<and> \<not> fetching
         then s1\<lparr>cat_hasLoadedFirstPage := True, cat_isFirstPage := False\<rparr> else s1)"

text \<open>The request of the fetching effect and of a retry.\<close>

definition catalog_fetch :: "string option \<Rightarrow> string option \<Rightarrow> IPackageState \<Rightarrow> CatalogState \<Rightarrow> unit thunk" where
  "catalog_fetch cluster namespace pk s =
     fetchAvailablePackageSummaries (opt_string cluster) (opt_string namespace)
       (reposFilter (cat_filters s)) (cat_localNextPageToken s) (pk_size pk)
       (Some (searchFilter (cat_filters s)))"

definition fetch_effect :: "string option \<Rightarrow> string option \<Rightarrow> IPackageState \<Rightarrow> CatalogState \<Rightarrow> unit thunk option" where
  "fetch_effect cluster namespace pk s =
     (if pk_hasFinishedFetching pk then None else Some (catalog_fetch cluster namespace pk s))"

definition forceRetry :: "string option \<Rightarrow> string option \<Rightarrow> IPackageState \<Rightarrow> CatalogState \<Rightarrow> unit thunk" where
  "forceRetry cluster namespace pk s =
     thenT (dispatchT (PackagesA ClearErrorPackage)) (catalog_fetch cluster namespace pk s)"

text \<open>Which repositories the page asks for.\<close>

definition repos_effect ::
  "lib \<Rightarrow> string option \<Rightarrow> string option \<Rightarrow> string \<Rightarrow> string \<Rightarrow> unit thunk" where
  "repos_effect L cluster namespace kubeapps_cluster globalNs =
     (if \<not> truthy namespace \<or> cluster \<noteq> Some kubeapps_cluster \<or> namespace = Some globalNs
      then fetchRepoSummaries L [] False
      else fetchRepoSummaries L (opt_string namespace) True)"

text \<open>Scrolling to the end asks for the next page, unless operators alone are shown or an error is.\<close>

definition scrolled_to_end :: "IPackageState \<Rightarrow> CatalogState \<Rightarrow> CatalogState" where
  "scrolled_to_end pk s =
     (if passes (cat_filters s) FILTER_TYPE (\<lambda>vs. ''Packages'' \<in> set vs) \<and> \<not> pk_isFetching pk \<and>
         \<not> pk_hasFinishedFetching pk \<and> cat_hasLoadedFirstPage s \<and> sel_error (pk_selected pk) = None
      then s\<lparr>cat_localNextPageToken := pk_nextPageToken pk\<rparr> else s)"

section \<open>The list of operators\<close>

definition BASIC_INSTALL :: string where "BASIC_INSTALL = ''Basic Install''"
definition CAPABILITY :: string where "CAPABILITY = ''Capability''"

text \<open>Lodash's \<open>get\<close> below the default channel: its default where something on the way is missing.\<close>

definition channel_get ::
  "(IPackageManifestChannel \<Rightarrow> string option) \<Rightarrow> string \<Rightarrow> IPackageManifest \<Rightarrow> string" where
  "channel_get field dflt m =
     (case Option.bind (getDefaultChannel m) field of None \<Rightarrow> dflt | Some v \<Rightarrow> v)"

definition getCategories :: "IPackageManifest \<Rightarrow> string list" where
  "getCategories m = map trim (split_on CHR '','' (channel_get ch_categories ''Unknown'' m))"

definition getCapabilities :: "IPackageManifest \<Rightarrow> string" where
  "getCapabilities m = channel_get ch_capabilities BASIC_INSTALL m"

definition getProvider :: "IPackageManifest \<Rightarrow> string" where
  "getProvider m = channel_get ch_provider [] m"

definition operator_search :: "filters \<Rightarrow> string" where
  "operator_search fs = (case filter_values fs SEARCH of [] \<Rightarrow> [] | v # vs \<Rightarrow> v)"

definition operator_shown :: "filters \<Rightarrow> IPackageManifest \<Rightarrow> bool" where
  "operator_shown fs m \<longleftrightarrow>
     passes fs CAPABILITY (\<lambda>vs. getCapabilities m \<in> set vs) \<and>
     matches_text (operator_search fs) (md_name (pmf_metadata m)) \<and>
     passes fs CATEGORY (\<lambda>vs. list_ex (\<lambda>v. v \<in> set (getCategories m)) vs) \<and>
     passes fs OPERATOR_PROVIDER (\<lambda>vs. getProvider m \<in> set vs)"

definition subscriptionNames :: "IResource list \<Rightarrow> json option list" where
  "subscriptionNames subs = map (\<lambda>r. json_member (res_spec r) ''name'') subs"

definition is_subscribed :: "IResource list \<Rightarrow> IPackageManifest \<Rightarrow> bool" where
  "is_subscribed subs m \<longleftrightarrow> Some (JStr (md_name (pmf_metadata m))) \<in> set (subscriptionNames subs)"

definition installedOperators :: "filters \<Rightarrow> IResource list \<Rightarrow> IPackageManifest list \<Rightarrow> IPackageManifest list" where
  "installedOperators fs subs ms = filter (is_subscribed subs) (filter (operator_shown fs) ms)"

definition availableOperators :: "filters \<Rightarrow> IResource list \<Rightarrow> IPackageManifest list \<Rightarrow> IPackageManifest list" where
  "availableOperators fs subs ms =
     filter (\<lambda>m. \<not> is_subscribed subs m) (filter (operator_shown fs) ms)"

definition operator_allCategories :: "lib \<Rightarrow> IPackageManifest list \<Rightarrow> string list" where
  "operator_allCategories L ms = sort (uniq_categories L (concat (map getCategories ms)))"

definition operator_allProviders :: "lib \<Rightarrow> IPackageManifest list \<Rightarrow> string list" where
  "operator_allProviders L ms = sort (uniq_categories L (map getProvider ms))"

section \<open>Properties\<close>

lemma filter_values_set: "filter_values (obj_set g vs fs) f = (if f = g then vs else filter_values fs f)"
  by (simp add: filter_values_def)

lemma passes_more:
  assumes "\<And>vs. accepts vs \<Longrightarrow> accepts (vs @ [v])"
  shows "filter_values fs g \<noteq> [] \<Longrightarrow> passes fs f accepts \<Longrightarrow> passes (addFilter fs g v) f accepts"
    and "filter_values fs g = [] \<Longrightarrow> passes (addFilter fs g v) f accepts \<Longrightarrow> passes fs f accepts"
  using assms by (auto simp: passes_def addFilter_def filter_values_set split: if_splits)

lemma package_shown_more:
  assumes "filter_values fs g \<noteq> []" and "package_shown fs c"
  shows "package_shown (addFilter fs g v) c"
proof -
  have "filter_values (addFilter fs g v) OPERATOR_PROVIDER = []"
    using assms by (auto simp: package_shown_def addFilter_def filter_values_set)
  then show ?thesis
    using assms(2) unfolding package_shown_def
    by (auto intro!: passes_more(1) [OF _ assms(1)] simp: list_ex_iff image_iff)
qed

lemma package_shown_fewer:
  assumes "filter_values fs g = []" and "package_shown (addFilter fs g v) c"
  shows "package_shown fs c"
proof -
  have "filter_values fs OPERATOR_PROVIDER = []"
    using assms by (auto simp: package_shown_def addFilter_def filter_values_set split: if_splits)
  then show ?thesis
    using assms(2) unfolding package_shown_def
    by (auto intro!: passes_more(2) [OF _ assms(1), where v = v] simp: list_ex_iff image_iff)
qed

text \<open>
  Adding a value to a filter. The first value of a filter narrows the packages of the catalog, every
  further value of the same filter widens them again, and taking the only value of a filter away gives the
  packages back that were shown before it was added.
\<close>
theorem filter_value_monotone:
  "(filter_values fs g = [] \<longrightarrow> set (shown_packages (addFilter fs g v) ps) \<subseteq> set (shown_packages fs ps)) \<and>
   (filter_values fs g \<noteq> [] \<longrightarrow> set (shown_packages fs ps) \<subseteq> set (shown_packages (addFilter fs g v) ps)) \<and>
   (filter_values fs g = [] \<longrightarrow> shown_packages (removeFilter (addFilter fs g v) g v) ps = shown_packages fs ps)"
proof (intro conjI impI)
  show "set (shown_packages (addFilter fs g v) ps) \<subseteq> set (shown_packages fs ps)" if "filter_values fs g = []"
    using package_shown_fewer [OF that] by (auto simp: shown_packages_def)
  show "set (shown_packages fs ps) \<subseteq> set (shown_packages (addFilter fs g v) ps)" if "filter_values fs g \<noteq> []"
    using package_shown_more [OF that] by (auto simp: shown_packages_def)
  show "shown_packages (removeFilter (addFilter fs g v) g v) ps = shown_packages fs ps"
    if "filter_values fs g = []"
  proof -
    have "filter_values (removeFilter (addFilter fs g v) g v) f = filter_values fs f" for f
      using that by (simp add: removeFilter_def addFilter_def filter_values_set)
    then show ?thesis by (simp add: shown_packages_def package_shown_def [abs_def] passes_def)
  qed
qed

lemma in_map_filter: "y \<in> set (List.map_filter f xs) \<longleftrightarrow> (\<exists>x \<in> set xs. f x = Some y)"
  by (force simp: List.map_filter_def)

lemma packageItem_Some:
  "packageItem c = Some i \<Longrightarrow> ci_summary i = Some c \<and> ci_name i = aps_displayName c"
  by (auto simp: packageItem_def split: option.splits)

lemma crdItems_summary: "i \<in> set (crdItems placeholder csv) \<Longrightarrow> ci_summary i = None"
  by (auto simp: crdItems_def split: option.splits)


section \<open>Witnesses\<close>

definition hex_value :: "char \<Rightarrow> nat" where
  "hex_value c = (let n = of_char c :: nat in if n < 58 then n - 48 else n - 55)"

fun percent_decode :: "string \<Rightarrow> string" where
  "percent_decode (p # h # l # s) =
     (if p = CHR ''%'' then char_of (16 * hex_value h + hex_value l) # percent_decode s
      else p # percent_decode (h # l # s))"
| "percent_decode s = s"

definition sample_qs :: "string \<Rightarrow> string jsobj" where
  "sample_qs s =
     (if s = [] then []
      else map (\<lambda>p. (takeWhile (\<lambda>c. c \<noteq> CHR ''='') p,
                     percent_decode (tl (dropWhile (\<lambda>c. c \<noteq> CHR ''='') p)))) (split_on CHR ''&'' (tl s)))"

lemma hex_roundtrip: "n < 16 \<Longrightarrow> hex_value (hex_digit n) = n"
  by (simp add: hex_value_def hex_digit_def Let_def)

lemma char_nibbles: "(of_char c :: nat) div 16 < 16" "(of_char c :: nat) mod 16 < 16"
  using nat_of_char_less_256 [of c] by linarith+

lemma decode_plain: "c \<noteq> CHR ''%'' \<Longrightarrow> percent_decode (c # s) = c # percent_decode s"
  by (cases s rule: percent_decode.cases) simp_all

lemma decode_encode: "percent_decode (encodeURIComponent v @ s) = v @ percent_decode s"
proof (induction v)
  case (Cons c v)
  have "char_of (16 * hex_value (hex_digit (of_char c div 16)) + hex_value (hex_digit (of_char c mod 16))) = c"
    using hex_roundtrip [OF char_nibbles(1), of c] hex_roundtrip [OF char_nibbles(2), of c] by simp
  moreover have "c \<noteq> CHR ''%''" if "is_unreserved c" using that by (auto simp: is_unreserved_def)
  ultimately show ?case using Cons by (simp add: decode_plain)
qed simp

lemma decode_join: "percent_decode (join '','' (map encodeURIComponent vs)) = join '','' vs"
proof (induction "'',''" vs rule: join.induct)
  case (2 w)
  then show ?case using decode_encode [of w "[]"] by simp
next
  case (3 w v ws)
  then show ?case by (simp add: decode_encode decode_plain)
qed simp

lemma hex_unreserved: "n < 16 \<Longrightarrow> is_unreserved (hex_digit n)"
  by (simp add: is_unreserved_def hex_digit_def Let_def)

lemma encode_chars: "c \<in> set (encodeURIComponent v) \<Longrightarrow> is_unreserved c \<or> c = CHR ''%''"
proof (induction v)
  case (Cons d v)
  then show ?case
    using hex_unreserved [OF char_nibbles(1), of d] hex_unreserved [OF char_nibbles(2), of d]
    by (auto split: if_splits)
qed simp

lemma sample_qs_spec: "qs_spec sample_qs"
proof -
  have names: "CHR ''&'' \<notin> set f \<and> CHR ''='' \<notin> set f" if "f \<in> set filterNames" for f
    using that by (auto simp: filterNames_def filter_name_defs)
  have values_: "CHR ''&'' \<notin> set (join '','' (map encodeURIComponent vs))" for vs
    using set_join [of "'',''" "map encodeURIComponent vs"]
    by (auto dest!: encode_chars simp: is_unreserved_def)
  have "sample_qs (''?'' @ join ''&'' (map (\<lambda>p. fst p @ ''='' @ join '','' (map encodeURIComponent (snd p))) ps)) =
      map (\<lambda>p. (fst p, join '','' (snd p))) ps"
    if "ps \<noteq> []" "\<forall>p \<in> set ps. fst p \<in> set filterNames" for ps
  proof -
    have "split_on CHR ''&'' (join ''&'' (map (\<lambda>p. fst p @ ''='' @ join '','' (map encodeURIComponent (snd p))) ps)) =
        map (\<lambda>p. fst p @ ''='' @ join '','' (map encodeURIComponent (snd p))) ps"
      using that names values_ by (intro split_on_join) auto
    moreover have "takeWhile (\<lambda>c. c \<noteq> CHR ''='') (f @ CHR ''='' # r) = f"
        "dropWhile (\<lambda>c. c \<noteq> CHR ''='') (f @ CHR ''='' # r) = CHR ''='' # r" if "f \<in> set filterNames" for f r
      using names [OF that] by (auto simp: takeWhile_until dropWhile_until)
    ultimately show ?thesis using that by (auto simp: sample_qs_def decode_join)
  qed
  then show ?thesis by (auto simp: qs_spec_def sample_qs_def)
qed

theorem filters_round_trip_witness:
  "filter_values (queryToFilters sample_qs (filtersToQuery [(SEARCH, [''my, chart'']), (REPO, [''a'', ''b''])])) SEARCH =
     [''my, chart'']"
proof -
  let ?fs = "[(SEARCH, [''my, chart'']), (REPO, [''a'', ''b''])]"
  have "distinct (map fst ?fs)" "set (map fst ?fs) \<subseteq> set filterNames"
    by (simp_all add: filterNames_def filter_name_defs)
  from filters_round_trip [OF sample_qs_spec this] have
    "filter_values (queryToFilters sample_qs (filtersToQuery ?fs)) f = filter_values ?fs f" for f
    by (auto simp: filter_values_def split: if_splits)
  then show ?thesis by (simp add: filter_values_def)
qed

definition sample_summary :: "string \<Rightarrow> AvailablePackageSummary" where
  "sample_summary n = \<lparr>aps_availablePackageRef = None, aps_name = n, aps_latestVersion = None, aps_iconUrl = [],
     aps_displayName = n, aps_shortDescription = [], aps_categories = [n]\<rparr>"

theorem filter_value_monotone_witness:
  "let ps = map sample_summary [''Db'', ''Web'', ''Web'']; fs = addFilter [] CATEGORY ''Db'' in
     set (shown_packages fs ps) \<subseteq> set (shown_packages [] ps) \<and>
     set (shown_packages fs ps) \<subseteq> set (shown_packages (addFilter fs CATEGORY ''Web'') ps) \<and>
     shown_packages (removeFilter fs CATEGORY ''Db'') ps = shown_packages [] ps"
proof -
  let ?ps = "map sample_summary [''Db'', ''Web'', ''Web'']"
  have "filter_values [] CATEGORY = []" "filter_values (addFilter [] CATEGORY ''Db'') CATEGORY \<noteq> []"
    by (simp_all add: addFilter_def filter_values_def)
  with filter_value_monotone [of "[]" CATEGORY "''Db''" ?ps]
    filter_value_monotone [of "addFilter [] CATEGORY ''Db''" CATEGORY "''Web''" ?ps]
  show ?thesis by (simp add: Let_def)
qed

end
