(* ===== verification/App_View.thy ===== *)
theory App_View
  imports Installed_Actions Kube_Actions "HOL-Library.Multiset"
begin

text \<open>
  The view of an installed package (\<open>components/AppView/AppView.tsx\<close>): its resources by kind, the requests
  for them, the buttons, the state of its workloads (\<open>components/ApplicationStatus\<close>) and its URLs
  (\<open>components/AppView/AccessURLTable\<close>). Services and ingresses have the shape of their interfaces in
  \<open>shared/types.ts\<close>; the parser of URLs is a parameter.
\<close>

section \<open>Resources\<close>

record IAppViewResourceRefs =
  av_deployments :: "ResourceRef list"
  av_statefulsets :: "ResourceRef list"
  av_daemonsets :: "ResourceRef list"
  av_services :: "ResourceRef list"
  av_ingresses :: "ResourceRef list"
  av_secrets :: "ResourceRef list"
  av_otherResources :: "ResourceRef list"

definition no_refs :: IAppViewResourceRefs where
  "no_refs =
     \<lparr>av_deployments = [], av_statefulsets = [], av_daemonsets = [], av_services = [],
      av_ingresses = [], av_secrets = [], av_otherResources = []\<rparr>"

definition parse_ref :: "IAppViewResourceRefs \<Rightarrow> ResourceRef \<Rightarrow> IAppViewResourceRefs" where
  "parse_ref result r =
     (if rr_kind r = ''Deployment'' then result\<lparr>av_deployments := av_deployments result @ [r]\<rparr>
      else if rr_kind r = ''StatefulSet'' then result\<lparr>av_statefulsets := av_statefulsets result @ [r]\<rparr>
      else if rr_kind r = ''DaemonSet'' then result\<lparr>av_daemonsets := av_daemonsets result @ [r]\<rparr>
      else if rr_kind r = ''Service'' then result\<lparr>av_services := av_services result @ [r]\<rparr>
      else if rr_kind r = ''Ingress'' then result\<lparr>av_ingresses := av_ingresses result @ [r]\<rparr>
      else if rr_kind r = ''Secret'' then result\<lparr>av_secrets := av_secrets result @ [r]\<rparr>
      else result\<lparr>av_otherResources := av_otherResources result @ [r]\<rparr>)"

definition parseResources :: "ResourceRef list \<Rightarrow> IAppViewResourceRefs" where
  "parseResources refs = foldl parse_ref no_refs refs"

text \<open>The effect that runs when the references change: an empty list leaves the parsed ones.\<close>

definition refs_effect :: "ResourceRef list \<Rightarrow> IAppViewResourceRefs \<Rightarrow> IAppViewResourceRefs" where
  "refs_effect refs parsed = (if refs = [] then parsed else parseResources refs)"

definition refsToWatch :: "IAppViewResourceRefs \<Rightarrow> ResourceRef list" where
  "refsToWatch p =
     av_deployments p @ av_statefulsets p @ av_daemonsets p @ av_ingresses p @ av_services p"

definition refsToGet :: "IAppViewResourceRefs \<Rightarrow> ResourceRef list" where
  "refsToGet p = av_secrets p @ av_otherResources p"

text \<open>The calls of \<open>getResources\<close>, each with its references and whether they are watched.\<close>

definition resource_requests ::
  "InstalledPackageReference option \<Rightarrow> IAppViewResourceRefs \<Rightarrow>
     (InstalledPackageReference \<times> ResourceRef list \<times> bool) list" where
  "resource_requests ref p = (case ref of
     None \<Rightarrow> []
   | Some r \<Rightarrow>
       (if refsToGet p \<noteq> [] then [(r, refsToGet p, False)] else []) @
       (if refsToWatch p \<noteq> [] then [(r, refsToWatch p, True)] else []))"

text \<open>
  The polling for the references: the answers in the order they arrive, one every two seconds, until the
  component is unmounted. Only an answer that nothing was found is asked for again.
\<close>

datatype poll_outcome =
    PollPending
  | PollRefs "ResourceRef list"
  | PollFailed js_error

fun is_not_found :: "js_error \<Rightarrow> bool" where
  "is_not_found (Custom c m cs) \<longleftrightarrow> c = NotFoundNetworkError"
| "is_not_found _ \<longleftrightarrow> False"

fun fetchResourceRefs :: "(js_error + ResourceRef list) list \<Rightarrow> poll_outcome" where
  "fetchResourceRefs [] = PollPending"
| "fetchResourceRefs (Inr refs # answers) = PollRefs refs"
| "fetchResourceRefs (Inl e # answers) =
     (if is_not_found e then fetchResourceRefs answers else PollFailed e)"

definition fetch_refs_error :: "js_error \<Rightarrow> js_error" where
  "fetch_refs_error e = Custom FetchError ''unable to fetch resource references'' (Some [e])"

datatype app_button = UpgradeButton bool | RollbackButton nat bool | DeleteButton

definition getButtons :: "CustomInstalledPackageDetail option \<Rightarrow> bool \<Rightarrow> nat \<Rightarrow> app_button list" where
  "getButtons pkg failed revision =
     (case Option.bind (Option.bind (Option.bind pkg cip_detail) ipd_installedPackageRef) ipr_plugin of
        None \<Rightarrow> []
      | Some p \<Rightarrow>
          [UpgradeButton failed] @
          (if plugin_name p \<in> set getPluginsSupportingRollback then [RollbackButton revision failed] else []) @
          [DeleteButton])"

text \<open>\<open>identifier.split("/")[i]\<close>, which may be undefined.\<close>

definition identifier_part :: "nat \<Rightarrow> AvailablePackageReference option \<Rightarrow> string option" where
  "identifier_part i r = Option.bind r (\<lambda>ref.
     let parts = split_on CHR ''/'' (apr_identifier ref) in if i < length parts then Some (parts ! i) else None)"

definition has_custom_view ::
  "ICustomAppViewIdentifier list \<Rightarrow> AvailablePackageReference option \<Rightarrow> bool" where
  "has_custom_view views ref \<longleftrightarrow> list_ex (\<lambda>v.
     Some (cav_name v) = identifier_part 1 ref \<and>
     Some (cav_plugin v) = map_option plugin_name (Option.bind ref apr_plugin) \<and>
     Some (cav_repository v) = identifier_part 0 ref) views"

definition filterByResourceRefs :: "ResourceRef list \<Rightarrow> 'i jsobj \<Rightarrow> 'i list" where
  "filterByResourceRefs refs items = List.map_filter (\<lambda>r. obj_get items (keyForResourceRef r)) refs"

section \<open>The state of the workloads\<close>

record IWorkload =
  wl_name :: "json option"
  wl_replicas :: int
  wl_readyReplicas :: int
  wl_type :: string

definition flatten_item :: "IKubeItem \<Rightarrow> json list" where
  "flatten_item i = (case ki_item i of
     None \<Rightarrow> []
   | Some v \<Rightarrow>
       (let w = (if json_truthy v \<and> member_truthy v ''items''
                 then (case json_member v ''items'' of Some m \<Rightarrow> m | None \<Rightarrow> v) else v)
        in case w of JArr xs \<Rightarrow> xs | _ \<Rightarrow> [w]))"

definition flattenItemList :: "IKubeItem list \<Rightarrow> json list" where
  "flattenItemList items = filter json_truthy (concat (map flatten_item items))"

text \<open>\<open>get(w, "a.b", 0)\<close>; the counts of Kubernetes are numbers.\<close>

definition get_count :: "json \<Rightarrow> string \<Rightarrow> string \<Rightarrow> int" where
  "get_count w a b = (case Option.bind (json_member w a) (\<lambda>v. json_member v b) of
     Some (JNum n) \<Rightarrow> n | _ \<Rightarrow> 0)"

definition workload :: "string \<Rightarrow> string \<times> string \<Rightarrow> string \<times> string \<Rightarrow> json \<Rightarrow> js_error + IWorkload" where
  "workload type readyKey totalKey w = (case json_member w ''metadata'' of
     None \<Rightarrow> Inl (TypeError ''Cannot read properties of undefined (reading 'name')'')
   | Some JNull \<Rightarrow> Inl (TypeError ''Cannot read properties of null (reading 'name')'')
   | Some m \<Rightarrow> Inr
       \<lparr>wl_name = json_member m ''name'', wl_replicas = get_count w (fst totalKey) (snd totalKey),
        wl_readyReplicas = get_count w (fst readyKey) (snd readyKey), wl_type = type\<rparr>)"

definition workloads ::
  "IKubeItem list \<Rightarrow> IKubeItem list \<Rightarrow> IKubeItem list \<Rightarrow> js_error + IWorkload list" where
  "workloads deployments statefulsets daemonsets =
     map_sum id concat (traverse (\<lambda>(items, type, readyKey, totalKey).
         traverse (workload type readyKey totalKey) (flattenItemList items))
       [(deployments, ''deployment'', (''status'', ''availableReplicas''), (''spec'', ''replicas'')),
        (statefulsets, ''statefulset'', (''status'', ''readyReplicas''), (''spec'', ''replicas'')),
        (daemonsets, ''daemonset'', (''status'', ''numberReady''), (''status'', ''currentNumberScheduled''))])"

definition readyPods :: "IWorkload list \<Rightarrow> int" where
  "readyPods ws = sum_list (map wl_readyReplicas ws)"

definition totalPods :: "IWorkload list \<Rightarrow> int" where
  "totalPods ws = sum_list (map wl_replicas ws)"

definition reason_text :: "StatusReason \<Rightarrow> string" where
  "reason_text r = (case r of
     REASON_UNSPECIFIED \<Rightarrow> ''Unknown'' | REASON_INSTALLED \<Rightarrow> ''Installed''
   | REASON_UNINSTALLED \<Rightarrow> ''Deleted'' | REASON_FAILED \<Rightarrow> ''Failed'' | REASON_PENDING \<Rightarrow> ''Pending'')"

definition codeToString :: "InstalledPackageStatus option \<Rightarrow> string" where
  "codeToString status = (case status of
     None \<Rightarrow> ''Unknown''
   | Some s \<Rightarrow> reason_text (ips_reason s) @
       (if ips_userReason s \<noteq> [] then '' ('' @ ips_userReason s @ '')'' else []))"

datatype status_view =
    StatusLoading
  | AppDeleted
  | StatusText string
  | NoWorkload
  | PodChart bool int "IWorkload list"

text \<open>The first case that applies is shown; a status that is not specified counts as missing.\<close>

definition applicationStatus ::
  "IKubeItem list \<Rightarrow> IKubeItem list \<Rightarrow> IKubeItem list \<Rightarrow> InstalledPackageDetail option \<Rightarrow>
     js_error + status_view" where
  "applicationStatus deployments statefulsets daemonsets info =
     (case workloads deployments statefulsets daemonsets of
        Inl e \<Rightarrow> Inl e
      | Inr ws \<Rightarrow> Inr
          (let status = Option.bind info ipd_status;
               reason = (case status of None \<Rightarrow> REASON_UNSPECIFIED | Some s \<Rightarrow> ips_reason s)
           in if list_ex ki_isFetching (deployments @ statefulsets @ daemonsets) then StatusLoading
              else if reason = REASON_UNINSTALLED then AppDeleted
              else if reason \<notin> {REASON_UNSPECIFIED, REASON_INSTALLED, REASON_PENDING}
              then StatusText (codeToString status)
              else if totalPods ws = 0 then NoWorkload
              else PodChart (totalPods ws = readyPods ws) (readyPods ws) ws))"

section \<open>URLs\<close>

record IPort =
  port_port :: nat
  port_protocol :: string
  port_nodePort :: string

text \<open>An address of a load balancer; a status may be missing, and so may its addresses.\<close>

record LBAddress =
  lb_ip :: "string option"
  lb_hostname :: "string option"

record IService =
  svc_name :: string
  svc_type :: string
  svc_ports :: "IPort list"
  svc_status :: "LBAddress list option option"

record IIngressRule =
  ir_host :: string
  ir_paths :: "string list option"

record IIngress =
  ing_name :: string
  ing_rules :: "IIngressRule list option"
  ing_tls :: "string list option list option"
  ing_backend :: bool
  ing_status :: "LBAddress list option option"

record IURLItem =
  ui_name :: "string option"
  ui_type :: string
  ui_isLink :: bool
  ui_URLs :: "string list"

text \<open>The addresses of a status, if there are any.\<close>

definition lb_addresses :: "LBAddress list option option \<Rightarrow> LBAddress list" where
  "lb_addresses status = (case Option.bind status id of None \<Rightarrow> [] | Some is \<Rightarrow> is)"

definition service_isLink :: "IService option \<Rightarrow> bool" where
  "service_isLink svc = (case svc of None \<Rightarrow> False | Some s \<Rightarrow> lb_addresses (svc_status s) \<noteq> [])"

definition service_getURL :: "string \<Rightarrow> nat \<Rightarrow> string" where
  "service_getURL base port =
     (if port = 443 then ''https'' else ''http'') @ ''://'' @ base @
     (if port = 443 \<or> port = 80 then [] else '':'' @ show_nat port)"

definition address_hosts :: "LBAddress \<Rightarrow> string list" where
  "address_hosts i = filter (\<lambda>h. h \<noteq> []) (List.map_filter id [lb_hostname i, lb_ip i])"

definition service_URLs :: "IService option \<Rightarrow> string list" where
  "service_URLs svc = (case svc of
     None \<Rightarrow> [''Pending'']
   | Some s \<Rightarrow>
       (if lb_addresses (svc_status s) = [] then [''Pending'']
        else concat (map (\<lambda>i. concat (map (\<lambda>p. map (\<lambda>h. service_getURL h (port_port p)) (address_hosts i))
               (svc_ports s))) (lb_addresses (svc_status s)))))"

definition GetURLItemFromService :: "IService option \<Rightarrow> IURLItem" where
  "GetURLItemFromService svc =
     \<lparr>ui_name = map_option svc_name svc, ui_type = ''Service LoadBalancer'',
      ui_isLink = service_isLink svc, ui_URLs = service_URLs svc\<rparr>"

definition ingress_getURL :: "string option \<Rightarrow> string list option list option \<Rightarrow> string \<Rightarrow> string" where
  "ingress_getURL hostname tls path =
     (if (case tls of None \<Rightarrow> False
          | Some rules \<Rightarrow> list_ex (\<lambda>hosts. case (hosts, hostname) of
              (Some hs, Some h) \<Rightarrow> h \<in> set hs | _ \<Rightarrow> False) rules)
      then ''https'' else ''http'') @ ''://'' @ show_opt hostname @ path"

text \<open>
  Without rules, the address of the first load balancer is used: \<open>ingress[0]\<close> of addresses that are
  missing raises.
\<close>

definition ingress_URLs :: "IIngress \<Rightarrow> js_error + string list" where
  "ingress_URLs ing = (case ing_rules ing of
     Some rules \<Rightarrow> Inr (concat (map (\<lambda>r. case ir_paths r of
         Some (p # ps) \<Rightarrow> map (ingress_getURL (Some (ir_host r)) (ing_tls ing)) (p # ps)
       | _ \<Rightarrow> [ingress_getURL (Some (ir_host r)) (ing_tls ing) []]) rules))
   | None \<Rightarrow>
       (if \<not> ing_backend ing then Inr []
        else (case ing_status ing of
                None \<Rightarrow> Inr []
              | Some None \<Rightarrow> Inl (TypeError ''Cannot read properties of undefined (reading '0')'')
              | Some (Some []) \<Rightarrow> Inr []
              | Some (Some (i # is)) \<Rightarrow> Inr [ingress_getURL (lb_ip i) (ing_tls ing) []])))"

definition GetURLItemFromIngress :: "IIngress \<Rightarrow> js_error + IURLItem" where
  "GetURLItemFromIngress ing =
     map_sum id (\<lambda>urls. \<lparr>ui_name = Some (ing_name ing), ui_type = ''Ingress'', ui_isLink = True, ui_URLs = urls\<rparr>)
       (ingress_URLs ing)"

text \<open>
  Whether a URL is shown as a link. \<open>U\<close> is the constructor \<open>URL\<close> of the browser: the protocol and the path
  name of a valid URL.
\<close>

definition illegal_chars :: string where
  "illegal_chars = '':/?#[]@!$&'*+,;=''"

definition ShouldGenerateLink :: "(string \<Rightarrow> (string \<times> string) option) \<Rightarrow> string \<Rightarrow> bool" where
  "ShouldGenerateLink U url = (case U url of
     None \<Rightarrow> False
   | Some (protocol, pathname) \<Rightarrow>
       protocol \<in> {''http:'', ''https:''} \<and>
       \<not> list_ex (\<lambda>p. \<not> list_all (\<lambda>c. c \<notin> set illegal_chars) p) (split_on CHR ''/'' pathname))"

section \<open>The table of URLs\<close>

datatype 'r item_or_list = Single 'r | ItemList "'r list"

record 'r KItem =
  kit_isFetching :: bool
  kit_item :: "'r item_or_list option"
  kit_error :: "js_error option"

definition elemHasItems :: "'r KItem \<Rightarrow> bool" where
  "elemHasItems i \<longleftrightarrow> kit_error i \<noteq> None \<or> (kit_item i \<noteq> None \<and> kit_item i \<noteq> Some (ItemList []))"

definition hasItems :: "'a KItem list \<Rightarrow> 'b KItem list \<Rightarrow> bool" where
  "hasItems svcs ingresses \<longleftrightarrow> list_ex elemHasItems svcs \<or> list_ex elemHasItems ingresses"

text \<open>The load balancers, each as an item of its own; those of a list lose the error of their item.\<close>

definition filterPublicServices :: "IService KItem list \<Rightarrow> (IService \<times> js_error option) list" where
  "filterPublicServices services = concat (map (\<lambda>s. case kit_item s of
       None \<Rightarrow> []
     | Some (ItemList svcs) \<Rightarrow>
         map (\<lambda>v. (v, None)) (filter (\<lambda>v. svc_type v = ''LoadBalancer'') svcs)
     | Some (Single v) \<Rightarrow> if svc_type v = ''LoadBalancer'' then [(v, kit_error s)] else []) services)"

datatype url_cell = Anchor string | Span string | UnknownURL

datatype notes_cell = NotesError string | NotesUnknown | NotesIPs string | NotesNoIP

record url_row =
  row_urls :: "url_cell list"
  row_type :: string
  row_notes :: notes_cell

definition getNotes :: "LBAddress list option option option \<Rightarrow> notes_cell" where
  "getNotes status = (case status of
     None \<Rightarrow> NotesUnknown
   | Some s \<Rightarrow>
       (if lb_addresses s \<noteq> []
        then NotesIPs (join '', '' (map (\<lambda>i. opt_string (lb_ip i)) (lb_addresses s)))
        else NotesNoIP))"

definition row_notes_of :: "js_error option \<Rightarrow> LBAddress list option option option \<Rightarrow> notes_cell" where
  "row_notes_of e status = (case e of
     Some err \<Rightarrow> NotesError (error_message err) | None \<Rightarrow> getNotes status)"

definition service_row :: "IService \<times> js_error option \<Rightarrow> url_row" where
  "service_row svc =
     (let item = GetURLItemFromService (Some (fst svc)) in
      \<lparr>row_urls = (if ui_isLink item then map Anchor (ui_URLs item) else [Span (join '','' (ui_URLs item))]),
       row_type = ui_type item, row_notes = row_notes_of (snd svc) (Some (svc_status (fst svc)))\<rparr>)"

text \<open>A list in place of an ingress has no \<open>spec\<close> to read.\<close>

definition ingress_row ::
  "(string \<Rightarrow> (string \<times> string) option) \<Rightarrow> IIngress KItem \<Rightarrow> js_error + url_row" where
  "ingress_row U ingress = (case kit_item ingress of
     None \<Rightarrow> Inr \<lparr>row_urls = [UnknownURL], row_type = ''Ingress'', row_notes = row_notes_of (kit_error ingress) None\<rparr>
   | Some (ItemList is) \<Rightarrow> Inl (TypeError ''Cannot read properties of undefined (reading 'rules')'')
   | Some (Single v) \<Rightarrow> map_sum id (\<lambda>item.
       \<lparr>row_urls = map (\<lambda>u. if ShouldGenerateLink U u then Anchor u else Span u) (ui_URLs item),
        row_type = ''Ingress'', row_notes = row_notes_of (kit_error ingress) (Some (ing_status v))\<rparr>)
       (GetURLItemFromIngress v))"

datatype access_view = AccessLoading | AccessHidden | NoPublicURL | AccessRows "url_row list"

definition accessURLTable :: "(string \<Rightarrow> (string \<times> string) option) \<Rightarrow> IIngress KItem list \<Rightarrow>
    IService KItem list \<Rightarrow> js_error + access_view" where
  "accessURLTable U ingresses services =
     (if list_ex kit_isFetching ingresses \<or> list_ex kit_isFetching services then Inr AccessLoading
      else if \<not> hasItems services ingresses then Inr AccessHidden
      else if filterPublicServices services = [] \<and> ingresses = [] then Inr NoPublicURL
      else (case traverse (ingress_row U) ingresses of
              Inl e \<Rightarrow> Inl e
            | Inr rows \<Rightarrow> Inr (AccessRows (map service_row (filterPublicServices services) @ rows))))"

section \<open>Columns\<close>

definition getServiceExternalIP :: "IService \<Rightarrow> string" where
  "getServiceExternalIP s =
     (if svc_type s \<noteq> ''LoadBalancer'' then ''None''
      else (case lb_addresses (svc_status s) of
              [] \<Rightarrow> ''Pending''
            | i # is \<Rightarrow> str_or (opt_string (lb_hostname i)) (str_or (opt_string (lb_ip i)) ''Pending'')))"

definition getServicePorts :: "IService \<Rightarrow> string" where
  "getServicePorts s = join '', '' (map (\<lambda>p. show_nat (port_port p) @
       (if port_nodePort p \<noteq> [] then '':'' @ port_nodePort p else []) @ ''/'' @
       str_or (port_protocol p) ''TCP'') (svc_ports s))"

section \<open>Properties\<close>

definition of_kind :: "string \<Rightarrow> ResourceRef list \<Rightarrow> ResourceRef list" where
  "of_kind k refs = filter (\<lambda>r. rr_kind r = k) refs"

definition workload_kinds :: "string set" where
  "workload_kinds = {''Deployment'', ''StatefulSet'', ''DaemonSet'', ''Service'', ''Ingress'', ''Secret''}"

lemma parseResources_kinds:
  "parseResources refs =
     \<lparr>av_deployments = of_kind ''Deployment'' refs, av_statefulsets = of_kind ''StatefulSet'' refs,
      av_daemonsets = of_kind ''DaemonSet'' refs, av_services = of_kind ''Service'' refs,
      av_ingresses = of_kind ''Ingress'' refs, av_secrets = of_kind ''Secret'' refs,
      av_otherResources = filter (\<lambda>r. rr_kind r \<notin> workload_kinds) refs\<rparr>"
proof (induction refs rule: rev_induct)
  case Nil
  then show ?case by (simp add: parseResources_def no_refs_def of_kind_def)
next
  case (snoc r refs)
  then show ?case by (simp add: parseResources_def parse_ref_def of_kind_def workload_kinds_def)
qed

lemma mset_parsed:
  "mset (refsToGet (parseResources refs)) + mset (refsToWatch (parseResources refs)) = mset refs"
  unfolding parseResources_kinds
  by (induction refs) (auto simp: refsToGet_def refsToWatch_def of_kind_def workload_kinds_def)

text \<open>
  The resources of a package are requested completely and once. The requests of the view contain every
  reference of the answer exactly as often as the answer does; workloads, ingresses and services are
  watched, everything else is read once, and no request is empty.
\<close>
theorem resources_requested_once:
  assumes "refs \<noteq> []"
  shows "let qs = resource_requests (Some ref) (refs_effect refs parsed) in
    mset (concat (map (fst \<circ> snd) qs)) = mset refs \<and> (\<forall>q \<in> set qs. fst (snd q) \<noteq> []) \<and>
    (\<forall>(p, rs, watched) \<in> set qs. \<forall>r \<in> set rs. watched \<longleftrightarrow> rr_kind r \<in> workload_kinds - {''Secret''})"
proof -
  have watch: "rr_kind r \<in> workload_kinds - {''Secret''}" if "r \<in> set (refsToWatch (parseResources refs))" for r
    using that by (auto simp: refsToWatch_def parseResources_kinds of_kind_def workload_kinds_def)
  have get: "rr_kind r \<notin> workload_kinds - {''Secret''}" if "r \<in> set (refsToGet (parseResources refs))" for r
    using that by (auto simp: refsToGet_def parseResources_kinds of_kind_def)
  have "mset (concat (map (fst \<circ> snd) (resource_requests (Some ref) (parseResources refs)))) = mset refs"
    using mset_parsed [of refs] by (auto simp: resource_requests_def)
  then show ?thesis
    using assms watch get by (auto simp: refs_effect_def resource_requests_def Let_def split: if_splits)
qed

text \<open>The first answer that is not a missing package ends the polling.\<close>

lemma fetchResourceRefs_first:
  "list_all (\<lambda>a. \<exists>e. a = Inl e \<and> is_not_found e) before \<Longrightarrow>
     fetchResourceRefs (before @ answers) = fetchResourceRefs answers"
  by (induction before) auto

lemma sum_list_le_eq:
  fixes f g :: "'a \<Rightarrow> int"
  assumes "\<forall>x \<in> set xs. f x \<le> g x"
  shows "sum_list (map g xs) = sum_list (map f xs) \<longleftrightarrow> (\<forall>x \<in> set xs. f x = g x)"
  using assms
proof (induction xs)
  case (Cons x xs)
  then have "sum_list (map f xs) \<le> sum_list (map g xs)" by (intro sum_list_mono) auto
  then show ?case using Cons by force
qed simp

text \<open>
  An installed package whose resources are all there is shown as ready exactly when each of its workloads
  has all of its replicas, provided none has more ready replicas than it wants: only the sums over all
  workloads are compared.
\<close>
theorem ready_iff_all_ready:
  assumes "workloads ds ss dms = Inr ws" and "\<forall>w \<in> set ws. wl_readyReplicas w \<le> wl_replicas w"
    and "\<not> list_ex ki_isFetching (ds @ ss @ dms)" and "totalPods ws \<noteq> 0"
    and "Option.bind info ipd_status = None"
  shows "\<exists>r. applicationStatus ds ss dms info = Inr (PodChart r (readyPods ws) ws) \<and>
    (r \<longleftrightarrow> (\<forall>w \<in> set ws. wl_readyReplicas w = wl_replicas w))"
  using assms sum_list_le_eq [OF assms(2)]
  by (auto simp: applicationStatus_def totalPods_def readyPods_def)

lemma set_address_hosts:
  "set (address_hosts i) = {h. h \<noteq> [] \<and> (lb_hostname i = Some h \<or> lb_ip i = Some h)}"
  by (auto simp: address_hosts_def List.map_filter_simps split: option.splits)

text \<open>
  The URLs of a load balancer. Each has an entry for every host name and address of every ingress
  and every port, and nothing else; it is a link exactly when it has an address, and shows that it is
  pending otherwise.
\<close>
theorem service_urls_complete:
  "let item = GetURLItemFromService (Some s) in
     ui_isLink item = (lb_addresses (svc_status s) \<noteq> []) \<and>
     (\<not> ui_isLink item \<longrightarrow> ui_URLs item = [''Pending'']) \<and>
     (ui_isLink item \<longrightarrow> set (ui_URLs item) =
        {service_getURL h (port_port p) | h p i. i \<in> set (lb_addresses (svc_status s)) \<and>
           h \<noteq> [] \<and> (lb_hostname i = Some h \<or> lb_ip i = Some h) \<and> p \<in> set (svc_ports s)})"
proof (cases "lb_addresses (svc_status s) = []")
  case False
  then have "set (service_URLs (Some s)) = (\<Union>i \<in> set (lb_addresses (svc_status s)). \<Union>p \<in> set (svc_ports s).
      (\<lambda>h. service_getURL h (port_port p)) ` set (address_hosts i))"
    by (simp add: service_URLs_def)
  also have "\<dots> = {service_getURL h (port_port p) | h p i. i \<in> set (lb_addresses (svc_status s)) \<and>
      h \<noteq> [] \<and> (lb_hostname i = Some h \<or> lb_ip i = Some h) \<and> p \<in> set (svc_ports s)}"
    unfolding set_address_hosts by blast
  finally show ?thesis using False by (simp add: GetURLItemFromService_def service_isLink_def Let_def)
qed (simp add: GetURLItemFromService_def service_isLink_def service_URLs_def Let_def)


lemma append_colon_eq:
  assumes "CHR '':'' \<notin> set a" and "CHR '':'' \<notin> set b"
  shows "a @ CHR '':'' # s = b @ CHR '':'' # t \<longleftrightarrow> a = b \<and> s = t"
proof
  assume eq: "a @ CHR '':'' # s = b @ CHR '':'' # t"
  have "takeWhile (\<lambda>c. c \<noteq> CHR '':'') (a @ CHR '':'' # s) = a" "takeWhile (\<lambda>c. c \<noteq> CHR '':'') (b @ CHR '':'' # t) = b"
    using assms by (auto simp: takeWhile_until)
  then show "a = b \<and> s = t" using eq by simp
qed simp

lemma show_nat_inject: "show_nat m = show_nat n \<longleftrightarrow> m = n"
proof
  show "m = n" if "show_nat m = show_nat n"
    using that
  proof (induction m arbitrary: n rule: show_nat.induct)
    case (1 m)
    have ne: "show_nat k \<noteq> []" for k by (subst show_nat.simps) simp
    have digit: "i mod 10 = j mod 10"
      if "char_of (48 + i mod 10) = (char_of (48 + j mod 10) :: char)" for i j :: nat
    proof -
      from that have "(of_char (char_of (48 + i mod 10)) :: nat) = of_char (char_of (48 + j mod 10) :: char)" by simp
      then show ?thesis by simp
    qed
    show ?case
    proof (cases "m < 10")
      case True
      then have m: "show_nat m = [char_of (48 + m mod 10)]" by (subst show_nat.simps) simp
      have "n < 10"
      proof (rule ccontr)
        assume "\<not> n < 10"
        then have "show_nat n = show_nat (n div 10) @ [char_of (48 + n mod 10)]" by (subst show_nat.simps) simp
        then show False using 1(2) m ne [of "n div 10", symmetric] by simp
      qed
      then have "show_nat n = [char_of (48 + n mod 10)]" by (subst show_nat.simps) simp
      then show ?thesis using digit [of m n] 1(2) m \<open>n < 10\<close> True by simp
    next
      case False
      then have m: "show_nat m = show_nat (m div 10) @ [char_of (48 + m mod 10)]" by (subst show_nat.simps) simp
      have "\<not> n < 10"
      proof
        assume "n < 10"
        then have "show_nat n = [char_of (48 + n)]" by (subst show_nat.simps) simp
        then show False using 1(2) m ne by simp
      qed
      then have n: "show_nat n = show_nat (n div 10) @ [char_of (48 + n mod 10)]" by (subst show_nat.simps) simp
      then have "show_nat (m div 10) = show_nat (n div 10)" "m mod 10 = n mod 10"
        using 1(2) m digit [of m n] by simp_all
      then show ?thesis using 1(1) [OF False] by (metis div_mult_mod_eq)
    qed
  qed
qed simp

text \<open>
  Different services have different URLs: the URL of a load balancer determines its host and its port,
  for host names and addresses without a colon.
\<close>
theorem service_url_injective:
  assumes "CHR '':'' \<notin> set a" and "CHR '':'' \<notin> set b"
  shows "service_getURL a p = service_getURL b q \<longleftrightarrow> a = b \<and> p = q"
proof
  assume eq: "service_getURL a p = service_getURL b q"
  have no: "a \<noteq> b @ CHR '':'' # t" "b \<noteq> a @ CHR '':'' # t" for t using assms by auto
  from eq show "a = b \<and> p = q"
    by (auto simp: service_getURL_def no no [symmetric] append_colon_eq [OF assms] show_nat_inject split: if_splits)
qed simp

text \<open>An address of IP version 6 needs brackets; without them it reads as a host with a port.\<close>

lemma ipv6_urls_clash: "service_getURL ''fe80::1'' 8080 = service_getURL ''fe80::1:8080'' 80"
  by (simp add: service_getURL_def show_nat.simps char_of_def bit_0)

definition ingress_breaks :: "IIngress \<Rightarrow> bool" where
  "ingress_breaks i \<longleftrightarrow> ing_rules i = None \<and> ing_backend i \<and> ing_status i = Some None"

lemma ingress_URLs_error: "isl (ingress_URLs i) \<longleftrightarrow> ingress_breaks i"
  by (auto simp: ingress_URLs_def ingress_breaks_def split: option.splits list.splits)

lemma traverse_isl: "isl (traverse f xs) \<longleftrightarrow> (\<exists>x \<in> set xs. isl (f x))"
  by (induction xs) (auto split: sum.splits)

lemma isl_map_sum_right [simp]: "isl (map_sum id f x) \<longleftrightarrow> isl x"
  by (cases x) simp_all

text \<open>
  When the table of URLs breaks. With everything loaded and something to show, rendering it raises
  exactly when an ingress is a list, or has a default backend, no rules and a status without an address, as
  one that is still waiting for its load balancer has.
\<close>
theorem access_table_raises:
  assumes "\<not> list_ex kit_isFetching ingresses" and "\<not> list_ex kit_isFetching services"
    and "hasItems services ingresses"
  shows "isl (accessURLTable U ingresses services) \<longleftrightarrow>
    (\<exists>i \<in> set ingresses. (\<exists>l. kit_item i = Some (ItemList l)) \<or>
       (\<exists>v. kit_item i = Some (Single v) \<and> ingress_breaks v))"
proof -
  have row: "isl (ingress_row U i) \<longleftrightarrow> (\<exists>l. kit_item i = Some (ItemList l)) \<or>
      (\<exists>v. kit_item i = Some (Single v) \<and> ingress_breaks v)" for i
    by (auto simp: ingress_row_def GetURLItemFromIngress_def ingress_URLs_error
        split: option.splits item_or_list.splits)
  have "isl (traverse (ingress_row U) ingresses) \<longleftrightarrow> isl (accessURLTable U ingresses services)"
    using assms by (cases "filterPublicServices services = [] \<and> ingresses = []")
      (auto simp: accessURLTable_def split: sum.splits)
  then show ?thesis by (simp add: traverse_isl row)
qed


section \<open>Witnesses\<close>

definition sample_ref :: "string \<Rightarrow> string \<Rightarrow> ResourceRef" where
  "sample_ref kind name = \<lparr>rr_apiVersion = ''v1'', rr_kind = kind, rr_name = name, rr_namespace = ''dev''\<rparr>"

theorem resources_requested_once_witness:
  "mset (concat (map (fst \<circ> snd) (resource_requests
     (Some \<lparr>ipr_context = None, ipr_identifier = ''web'', ipr_plugin = None\<rparr>)
     (refs_effect [sample_ref ''Secret'' ''s'', sample_ref ''Service'' ''web''] no_refs)))) =
   {#sample_ref ''Secret'' ''s'', sample_ref ''Service'' ''web''#}"
  using resources_requested_once [of "[sample_ref ''Secret'' ''s'', sample_ref ''Service'' ''web'']"
      "\<lparr>ipr_context = None, ipr_identifier = ''web'', ipr_plugin = None\<rparr>" no_refs]
  by (simp add: Let_def)

definition sample_deployment :: "int \<Rightarrow> int \<Rightarrow> IKubeItem" where
  "sample_deployment ready wanted =
     \<lparr>ki_isFetching = False,
      ki_item = Some (JObj [(''metadata'', JObj [(''name'', JStr ''web'')]),
        (''status'', JObj [(''availableReplicas'', JNum ready)]), (''spec'', JObj [(''replicas'', JNum wanted)])]),
      ki_error = None\<rparr>"

lemma sample_deployment_workloads:
  "workloads [sample_deployment 1 2, sample_deployment 1 1] [] [] = Inr
     [\<lparr>wl_name = Some (JStr ''web''), wl_replicas = 2, wl_readyReplicas = 1, wl_type = ''deployment''\<rparr>,
      \<lparr>wl_name = Some (JStr ''web''), wl_replicas = 1, wl_readyReplicas = 1, wl_type = ''deployment''\<rparr>]"
  by (simp add: workloads_def flattenItemList_def flatten_item_def sample_deployment_def workload_def
      get_count_def member_truthy_def)

lemma sample_not_fetching: "\<not> ki_isFetching (sample_deployment ready wanted)"
  by (simp add: sample_deployment_def)

theorem ready_iff_all_ready_witness:
  "\<exists>ws. applicationStatus [sample_deployment 1 2, sample_deployment 1 1] [] [] None =
     Inr (PodChart False 2 ws)"
  using ready_iff_all_ready [OF sample_deployment_workloads, of None]
  by (auto simp: sample_not_fetching totalPods_def readyPods_def)

text \<open>More ready replicas than wanted, as during a rollout, hide a workload that is not ready.\<close>

lemma surge_hides_missing_replicas:
  "\<exists>ws. applicationStatus [sample_deployment 3 2, sample_deployment 0 1] [] [] None = Inr (PodChart True 3 ws)"
  by (simp add: applicationStatus_def workloads_def flattenItemList_def flatten_item_def sample_deployment_def
      workload_def get_count_def member_truthy_def totalPods_def readyPods_def)

theorem service_url_injective_witness:
  "service_getURL ''10.0.0.1'' 8080 \<noteq> service_getURL ''10.0.0.1'' 80"
  using service_url_injective [of "''10.0.0.1''" "''10.0.0.1''" 8080 80] by simp

definition waiting_ingress :: "IIngress KItem" where
  "waiting_ingress =
     \<lparr>kit_isFetching = False, kit_item = Some (Single \<lparr>ing_name = ''web'', ing_rules = None, ing_tls = None,
        ing_backend = True, ing_status = Some None\<rparr>), kit_error = None\<rparr>"

theorem access_table_raises_witness:
  "isl (accessURLTable (\<lambda>u. None) [waiting_ingress] [])"
  using access_table_raises [of "[waiting_ingress]" "[]" "\<lambda>u. None"]
  by (simp add: waiting_ingress_def hasItems_def elemHasItems_def ingress_breaks_def)

end
