(* ===== verification/Settling.thy ===== *)
theory Settling
  imports Sample_World "HOL-Library.Multiset"
begin

text \<open>
  What the pool of thunks guarantees whatever the thunks are: replies cannot go on for ever, and a pool with
  pending requests can always be brought to rest by answering them.
\<close>

section \<open>Parts of a process\<close>

inductive part_of :: "proc \<Rightarrow> proc \<Rightarrow> bool" where
  "part_of (k e) (Dispatch a k)"
| "part_of (f w) (Read f)"
| "part_of p (WriteStorage g p)"
| "part_of p (Navigate url p)"
| "part_of p (SetTheme t p)"
| "part_of (k r) (Await q k)"
| "part_of p (Send qs p)"
| "part_of (k' j r) (AwaitAny qs k')"
| "part_of p (Spawn p p')"
| "part_of p' (Spawn p p')"

inductive_simps part_of_simps [simp]:
  "part_of p Stop" "part_of p (Dispatch a k)" "part_of p (Read f)" "part_of p (WriteStorage g q)"
  "part_of p (Navigate url q)" "part_of p (SetTheme t q)" "part_of p (Await q k)" "part_of p (Send qs q)"
  "part_of p (AwaitAny qs k')" "part_of p (Spawn q q')"

definition parts :: "(proc \<times> proc) set" where
  "parts = {(p, q). part_of p q}"

lemma in_parts [simp]: "(p, q) \<in> parts \<longleftrightarrow> part_of p q"
  by (simp add: parts_def)

lemma wf_parts: "wf parts"
proof -
  have "Wellfounded.accp part_of p" for p
    by (induction p; rule accp.accI) auto
  then have "wfp part_of" by (simp add: wfp_iff_accp)
  then show ?thesis by (simp add: wfp_def parts_def)
qed

text \<open>What waits after a run is a part of what was run.\<close>

lemma parts_step: "part_of p' p \<Longrightarrow> (q, p') \<in> parts\<^sup>* \<Longrightarrow> (q, p) \<in> parts\<^sup>*"
  by (rule rtrancl_into_rtrancl) simp_all

lemma sync_parts: "q \<in> set (snd (sync R p w)) \<Longrightarrow> (q, p) \<in> parts\<^sup>*"
proof (induction p arbitrary: w)
  case (Dispatch a k)
  let ?e = "fst (dispatch_action R a w)"
  from Dispatch.prems have "q \<in> set (snd (sync R (k ?e) (snd (dispatch_action R a w))))"
    by (simp add: split_beta Let_def)
  then have "(q, k ?e) \<in> parts\<^sup>*" using Dispatch.IH [of "k ?e"] by blast
  then show ?case by (rule parts_step [OF part_of.intros(1)])
next
  case (Read f)
  then have "q \<in> set (snd (sync R (f w) w))" by (simp only: sync.simps)
  then have "(q, f w) \<in> parts\<^sup>*" by (rule Read.IH [OF rangeI])
  then show ?case by (rule parts_step [OF part_of.intros(2)])
next
  case (WriteStorage g p)
  then show ?case using parts_step [OF part_of.intros(3)] by simp
next
  case (Navigate url p)
  then show ?case using parts_step [OF part_of.intros(4)] by simp
next
  case (SetTheme t p)
  then show ?case using parts_step [OF part_of.intros(5)] by simp
next
  case (Send qs p)
  then show ?case using parts_step [OF part_of.intros(7)] by simp
next
  case (Spawn p1 p2)
  then have "q \<in> set (snd (sync R p1 w)) \<or> q \<in> set (snd (sync R p2 (fst (sync R p1 w))))"
    by (auto simp: split_beta Let_def)
  then show ?case
    using Spawn.IH parts_step [of p1 "Spawn p1 p2"] parts_step [of p2 "Spawn p1 p2"] by auto
qed (auto split: if_splits)

lemma reply_shrinks:
  assumes "pool_step R c (Reply i q r) c'"
  shows "(mset (snd c'), mset (snd c)) \<in> mult (parts\<^sup>+)"
proof -
  obtain w ps p p' w' qs where c: "c = (w, ps)" "i < length ps" "ps ! i = p" "part_of p' p"
    "sync R p' w = (w', qs)" "c' = (w', take i ps @ qs @ drop (Suc i) ps)"
    using assms by (cases rule: pool_step.cases) (force intro: part_of.intros)+
  have "(x, p) \<in> parts\<^sup>+" if "x \<in> set qs" for x
    using sync_parts [of x R p' w] that c(4,5) by (auto intro: rtrancl_into_trancl1)
  then have "(mset (take i ps @ drop (Suc i) ps) + mset qs, mset (take i ps @ drop (Suc i) ps) + {#p#})
      \<in> mult (parts\<^sup>+)"
    by (intro one_step_implies_mult) auto
  moreover have "mset ps = mset (take i ps @ drop (Suc i) ps) + {#p#}"
    using c(2,3) by (subst id_take_nth_drop [OF c(2)]) simp
  ultimately show ?thesis using c(1,6) by (simp add: ac_simps)
qed


section \<open>Coming to rest\<close>

fun waiting :: "proc \<Rightarrow> bool" where
  "waiting (Await q k) \<longleftrightarrow> True"
| "waiting (AwaitAny qs k) \<longleftrightarrow> qs \<noteq> []"
| "waiting _ \<longleftrightarrow> False"

lemma sync_waiting: "q \<in> set (snd (sync R p w)) \<Longrightarrow> waiting q"
  by (induction p arbitrary: w) (auto simp: split_beta Let_def split: if_splits)

lemma pool_step_waiting:
  "pool_step R c e c' \<Longrightarrow> \<forall>p \<in> set (snd c). waiting p \<Longrightarrow> \<forall>p \<in> set (snd c'). waiting p"
proof (induction rule: pool_step.induct)
  case (start p w w' qs ps)
  then show ?case using sync_waiting [of _ R p w] by auto
next
  case (reply i ps q k r w w' qs)
  then show ?case using sync_waiting [of _ R "k r" w] by (auto dest: in_set_takeD in_set_dropD)
next
  case (reply_any i ps reqs k j r w w' qs)
  then show ?case using sync_waiting [of _ R "k j r" w] by (auto dest: in_set_takeD in_set_dropD)
qed

lemma pool_steps_waiting:
  "pool_steps R c es c' \<Longrightarrow> \<forall>p \<in> set (snd c). waiting p \<Longrightarrow> \<forall>p \<in> set (snd c'). waiting p"
  by (induction rule: pool_steps.induct) (auto dest: pool_step_waiting)

lemma waiting_sync: "waiting p \<Longrightarrow> snd (sync R p w) = [p]"
  by (cases p) auto

lemma waiting_settle:
  "\<forall>p \<in> set ps. waiting p \<Longrightarrow> \<exists>fs w'. answered srv fs \<and> pool_steps R (w, ps) fs (w', [])"
proof (induction ps arbitrary: w)
  case Nil
  then show ?case by (intro exI [of _ "[]"]) (auto simp: answered_def)
next
  case (Cons p ps)
  then obtain es v where es: "answered srv es" "pool_steps R (w, p # ps) es (v, ps)"
    using exec_schedule [of srv R w p w ps] waiting_sync [of p R w] by auto
  obtain fs w' where "answered srv fs" "pool_steps R (v, ps) fs (w', [])"
    using Cons.IH [of v] Cons.prems by auto
  with es show ?case
    by (intro exI [of _ "es @ fs"] exI [of _ w']) (auto simp: answered_def intro: pool_steps_append)
qed


definition sample_request :: request where
  "sample_request = Http GET ''config.json'' None None"


end
