(* ===== verification/Operator_Flags.thy ===== *)
theory Operator_Flags
  imports Sample_World
begin

text \<open>
  An abstract view of the pending flags of the operators (\<open>reducers/operators.ts\<close>): the set of the elements
  that are being fetched. A request adds its element, an answer or an error removes it, and changing the
  namespace empties the set; the reducer implements this with one flag per element and their disjunction.
\<close>

section \<open>The elements as an enumeration\<close>

instantiation fetch_item :: enum
begin

definition enum_fetch_item :: "fetch_item list" where
  "enum_fetch_item = [ItemOLM, ItemOperator, ItemCSV, ItemResource, ItemSubscriptions]"

definition enum_all_fetch_item :: "(fetch_item \<Rightarrow> bool) \<Rightarrow> bool" where
  "enum_all_fetch_item P \<longleftrightarrow> list_all P Enum.enum"

definition enum_ex_fetch_item :: "(fetch_item \<Rightarrow> bool) \<Rightarrow> bool" where
  "enum_ex_fetch_item P \<longleftrightarrow> list_ex P Enum.enum"

instance
proof
  show "(UNIV :: fetch_item set) = set Enum.enum"
  proof (rule set_eqI)
    show "i \<in> UNIV \<longleftrightarrow> i \<in> set Enum.enum" for i :: fetch_item by (cases i) (simp_all add: enum_fetch_item_def)
  qed
  then show "Enum.enum_all P \<longleftrightarrow> Ball UNIV P" "Enum.enum_ex P \<longleftrightarrow> Bex UNIV P" for P :: "fetch_item \<Rightarrow> bool"
    by (simp_all add: enum_all_fetch_item_def enum_ex_fetch_item_def list_all_iff list_ex_iff)
qed (simp add: enum_fetch_item_def)

end

section \<open>The abstract machine\<close>

text \<open>What an action does to the pending elements.\<close>

datatype flag_event = Begins fetch_item | Ends fetch_item

fun flag_change :: "operator_action \<Rightarrow> flag_event" where
  "flag_change CheckingOLM = Begins ItemOLM"
| "flag_change OLMInstalled = Ends ItemOLM"
| "flag_change (ErrorOLMCheck e) = Ends ItemOLM"
| "flag_change RequestOperators = Begins ItemOperator"
| "flag_change (ReceiveOperators ops) = Ends ItemOperator"
| "flag_change RequestOperator = Begins ItemOperator"
| "flag_change (ReceiveOperator opr) = Ends ItemOperator"
| "flag_change (ErrorOperators e) = Ends ItemOperator"
| "flag_change CreatingOperator = Begins ItemOperator"
| "flag_change (OperatorCreated r) = Ends ItemOperator"
| "flag_change (ErrorOperatorCreate e) = Ends ItemOperator"
| "flag_change RequestCSVs = Begins ItemCSV"
| "flag_change (ReceiveCSVs cs) = Ends ItemCSV"
| "flag_change RequestCSV = Begins ItemCSV"
| "flag_change (ReceiveCSV c) = Ends ItemCSV"
| "flag_change (ErrorCSVs e) = Ends ItemCSV"
| "flag_change RequestSubscriptions = Begins ItemSubscriptions"
| "flag_change (ReceiveSubscriptions rs) = Ends ItemSubscriptions"
| "flag_change (ErrorSubscriptionList e) = Ends ItemSubscriptions"
| "flag_change CreatingResource = Begins ItemResource"
| "flag_change UpdatingResource = Begins ItemResource"
| "flag_change DeletingResource = Begins ItemResource"
| "flag_change RequestCustomResources = Begins ItemResource"
| "flag_change RequestCustomResource = Begins ItemResource"
| "flag_change (ResourceCreated r) = Ends ItemResource"
| "flag_change (ResourceUpdated r) = Ends ItemResource"
| "flag_change ResourceDeleted = Ends ItemResource"
| "flag_change (ErrorResourceDelete e) = Ends ItemResource"
| "flag_change (ErrorResourceCreate e) = Ends ItemResource"
| "flag_change (ErrorResourceUpdate e) = Ends ItemResource"
| "flag_change (ReceiveCustomResources rs) = Ends ItemResource"
| "flag_change (ErrorCustomResource e) = Ends ItemResource"
| "flag_change (ReceiveCustomResource r) = Ends ItemResource"

fun pending_step :: "fetch_item set \<Rightarrow> action \<Rightarrow> fetch_item set" where
  "pending_step P (OperatorA a) =
     (case flag_change a of Begins i \<Rightarrow> insert i P | Ends i \<Rightarrow> P - {i})"
| "pending_step P (NamespaceA (SetNamespaceState c n)) = {}"
| "pending_step P _ = P"

definition pending_elements :: "IOperatorsState \<Rightarrow> fetch_item set" where
  "pending_elements s = {i. get_elem i (op_isFetchingElem s)}"

section \<open>The refinement\<close>

lemma any_elem_iff: "any_elem f \<longleftrightarrow> (\<exists>i. get_elem i f)"
proof
  assume "\<exists>i. get_elem i f"
  then obtain i where "get_elem i f" ..
  then show "any_elem f" by (cases i) (auto simp: any_elem_def)
qed (auto simp: any_elem_def intro: exI [of _ ItemOLM] exI [of _ ItemOperator] exI [of _ ItemCSV]
      exI [of _ ItemResource] exI [of _ ItemSubscriptions])

lemma operator_step_elem:
  "op_isFetchingElem (operator_step s a) =
     (case flag_change a of Begins i \<Rightarrow> set_elem i True (op_isFetchingElem s)
      | Ends i \<Rightarrow> set_elem i False (op_isFetchingElem s))"
  by (cases a) simp_all

lemma no_pending: "\<not> get_elem i (op_isFetchingElem operatorsInitialState)"
  by (cases i) (simp_all add: operatorsInitialState_def)

lemma pending_refines: "pending_elements (operatorReducer s a) = pending_step (pending_elements s) a"
proof (cases a)
  case (OperatorA x)
  then show ?thesis
    by (auto simp: pending_elements_def operator_step_elem split: flag_event.split)
next
  case (NamespaceA x)
  then show ?thesis by (cases x) (simp_all add: pending_elements_def no_pending)
qed (simp_all add: pending_elements_def)

text \<open>
  C28: The flags of the operators implement a set of pending elements. After any sequence of actions, the
  elements whose flags are raised are those that were requested and neither answered nor abandoned by a
  change of the namespace since, and the loading flag is raised exactly when there is one.
\<close>
theorem operators_refine_pending:
  "let s = foldl operatorReducer operatorsInitialState as; P = foldl pending_step {} as
   in pending_elements s = P \<and> (op_isFetching s \<longleftrightarrow> P \<noteq> {})"
proof -
  have pending: "pending_elements (foldl operatorReducer s as) = foldl pending_step (pending_elements s) as" for s
    by (induction as arbitrary: s) (simp_all add: pending_refines)
  have inv: "operators_inv s \<Longrightarrow> operators_inv (foldl operatorReducer s as)" for s
    by (induction as arbitrary: s) (simp_all add: operatorReducer_inv)
  have "pending_elements operatorsInitialState = {}" by (simp add: pending_elements_def no_pending)
  then show ?thesis
    using pending [of operatorsInitialState] inv [OF operators_initial_inv]
    by (auto simp: operators_inv_def any_elem_iff pending_elements_def Let_def)
qed

end
