(* ===== verification/Deploy_Body.thy ===== *)
theory Deploy_Body
  imports Schema_Forms Sample_World "HOL-Library.Sublist"
begin

text \<open>
  The body of the forms that install and upgrade a package
  (\<open>components/DeploymentForm/DeploymentFormBody/DeploymentFormBody.tsx\<close>): the documents parsed from the
  values, the parameters of the visual editor, the changes not yet saved, the handlers and the effects
  that keep them in step. The container that holds the values is any extension of the record
  \<open>values_parent\<close>.
\<close>

section \<open>Values of form fields\<close>

text \<open>\<open>typeof v === "object"\<close> holds of null, arrays and objects.\<close>

fun typeof_object :: "json \<Rightarrow> bool" where
  "typeof_object JNull = True"
| "typeof_object (JArr xs) = True"
| "typeof_object (JObj ms) = True"
| "typeof_object _ = False"

definition getValueFromString :: "lib \<Rightarrow> string \<Rightarrow> string option \<Rightarrow> json" where
  "getValueFromString L value type =
     (let usedType = (if truthy type then the type else ''string'') in
      if usedType \<in> {''array'', ''object''}
      then (case json_parse L value of
              Inl e \<Rightarrow> JStr value
            | Inr r \<Rightarrow> if usedType = ''object'' \<and> \<not> typeof_object r then JStr value else r)
      else JStr value)"

text \<open>
  The libraries of the form: those of its parameters, the schema printed with an indentation
  (\<open>JSON.stringify(v, null, 2)\<close>) and lodash's \<open>toNumber\<close>.
\<close>

record body_lib =
  bl_form :: form_lib
  json_pretty :: "json \<Rightarrow> string"
  lodash_toNumber :: "string \<Rightarrow> json"

definition getValueFromEvent :: "body_lib \<Rightarrow> lib \<Rightarrow> string \<Rightarrow> string \<Rightarrow> json" where
  "getValueFromEvent B L type value =
     (if type = ''checkbox'' then JBool (value = ''true'')
      else if type = ''number'' \<or> type = ''range'' then lodash_toNumber B value
      else if type = ''array'' then getValueFromString L value (Some ''array'')
      else if type = ''object'' then getValueFromString L value (Some ''object'')
      else getValueFromString L value None)"

text \<open>\<open>JSON.stringify\<close> of a missing schema is undefined.\<close>

definition schemaToString :: "body_lib \<Rightarrow> json option \<Rightarrow> string option" where
  "schemaToString B schema = map_option (json_pretty B) schema"

section \<open>State\<close>

text \<open>What the container of the body keeps: the values, whether the user has changed them, and whether a request is under way.\<close>

record values_parent =
  vp_appValues :: string
  vp_valuesModified :: bool
  vp_isDeploying :: bool

record IDeploymentFormBodyProps =
  bp_deploymentEvent :: string
  bp_deployedValues :: "string option"
  bp_packagesIsFetching :: bool
  bp_selected :: SelectedPackage

text \<open>
  The local state of the body. A document that has not been parsed yet is the empty object \<open>{}\<close>, here
  \<open>None\<close>. \<open>fb_seen\<close> holds the dependencies the effects of the last rendering ran with, and
  \<open>fb_stale\<close> is raised when a dependency of the effect that extracts the parameters has been replaced
  since it last ran: the parsed documents and schemas are fresh objects every time, and \<open>fb_schemaParsed\<close>
  tells a parsed schema from the package's own object.
\<close>

record seen_deps =
  seen_packageValues :: "string option"
  seen_appValues :: "string option"
  seen_deployedValues :: "string option"
  seen_schema :: "json option option"
  seen_schemaString :: "string option option"

record 'd form_body =
  fb_params :: "form_param list"
  fb_packageNodes :: "'d option"
  fb_deployedNodes :: "'d option"
  fb_nodes :: "'d option"
  fb_packageSchemaString :: "string option"
  fb_schemaString :: "string option"
  fb_schema :: "json option"
  fb_schemaParsed :: bool
  fb_restoreModalIsOpen :: bool
  fb_isLoading :: bool
  fb_unsaved :: "json jsobj"
  fb_shouldSubmit :: bool
  fb_seen :: seen_deps
  fb_stale :: bool

text \<open>Nothing has been seen before the first rendering.\<close>

definition initial_body :: "'d form_body" where
  "initial_body =
     \<lparr>fb_params = [], fb_packageNodes = None, fb_deployedNodes = None, fb_nodes = None,
      fb_packageSchemaString = Some [], fb_schemaString = Some [], fb_schema = Some (JObj []),
      fb_schemaParsed = True, fb_restoreModalIsOpen = False, fb_isLoading = True, fb_unsaved = [], fb_shouldSubmit = False,
      fb_seen = \<lparr>seen_packageValues = None, seen_appValues = None, seen_deployedValues = None,
                 seen_schema = None, seen_schemaString = None\<rparr>,
      fb_stale = True\<rparr>"

text \<open>\<open>!isEmpty(schema?.properties)\<close>.\<close>

definition shouldRenderBasicForm :: "body_lib \<Rightarrow> json option \<Rightarrow> bool" where
  "shouldRenderBasicForm B schema =
     (case Option.bind schema (\<lambda>s. js_member s ''properties'') of
        None \<Rightarrow> False | Some p \<Rightarrow> \<not> lodash_isEmpty (bl_form B) p)"

section \<open>Effects\<close>

definition basic_params ::
  "'d yaml \<Rightarrow> body_lib \<Rightarrow> lib \<Rightarrow> IDeploymentFormBodyProps \<Rightarrow> 'd option \<Rightarrow> 'd form_body
     \<Rightarrow> js_error + form_param list" where
  "basic_params Y B L props nodes b =
     retrieveBasicFormParams (bl_form B) Y L nodes (fb_packageNodes b)
       (case fb_schema b of None \<Rightarrow> JNull | Some s \<Rightarrow> s) (bp_deploymentEvent props) (fb_deployedNodes b) []"

text \<open>The parameters are extracted again from the documents.\<close>

definition params_effect ::
  "'d yaml \<Rightarrow> body_lib \<Rightarrow> lib \<Rightarrow> IDeploymentFormBodyProps \<Rightarrow> 'd form_body \<Rightarrow> js_error + 'd form_body" where
  "params_effect Y B L props b =
     (if fb_stale b \<and> \<not> fb_isLoading b \<and> fb_nodes b \<noteq> None \<and> shouldRenderBasicForm B (fb_schema b)
      then map_sum id (\<lambda>ps. b\<lparr>fb_params := ps, fb_isLoading := False, fb_stale := False\<rparr>)
             (basic_params Y B L props (fb_nodes b) b)
      else Inr (b\<lparr>fb_stale := False\<rparr>))"

definition parsed_nodes :: "'d yaml \<Rightarrow> string option \<Rightarrow> 'd option \<Rightarrow> 'd option" where
  "parsed_nodes Y values old = (if truthy values then Some (yaml_parseDocument Y (the values)) else old)"

definition packageValues_effect ::
  "'d yaml \<Rightarrow> string option \<Rightarrow> 'd form_body \<Rightarrow> 'd form_body" where
  "packageValues_effect Y values b =
     (if truthy values
      then b\<lparr>fb_packageNodes := parsed_nodes Y values (fb_packageNodes b), fb_isLoading := False,
             fb_stale := True\<rparr>
      else b)"

definition appValues_effect :: "'d yaml \<Rightarrow> string option \<Rightarrow> 'd form_body \<Rightarrow> 'd form_body" where
  "appValues_effect Y values b =
     (if truthy values
      then b\<lparr>fb_nodes := parsed_nodes Y values (fb_nodes b), fb_isLoading := False, fb_stale := True\<rparr>
      else b)"

definition deployedValues_effect :: "'d yaml \<Rightarrow> string option \<Rightarrow> 'd form_body \<Rightarrow> 'd form_body" where
  "deployedValues_effect Y values b =
     (if truthy values
      then b\<lparr>fb_deployedNodes := parsed_nodes Y values (fb_deployedNodes b), fb_isLoading := False,
             fb_stale := True\<rparr>
      else b)"

definition schema_effect :: "body_lib \<Rightarrow> json option \<Rightarrow> 'd form_body \<Rightarrow> 'd form_body" where
  "schema_effect B schema b =
     b\<lparr>fb_packageSchemaString := schemaToString B schema, fb_schemaString := schemaToString B schema,
       fb_schema := schema, fb_schemaParsed := False, fb_isLoading := False, fb_stale := True\<rparr>"

definition schemaString_effect :: "lib \<Rightarrow> string option \<Rightarrow> 'd form_body \<Rightarrow> 'd form_body" where
  "schemaString_effect L s b =
     b\<lparr>fb_schema := Some (schemaToObject L s), fb_schemaParsed := True, fb_isLoading := False, fb_stale := True\<rparr>"

text \<open>
  The effects of one rendering, in the order they are declared: those whose dependencies differ from the
  ones seen last run. They all read what was rendered; what they set is seen by the next rendering.
\<close>

definition run_effects ::
  "'d yaml \<Rightarrow> body_lib \<Rightarrow> lib \<Rightarrow> IDeploymentFormBodyProps \<Rightarrow> string \<Rightarrow> 'd form_body
     \<Rightarrow> js_error + 'd form_body" where
  "run_effects Y B L props appValues b =
     (let sel = bp_selected props; seen = fb_seen b in
      case params_effect Y B L props b of
        Inl e \<Rightarrow> Inl e
      | Inr b1 \<Rightarrow>
          (let b2 = (if seen_packageValues seen \<noteq> sel_values sel
                     then packageValues_effect Y (sel_values sel) b1 else b1);
               b3 = (if seen_appValues seen \<noteq> Some appValues
                     then appValues_effect Y (Some appValues) b2 else b2);
               b4 = (if seen_deployedValues seen \<noteq> bp_deployedValues props
                     then deployedValues_effect Y (bp_deployedValues props) b3 else b3);
               b5 = (if seen_schema seen \<noteq> Some (sel_schema sel)
                     then schema_effect B (sel_schema sel) b4 else b4);
               b6 = (if seen_schemaString seen \<noteq> Some (fb_schemaString b)
                     then schemaString_effect L (fb_schemaString b) b5 else b5)
           in Inr (b6\<lparr>fb_seen :=
                \<lparr>seen_packageValues = sel_values sel, seen_appValues = Some appValues,
                 seen_deployedValues = bp_deployedValues props, seen_schema = Some (sel_schema sel),
                 seen_schemaString = Some (fb_schemaString b)\<rparr>\<rparr>)))"

text \<open>
  The renderings until nothing is left to do: three of them are enough
  (\<open>settle_body_stable\<close> below).
\<close>

definition settle_body ::
  "'d yaml \<Rightarrow> body_lib \<Rightarrow> lib \<Rightarrow> IDeploymentFormBodyProps \<Rightarrow> string \<Rightarrow> 'd form_body
     \<Rightarrow> js_error + 'd form_body" where
  "settle_body Y B L props appValues b =
     (case run_effects Y B L props appValues b of
        Inl e \<Rightarrow> Inl e
      | Inr b1 \<Rightarrow>
          (case run_effects Y B L props appValues b1 of
             Inl e \<Rightarrow> Inl e
           | Inr b2 \<Rightarrow> run_effects Y B L props appValues b2))"

section \<open>Handlers\<close>

definition setValues :: "string \<Rightarrow> 'p values_parent_scheme \<Rightarrow> 'p values_parent_scheme" where
  "setValues v p = p\<lparr>vp_appValues := v\<rparr>"

definition setValuesModified :: "'p values_parent_scheme \<Rightarrow> 'p values_parent_scheme" where
  "setValuesModified p = p\<lparr>vp_valuesModified := True\<rparr>"

text \<open>
  One unsaved change: it is put in the parameters, in the document and, printed, in the container. The
  documents and the parameters are changed in place, so the next change finds them changed. An exception
  leaves what was set before it.
\<close>

definition save_change ::
  "'d yaml \<Rightarrow> body_lib \<Rightarrow> string \<Rightarrow> json \<Rightarrow> 'd form_body \<Rightarrow> 'p values_parent_scheme
     \<Rightarrow> js_error option \<times> 'd form_body \<times> 'p values_parent_scheme" where
  "save_change Y B key value b p =
     (let b1 = b\<lparr>fb_isLoading := True,
                 fb_params := updateCurrentConfigByKey (bl_form B) (fb_params b) key (Some value) 1\<rparr>;
          p1 = setValuesModified p
      in case fb_nodes b of
           None \<Rightarrow> (Some (TypeError ''valuesNode.setIn is not a function''), b1, p1)
         | Some doc \<Rightarrow>
             (case setPathValueInYamlNode Y doc key (Some value) of
                Inl e \<Rightarrow> (Some e, b1, p1)
              | Inr doc' \<Rightarrow>
                  (case yaml_toString Y doc' of
                     Inl e \<Rightarrow> (Some e, b1\<lparr>fb_nodes := Some doc'\<rparr>, p1)
                   | Inr t \<Rightarrow> (None, b1\<lparr>fb_nodes := Some doc'\<rparr>, setValues t p1))))"

fun save_changes ::
  "'d yaml \<Rightarrow> body_lib \<Rightarrow> json jsobj \<Rightarrow> 'd form_body \<Rightarrow> 'p values_parent_scheme
     \<Rightarrow> js_error option \<times> 'd form_body \<times> 'p values_parent_scheme" where
  "save_changes Y B [] b p = (None, b, p)"
| "save_changes Y B ((key, value) # changes) b p =
     (case save_change Y B key value b p of
        (Some e, b', p') \<Rightarrow> (Some e, b', p')
      | (None, b', p') \<Rightarrow> save_changes Y B changes b' p')"

definition saveAllChanges ::
  "'d yaml \<Rightarrow> body_lib \<Rightarrow> 'd form_body \<Rightarrow> 'p values_parent_scheme
     \<Rightarrow> js_error option \<times> 'd form_body \<times> 'p values_parent_scheme" where
  "saveAllChanges Y B b p =
     (case save_changes Y B (fb_unsaved b) b p of
        (Some e, b', p') \<Rightarrow> (Some e, b', p')
      | (None, b', p') \<Rightarrow> (None, b'\<lparr>fb_unsaved := [], fb_isLoading := False\<rparr>, p'))"

text \<open>The form is submitted by an effect of the next rendering.\<close>

definition handleDeployClick ::
  "'d yaml \<Rightarrow> body_lib \<Rightarrow> 'd form_body \<Rightarrow> 'p values_parent_scheme
     \<Rightarrow> js_error option \<times> 'd form_body \<times> 'p values_parent_scheme" where
  "handleDeployClick Y B b p =
     (case saveAllChanges Y B b p of
        (Some e, b', p') \<Rightarrow> (Some e, b', p')
      | (None, b', p') \<Rightarrow> (None, b'\<lparr>fb_shouldSubmit := True\<rparr>, p'))"

definition handleYAMLEditorChange :: "string \<Rightarrow> 'p values_parent_scheme \<Rightarrow> 'p values_parent_scheme" where
  "handleYAMLEditorChange value p = setValuesModified (setValues value p)"

definition handleSchemaEditorChange :: "string \<Rightarrow> 'd form_body \<Rightarrow> 'd form_body" where
  "handleSchemaEditorChange value b = b\<lparr>fb_schemaString := Some value\<rparr>"

definition handleTableChange :: "string \<Rightarrow> json \<Rightarrow> 'd form_body \<Rightarrow> 'd form_body" where
  "handleTableChange key value b = b\<lparr>fb_unsaved := obj_set key value (fb_unsaved b)\<rparr>"

definition refreshBasicParameters ::
  "'d yaml \<Rightarrow> body_lib \<Rightarrow> lib \<Rightarrow> IDeploymentFormBodyProps \<Rightarrow> 'd form_body
     \<Rightarrow> js_error option \<times> 'd form_body" where
  "refreshBasicParameters Y B L props b =
     (if shouldRenderBasicForm B (fb_schema b)
      then (case basic_params Y B L props (fb_nodes b) b of
              Inl e \<Rightarrow> (Some e, b\<lparr>fb_isLoading := True\<rparr>)
            | Inr ps \<Rightarrow> (None, b\<lparr>fb_params := ps, fb_isLoading := False\<rparr>))
      else (None, b))"

text \<open>
  The defaults are the values of the package; the parameters are those of its document under the schema
  shown so far.
\<close>

definition restored :: "body_lib \<Rightarrow> IDeploymentFormBodyProps \<Rightarrow> 'd form_body \<Rightarrow> 'd form_body" where
  "restored B props b =
     b\<lparr>fb_isLoading := True, fb_schema := sel_schema (bp_selected props),
       fb_schemaString := schemaToString B (sel_schema (bp_selected props)),
       fb_schemaParsed := False, fb_stale := fb_stale b \<or> fb_schemaParsed b\<rparr>"

definition restoreDefaultValues ::
  "'d yaml \<Rightarrow> body_lib \<Rightarrow> lib \<Rightarrow> IDeploymentFormBodyProps \<Rightarrow> 'd form_body \<Rightarrow> 'p values_parent_scheme
     \<Rightarrow> js_error option \<times> 'd form_body \<times> 'p values_parent_scheme" where
  "restoreDefaultValues Y B L props b p =
     (let p1 = setValues (opt_string (sel_values (bp_selected props))) p; b1 = restored B props b in
      if shouldRenderBasicForm B (fb_schema b)
      then (case basic_params Y B L props (fb_packageNodes b) b of
              Inl e \<Rightarrow> (Some e, b1, p1)
            | Inr ps \<Rightarrow> (None, b1\<lparr>fb_params := ps, fb_restoreModalIsOpen := False, fb_isLoading := False\<rparr>, p1))
      else (None, b1\<lparr>fb_restoreModalIsOpen := False, fb_isLoading := False\<rparr>, p1))"

section \<open>Rendering\<close>

text \<open>What the body shows: an error, a spinner, or the tabs, of which the last depends on a feature flag.\<close>

datatype body_display = PackageError js_error | BodyLoading | BodyTabs "string list"

definition body_loading :: "body_lib \<Rightarrow> IDeploymentFormBodyProps \<Rightarrow> 'd form_body \<Rightarrow> bool" where
  "body_loading B props b \<longleftrightarrow>
     fb_isLoading b \<or> bp_packagesIsFetching props \<or>
     sel_availablePackageDetail (bp_selected props) = None \<or>
     (sel_versions (bp_selected props) = [] \<and> shouldRenderBasicForm B (fb_schema b) \<and>
      fb_params b \<noteq> [] \<and> fb_packageNodes b \<noteq> None)"

definition body_view :: "body_lib \<Rightarrow> bool \<Rightarrow> IDeploymentFormBodyProps \<Rightarrow> 'd form_body \<Rightarrow> body_display" where
  "body_view B schemaEditor props b =
     (case sel_error (bp_selected props) of
        Some e \<Rightarrow> PackageError e
      | None \<Rightarrow>
          (if body_loading B props b then BodyLoading
           else BodyTabs ((if shouldRenderBasicForm B (fb_schema b) then [''Visual editor''] else []) @
                  [''YAML editor''] @ (if schemaEditor then [''Schema editor (advanced)''] else []))))"

section \<open>Events\<close>

text \<open>
  What a user can do with the body, in any order, once it shows its tabs. Changing to a tab runs the
  handler of the tab.
\<close>

datatype body_event =
    TableChange string json
  | VisualTab
  | EditorTab
  | SaveManually
  | DeployClick
  | YAMLChange string
  | SchemaChange string
  | OpenRestore
  | CloseRestore
  | ConfirmRestore

fun body_handler ::
  "'d yaml \<Rightarrow> body_lib \<Rightarrow> lib \<Rightarrow> IDeploymentFormBodyProps \<Rightarrow> body_event
     \<Rightarrow> 'd form_body \<times> 'p values_parent_scheme
     \<Rightarrow> js_error option \<times> 'd form_body \<times> 'p values_parent_scheme" where
  "body_handler Y B L props (TableChange key value) (b, p) = (None, handleTableChange key value b, p)"
| "body_handler Y B L props VisualTab (b, p) =
     (let (e, b') = refreshBasicParameters Y B L props b in (e, b', p))"
| "body_handler Y B L props EditorTab (b, p) = saveAllChanges Y B b p"
| "body_handler Y B L props SaveManually (b, p) = saveAllChanges Y B b p"
| "body_handler Y B L props DeployClick (b, p) = handleDeployClick Y B b p"
| "body_handler Y B L props (YAMLChange v) (b, p) = (None, b, handleYAMLEditorChange v p)"
| "body_handler Y B L props (SchemaChange v) (b, p) =
     (None, handleSchemaEditorChange v b, setValuesModified p)"
| "body_handler Y B L props OpenRestore (b, p) = (None, b\<lparr>fb_restoreModalIsOpen := True\<rparr>, p)"
| "body_handler Y B L props CloseRestore (b, p) = (None, b\<lparr>fb_restoreModalIsOpen := False\<rparr>, p)"
| "body_handler Y B L props ConfirmRestore (b, p) = restoreDefaultValues Y B L props b p"

text \<open>
  An event is its handler and the renderings after it; the effect that submits the form runs in the first
  of them. What an event leads to besides the new state: an exception of the handler, an exception of an
  effect, which takes the page down, or a submission.
\<close>

datatype body_outcome = Quiet | Raised js_error | TornDown js_error | Submitted

definition body_step ::
  "'d yaml \<Rightarrow> body_lib \<Rightarrow> lib \<Rightarrow> IDeploymentFormBodyProps \<Rightarrow> body_event
     \<Rightarrow> 'd form_body \<times> 'p values_parent_scheme
     \<Rightarrow> body_outcome \<times> 'd form_body \<times> 'p values_parent_scheme" where
  "body_step Y B L props ev s =
     (case body_handler Y B L props ev s of
        (err, b, p) \<Rightarrow>
          (case settle_body Y B L props (vp_appValues p) (b\<lparr>fb_shouldSubmit := False\<rparr>) of
             Inl e \<Rightarrow> (TornDown e, b, p)
           | Inr b' \<Rightarrow>
               ((case err of Some e \<Rightarrow> Raised e
                 | None \<Rightarrow> if fb_shouldSubmit b then Submitted else Quiet), b', p)))"

section \<open>Several values in one document\<close>

text \<open>
  What a document promises between parsing and printing: a value set at a path is there and below it, paths
  on other branches keep theirs, a document that was set has contents, only collections have something
  below them, and printing loses nothing.
\<close>

definition yaml_doc_spec :: "'d yaml \<Rightarrow> bool" where
  "yaml_doc_spec Y \<longleftrightarrow>
     (\<forall>d p v d' q. yaml_setIn Y d p (Some v) = Inr d' \<longrightarrow>
        node_json (yaml_getIn Y d' (p @ q)) = json_at v q) \<and>
     (\<forall>d p v d' q. yaml_setIn Y d p (Some v) = Inr d' \<longrightarrow> \<not> prefix p q \<longrightarrow> \<not> prefix q p \<longrightarrow>
        yaml_getIn Y d' q = yaml_getIn Y d q) \<and>
     (\<forall>d p v d'. yaml_setIn Y d p (Some v) = Inr d' \<longrightarrow> p \<noteq> [] \<longrightarrow> \<not> yaml_isEmpty Y d') \<and>
     (\<forall>d p q. q \<noteq> [] \<longrightarrow> yaml_getIn Y d (p @ q) \<noteq> YUndefined \<longrightarrow> (\<exists>v. yaml_getIn Y d p = YNode v)) \<and>
     (\<forall>d t q. yaml_toString Y d = Inr t \<longrightarrow>
        node_json (yaml_getIn Y (yaml_parseDocument Y t) q) = node_json (yaml_getIn Y d q))"

lemmas doc_spec_parts = yaml_doc_spec_def [THEN iffD1]

lemma doc_set_there:
  assumes "yaml_doc_spec Y" and "yaml_setIn Y d p (Some v) = Inr d'"
  shows "node_json (yaml_getIn Y d' (p @ q)) = json_at v q"
  using conjunct1 [OF doc_spec_parts [OF assms(1)]] assms(2) by blast

lemma doc_set_elsewhere:
  assumes "yaml_doc_spec Y" and "yaml_setIn Y d p (Some v) = Inr d'" and "\<not> prefix p q" and "\<not> prefix q p"
  shows "yaml_getIn Y d' q = yaml_getIn Y d q"
  using conjunct1 [OF conjunct2 [OF doc_spec_parts [OF assms(1)]]] assms(2-4) by blast

lemma doc_set_nonempty:
  assumes "yaml_doc_spec Y" and "yaml_setIn Y d p (Some v) = Inr d'" and "p \<noteq> []"
  shows "\<not> yaml_isEmpty Y d'"
  using conjunct1 [OF conjunct2 [OF conjunct2 [OF doc_spec_parts [OF assms(1)]]]] assms(2,3) by blast

lemma doc_above:
  assumes "yaml_doc_spec Y" and "q \<noteq> []" and "yaml_getIn Y d (p @ q) \<noteq> YUndefined"
  shows "\<exists>v. yaml_getIn Y d p = YNode v"
  using conjunct1 [OF conjunct2 [OF conjunct2 [OF conjunct2 [OF doc_spec_parts [OF assms(1)]]]]] assms(2,3)
  by blast

lemma doc_print:
  assumes "yaml_doc_spec Y" and "yaml_toString Y d = Inr t"
  shows "node_json (yaml_getIn Y (yaml_parseDocument Y t) q) = node_json (yaml_getIn Y d q)"
  using conjunct2 [OF conjunct2 [OF conjunct2 [OF conjunct2 [OF doc_spec_parts [OF assms(1)]]]]] assms(2)
  by blast

lemma defined_from_stops:
  "defined_from Y d cur ps = cur @ qs \<Longrightarrow> ps = qs @ r # rs \<Longrightarrow> node_missing (yaml_getIn Y d (cur @ qs @ [r]))"
proof (induction ps arbitrary: cur qs)
  case (Cons a ps)
  show ?case
  proof (cases "node_missing (yaml_getIn Y d (cur @ [a]))")
    case True
    with Cons.prems(1) have "qs = []" by simp
    with True Cons.prems(2) show ?thesis by simp
  next
    case False
    obtain zs where zs: "defined_from Y d (cur @ [a]) ps = (cur @ [a]) @ zs"
      using defined_from_prefix by metis
    with Cons.prems(1) False have "qs = a # zs" by simp
    then show ?thesis using Cons.IH [OF zs] Cons.prems by simp
  qed
qed simp

text \<open>A document with contents at its root.\<close>

definition has_contents :: "'d yaml \<Rightarrow> 'd \<Rightarrow> bool" where
  "has_contents Y d \<longleftrightarrow> \<not> yaml_isEmpty Y d \<and> \<not> node_missing (yaml_getIn Y d [])"

text \<open>Where the value at a path of plain keys is set: at the path, or at its first element that is missing.\<close>

lemma plain_path_shape:
  assumes Y: "yaml_spec Y" and d: "has_contents Y d" and ks: "ks \<noteq> []" "\<forall>k \<in> set ks. plain_component k"
  obtains p q where "ks = p @ q" "p \<noteq> []" "q = [] \<or> node_missing (yaml_getIn Y d p)"
    "parsePathAndValue Y d (join ''/'' ks) (Some v) = (p, Some (json_nest q v))"
proof (cases "yaml_getIn Y d (butlast ks) = YUndefined")
  case False
  have "parsePathAndValue Y d (join ''/'' ks) (Some v) = (ks, Some (json_nest [] v))"
    using False d ks unescape_plain_path [OF Y, of ks]
    by (simp add: has_contents_def parsePathAndValue_def split_plain_path [OF ks] plain_component_def Let_def
        take_butlast)
  with ks(1) that [of ks "[]"] show thesis by simp
next
  case True
  define qs where "qs = getDefinedPath Y (butlast ks) d"
  obtain rs where rs: "butlast ks = qs @ rs"
    using defined_from_prefix [of Y d "[]" "butlast ks"] by (auto simp: qs_def getDefinedPath_def)
  have "\<not> node_missing (yaml_getIn Y d qs)"
    using defined_from_there [of Y d "[]" "butlast ks"] d
    by (simp add: qs_def getDefinedPath_def has_contents_def)
  then have "rs \<noteq> []" using rs True by (auto simp: node_missing_def)
  then obtain r rs' where r: "rs = r # rs'" by (cases rs) auto
  then have split: "ks = (qs @ [r]) @ (rs' @ [last ks])"
    using rs ks(1) by (metis append.assoc append_Cons append_Nil append_butlast_last_id)
  let ?p = "qs @ [r]" and ?q = "rs' @ [last ks]"
  have missing: "node_missing (yaml_getIn Y d ?p)"
  proof -
    have "defined_from Y d [] (butlast ks) = [] @ qs" by (simp add: qs_def getDefinedPath_def)
    from defined_from_stops [OF this] show ?thesis using rs r by simp
  qed
  have plain: "\<forall>k \<in> set ?q. plain_key k" "\<forall>k \<in> set ?p. CHR ''~'' \<notin> set k"
    using ks(2) split unfolding plain_component_def by (metis Un_iff set_append)+
  have "take (length qs + 1) ks = ?p" "drop (length qs + 1) ks = ?q"
    using split by (metis append_eq_conv_conj length_append_singleton Suc_eq_plus1)+
  then have "parsePathAndValue Y d (join ''/'' ks) (Some v) = (?p, Some (json_nest ?q v))"
    using True d plain unescape_plain_path [OF Y plain(2)] lodash_set_nests [OF Y, of ?q v]
    by (simp add: has_contents_def parsePathAndValue_def split_plain_path [OF ks] Let_def
        take_butlast flip: qs_def)
  with that [OF split] missing show thesis by simp
qed

lemma set_path_value:
  assumes Y: "yaml_spec Y" "yaml_doc_spec Y" and d: "has_contents Y d"
    and ks: "ks \<noteq> []" "\<forall>k \<in> set ks. plain_component k"
    and set: "setPathValueInYamlNode Y d (join ''/'' ks) (Some v) = Inr d'"
  shows "has_contents Y d'" and "node_json (yaml_getIn Y d' ks) = Some v"
    and "\<And>qs. ks \<parallel> qs \<Longrightarrow> \<not> node_missing (yaml_getIn Y d qs) \<Longrightarrow> yaml_getIn Y d' qs = yaml_getIn Y d qs"
proof -
  obtain p q where pq: "ks = p @ q" "p \<noteq> []" "q = [] \<or> node_missing (yaml_getIn Y d p)"
    "parsePathAndValue Y d (join ''/'' ks) (Some v) = (p, Some (json_nest q v))"
    using plain_path_shape [OF Y(1) d ks, of v] by metis
  then have setIn: "yaml_setIn Y d p (Some (json_nest q v)) = Inr d'"
    using set by (simp add: setPathValueInYamlNode_def)
  show there: "node_json (yaml_getIn Y d' ks) = Some v"
    using doc_set_there [OF Y(2) setIn, of q] pq(1) by (simp add: json_at_nest)
  have "yaml_getIn Y d' ([] @ ks) \<noteq> YUndefined" using there by (auto simp: node_json_def)
  then obtain w where "yaml_getIn Y d' [] = YNode w" using doc_above [OF Y(2) ks(1)] by blast
  then show "has_contents Y d'"
    using doc_set_nonempty [OF Y(2) setIn pq(2)] by (simp add: has_contents_def node_missing_def)
  show "yaml_getIn Y d' qs = yaml_getIn Y d qs" if "ks \<parallel> qs" "\<not> node_missing (yaml_getIn Y d qs)" for qs
  proof (rule doc_set_elsewhere [OF Y(2) setIn])
    show "\<not> prefix qs p" using that(1) pq(1) by (metis parallelD2 prefix_append prefix_order.trans)
    show "\<not> prefix p qs"
    proof
      assume "prefix p qs"
      then obtain r where r: "qs = p @ r" by (auto simp: prefix_def)
      have "r \<noteq> []" using that(1) pq(1) r by auto
      moreover have "yaml_getIn Y d (p @ r) \<noteq> YUndefined" using that(2) r by (auto simp: node_missing_def)
      ultimately obtain w where "yaml_getIn Y d p = YNode w" using doc_above [OF Y(2)] by blast
      then have "q = []" using pq(3) by (simp add: node_missing_def)
      then show False using that(1) pq(1) r by (simp add: parallel_def)
    qed
  qed
qed

text \<open>The changes of the form at their paths.\<close>

definition changes_at :: "(string list \<times> json) list \<Rightarrow> json jsobj" where
  "changes_at ws = map (\<lambda>(ks, v). (join ''/'' ks, v)) ws"

definition plain_changes :: "(string list \<times> json) list \<Rightarrow> bool" where
  "plain_changes ws \<longleftrightarrow>
     (\<forall>(ks, v) \<in> set ws. ks \<noteq> [] \<and> (\<forall>k \<in> set ks. plain_component k) \<and> v \<noteq> JNull) \<and>
     sorted_wrt (\<lambda>p q. p \<parallel> q) (map fst ws)"

lemma save_change_ok:
  assumes "save_change Y B key value b p = (None, b', p')"
  shows "\<exists>d d'. fb_nodes b = Some d \<and> setPathValueInYamlNode Y d key (Some value) = Inr d' \<and>
    fb_nodes b' = Some d' \<and> yaml_toString Y d' = Inr (vp_appValues p') \<and> vp_valuesModified p' \<and>
    fb_unsaved b' = fb_unsaved b"
  using assms
  by (auto simp: save_change_def setValues_def setValuesModified_def Let_def split: option.splits sum.splits)

lemma save_changes_values:
  assumes Y: "yaml_spec Y" "yaml_doc_spec Y"
  shows "save_changes Y B (changes_at ws) b p = (None, b', p') \<Longrightarrow> plain_changes ws \<Longrightarrow> ws \<noteq> [] \<Longrightarrow>
    fb_nodes b = Some d \<Longrightarrow> has_contents Y d \<Longrightarrow>
    \<exists>d'. fb_nodes b' = Some d' \<and> yaml_toString Y d' = Inr (vp_appValues p') \<and> vp_valuesModified p' \<and>
      (\<forall>(ks, v) \<in> set ws. node_json (yaml_getIn Y d' ks) = Some v) \<and>
      (\<forall>qs. (\<forall>(ks, v) \<in> set ws. ks \<parallel> qs) \<longrightarrow> \<not> node_missing (yaml_getIn Y d qs) \<longrightarrow>
         yaml_getIn Y d' qs = yaml_getIn Y d qs)"
proof (induction ws arbitrary: b p d)
  case (Cons w ws)
  obtain ks v where w: "w = (ks, v)" by (cases w)
  obtain b1 p1 where 1: "save_change Y B (join ''/'' ks) v b p = (None, b1, p1)"
    and rest: "save_changes Y B (changes_at ws) b1 p1 = (None, b', p')"
    using Cons.prems(1) w by (auto simp: changes_at_def split: prod.splits option.splits)
  from save_change_ok [OF 1] Cons.prems(4) obtain d1 where d1:
      "setPathValueInYamlNode Y d (join ''/'' ks) (Some v) = Inr d1" "fb_nodes b1 = Some d1"
      "yaml_toString Y d1 = Inr (vp_appValues p1)" "vp_valuesModified p1"
    by auto
  have plain: "ks \<noteq> []" "\<forall>k \<in> set ks. plain_component k" "v \<noteq> JNull" "plain_changes ws"
      "\<forall>(qs, u) \<in> set ws. ks \<parallel> qs"
    using Cons.prems(2) w by (auto simp: plain_changes_def)
  note set = set_path_value [OF Y Cons.prems(5) plain(1,2) d1(1)]
  show ?case
  proof (cases "ws = []")
    case True
    with rest d1 set w show ?thesis by (auto simp: changes_at_def)
  next
    case False
    obtain d' where d': "fb_nodes b' = Some d'" "yaml_toString Y d' = Inr (vp_appValues p')"
        "vp_valuesModified p'" "\<forall>(ks, v) \<in> set ws. node_json (yaml_getIn Y d' ks) = Some v"
        and keep: "\<And>qs. \<forall>(ks, v) \<in> set ws. ks \<parallel> qs \<Longrightarrow> \<not> node_missing (yaml_getIn Y d1 qs) \<Longrightarrow>
          yaml_getIn Y d' qs = yaml_getIn Y d1 qs"
      using Cons.IH [OF rest plain(4) False d1(2) set(1)] by blast
    have "\<not> node_missing (yaml_getIn Y d1 ks)"
      using set(2) plain(3) by (auto simp: node_missing_def node_json_def)
    then have "node_json (yaml_getIn Y d' ks) = Some v"
      using keep [of ks] plain(5) set(2) by (auto simp: parallel_commute)
    moreover have "yaml_getIn Y d' qs = yaml_getIn Y d qs"
      if "\<forall>(ks, v) \<in> set (w # ws). ks \<parallel> qs" "\<not> node_missing (yaml_getIn Y d qs)" for qs
      using that set(3) [of qs] keep [of qs] w by auto
    ultimately show ?thesis using d' w by auto
  qed
qed simp

section \<open>Renderings\<close>

definition current_deps :: "IDeploymentFormBodyProps \<Rightarrow> string \<Rightarrow> 'd form_body \<Rightarrow> seen_deps" where
  "current_deps props appValues b =
     \<lparr>seen_packageValues = sel_values (bp_selected props), seen_appValues = Some appValues,
      seen_deployedValues = bp_deployedValues props, seen_schema = Some (sel_schema (bp_selected props)),
      seen_schemaString = Some (fb_schemaString b)\<rparr>"

lemma params_effect_keeps:
  "params_effect Y B L props b = Inr b' \<Longrightarrow> \<not> fb_stale b' \<and> fb_seen b' = fb_seen b \<and>
     fb_schemaString b' = fb_schemaString b \<and> fb_schema b' = fb_schema b \<and> fb_nodes b' = fb_nodes b \<and>
     fb_packageNodes b' = fb_packageNodes b \<and> fb_unsaved b' = fb_unsaved b \<and>
     (fb_isLoading b' \<longleftrightarrow> fb_isLoading b)"
  by (auto simp: params_effect_def split: if_splits sum.splits)
    (auto simp: map_sum_def split: sum.splits)

lemma params_effect_fresh: "\<not> fb_stale b \<Longrightarrow> params_effect Y B L props b = Inr b"
  by (cases b) (simp add: params_effect_def)

lemma run_effects_seen:
  assumes "run_effects Y B L props v b = Inr b'"
  shows "fb_seen b' = current_deps props v b"
  using assms by (auto simp: run_effects_def current_deps_def Let_def split: sum.splits)

lemma run_effects_quiet:
  assumes "fb_seen b = current_deps props v b"
  shows "run_effects Y B L props v b = params_effect Y B L props b"
proof (cases "params_effect Y B L props b")
  case (Inr b1)
  then have "b1\<lparr>fb_seen := current_deps props v b\<rparr> = b1"
    using params_effect_keeps [OF Inr] assms by (cases b1) simp
  with Inr assms show ?thesis by (simp add: run_effects_def current_deps_def Let_def)
qed (simp add: run_effects_def)

lemma run_effects_schemaString:
  assumes "run_effects Y B L props v b = Inr b'" and "seen_schema (fb_seen b) = Some (sel_schema (bp_selected props))"
  shows "fb_schemaString b' = fb_schemaString b"
  using assms
  by (auto simp: run_effects_def Let_def packageValues_effect_def appValues_effect_def deployedValues_effect_def
      schemaString_effect_def split: sum.splits dest!: params_effect_keeps)

text \<open>
  The renderings after an event come to rest. After three of them no effect has anything left to do: a
  further rendering leaves the documents, the schema, the parameters and the flags of the body alone,
  whatever the event was and whatever the container's values and the package have become.
\<close>
theorem settle_body_stable:
  "(case settle_body Y B L props v b of
      Inl e \<Rightarrow> True
    | Inr b' \<Rightarrow> run_effects Y B L props v b' = Inr b' \<and> settle_body Y B L props v b' = Inr b')"
proof (cases "settle_body Y B L props v b")
  case (Inr b3)
  then obtain b1 b2 where 1: "run_effects Y B L props v b = Inr b1"
      and 2: "run_effects Y B L props v b1 = Inr b2" and 3: "run_effects Y B L props v b2 = Inr b3"
    by (auto simp: settle_body_def split: sum.splits)
  have "fb_schemaString b2 = fb_schemaString b1"
    using run_effects_schemaString [OF 2] run_effects_seen [OF 1] by (simp add: current_deps_def)
  then have "fb_seen b2 = current_deps props v b2"
    using run_effects_seen [OF 2] by (simp add: current_deps_def)
  then have "params_effect Y B L props b2 = Inr b3" and seen: "fb_seen b2 = current_deps props v b2"
    using 3 by (simp_all add: run_effects_quiet)
  note b3 = params_effect_keeps [OF this(1)]
  have "fb_seen b3 = current_deps props v b3" using b3 seen by (simp add: current_deps_def)
  then have "run_effects Y B L props v b3 = Inr b3"
    using b3 by (simp add: run_effects_quiet params_effect_fresh)
  with Inr show ?thesis by (simp add: settle_body_def)
qed simp

lemma settled_body:
  assumes "run_effects Y B L props v b = Inr b"
  shows "fb_seen b = current_deps props v b" and "\<not> fb_stale b"
proof -
  show seen: "fb_seen b = current_deps props v b" using run_effects_seen [OF assms] .
  then show "\<not> fb_stale b" using assms params_effect_keeps by (simp add: run_effects_quiet) blast
qed

lemmas effect_defs = packageValues_effect_def appValues_effect_def deployedValues_effect_def
  schema_effect_def schemaString_effect_def parsed_nodes_def

lemma effect_fields [simp]:
  "fb_nodes (packageValues_effect Y vs b) = fb_nodes b" "fb_unsaved (packageValues_effect Y vs b) = fb_unsaved b"
  "fb_nodes (appValues_effect Y vs b) = parsed_nodes Y vs (fb_nodes b)"
  "fb_unsaved (appValues_effect Y vs b) = fb_unsaved b"
  "fb_nodes (deployedValues_effect Y vs b) = fb_nodes b" "fb_unsaved (deployedValues_effect Y vs b) = fb_unsaved b"
  "fb_nodes (schema_effect B sch b) = fb_nodes b" "fb_unsaved (schema_effect B sch b) = fb_unsaved b"
  "fb_nodes (schemaString_effect L ss b) = fb_nodes b" "fb_unsaved (schemaString_effect L ss b) = fb_unsaved b"
  by (simp_all add: effect_defs)

lemma if_fields:
  "fb_nodes (if c then b1 else b2) = (if c then fb_nodes b1 else fb_nodes b2)"
  "fb_unsaved (if c then b1 else b2) = (if c then fb_unsaved b1 else fb_unsaved b2)"
  by simp_all

lemma run_effects_nodes:
  assumes "run_effects Y B L props v b = Inr b'"
  shows "fb_nodes b' = (if seen_appValues (fb_seen b) \<noteq> Some v \<and> v \<noteq> [] then Some (yaml_parseDocument Y v)
      else fb_nodes b)" and "seen_appValues (fb_seen b') = Some v" and "fb_unsaved b' = fb_unsaved b"
proof -
  obtain b1 where b1: "params_effect Y B L props b = Inr b1"
    using assms by (cases "params_effect Y B L props b") (simp_all add: run_effects_def)
  note assms [unfolded run_effects_def Let_def b1 sum.case, simplified]
  note b' = this [symmetric] and keeps = params_effect_keeps [OF b1]
  show "fb_nodes b' = (if seen_appValues (fb_seen b) \<noteq> Some v \<and> v \<noteq> [] then Some (yaml_parseDocument Y v)
      else fb_nodes b)"
    using keeps unfolding b' by (simp add: if_fields parsed_nodes_def truthy_def)
  show "seen_appValues (fb_seen b') = Some v" unfolding b' by simp
  show "fb_unsaved b' = fb_unsaved b" using keeps unfolding b' by (simp add: if_fields)
qed

lemma settle_body_nodes:
  assumes "settle_body Y B L props v b = Inr b'"
  shows "fb_nodes b' = (if seen_appValues (fb_seen b) \<noteq> Some v \<and> v \<noteq> [] then Some (yaml_parseDocument Y v)
      else fb_nodes b)" and "fb_unsaved b' = fb_unsaved b"
proof -
  obtain b1 b2 where "run_effects Y B L props v b = Inr b1" "run_effects Y B L props v b1 = Inr b2"
      "run_effects Y B L props v b2 = Inr b'"
    using assms by (auto simp: settle_body_def split: sum.splits)
  from this [THEN run_effects_nodes(1)] this [THEN run_effects_nodes(2)] this [THEN run_effects_nodes(3)]
  show "fb_nodes b' = (if seen_appValues (fb_seen b) \<noteq> Some v \<and> v \<noteq> [] then Some (yaml_parseDocument Y v)
      else fb_nodes b)" and "fb_unsaved b' = fb_unsaved b"
    by simp_all
qed

lemma settle_empty:
  "settle_body Y B L props [] b = Inr b' \<Longrightarrow> fb_nodes b' = fb_nodes b \<and> fb_unsaved b' = fb_unsaved b"
  by (simp add: settle_body_nodes)

lemma settle_rest:
  assumes "fb_seen b = current_deps props v b" and "\<not> fb_stale b"
  shows "settle_body Y B L props v b = Inr b"
  using run_effects_quiet [OF assms(1)] params_effect_fresh [OF assms(2)]
  by (simp add: settle_body_def)

section \<open>What is submitted\<close>

text \<open>Several events, one after the other.\<close>

fun body_run ::
  "'d yaml \<Rightarrow> body_lib \<Rightarrow> lib \<Rightarrow> IDeploymentFormBodyProps \<Rightarrow> body_event list
     \<Rightarrow> 'd form_body \<times> 'p values_parent_scheme
     \<Rightarrow> body_outcome list \<times> 'd form_body \<times> 'p values_parent_scheme" where
  "body_run Y B L props [] s = ([], s)"
| "body_run Y B L props (ev # evs) s =
     (let (o1, s1) = body_step Y B L props ev s; (os, s2) = body_run Y B L props evs s1 in (o1 # os, s2))"

lemma body_stepE:
  assumes "body_step Y B L props ev s = (out, b', p')" and "out \<noteq> TornDown e0"
    and "\<And>e. out \<noteq> TornDown e"
  obtains err b where "body_handler Y B L props ev s = (err, b, p')"
    and "settle_body Y B L props (vp_appValues p') (b\<lparr>fb_shouldSubmit := False\<rparr>) = Inr b'"
    and "out = (case err of Some e \<Rightarrow> Raised e | None \<Rightarrow> if fb_shouldSubmit b then Submitted else Quiet)"
proof -
  obtain err b p where h: "body_handler Y B L props ev s = (err, b, p)" by (metis prod_cases3)
  with assms that show thesis
    by (cases "settle_body Y B L props (vp_appValues p) (b\<lparr>fb_shouldSubmit := False\<rparr>)")
      (auto simp: body_step_def)
qed

lemma save_changes_unsaved:
  "save_changes Y B cs b p = (err, b', p') \<Longrightarrow> fb_unsaved b' = fb_unsaved b \<and> fb_seen b' = fb_seen b"
proof (induction Y B cs b p rule: save_changes.induct)
  case (2 Y B key val changes b p)
  obtain e1 b1 p1 where 1: "save_change Y B key val b p = (e1, b1, p1)" by (metis prod_cases3)
  then have "fb_unsaved b1 = fb_unsaved b \<and> fb_seen b1 = fb_seen b"
    by (auto simp: save_change_def Let_def split: option.splits sum.splits)
  with 1 2 show ?case by (cases e1) auto
qed simp

text \<open>The submission of a form with unsaved changes: the document they were set in is the one submitted.\<close>

lemma deploy_click_values:
  assumes "yaml_spec Y" "yaml_doc_spec Y" and "fb_unsaved b = changes_at ws" "plain_changes ws" "ws \<noteq> []"
    and "fb_nodes b = Some d" "has_contents Y d"
    and "body_step Y B L props DeployClick (b, p) = (Submitted, b', p')"
  shows "fb_unsaved b' = []" "vp_valuesModified p'"
    and "\<And>ks v. (ks, v) \<in> set ws \<Longrightarrow>
      node_json (yaml_getIn Y (yaml_parseDocument Y (vp_appValues p')) ks) = Some v"
    and "\<And>qs. \<forall>(ks, v) \<in> set ws. ks \<parallel> qs \<Longrightarrow> \<not> node_missing (yaml_getIn Y d qs) \<Longrightarrow>
      node_json (yaml_getIn Y (yaml_parseDocument Y (vp_appValues p')) qs) = node_json (yaml_getIn Y d qs)"
proof -
  obtain err b1 where h: "body_handler Y B L props DeployClick (b, p) = (err, b1, p')"
      and st: "settle_body Y B L props (vp_appValues p') (b1\<lparr>fb_shouldSubmit := False\<rparr>) = Inr b'"
      and out: "Submitted = (case err of Some e \<Rightarrow> Raised e | None \<Rightarrow> if fb_shouldSubmit b1 then Submitted else Quiet)"
    using assms(8) by (rule body_stepE) auto
  from out h obtain b0 where saved: "save_changes Y B (changes_at ws) b p = (None, b0, p')"
      and b1: "fb_unsaved b1 = []"
    using assms(3) by (auto simp: handleDeployClick_def saveAllChanges_def split: prod.splits option.splits)
  show "fb_unsaved b' = []" using settle_body_nodes(2) [OF st] b1 by simp
  obtain d' where d': "yaml_toString Y d' = Inr (vp_appValues p')" "vp_valuesModified p'"
      "\<forall>(ks, v) \<in> set ws. node_json (yaml_getIn Y d' ks) = Some v"
      and keep: "\<And>qs. \<forall>(ks, v) \<in> set ws. ks \<parallel> qs \<Longrightarrow> \<not> node_missing (yaml_getIn Y d qs) \<Longrightarrow>
        yaml_getIn Y d' qs = yaml_getIn Y d qs"
    using save_changes_values [OF assms(1,2) saved assms(4-7)] by blast
  show "vp_valuesModified p'" using d' by simp
  show "node_json (yaml_getIn Y (yaml_parseDocument Y (vp_appValues p')) ks) = Some v"
    if "(ks, v) \<in> set ws" for ks v
    using d'(3) that doc_print [OF assms(2) d'(1)] by auto
  show "node_json (yaml_getIn Y (yaml_parseDocument Y (vp_appValues p')) qs) = node_json (yaml_getIn Y d qs)"
    if "\<forall>(ks, v) \<in> set ws. ks \<parallel> qs" "\<not> node_missing (yaml_getIn Y d qs)" for qs
    using keep [OF that] doc_print [OF assms(2) d'(1)] by simp
qed

section \<open>Properties\<close>


text \<open>
  A change that cannot be saved blocks the form. If the first unsaved change cannot be set in the
  document, as below a parent that is null, deploying raises, and the body is left with its spinner:
  nothing is submitted, the values are as before, and every rendering shows the spinner again until the
  package or its values change.
\<close>
theorem failed_save_blocks_form:
  assumes "fb_unsaved b = (key, v) # rest" and "fb_nodes b = Some d"
    and "setPathValueInYamlNode Y d key (Some v) = Inl e"
    and "run_effects Y B L props (vp_appValues p) b = Inr b" and "sel_error (bp_selected props) = None"
  shows "\<exists>b' p'. body_step Y B L props DeployClick (b, p) = (Raised e, b', p') \<and>
    vp_appValues p' = vp_appValues p \<and> fb_unsaved b' = fb_unsaved b \<and>
    body_view B schemaEditor props b' = BodyLoading \<and>
    settle_body Y B L props (vp_appValues p') b' = Inr b'"
proof -
  let ?b = "b\<lparr>fb_isLoading := True, fb_params := updateCurrentConfigByKey (bl_form B) (fb_params b) key (Some v) 1,
              fb_shouldSubmit := False\<rparr>"
  have h: "body_handler Y B L props DeployClick (b, p) =
      (Some e, b\<lparr>fb_isLoading := True, fb_params := updateCurrentConfigByKey (bl_form B) (fb_params b) key (Some v) 1\<rparr>,
       setValuesModified p)"
    using assms(1-3) by (simp add: handleDeployClick_def saveAllChanges_def save_change_def Let_def)
  have rest: "settle_body Y B L props (vp_appValues p) ?b = Inr ?b"
    using settled_body [OF assms(4)] by (intro settle_rest) (simp_all add: current_deps_def)
  then have "body_step Y B L props DeployClick (b, p) = (Raised e, ?b, setValuesModified p)"
    using h by (simp add: body_step_def setValuesModified_def)
  with rest assms(5) show ?thesis
    by (simp add: setValuesModified_def body_view_def body_loading_def)
qed

text \<open>
  Emptying the editor does not empty the values. The document is parsed again only from values that
  are not empty: when the user empties the YAML editor and then changes one parameter in the visual editor,
  what is submitted has every other value of the old document again.
\<close>
theorem cleared_values_return:
  assumes "yaml_spec Y" "yaml_doc_spec Y" and "fb_unsaved b = []" and "fb_nodes b = Some d" "has_contents Y d"
    and "ks \<noteq> []" "\<forall>k \<in> set ks. plain_component k" "v \<noteq> JNull"
    and "body_run Y B L props [YAMLChange [], TableChange (join ''/'' ks) v, DeployClick] (b, p) =
      ([Quiet, Quiet, Submitted], b', p')"
  shows "\<forall>qs. ks \<parallel> qs \<longrightarrow> \<not> node_missing (yaml_getIn Y d qs) \<longrightarrow>
    node_json (yaml_getIn Y (yaml_parseDocument Y (vp_appValues p')) qs) = node_json (yaml_getIn Y d qs)"
proof -
  obtain b1 p1 b2 p2 where 1: "body_step Y B L props (YAMLChange []) (b, p) = (Quiet, b1, p1)"
      and 2: "body_step Y B L props (TableChange (join ''/'' ks) v) (b1, p1) = (Quiet, b2, p2)"
      and 3: "body_step Y B L props DeployClick (b2, p2) = (Submitted, b', p')"
    using assms(9) by (auto split: prod.splits)
  have v1: "vp_appValues p1 = []" and nodes1: "fb_nodes b1 = Some d" and un1: "fb_unsaved b1 = []"
    using 1 assms(3,4)
    by (auto simp: body_step_def handleYAMLEditorChange_def setValues_def setValuesModified_def
        split: sum.splits dest!: settle_empty)
  have nodes2: "fb_nodes b2 = Some d" and un2: "fb_unsaved b2 = changes_at [(ks, v)]"
    using 2 v1 nodes1 un1
    by (auto simp: body_step_def handleTableChange_def changes_at_def split: sum.splits dest!: settle_empty)
  have "plain_changes [(ks, v)]" using assms(6-8) by (simp add: plain_changes_def)
  from deploy_click_values(4) [OF assms(1,2) un2 this _ nodes2 assms(5) 3] show ?thesis by simp
qed

text \<open>
  Restoring the defaults does not drop the unsaved changes. Whatever the user had changed in the visual
  editor before confirming the dialog is still pending after it, and deploying submits it on top of the
  defaults.
\<close>
theorem restore_keeps_unsaved:
  assumes "yaml_spec Y" "yaml_doc_spec Y" and "fb_unsaved b = changes_at ws" "plain_changes ws" "ws \<noteq> []"
    and "sel_values (bp_selected props) = Some defaults" "defaults \<noteq> []"
    and "has_contents Y (yaml_parseDocument Y defaults)"
    and "run_effects Y B L props (vp_appValues p) b = Inr b" "vp_appValues p \<noteq> defaults"
    and "body_run Y B L props [ConfirmRestore, DeployClick] (b, p) = ([Quiet, Submitted], b', p')"
  shows "\<forall>(ks, v) \<in> set ws. node_json (yaml_getIn Y (yaml_parseDocument Y (vp_appValues p')) ks) = Some v"
proof -
  obtain b1 p1 where 1: "body_step Y B L props ConfirmRestore (b, p) = (Quiet, b1, p1)"
      and 2: "body_step Y B L props DeployClick (b1, p1) = (Submitted, b', p')"
    using assms(11) by (auto split: prod.splits)
  obtain err b0 where h: "body_handler Y B L props ConfirmRestore (b, p) = (err, b0, p1)"
      and st: "settle_body Y B L props (vp_appValues p1) (b0\<lparr>fb_shouldSubmit := False\<rparr>) = Inr b1"
    using 1 by (rule body_stepE) auto
  from h have "vp_appValues p1 = defaults" "fb_unsaved b0 = fb_unsaved b" "fb_seen b0 = fb_seen b"
    using assms(6)
    by (auto simp: restoreDefaultValues_def restored_def setValues_def opt_string_def Let_def
        split: sum.splits if_splits)
  moreover have "seen_appValues (fb_seen b) = Some (vp_appValues p)"
    using settled_body(1) [OF assms(9)] by (simp add: current_deps_def)
  ultimately have b1: "fb_nodes b1 = Some (yaml_parseDocument Y defaults)" "fb_unsaved b1 = changes_at ws"
    using settle_body_nodes [OF st] assms(3,7,10) by auto
  show ?thesis using deploy_click_values(3) [OF assms(1,2) b1(2) assms(4,5) b1(1) assms(8) 2] by auto
qed

section \<open>Witnesses\<close>

lemma sample_node: "node_json (yaml_getIn sample_yaml d p) = json_at d p"
  by (auto simp: sample_yaml_def node_json_def split: option.splits json.splits)

lemma sample_undefined: "yaml_getIn sample_yaml d p = YUndefined \<longleftrightarrow> json_at d p = None"
  by (auto simp: sample_yaml_def split: option.splits json.splits)

lemma json_put_elsewhere:
  "json_put p w d = Some d' \<Longrightarrow> \<not> prefix p q \<Longrightarrow> \<not> prefix q p \<Longrightarrow> json_at d' q = json_at d q"
proof (induction p w d arbitrary: d' q rule: json_put.induct)
  case (2 k ks w ms)
  then obtain j js where q: "q = j # js" by (cases q) auto
  with 2 show ?case by (auto split: if_splits option.splits)
qed auto

lemma json_at_above: "json_at d (p @ q) \<noteq> None \<Longrightarrow> q \<noteq> [] \<Longrightarrow> \<exists>ms. json_at d p = Some (JObj ms)"
proof (induction d p rule: json_at.induct)
  case (1 v)
  then show ?case by (cases q; cases v) auto
next
  case (2 v k ks)
  then show ?case by (cases v) (auto simp: bind_eq_Some_conv)
qed

lemma json_put_object: "json_put p w d = Some d' \<Longrightarrow> p \<noteq> [] \<Longrightarrow> d' \<noteq> JNull"
  by (cases "(p, w, d)" rule: json_put.cases) (auto split: if_splits option.splits)

lemma sample_setIn: "yaml_setIn sample_yaml d p (Some v) = Inr d' \<longleftrightarrow> json_put p v d = Some d'"
  by (auto simp: sample_yaml_def split: option.splits)

lemma sample_getIn_eq: "json_at d p = json_at d' q \<Longrightarrow> yaml_getIn sample_yaml d p = yaml_getIn sample_yaml d' q"
  by (simp add: sample_yaml_def)

lemma sample_doc_spec: "yaml_doc_spec sample_yaml"
  unfolding yaml_doc_spec_def
proof (intro conjI allI impI)
  fix d p v d' q
  assume set: "yaml_setIn sample_yaml d p (Some v) = Inr d'"
  then show "node_json (yaml_getIn sample_yaml d' (p @ q)) = json_at v q"
    by (simp add: sample_setIn sample_node json_put_at)
  show "yaml_getIn sample_yaml d' q = yaml_getIn sample_yaml d q" if "\<not> prefix p q" "\<not> prefix q p"
    using set that by (auto simp: sample_setIn intro: sample_getIn_eq json_put_elsewhere)
  show "\<not> yaml_isEmpty sample_yaml d'" if "p \<noteq> []"
    using set that json_put_object [of p v d d'] by (simp add: sample_setIn) (simp add: sample_yaml_def)
next
  fix d p q
  assume q: "q \<noteq> []" "yaml_getIn sample_yaml d (p @ q) \<noteq> YUndefined"
  then obtain ms where "json_at d p = Some (JObj ms)"
    using json_at_above [of d p q] by (auto simp: sample_undefined)
  then show "\<exists>v. yaml_getIn sample_yaml d p = YNode v" by (simp add: sample_yaml_def)
next
  fix d t q
  assume "yaml_toString sample_yaml d = Inr t"
  then have "yaml_parseDocument sample_yaml t = d"
    by (auto simp: sample_yaml_def sample_print_parse split: option.splits)
  then show "node_json (yaml_getIn sample_yaml (yaml_parseDocument sample_yaml t) q) =
      node_json (yaml_getIn sample_yaml d q)" by simp
qed

definition sample_body_lib :: body_lib where
  "sample_body_lib =
     \<lparr>bl_form = sample_form_lib, json_pretty = (\<lambda>v. ''{}''), lodash_toNumber = (\<lambda>s. JNum (int (length s)))\<rparr>"

definition sample_body_props :: "string option \<Rightarrow> IDeploymentFormBodyProps" where
  "sample_body_props defaults =
     \<lparr>bp_deploymentEvent = ''install'', bp_deployedValues = None, bp_packagesIsFetching = False,
      bp_selected = selected_initial\<lparr>sel_values := defaults\<rparr>\<rparr>"

text \<open>The body at rest with a document as its values, and changes that are not saved.\<close>

definition sample_body :: "string \<Rightarrow> string option \<Rightarrow> json jsobj \<Rightarrow> json form_body" where
  "sample_body values defaults changes =
     initial_body\<lparr>fb_nodes := Some (yaml_parseDocument sample_yaml values), fb_isLoading := False,
       fb_schemaString := None, fb_unsaved := changes, fb_stale := False,
       fb_seen := current_deps (sample_body_props defaults) values
         (initial_body\<lparr>fb_schemaString := None\<rparr> :: json form_body)\<rparr>"

definition sample_values :: "string \<Rightarrow> values_parent" where
  "sample_values values = \<lparr>vp_appValues = values, vp_valuesModified = False, vp_isDeploying = False\<rparr>"

lemmas sample_body_defs = sample_body_def sample_body_lib_def sample_body_props_def sample_values_def
  initial_body_def current_deps_def selected_initial_def

lemmas body_eval = body_step_def handleDeployClick_def saveAllChanges_def save_change_def
  setPathValueInYamlNode_def parsePathAndValue_def splitPathBySlash_def drop_first_slash_def
  unescapePath_def getDefinedPath_def node_missing_def settle_body_def run_effects_def params_effect_def
  effect_defs setValues_def setValuesModified_def handleTableChange_def handleYAMLEditorChange_def
  restoreDefaultValues_def restored_def shouldRenderBasicForm_def schemaToString_def schemaToObject_def
  truthy_def opt_string_def js_member_def Let_def

lemmas sample_eval = sample_body_defs sample_yaml_def sample_texts_def unescape_tilde_plain

lemma sample_contents: "has_contents sample_yaml (yaml_parseDocument sample_yaml ''replicas'')"
  by (simp add: has_contents_def sample_yaml_def sample_texts_def node_missing_def)

lemma sample_body_fields [simp]:
  "fb_unsaved (sample_body vs ds cs) = cs"
  "fb_nodes (sample_body vs ds cs) = Some (yaml_parseDocument sample_yaml vs)"
  "bp_selected (sample_body_props ds) = selected_initial\<lparr>sel_values := ds\<rparr>"
  "vp_appValues (sample_values vs) = vs"
  by (simp_all add: sample_body_def sample_body_props_def sample_values_def)

lemma sample_body_rest:
  "run_effects sample_yaml sample_body_lib sample_lib (sample_body_props ds) vs (sample_body vs ds cs) =
     Inr (sample_body vs ds cs)"
  by (subst run_effects_quiet)
    (simp_all add: params_effect_fresh sample_body_def current_deps_def)

abbreviation tag_v2 :: "json jsobj" where "tag_v2 \<equiv> [(''image/tag'', JStr ''v2'')]"

lemma tag_change: "tag_v2 = changes_at [([''image'', ''tag''], JStr ''v2'')]"
  "plain_changes [([''image'', ''tag''], JStr ''v2'')]"
  by (simp_all add: changes_at_def plain_changes_def plain_component_def plain_key_def)


theorem failed_save_blocks_form_witness:
  "\<exists>e b' p'. body_step sample_yaml sample_body_lib sample_lib (sample_body_props None) DeployClick
     (sample_body ''replicas'' None [(''replicas/x'', JNum 2)], sample_values ''replicas'') = (Raised e, b', p') \<and>
     body_view sample_body_lib False (sample_body_props None) b' = BodyLoading"
proof -
  have "\<exists>e. setPathValueInYamlNode sample_yaml (yaml_parseDocument sample_yaml ''replicas'') ''replicas/x''
      (Some (JNum 2)) = Inl e"
    by (simp add: body_eval sample_eval)
  then obtain e where "setPathValueInYamlNode sample_yaml (yaml_parseDocument sample_yaml ''replicas'')
      ''replicas/x'' (Some (JNum 2)) = Inl e" ..
  from failed_save_blocks_form [OF _ _ this, of "sample_body ''replicas'' None [(''replicas/x'', JNum 2)]" "[]"
      sample_body_lib sample_lib "sample_body_props None" "sample_values ''replicas''" False] sample_body_rest
  show ?thesis by (auto simp: selected_initial_def)
qed

theorem cleared_values_return_witness:
  "\<exists>b' p'. body_run sample_yaml sample_body_lib sample_lib (sample_body_props None)
     [YAMLChange [], TableChange ''image/tag'' (JStr ''v2''), DeployClick]
     (sample_body ''replicas'' None [], sample_values ''replicas'') = ([Quiet, Quiet, Submitted], b', p') \<and>
     node_json (yaml_getIn sample_yaml (yaml_parseDocument sample_yaml (vp_appValues p')) [''replicas'']) =
       Some (JNum 1)"
proof -
  obtain b' and p' :: values_parent where run:
    "body_run sample_yaml sample_body_lib sample_lib (sample_body_props None)
       [YAMLChange [], TableChange (join ''/'' [''image'', ''tag'']) (JStr ''v2''), DeployClick]
       (sample_body ''replicas'' None [], sample_values ''replicas'') = ([Quiet, Quiet, Submitted], b', p')"
    by (simp add: body_eval sample_eval)
  have "node_json (yaml_getIn sample_yaml (yaml_parseDocument sample_yaml (vp_appValues p')) [''replicas'']) =
      node_json (yaml_getIn sample_yaml (yaml_parseDocument sample_yaml ''replicas'') [''replicas''])"
  proof (rule cleared_values_return [OF sample_yaml_spec sample_doc_spec _ _ sample_contents _ _ _ run, rule_format])
    show "\<not> node_missing (yaml_getIn sample_yaml (yaml_parseDocument sample_yaml ''replicas'') [''replicas''])"
      by (simp add: node_missing_def sample_yaml_def sample_texts_def)
  qed (auto simp: plain_component_def plain_key_def)
  also have "\<dots> = Some (JNum 1)" by (simp add: sample_node) (simp add: sample_yaml_def sample_texts_def)
  finally show ?thesis using run by simp
qed

theorem restore_keeps_unsaved_witness:
  "\<exists>b' p'. body_run sample_yaml sample_body_lib sample_lib (sample_body_props (Some ''replicas''))
     [ConfirmRestore, DeployClick]
     (sample_body ''replicas,image'' (Some ''replicas'') tag_v2, sample_values ''replicas,image'') =
       ([Quiet, Submitted], b', p') \<and>
     node_json (yaml_getIn sample_yaml (yaml_parseDocument sample_yaml (vp_appValues p')) [''image'', ''tag'']) =
       Some (JStr ''v2'')"
proof -
  obtain b' and p' :: values_parent where run:
    "body_run sample_yaml sample_body_lib sample_lib (sample_body_props (Some ''replicas''))
       [ConfirmRestore, DeployClick]
       (sample_body ''replicas,image'' (Some ''replicas'') tag_v2, sample_values ''replicas,image'') =
         ([Quiet, Submitted], b', p')"
    by (simp add: body_eval sample_eval)
  from restore_keeps_unsaved [OF sample_yaml_spec sample_doc_spec _ tag_change(2) _ _ _ sample_contents _ _ run]
  show ?thesis using run sample_body_rest by (simp add: tag_change(1) [symmetric])
qed

end
