(* ===== verification/Deploy_Form.thy ===== *)
theory Deploy_Form
  imports Deploy_Body Installed_Actions Repo_Actions Kube_Actions
begin

text \<open>
  The pages that install and upgrade a package: \<open>components/DeploymentForm/DeploymentForm.tsx\<close>,
  \<open>components/UpgradeForm/UpgradeForm.tsx\<close> and \<open>components/AppUpgrade/AppUpgrade.tsx\<close>, with the selection of
  a repository (\<open>components/SelectRepoForm\<close>) and of a version (\<open>components/PackageHeader\<close>). The first two
  are containers of \<open>Deploy_Body\<close>: what they have in common is the locale \<open>values_container\<close>. Comparing
  documents (\<open>fast-json-patch\<close>) is a parameter.
\<close>

section \<open>The form that installs a package\<close>

text \<open>The parameters of the route.\<close>

record deploy_params =
  dp_cluster :: string
  dp_namespace :: string
  dp_packageId :: string
  dp_pluginName :: string
  dp_pluginVersion :: string
  dp_packageCluster :: string
  dp_packageNamespace :: string
  dp_packageVersion :: "string option"

record deploy_form = values_parent +
  df_releaseName :: string
  df_serviceAccountList :: "string list"
  df_reconciliationOptions :: ReconciliationOptions

definition initial_deploy_form :: "SelectedPackage \<Rightarrow> deploy_form" where
  "initial_deploy_form sel =
     \<lparr>vp_appValues = opt_string (sel_values sel), vp_valuesModified = False, vp_isDeploying = False,
      df_releaseName = [], df_serviceAccountList = [],
      df_reconciliationOptions = \<lparr>ro_interval = [], ro_suspend = False, ro_serviceAccountName = []\<rparr>\<rparr>"

definition params_plugin :: "deploy_params \<Rightarrow> Plugin" where
  "params_plugin rp = \<lparr>plugin_name = dp_pluginName rp, plugin_version = dp_pluginVersion rp\<rparr>"

definition packageReference :: "deploy_params \<Rightarrow> AvailablePackageReference" where
  "packageReference rp =
     \<lparr>apr_context = Some \<lparr>ctx_cluster = dp_packageCluster rp, ctx_namespace = dp_packageNamespace rp\<rparr>,
      apr_identifier = dp_packageId rp, apr_plugin = Some (params_plugin rp)\<rparr>"

text \<open>The package and its versions are fetched when the page opens and when the version changes.\<close>

definition deploy_fetch :: "deploy_params \<Rightarrow> unit thunk" where
  "deploy_fetch rp =
     thenT (spawnT (fetchAndSelectAvailablePackageDetail (Some (packageReference rp)) (dp_packageVersion rp)))
       (spawnT (fetchAvailablePackageVersions (Some (packageReference rp))))"

text \<open>
  The service accounts, for the plugins that allow one. The handler of the error has no action to fall
  back to, so only a lost session has an effect.
\<close>

definition serviceAccounts_effect :: "deploy_params \<Rightarrow> deploy_form \<Rightarrow> deploy_form thunk" where
  "serviceAccounts_effect rp s =
     (if dp_pluginName rp \<in> set getPluginsAllowingSA
      then tryT
        (bindT (getServiceAccountNames (dp_cluster rp) (dp_namespace rp))
           (\<lambda>names. returnT (s\<lparr>df_serviceAccountList := names\<rparr>)))
        (\<lambda>e. thenT (if is_unauthorized e then spawnT logoutByAuthenticationError else returnT ()) (returnT s))
      else returnT s)"

text \<open>New default values replace those of the form as long as the user has not changed them.\<close>

definition deploy_refresh :: "SelectedPackage \<Rightarrow> deploy_form \<Rightarrow> deploy_form" where
  "deploy_refresh sel s =
     (if vp_valuesModified s then s else s\<lparr>vp_appValues := opt_string (sel_values sel)\<rparr>)"

definition handleReleaseNameChange :: "string \<Rightarrow> deploy_form \<Rightarrow> deploy_form" where
  "handleReleaseNameChange v s = s\<lparr>df_releaseName := v\<rparr>"

definition onChangeSA :: "string \<Rightarrow> deploy_form \<Rightarrow> deploy_form" where
  "onChangeSA v s =
     s\<lparr>df_reconciliationOptions := (df_reconciliationOptions s)\<lparr>ro_serviceAccountName := v\<rparr>\<rparr>"

definition deploy_selectVersion :: "deploy_params \<Rightarrow> string \<Rightarrow> string" where
  "deploy_selectVersion rp version =
     app_apps_new (dp_cluster rp) (dp_namespace rp) (packageReference rp) version"

definition onChangeAdditionalDefaultValues :: "string \<Rightarrow> unit thunk" where
  "onChangeAdditionalDefaultValues v = dispatchT (PackagesA (SetAvailablePackageDetailCustomDefaults v))"

definition additionalDefaultValuesNames :: "SelectedPackage \<Rightarrow> string list" where
  "additionalDefaultValuesNames sel = (case sel_availablePackageDetail sel of
     None \<Rightarrow> [] | Some d \<Rightarrow> map fst (apd_additionalDefaultValues d))"

definition installed_reference :: "deploy_params \<Rightarrow> string \<Rightarrow> InstalledPackageReference" where
  "installed_reference rp name =
     \<lparr>ipr_context = Some \<lparr>ctx_cluster = dp_cluster rp, ctx_namespace = dp_namespace rp\<rparr>,
      ipr_identifier = name, ipr_plugin = Some (params_plugin rp)\<rparr>"

text \<open>Without a package nothing happens, and the spinner stays.\<close>

definition handleDeploy :: "lib \<Rightarrow> deploy_params \<Rightarrow> SelectedPackage \<Rightarrow> deploy_form \<Rightarrow> deploy_form thunk" where
  "handleDeploy L rp sel s =
     (let s1 = s\<lparr>vp_isDeploying := True\<rparr> in
      case sel_availablePackageDetail sel of
        None \<Rightarrow> returnT s1
      | Some detail \<Rightarrow>
          bindT (installPackage L (dp_cluster rp) (dp_namespace rp) detail (df_releaseName s)
                   (Some (vp_appValues s)) (sel_schema sel) (Some (df_reconciliationOptions s)))
            (\<lambda>deployed.
               thenT (if deployed
                      then assignLocation (app_apps_get (installed_reference rp (df_releaseName s)))
                      else returnT ())
                 (returnT (s1\<lparr>vp_isDeploying := False\<rparr>))))"

datatype deploy_display =
    FetchFailed string
  | FetchingPackage
  | Deploying
  | DeployForm "js_error option" bool "string list"

definition is_fetch_error :: "js_error \<Rightarrow> bool" where
  "is_fetch_error e = (case e of Custom c m cs \<Rightarrow> c = FetchError | _ \<Rightarrow> False)"

definition fetch_failed :: "js_error option \<Rightarrow> bool" where
  "fetch_failed error = (case error of None \<Rightarrow> False | Some e \<Rightarrow> is_fetch_error e)"

definition deploy_view ::
  "deploy_params \<Rightarrow> IInstalledPackageState \<Rightarrow> SelectedPackage \<Rightarrow> deploy_form \<Rightarrow> deploy_display" where
  "deploy_view rp apps sel s =
     (let error = (case ip_error apps of Some e \<Rightarrow> Some e | None \<Rightarrow> sel_error sel);
          names = additionalDefaultValuesNames sel
      in if fetch_failed error then FetchFailed (error_message (the error))
         else if sel_availablePackageDetail sel = None then FetchingPackage
         else if vp_isDeploying s then Deploying
         else DeployForm error (dp_pluginName rp \<in> set getPluginsAllowingSA)
                (if length names \<ge> 2 then names else []))"

section \<open>The form that upgrades a package\<close>

record 'd upgrade_lib =
  yaml_toJS :: "'d \<Rightarrow> json"
  patch_compare :: "json \<Rightarrow> json \<Rightarrow> Operation list"

record upgrade_form = values_parent +
  uf_modifications :: "Operation list option"
  uf_deployedValues :: string

definition initial_upgrade_form :: upgrade_form where
  "initial_upgrade_form =
     \<lparr>vp_appValues = [], vp_valuesModified = False, vp_isDeploying = False, uf_modifications = None,
      uf_deployedValues = []\<rparr>"

definition parseToJS :: "'d yaml \<Rightarrow> 'd upgrade_lib \<Rightarrow> string \<Rightarrow> json" where
  "parseToJS Y U t = yaml_toJS U (yaml_parseDocument Y (str_or t ''{}''))"

text \<open>What the page reads of the installed package: its values, and the defaults of its own version.\<close>

definition app_detail :: "CustomInstalledPackageDetail option \<Rightarrow> InstalledPackageDetail option" where
  "app_detail app = Option.bind app cip_detail"

definition installed_values :: "CustomInstalledPackageDetail option \<Rightarrow> string" where
  "installed_values app = (case app_detail app of None \<Rightarrow> [] | Some d \<Rightarrow> ipd_valuesApplied d)"

definition installed_defaults :: "AvailablePackageDetail option \<Rightarrow> string" where
  "installed_defaults pkg = (case pkg of None \<Rightarrow> [] | Some d \<Rightarrow> apd_defaultValues d)"

text \<open>The modifications are what leads from the defaults of the installed version to its values; they are computed once.\<close>

definition modifications_effect ::
  "'d yaml \<Rightarrow> 'd upgrade_lib \<Rightarrow> string \<Rightarrow> string \<Rightarrow> upgrade_form \<Rightarrow> js_error + upgrade_form" where
  "modifications_effect Y U defaults current s =
     (if defaults \<noteq> [] \<and> current \<noteq> [] \<and> current \<noteq> ''null'' \<and> uf_modifications s = None
      then (let mods = patch_compare U (parseToJS Y U defaults) (parseToJS Y U current) in
            map_sum id (\<lambda>values. s\<lparr>uf_modifications := Some mods, vp_appValues := values\<rparr>)
              (applyModifications Y mods defaults))
      else Inr s)"

definition mods_or_none :: "Operation list option \<Rightarrow> Operation list" where
  "mods_or_none mods = (case mods of None \<Rightarrow> [] | Some ms \<Rightarrow> ms)"

definition deployed_effect ::
  "'d yaml \<Rightarrow> string \<Rightarrow> Operation list option \<Rightarrow> upgrade_form \<Rightarrow> js_error + upgrade_form" where
  "deployed_effect Y defaults mods s =
     (if defaults \<noteq> []
      then map_sum id (\<lambda>values. s\<lparr>uf_deployedValues := values\<rparr>) (applyModifications Y (mods_or_none mods) defaults)
      else Inr s)"

definition values_effect ::
  "'d yaml \<Rightarrow> string option \<Rightarrow> Operation list option \<Rightarrow> bool \<Rightarrow> upgrade_form \<Rightarrow> js_error + upgrade_form" where
  "values_effect Y values mods modified s =
     (if \<not> modified \<and> truthy values
      then map_sum id (\<lambda>v. s\<lparr>vp_appValues := v\<rparr>)
             (if mods_or_none mods \<noteq> [] then applyModifications Y (mods_or_none mods) (the values)
              else Inr (the values))
      else Inr s)"

text \<open>
  The effects of one rendering, on the modifications that were rendered. They depend on nothing they set but
  the modifications, so a second rendering brings them to rest.
\<close>

definition upgrade_effects ::
  "'d yaml \<Rightarrow> 'd upgrade_lib \<Rightarrow> string \<Rightarrow> string \<Rightarrow> SelectedPackage \<Rightarrow> upgrade_form \<Rightarrow> js_error + upgrade_form" where
  "upgrade_effects Y U defaults current sel s =
     (case modifications_effect Y U defaults current s of
        Inl e \<Rightarrow> Inl e
      | Inr s1 \<Rightarrow>
          (case deployed_effect Y defaults (uf_modifications s) s1 of
             Inl e \<Rightarrow> Inl e
           | Inr s2 \<Rightarrow> values_effect Y (sel_values sel) (uf_modifications s) (vp_valuesModified s) s2))"

definition upgrade_opened ::
  "'d yaml \<Rightarrow> 'd upgrade_lib \<Rightarrow> string \<Rightarrow> string \<Rightarrow> SelectedPackage \<Rightarrow> js_error + upgrade_form" where
  "upgrade_opened Y U defaults current sel =
     (case upgrade_effects Y U defaults current sel initial_upgrade_form of
        Inl e \<Rightarrow> Inl e
      | Inr s \<Rightarrow> upgrade_effects Y U defaults current sel s)"

text \<open>A new selected version: only the effect on the values has a new dependency.\<close>

definition upgrade_refresh ::
  "'d yaml \<Rightarrow> SelectedPackage \<Rightarrow> upgrade_form \<Rightarrow> js_error + upgrade_form" where
  "upgrade_refresh Y sel s = values_effect Y (sel_values sel) (uf_modifications s) (vp_valuesModified s) s"

text \<open>
  As long as the versions are missing they are fetched, the installed version is selected and, if the URL
  names one, that version is fetched after it.
\<close>

definition versions_effect ::
  "CustomInstalledPackageDetail option \<Rightarrow> AvailablePackageDetail option \<Rightarrow> string option \<Rightarrow> SelectedPackage
     \<Rightarrow> unit thunk" where
  "versions_effect app pkg version sel =
     (let ref = Option.bind (app_detail app) ipd_availablePackageRef in
      if sel_versions sel = []
      then thenT (spawnT (fetchAvailablePackageVersions ref))
        (thenT (case pkg of None \<Rightarrow> returnT ()
                 | Some d \<Rightarrow> dispatchT (PackagesA (ReceiveSelectedAvailablePackageDetail d)))
           (if truthy version then spawnT (fetchAndSelectAvailablePackageDetail ref version) else returnT ()))
      else returnT ())"

definition upgrade_selectVersion :: "CustomInstalledPackageDetail option \<Rightarrow> string \<Rightarrow> unit thunk" where
  "upgrade_selectVersion app version =
     fetchAndSelectAvailablePackageDetail
       (Option.bind (app_detail app) ipd_availablePackageRef) (Some version)"

text \<open>An upgrade without a reference, or whose package reference has no namespace, leaves the spinner.\<close>

definition handleUpgrade ::
  "lib \<Rightarrow> CustomInstalledPackageDetail option \<Rightarrow> SelectedPackage \<Rightarrow> upgrade_form \<Rightarrow> upgrade_form thunk" where
  "handleUpgrade L app sel s =
     (let s1 = s\<lparr>vp_isDeploying := True\<rparr>;
          detail = app_detail app;
          namespace = map_option ctx_namespace
            (Option.bind (Option.bind detail ipd_availablePackageRef) apr_context)
      in case (sel_availablePackageDetail sel, Option.bind detail ipd_installedPackageRef) of
           (Some pkg, Some ref) \<Rightarrow>
             (if truthy namespace
              then bindT (updateInstalledPackage L ref pkg (Some (vp_appValues s)) (sel_schema sel))
                (\<lambda>deployed.
                   thenT (if deployed then assignLocation (app_apps_get ref) else returnT ())
                     (returnT (s1\<lparr>vp_isDeploying := False\<rparr>)))
              else returnT s1)
         | _ \<Rightarrow> returnT s1)"

datatype upgrade_display = UpgradeLoading | UpgradeEmpty | UpgradeForm "js_error option"

definition upgrade_view ::
  "IInstalledPackageState \<Rightarrow> IPackageState \<Rightarrow> upgrade_form \<Rightarrow> upgrade_display" where
  "upgrade_view apps pkgs s =
     (let sel = pk_selected pkgs; isFetching = (ip_isFetching apps \<or> pk_isFetching pkgs);
          detail = app_detail (ip_selected apps);
          identifier = map_option apr_identifier (Option.bind detail ipd_availablePackageRef);
          version = map_option pav_pkgVersion (Option.bind detail ipd_currentVersion)
      in if vp_isDeploying s \<or> isFetching \<or> sel_versions sel = [] \<or> sel_availablePackageDetail sel = None
         then UpgradeLoading
         else if \<not> truthy identifier \<or> \<not> truthy version then UpgradeEmpty
         else UpgradeForm (ip_error apps))"

section \<open>The page of an upgrade\<close>

definition appUpgrade_fetch :: "InstalledPackageReference \<Rightarrow> unit thunk" where
  "appUpgrade_fetch ref =
     thenT (dispatchT (PackagesA ResetSelectedAvailablePackageDetail))
       (spawnT (getInstalledPackage (Some ref)))"

datatype app_upgrade_display = UpgradeFailed string | UpgradeFetching string | ShowUpgradeForm | ShowSelectRepo

definition appUpgrade_view :: "IInstalledPackageState \<Rightarrow> IPackageState \<Rightarrow> app_upgrade_display" where
  "appUpgrade_view apps pkgs =
     (let selected = map_option apr_identifier
            (Option.bind (sel_availablePackageDetail (pk_selected pkgs)) apd_availablePackageRef);
          installed = map_option ipr_identifier
            (Option.bind (app_detail (ip_selected apps)) ipd_installedPackageRef)
      in if fetch_failed (ip_error apps) then UpgradeFailed (error_message (the (ip_error apps)))
         else if ip_isFetching apps \<or> pk_isFetching pkgs \<or> ip_selected apps = None
         then UpgradeFetching (case selected of Some i \<Rightarrow> i
                | None \<Rightarrow> (case installed of Some i \<Rightarrow> i | None \<Rightarrow> ''package''))
         else if ip_selectedDetails apps \<noteq> None then ShowUpgradeForm
         else ShowSelectRepo)"

section \<open>Choosing the repository of an installed package\<close>

record select_repo =
  sr_userRepoName :: string
  sr_userRepoNamespace :: string

definition initial_select_repo :: "RepoDetailState option \<Rightarrow> select_repo" where
  "initial_select_repo repo =
     (let detail = map_option rd_detail repo in
      \<lparr>sr_userRepoName = opt_string (map_option prd_name detail),
       sr_userRepoNamespace = opt_string (map_option ctx_namespace
         (Option.bind (Option.bind detail prd_packageRepoRef) prr_context))\<rparr>)"

text \<open>Without a namespace, in the global one or on another cluster only the global repositories are listed.\<close>

definition select_repo_fetch :: "lib \<Rightarrow> IConfig \<Rightarrow> string \<Rightarrow> string \<Rightarrow> unit thunk" where
  "select_repo_fetch L config cluster namespace =
     (if namespace = [] \<or> cluster \<noteq> kubeappsCluster config \<or> namespace = helmGlobalNamespace config
      then fetchRepoSummaries L [] False
      else fetchRepoSummaries L namespace True)"

definition repo_option :: "PackageRepositorySummary \<Rightarrow> string" where
  "repo_option r =
     show_opt (map_option ctx_namespace (Option.bind (prsum_packageRepoRef r) prr_context)) @ ''/'' @ prsum_name r"

text \<open>\<open>const [ns, name] = value.split("/")\<close>; a value without a slash has no name.\<close>

definition handleRepoNameChange :: "string \<Rightarrow> select_repo \<Rightarrow> select_repo" where
  "handleRepoNameChange v s =
     (if v = [] then s
      else (case split_on CHR ''/'' v of
              ns # name # rest \<Rightarrow> s\<lparr>sr_userRepoName := name, sr_userRepoNamespace := ns\<rparr>
            | _ \<Rightarrow> s\<lparr>sr_userRepoName := [], sr_userRepoNamespace := v\<rparr>))"

definition handleRepoNameSelection ::
  "IConfig \<Rightarrow> InstalledPackageDetail option \<Rightarrow> select_repo \<Rightarrow> unit thunk" where
  "handleRepoNameSelection config app s =
     (if sr_userRepoNamespace s \<noteq> [] \<and> sr_userRepoName s \<noteq> []
      then spawnT (findPackageInRepo (kubeappsCluster config) (sr_userRepoNamespace s) (sr_userRepoName s) app)
      else returnT ())"

definition findRepo ::
  "PackageRepositorySummary list \<Rightarrow> string \<Rightarrow> string \<Rightarrow> PackageRepositorySummary option" where
  "findRepo repos ns name =
     find (\<lambda>r. prsum_name r = name \<and>
       map_option ctx_namespace (Option.bind (prsum_packageRepoRef r) prr_context) = Some ns) repos"

definition getRepoURL :: "PackageRepositorySummary list \<Rightarrow> string \<Rightarrow> string \<Rightarrow> string" where
  "getRepoURL repos ns name = opt_string (map_option prsum_url (findRepo repos ns name))"

section \<open>Choosing a version\<close>

definition versions_segment :: string where "versions_segment = ''/versions/''"

text \<open>
  The path of another version: everything from the first \<open>/versions/\<close> on is replaced, or the version is
  appended. A version without a dollar sign is taken literally by \<open>replace\<close>.
\<close>

definition view_selectVersion :: "string \<Rightarrow> string \<Rightarrow> string" where
  "view_selectVersion pathname version =
     (case indexOf pathname versions_segment of
        Some i \<Rightarrow> take i pathname @ versions_segment @ version
      | None \<Rightarrow>
          (if pathname \<noteq> [] \<and> last pathname = CHR ''/'' then butlast pathname else pathname) @
          versions_segment @ version)"

text \<open>The version the selector shows.\<close>

definition shown_version :: "PackageAppVersion list \<Rightarrow> string option \<Rightarrow> string option \<Rightarrow> string" where
  "shown_version versions selectedVersion currentVersion =
     (if truthy selectedVersion then the selectedVersion
      else if truthy currentVersion then the currentVersion
      else (case versions of [] \<Rightarrow> [] | v # vs \<Rightarrow> pav_pkgVersion v))"

definition version_label :: "string option \<Rightarrow> PackageAppVersion \<Rightarrow> string" where
  "version_label currentVersion v =
     pav_pkgVersion v @ '' / App Version '' @ pav_appVersion v @
     (if currentVersion = Some (pav_pkgVersion v) then '' (current)'' else [])"

text \<open>What the page of a package shows.\<close>

datatype package_display = PackageFailed string | PackageLoading | RedirectTo string | PackagePage string

definition package_view :: "bool \<Rightarrow> deploy_params \<Rightarrow> IPackageState \<Rightarrow> package_display" where
  "package_view skipDetails rp pkgs =
     (let sel = pk_selected pkgs in
      case sel_error sel of
        Some e \<Rightarrow> PackageFailed (error_message e)
      | None \<Rightarrow>
          (if pk_isFetching pkgs \<or> sel_availablePackageDetail sel = None \<or> \<not> truthy (sel_pkgVersion sel)
           then PackageLoading
           else (let target = deploy_selectVersion rp (the (sel_pkgVersion sel)) in
                 if skipDetails then RedirectTo target else PackagePage target)))"

section \<open>Containers of the body\<close>

text \<open>
  What a container promises its body: new default values do not change whether the values have been
  modified, and leave modified values alone.
\<close>

locale values_container =
  fixes refresh :: "SelectedPackage \<Rightarrow> 'p values_parent_scheme \<Rightarrow> js_error + 'p values_parent_scheme"
  assumes refresh_modified: "refresh sel p = Inr p' \<Longrightarrow> vp_valuesModified p' = vp_valuesModified p"
    and refresh_edited: "refresh sel p = Inr p' \<Longrightarrow> vp_valuesModified p \<Longrightarrow> vp_appValues p' = vp_appValues p"

text \<open>The page: an event of the body, or a package that arrives or changes in the store.\<close>

datatype page_event = BodyEvent body_event | PackageChanged SelectedPackage bool

fun page_step ::
  "'d yaml \<Rightarrow> body_lib \<Rightarrow> lib \<Rightarrow> (SelectedPackage \<Rightarrow> 'p values_parent_scheme \<Rightarrow> js_error + 'p values_parent_scheme)
     \<Rightarrow> page_event \<Rightarrow> IDeploymentFormBodyProps \<times> 'd form_body \<times> 'p values_parent_scheme
     \<Rightarrow> js_error + (IDeploymentFormBodyProps \<times> 'd form_body \<times> 'p values_parent_scheme)" where
  "page_step Y B L refresh (BodyEvent ev) (props, b, p) =
     (case body_step Y B L props ev (b, p) of
        (TornDown e, s) \<Rightarrow> Inl e
      | (_, b', p') \<Rightarrow> Inr (props, b', p'))"
| "page_step Y B L refresh (PackageChanged sel fetching) (props, b, p) =
     (let props' = props\<lparr>bp_selected := sel, bp_packagesIsFetching := fetching\<rparr> in
      case refresh sel p of
        Inl e \<Rightarrow> Inl e
      | Inr p' \<Rightarrow>
          (case settle_body Y B L props' (vp_appValues p') b of
             Inl e \<Rightarrow> Inl e
           | Inr b' \<Rightarrow> Inr (props', b', p')))"

inductive page_steps ::
  "'d yaml \<Rightarrow> body_lib \<Rightarrow> lib \<Rightarrow> (SelectedPackage \<Rightarrow> 'p values_parent_scheme \<Rightarrow> js_error + 'p values_parent_scheme)
     \<Rightarrow> IDeploymentFormBodyProps \<times> 'd form_body \<times> 'p values_parent_scheme \<Rightarrow> page_event list
     \<Rightarrow> IDeploymentFormBodyProps \<times> 'd form_body \<times> 'p values_parent_scheme \<Rightarrow> bool" for Y B L refresh where
  page_done [step_intros]: "page_steps Y B L refresh s [] s"
| page_more [step_intros]:
    "page_step Y B L refresh ev s = Inr s' \<Longrightarrow> page_steps Y B L refresh s' evs s'' \<Longrightarrow>
       page_steps Y B L refresh s (ev # evs) s''"

inductive_simps page_steps_nil [simp]: "page_steps Y B L refresh s [] t"
inductive_simps page_steps_cons: "page_steps Y B L refresh s (ev # evs) t"

text \<open>The events that do not edit: without unsaved changes, saving them does nothing.\<close>

fun edits :: "page_event \<Rightarrow> bool" where
  "edits (BodyEvent (TableChange k v)) = True"
| "edits (BodyEvent (YAMLChange v)) = True"
| "edits (BodyEvent ConfirmRestore) = True"
| "edits _ = False"

lemma body_step_no_edit:
  assumes "body_step Y B L props ev (b, p) = (out, b', p')" and "\<And>e. out \<noteq> TornDown e"
    and "fb_unsaved b = []" and "\<not> edits (BodyEvent ev)"
  shows "fb_unsaved b' = [] \<and> vp_appValues p' = vp_appValues p \<and> (vp_valuesModified p \<longrightarrow> vp_valuesModified p')"
proof -
  obtain err b0 where h: "body_handler Y B L props ev (b, p) = (err, b0, p')"
      and st: "settle_body Y B L props (vp_appValues p') (b0\<lparr>fb_shouldSubmit := False\<rparr>) = Inr b'"
    using assms(1,2,2) by (rule body_stepE)
  have "fb_unsaved b0 = [] \<and> vp_appValues p' = vp_appValues p \<and> (vp_valuesModified p \<longrightarrow> vp_valuesModified p')"
    using h assms(3,4)
    by (cases ev) (auto simp: refreshBasicParameters_def saveAllChanges_def handleDeployClick_def
        handleSchemaEditorChange_def setValuesModified_def split: if_splits sum.splits)
  then show ?thesis using settle_body_nodes(2) [OF st] by simp
qed

context values_container
begin

lemma edited_step:
  assumes "page_step Y B L refresh ev (props, b, p) = Inr (props', b', p')"
    and "fb_unsaved b = []" and "vp_valuesModified p" and "\<not> edits ev"
  shows "fb_unsaved b' = [] \<and> vp_valuesModified p' \<and> vp_appValues p' = vp_appValues p"
proof (cases ev)
  case (BodyEvent e)
  obtain out b1 p1 where "body_step Y B L props e (b, p) = (out, b1, p1)" by (metis prod_cases3)
  with assms BodyEvent show ?thesis
    using body_step_no_edit [of Y B L props e b p out b1 p1] by (cases out) auto
next
  case (PackageChanged sel fetching)
  with assms show ?thesis
    by (auto simp: Let_def settle_body_nodes(2) refresh_edited split: sum.splits dest: refresh_modified)
qed

lemma edited_steps:
  "page_steps Y B L refresh s evs t \<Longrightarrow> \<forall>ev \<in> set evs. \<not> edits ev \<Longrightarrow>
     fb_unsaved (fst (snd s)) = [] \<Longrightarrow> vp_valuesModified (snd (snd s)) \<Longrightarrow>
     fb_unsaved (fst (snd t)) = [] \<and> vp_valuesModified (snd (snd t)) \<and>
     vp_appValues (snd (snd t)) = vp_appValues (snd (snd s))"
proof (induction rule: page_steps.induct)
  case (page_more ev s s' evs s'')
  obtain props b p props' b' p' where s: "s = (props, b, p)" "s' = (props', b', p')"
    by (metis prod_cases3)
  with page_more edited_step [of Y B L ev props b p props' b' p'] show ?case by auto
qed simp

end

lemma map_sum_Inr: "map_sum id f x = Inr y \<longleftrightarrow> (\<exists>z. x = Inr z \<and> y = f z)"
  by (cases x) auto

interpretation deploy: values_container "\<lambda>sel p. Inr (deploy_refresh sel p)"
  by unfold_locales (auto simp: deploy_refresh_def)

interpretation upgrade: values_container "upgrade_refresh Y" for Y
  by unfold_locales (auto simp: upgrade_refresh_def values_effect_def map_sum_Inr split: if_splits)

section \<open>Properties\<close>

text \<open>
  C9: What the user typed is what the form keeps. Once values have been typed into the YAML editor of an
  installation, no package, version or choice of defaults that arrives later, and no saving, change of tab
  or of the schema, touches them, as long as the user edits nothing else.
\<close>
theorem edited_values_survive:
  assumes "page_steps Y B L (\<lambda>sel p. Inr (deploy_refresh sel p)) (props, b, p)
      (BodyEvent (YAMLChange v) # evs) (props', b', p')"
    and "fb_unsaved b = []" and "\<forall>ev \<in> set evs. \<not> edits ev"
  shows "vp_appValues p' = v \<and> vp_valuesModified p'"
proof -
  obtain s1 where 1: "page_step Y B L (\<lambda>sel p. Inr (deploy_refresh sel p)) (BodyEvent (YAMLChange v)) (props, b, p) = Inr s1"
      and rest: "page_steps Y B L (\<lambda>sel p. Inr (deploy_refresh sel p)) s1 evs (props', b', p')"
    using assms(1) by (auto simp: page_steps_cons)
  have "fb_unsaved (fst (snd s1)) = []" "vp_valuesModified (snd (snd s1))" "vp_appValues (snd (snd s1)) = v"
    using 1 assms(2)
    by (auto simp: body_step_def handleYAMLEditorChange_def setValues_def setValuesModified_def
        settle_body_nodes(2) split: sum.splits if_splits)
  then show ?thesis using deploy.edited_steps [OF rest assms(3)] by simp
qed

text \<open>
  Restored defaults go stale. Restoring the defaults does not take back that the values were modified: after
  it the form keeps the defaults of the version that was selected then, whatever versions and defaults the
  user selects afterwards.
\<close>
theorem restored_defaults_go_stale:
  assumes "page_steps Y B L (\<lambda>sel p. Inr (deploy_refresh sel p)) (props, b, p)
      (BodyEvent ConfirmRestore # evs) (props', b', p')"
    and "fb_unsaved b = []" and "vp_valuesModified p" and "\<forall>ev \<in> set evs. \<not> edits ev"
  shows "vp_appValues p' = opt_string (sel_values (bp_selected props))"
proof -
  obtain s1 where 1: "page_step Y B L (\<lambda>sel p. Inr (deploy_refresh sel p)) (BodyEvent ConfirmRestore) (props, b, p) = Inr s1"
      and rest: "page_steps Y B L (\<lambda>sel p. Inr (deploy_refresh sel p)) s1 evs (props', b', p')"
    using assms(1) by (auto simp: page_steps_cons)
  have "fb_unsaved (fst (snd s1)) = []" "vp_valuesModified (snd (snd s1))"
      "vp_appValues (snd (snd s1)) = opt_string (sel_values (bp_selected props))"
    using 1 assms(2,3)
    by (auto simp: body_step_def restoreDefaultValues_def restored_def setValues_def Let_def
        settle_body_nodes(2) split: sum.splits if_splits prod.splits)
  then show ?thesis using deploy.edited_steps [OF rest assms(4)] by simp
qed

lemma upgrade_edits_survive:
  assumes "page_steps Y B L (upgrade_refresh Y) s evs t" and "\<forall>ev \<in> set evs. \<not> edits ev"
    and "fb_unsaved (fst (snd s)) = []" and "vp_valuesModified (snd (snd s))"
  shows "vp_appValues (snd (snd t)) = vp_appValues (snd (snd s))"
  using upgrade.edited_steps [OF assms] by simp


lemma values_effect_eq:
  "values_effect Y values mods modified s =
     (if \<not> modified \<and> truthy values
      then map_sum id (\<lambda>v. s\<lparr>vp_appValues := v\<rparr>) (applyModifications Y (mods_or_none mods) (the values))
      else Inr s)"
  by (simp add: values_effect_def)

text \<open>
  C14: An upgrade carries the user's modifications over. Opening the form computes the modifications once, from
  the defaults of the installed version to its values; the form then shows them applied to the defaults
  of the selected version, and again to those of every version selected later, and compares with them
  applied to the old defaults. Two renderings are enough.
\<close>
theorem upgrade_reapplies_modifications:
  assumes "defaults \<noteq> []" "current \<noteq> []" "current \<noteq> ''null''" and "sel_values sel = Some vs" "vs \<noteq> []"
    and "mods = patch_compare U (parseToJS Y U defaults) (parseToJS Y U current)"
    and "applyModifications Y mods defaults = Inr t0" "applyModifications Y mods vs = Inr t"
  shows "\<exists>s. upgrade_opened Y U defaults current sel = Inr s \<and> uf_modifications s = Some mods \<and>
    uf_deployedValues s = t0 \<and> vp_appValues s = t \<and> upgrade_effects Y U defaults current sel s = Inr s \<and>
    (\<forall>sel' vs' t'. sel_values sel' = Some vs' \<longrightarrow> vs' \<noteq> [] \<longrightarrow> applyModifications Y mods vs' = Inr t' \<longrightarrow>
       upgrade_refresh Y sel' s = Inr (s\<lparr>vp_appValues := t'\<rparr>))"
proof -
  note mods = assms(6) [symmetric]
  have first: "upgrade_effects Y U defaults current sel initial_upgrade_form =
      Inr (initial_upgrade_form\<lparr>uf_modifications := Some mods, vp_appValues := vs, uf_deployedValues := defaults\<rparr>)"
    using assms(1-5,7) mods
    by (simp add: upgrade_effects_def modifications_effect_def deployed_effect_def values_effect_eq
        initial_upgrade_form_def mods_or_none_def Let_def)
  define s where "s = initial_upgrade_form\<lparr>uf_modifications := Some mods, vp_appValues := t, uf_deployedValues := t0\<rparr>"
  have rest: "upgrade_effects Y U defaults current sel (s\<lparr>vp_appValues := v, uf_deployedValues := x\<rparr>) = Inr s" for v x
    using assms(1-5,7,8)
    by (simp add: upgrade_effects_def modifications_effect_def deployed_effect_def values_effect_eq
        s_def initial_upgrade_form_def mods_or_none_def Let_def)
  have "upgrade_opened Y U defaults current sel = Inr s"
    unfolding upgrade_opened_def first
    using rest [where v = vs and x = defaults] by (simp add: s_def initial_upgrade_form_def)
  moreover have "upgrade_effects Y U defaults current sel s = Inr s"
    using rest [where v = t and x = t0] by (simp add: s_def initial_upgrade_form_def)
  moreover have "upgrade_refresh Y sel' s = Inr (s\<lparr>vp_appValues := t'\<rparr>)"
    if "sel_values sel' = Some vs'" "vs' \<noteq> []" "applyModifications Y mods vs' = Inr t'" for sel' vs' t'
    using that
    by (simp add: upgrade_refresh_def values_effect_eq s_def initial_upgrade_form_def mods_or_none_def)
  ultimately show ?thesis by (intro exI [of _ s]) (simp add: s_def initial_upgrade_form_def)
qed

text \<open>
  An upgrade that never ends. If the reference of the installed package's available package has no
  namespace, submitting the form sends nothing, changes nothing in the store and says nothing, but the page
  shows its spinner from then on, whatever the store becomes.
\<close>
theorem upgrade_without_namespace_hangs:
  assumes "app_detail app = Some a" and "Option.bind (ipd_availablePackageRef a) apr_context = context"
    and "\<not> truthy (map_option ctx_namespace context)"
  shows "completes R srv (handleUpgrade L app sel s) w (s\<lparr>vp_isDeploying := True\<rparr>) w \<and>
    upgrade_view apps pkgs (s\<lparr>vp_isDeploying := True\<rparr>) = UpgradeLoading"
  using assms
  by (auto simp: completes_def handleUpgrade_def upgrade_view_def thunk_core Let_def split: option.splits)

section \<open>Witnesses\<close>

definition sample_deploy_form :: "string \<Rightarrow> bool \<Rightarrow> deploy_form" where
  "sample_deploy_form values modified =
     (initial_deploy_form (selected_initial\<lparr>sel_values := Some values\<rparr>))
       \<lparr>df_releaseName := ''web'', vp_valuesModified := modified\<rparr>"

definition one_replica :: SelectedPackage where
  "one_replica = selected_initial\<lparr>sel_values := Some ''replicas''\<rparr>"

lemmas page_eval = page_steps_cons body_eval sample_eval sample_deploy_form_def initial_deploy_form_def
  deploy_refresh_def one_replica_def

theorem edited_values_survive_witness:
  "\<exists>props' b' p'. page_steps sample_yaml sample_body_lib sample_lib (\<lambda>sel p. Inr (deploy_refresh sel p))
     (sample_body_props None, sample_body ''replicas'' None [], sample_deploy_form ''replicas'' False)
     [BodyEvent (YAMLChange ''replicas,image''), PackageChanged one_replica False] (props', b', p') \<and>
     vp_appValues p' = ''replicas,image''"
proof -
  obtain props' b' p' where run: "page_steps sample_yaml sample_body_lib sample_lib (\<lambda>sel p. Inr (deploy_refresh sel p))
     (sample_body_props None, sample_body ''replicas'' None [], sample_deploy_form ''replicas'' False)
     [BodyEvent (YAMLChange ''replicas,image''), PackageChanged one_replica False] (props', b', p')"
    by (simp add: page_eval)
  from edited_values_survive [OF run] run show ?thesis by auto
qed

theorem restored_defaults_go_stale_witness:
  "\<exists>props' b' p'. page_steps sample_yaml sample_body_lib sample_lib (\<lambda>sel p. Inr (deploy_refresh sel p))
     (sample_body_props (Some ''replicas,image''), sample_body ''xy'' (Some ''replicas,image'') [],
      sample_deploy_form ''xy'' True)
     [BodyEvent ConfirmRestore, PackageChanged one_replica False] (props', b', p') \<and>
     vp_appValues p' = ''replicas,image''"
proof -
  obtain props' b' p' where run: "page_steps sample_yaml sample_body_lib sample_lib (\<lambda>sel p. Inr (deploy_refresh sel p))
     (sample_body_props (Some ''replicas,image''), sample_body ''xy'' (Some ''replicas,image'') [],
      sample_deploy_form ''xy'' True)
     [BodyEvent ConfirmRestore, PackageChanged one_replica False] (props', b', p')"
    by (simp add: page_eval)
  moreover have "vp_valuesModified (sample_deploy_form ''xy'' True)" by (simp add: sample_deploy_form_def)
  ultimately show ?thesis
    using restored_defaults_go_stale [OF run] by (auto simp: opt_string_def)
qed

definition sample_params :: deploy_params where
  "sample_params =
     \<lparr>dp_cluster = ''c1'', dp_namespace = ''dev'', dp_packageId = ''bitnami/apache'',
      dp_pluginName = PACKAGES_HELM, dp_pluginVersion = ''v1alpha1'', dp_packageCluster = ''c1'',
      dp_packageNamespace = ''kubeapps'', dp_packageVersion = None\<rparr>"


definition sample_upgrade_lib :: "json upgrade_lib" where
  "sample_upgrade_lib =
     \<lparr>yaml_toJS = (\<lambda>d. d), patch_compare = (\<lambda>a b. if a = b then [] else
        [\<lparr>patch_op = ''replace'', patch_path = ''/image/tag'', patch_value = Some (JStr ''v2'')\<rparr>])\<rparr>"

theorem upgrade_reapplies_modifications_witness:
  "\<exists>s. upgrade_opened sample_yaml sample_upgrade_lib ''replicas'' ''replicas,image'' one_replica = Inr s \<and>
     vp_appValues s = ''replicas,image''"
proof -
  have mods: "applyModifications sample_yaml (patch_compare sample_upgrade_lib
      (parseToJS sample_yaml sample_upgrade_lib ''replicas'')
      (parseToJS sample_yaml sample_upgrade_lib ''replicas,image'')) ''replicas'' = Inr ''replicas,image''"
    by (simp add: sample_upgrade_lib_def parseToJS_def setValue_def body_eval sample_eval)
  from upgrade_reapplies_modifications [OF _ _ _ _ _ refl mods mods, of one_replica] show ?thesis
    by (auto simp: one_replica_def)
qed

theorem upgrade_without_namespace_hangs_witness:
  "\<exists>app. completes (rootReducer sample_lib []) done_server
     (handleUpgrade sample_lib (Some app) one_replica initial_upgrade_form) (sample_world token_storage)
     (initial_upgrade_form\<lparr>vp_isDeploying := True\<rparr>) (sample_world token_storage)"
proof -
  let ?app = "\<lparr>cip_detail = Some installed_detail, cip_revision = 1, cip_status = None\<rparr>"
  have "app_detail (Some ?app) = Some installed_detail" by (simp add: app_detail_def)
  moreover have "\<not> truthy (map_option ctx_namespace (Option.bind (ipd_availablePackageRef installed_detail) apr_context))"
    by (simp add: installed_detail_def)
  ultimately show ?thesis using upgrade_without_namespace_hangs [OF _ refl] by blast
qed

end
