(* ===== verification/Param_Editors.thy ===== *)
theory Param_Editors
  imports Deploy_Body
begin

text \<open>
  The visual editor of the values
  (\<open>components/DeploymentForm/DeploymentFormBody/BasicDeploymentForm/TabularSchemaEditorTable\<close>): the choice
  of an editor for a parameter, the local state of the editors for texts, numbers, booleans and arrays, and
  the timers that gather their changes before they are handed to the body of the form. An abstract
  specification without timers says what is recorded in the end.
\<close>

section \<open>Values as texts\<close>

fun typeof_json :: "json option \<Rightarrow> string" where
  "typeof_json None = ''undefined''"
| "typeof_json (Some (JBool b)) = ''boolean''"
| "typeof_json (Some (JNum n)) = ''number''"
| "typeof_json (Some (JStr s)) = ''string''"
| "typeof_json (Some _) = ''object''"

text \<open>\<open>getStringValue\<close>: arrays and objects are printed as JSON, whatever else by \<open>toString\<close>.\<close>

definition getStringValue :: "lib \<Rightarrow> json option \<Rightarrow> string option \<Rightarrow> string" where
  "getStringValue L value type =
     (let usedType = (if truthy type then the type else typeof_json value) in
      if usedType \<in> {''array'', ''object''}
      then (case value of None \<Rightarrow> [] | Some v \<Rightarrow> json_stringify L v)
      else (case value of
              None \<Rightarrow> [] | Some JNull \<Rightarrow> []
            | Some (JStr s) \<Rightarrow> s | Some (JBool b) \<Rightarrow> (if b then ''true'' else ''false'')
            | Some v \<Rightarrow> json_String L v))"

text \<open>\<open>a === b\<close> on values of different documents: their arrays and objects are never the same object.\<close>

fun same_value :: "json option \<Rightarrow> json option \<Rightarrow> bool" where
  "same_value (Some (JArr xs)) b = False"
| "same_value (Some (JObj ms)) b = False"
| "same_value a b = (a = b)"

text \<open>
  What the editors call: the validation of a value against a schema (\<open>YAML.parse\<close>, which may raise,
  and ajv), and lodash's \<open>toNumber\<close> on a value, where \<open>None\<close> is NaN.
\<close>

type_synonym validation = "bool \<times> (string \<times> string) list option"

record editor_lib =
  el_validate :: "string \<Rightarrow> json option \<Rightarrow> js_error + validation"
  el_toNumber :: "json option \<Rightarrow> int option"

section \<open>Parameters\<close>

text \<open>A member the parameter takes over from its schema; the key of a parameter of the table.\<close>

definition fp_member :: "form_param \<Rightarrow> string \<Rightarrow> json option" where
  "fp_member p k = Option.bind (fp_schema p) (\<lambda>s. js_member s k)"

definition fp_type :: "form_param \<Rightarrow> string option" where
  "fp_type p = (case fp_member p ''type'' of Some (JStr t) \<Rightarrow> Some t | _ \<Rightarrow> None)"

definition fp_number :: "form_param \<Rightarrow> string \<Rightarrow> int option" where
  "fp_number p k = (case fp_member p k of Some (JNum n) \<Rightarrow> Some n | _ \<Rightarrow> None)"

definition param_key :: "form_param \<Rightarrow> string" where
  "param_key p = opt_string (fp_key p)"

text \<open>An editor is shown for a parameter without properties: its current value is a plain one.\<close>

definition edited_value :: "form_param \<Rightarrow> json option" where
  "edited_value p = (case fp_currentValue p of Plain v \<Rightarrow> v | Nested ps \<Rightarrow> None)"

definition is_truthy :: "json option \<Rightarrow> bool" where
  "is_truthy v = (case v of None \<Rightarrow> False | Some w \<Rightarrow> json_truthy w)"

section \<open>Timers\<close>

text \<open>
  Pending calls in the order they fire: all of them wait for the same time. A call carries the type and the
  value of the event that was copied for it. A timer that was cleared, or has fired, is not in the list.
\<close>

record pending_change =
  pc_id :: nat
  pc_key :: string
  pc_type :: string
  pc_value :: string

record form_timers =
  ft_next :: nat
  ft_queue :: "pending_change list"

definition no_timers :: form_timers where
  "no_timers = \<lparr>ft_next = 0, ft_queue = []\<rparr>"

definition clearTimeout :: "nat option \<Rightarrow> form_timers \<Rightarrow> form_timers" where
  "clearTimeout t T = T\<lparr>ft_queue := filter (\<lambda>c. Some (pc_id c) \<noteq> t) (ft_queue T)\<rparr>"

definition setTimeout :: "string \<Rightarrow> string \<times> string \<Rightarrow> form_timers \<Rightarrow> nat option \<times> form_timers" where
  "setTimeout key ev T =
     (Some (ft_next T),
      \<lparr>ft_next = Suc (ft_next T),
       ft_queue = ft_queue T @ [\<lparr>pc_id = ft_next T, pc_key = key, pc_type = fst ev, pc_value = snd ev\<rparr>]\<rparr>)"

lemma clear_next [simp]: "ft_next (clearTimeout t T) = ft_next T"
  by (simp add: clearTimeout_def)

text \<open>The first pending call fires: the handler of the table puts its value into the unsaved changes.\<close>

definition change_value :: "body_lib \<Rightarrow> lib \<Rightarrow> pending_change \<Rightarrow> json" where
  "change_value B L c = getValueFromEvent B L (pc_type c) (pc_value c)"

definition fire_timer ::
  "body_lib \<Rightarrow> lib \<Rightarrow> form_timers \<times> json jsobj \<Rightarrow> form_timers \<times> json jsobj" where
  "fire_timer B L s =
     (case ft_queue (fst s) of
        [] \<Rightarrow> s
      | c # cs \<Rightarrow> ((fst s)\<lparr>ft_queue := cs\<rparr>, obj_set (pc_key c) (change_value B L c) (snd s)))"

section \<open>Local state of the editors\<close>

record editor =
  ed_validated :: "validation option"
  ed_timeout :: "nat option"

record text_editor = editor +
  tx_currentValue :: string
  tx_isValueModified :: bool

record slider_editor = editor +
  sl_currentValue :: "int option"
  sl_isValueModified :: bool

record array_editor = editor +
  ar_items :: "json list"

record boolean_editor =
  bo_currentValue :: json
  bo_isValueModified :: bool

text \<open>A change is gathered: the pending call of this editor is replaced.\<close>

definition gather ::
  "string \<Rightarrow> string \<times> string \<Rightarrow> 'e editor_scheme \<Rightarrow> form_timers \<Rightarrow> 'e editor_scheme \<times> form_timers" where
  "gather key ev ed T =
     (let (t, T') = setTimeout key ev (clearTimeout (ed_timeout ed) T) in (ed\<lparr>ed_timeout := t\<rparr>, T'))"

subsection \<open>Texts\<close>

definition text_init :: "lib \<Rightarrow> form_param \<Rightarrow> text_editor" where
  "text_init L p =
     \<lparr>ed_validated = None, ed_timeout = None, tx_currentValue = getStringValue L (edited_value p) None,
      tx_isValueModified = False\<rparr>"

text \<open>The type of the copied event: \<open>object\<close> for an object, else that of the field.\<close>

definition text_event :: "form_param \<Rightarrow> string \<Rightarrow> string \<Rightarrow> string \<times> string" where
  "text_event p type value = ((if fp_type p = Some ''object'' then ''object'' else type), value)"

text \<open>The value is shown before it is validated; when the validation raises, nothing is gathered.\<close>

definition text_change ::
  "editor_lib \<Rightarrow> lib \<Rightarrow> form_param \<Rightarrow> string \<Rightarrow> string \<Rightarrow> text_editor \<Rightarrow> form_timers
     \<Rightarrow> js_error option \<times> text_editor \<times> form_timers" where
  "text_change E L p type value ed T =
     (let ed1 = ed\<lparr>tx_currentValue := value,
                   tx_isValueModified := (value \<noteq> getStringValue L (edited_value p) None)\<rparr> in
      case el_validate E value (fp_schema p) of
        Inl e \<Rightarrow> (Some e, ed1, T)
      | Inr v \<Rightarrow> (None, gather (param_key p) (text_event p type value) (ed1\<lparr>ed_validated := Some v\<rparr>) T))"

text \<open>
  The mark of a modified value. \<open>isDiffCurrentVsDeployed\<close> compares with the default value, as
  \<open>isDiffCurrentVsDefault\<close> does.
\<close>

definition text_isModified :: "lib \<Rightarrow> form_param \<Rightarrow> text_editor \<Rightarrow> bool" where
  "text_isModified L p ed =
     (let isDiffCurrentVsDefault =
            (getStringValue L (edited_value p) (fp_type p) \<noteq> getStringValue L (fp_defaultValue p) (fp_type p));
          isDiffCurrentVsDeployed =
            (getStringValue L (edited_value p) (fp_type p) \<noteq> getStringValue L (fp_defaultValue p) (fp_type p))
      in tx_isValueModified ed \<or>
         (isDiffCurrentVsDefault \<and> (\<not> is_truthy (fp_deployedValue p) \<or> isDiffCurrentVsDeployed)))"

text \<open>The field that is shown: a selection, an area or an input.\<close>

datatype text_field_kind = TextSelect "string list" | TextArea | TextInput string

definition renderTextField :: "form_param \<Rightarrow> string option \<Rightarrow> text_field_kind" where
  "renderTextField p inputType =
     (case fp_enum p of
        Some (v # vs) \<Rightarrow> TextSelect (v # vs)
      | _ \<Rightarrow>
          (if fp_type p = Some ''string''
           then (case inputType of
                   None \<Rightarrow> TextArea
                 | Some t \<Rightarrow> if t = ''textarea'' then TextArea else TextInput t)
           else TextArea))"

subsection \<open>Numbers\<close>

text \<open>\<open>a || b || c || 0\<close> on numbers, where NaN and zero are falsy.\<close>

fun first_number :: "int option list \<Rightarrow> int" where
  "first_number [] = 0"
| "first_number (n # ns) = (case n of None \<Rightarrow> first_number ns | Some k \<Rightarrow> if k = 0 then first_number ns else k)"

definition slider_init :: "editor_lib \<Rightarrow> form_param \<Rightarrow> slider_editor" where
  "slider_init E p =
     \<lparr>ed_validated = None, ed_timeout = None,
      sl_currentValue = Some (first_number
        [el_toNumber E (edited_value p), el_toNumber E (fp_member p ''exclusiveMinimum''),
         el_toNumber E (fp_member p ''minimum'')]),
      sl_isValueModified = False\<rparr>"

text \<open>NaN differs from every number, itself included.\<close>

definition same_number :: "int option \<Rightarrow> int option \<Rightarrow> bool" where
  "same_number a b = (a \<noteq> None \<and> a = b)"

definition slider_change ::
  "editor_lib \<Rightarrow> form_param \<Rightarrow> string \<Rightarrow> string \<Rightarrow> slider_editor \<Rightarrow> form_timers
     \<Rightarrow> js_error option \<times> slider_editor \<times> form_timers" where
  "slider_change E p type value ed T =
     (let n = el_toNumber E (Some (JStr value));
          ed1 = ed\<lparr>sl_currentValue := n,
                   sl_isValueModified := (\<not> same_number n (el_toNumber E (edited_value p)))\<rparr> in
      case el_validate E value (fp_schema p) of
        Inl e \<Rightarrow> (Some e, ed1, T)
      | Inr v \<Rightarrow> (None, gather (param_key p) (type, value) (ed1\<lparr>ed_validated := Some v\<rparr>) T))"

definition value_isModified :: "bool \<Rightarrow> form_param \<Rightarrow> bool" where
  "value_isModified isValueModified p =
     (isValueModified \<or>
      (\<not> same_value (edited_value p) (fp_defaultValue p) \<and> \<not> same_value (edited_value p) (fp_deployedValue p)))"

definition slider_min :: "form_param \<Rightarrow> int option" where
  "slider_min p = getOptionalMin (fp_number p ''exclusiveMinimum'') (fp_number p ''minimum'')"

definition slider_max :: "form_param \<Rightarrow> int option" where
  "slider_max p = getOptionalMin (fp_number p ''exclusiveMaximum'') (fp_number p ''maximum'')"

subsection \<open>Booleans\<close>

definition boolean_init :: "form_param \<Rightarrow> boolean_editor" where
  "boolean_init p =
     \<lparr>bo_currentValue = (if is_truthy (edited_value p) then the (edited_value p) else JBool False),
      bo_isValueModified = False\<rparr>"

text \<open>A toggle is not gathered: its event is handled at once.\<close>

definition boolean_change ::
  "body_lib \<Rightarrow> lib \<Rightarrow> form_param \<Rightarrow> bool \<Rightarrow> boolean_editor \<Rightarrow> json jsobj \<Rightarrow> boolean_editor \<times> json jsobj" where
  "boolean_change B L p checked ed changes =
     (ed\<lparr>bo_currentValue := JBool checked,
         bo_isValueModified := (edited_value p \<noteq> Some (JBool checked))\<rparr>,
      obj_set (param_key p)
        (getValueFromEvent B L ''checkbox'' (getStringValue L (Some (JBool checked)) None)) changes)"

subsection \<open>Arrays\<close>

text \<open>The type of the items may be missing, or no name of a type at all.\<close>

definition getDefaultDataFromType :: "json \<Rightarrow> json" where
  "getDefaultDataFromType type =
     (if type = JStr ''number'' \<or> type = JStr ''integer'' then JNum 0
      else if type = JStr ''boolean'' then JBool False
      else if type = JStr ''object'' then JObj []
      else if type = JStr ''array'' then JArr []
      else JStr [])"

definition array_init :: "json \<Rightarrow> form_param \<Rightarrow> array_editor" where
  "array_init type p =
     \<lparr>ed_validated = None, ed_timeout = None,
      ar_items = (case fp_number p ''minItems'' of
                    None \<Rightarrow> [] | Some n \<Rightarrow> replicate (nat n) (getDefaultDataFromType type))\<rparr>"

definition array_event :: "lib \<Rightarrow> json list \<Rightarrow> string \<times> string" where
  "array_event L items = (''array'', getStringValue L (Some (JArr items)) None)"

definition setArrayChangesInParam ::
  "lib \<Rightarrow> form_param \<Rightarrow> array_editor \<Rightarrow> form_timers \<Rightarrow> array_editor \<times> form_timers" where
  "setArrayChangesInParam L p ed T = gather (param_key p) (array_event L (ar_items ed)) ed T"

text \<open>The index is that of an item which is shown. The changes are gathered before they are validated.\<close>

definition onChangeArrayItem ::
  "editor_lib \<Rightarrow> lib \<Rightarrow> form_param \<Rightarrow> nat \<Rightarrow> json \<Rightarrow> array_editor \<Rightarrow> form_timers
     \<Rightarrow> js_error option \<times> array_editor \<times> form_timers" where
  "onChangeArrayItem E L p index value ed T =
     (let (ed1, T1) = setArrayChangesInParam L p (ed\<lparr>ar_items := (ar_items ed)[index := value]\<rparr>) T in
      case el_validate E (getStringValue L (Some (JArr (ar_items ed1))) None) (fp_schema p) of
        Inl e \<Rightarrow> (Some e, ed1, T1)
      | Inr v \<Rightarrow> (None, ed1\<lparr>ed_validated := Some v\<rparr>, T1))"

definition onAddArrayItem ::
  "lib \<Rightarrow> json \<Rightarrow> form_param \<Rightarrow> array_editor \<Rightarrow> form_timers \<Rightarrow> array_editor \<times> form_timers" where
  "onAddArrayItem L type p ed T =
     setArrayChangesInParam L p (ed\<lparr>ar_items := ar_items ed @ [getDefaultDataFromType type]\<rparr>) T"

text \<open>A deletion changes what is shown and gathers nothing.\<close>

definition onDeleteArrayItem :: "nat \<Rightarrow> array_editor \<Rightarrow> array_editor" where
  "onDeleteArrayItem index ed = ed\<lparr>ar_items := take index (ar_items ed) @ drop (Suc index) (ar_items ed)\<rparr>"

definition add_disabled :: "form_param \<Rightarrow> array_editor \<Rightarrow> bool" where
  "add_disabled p ed = (case fp_number p ''maxItems'' of None \<Rightarrow> False | Some n \<Rightarrow> int (length (ar_items ed)) \<ge> n)"

text \<open>
  The value an input of an item hands over: the text of a selection, whatever the type, else a value of the
  type. An input of numbers hands over a numeral or the empty text, which \<open>Number\<close> takes for zero.
\<close>

datatype item_input = InputText string | InputChecked bool

definition item_value ::
  "lib \<Rightarrow> (string \<Rightarrow> int) \<Rightarrow> json \<Rightarrow> bool \<Rightarrow> item_input \<Rightarrow> json" where
  "item_value L number type isEnum inp =
     (case inp of
        InputChecked b \<Rightarrow> JBool b
      | InputText s \<Rightarrow>
          (if isEnum then JStr s
           else if type = JStr ''number'' \<or> type = JStr ''integer'' then JNum (number s)
           else if type = JStr ''object'' then getValueFromString L s (Some ''object'')
           else if type = JStr ''array'' then getValueFromString L s (Some ''array'')
           else JStr s))"

section \<open>The cells of the table\<close>

datatype value_cell =
    CustomCell | EmptyCell | BooleanCell | SliderCell | ArrayCell json | TextCell "string option"

definition is_password :: "form_param \<Rightarrow> js_error + bool" where
  "is_password p =
     (let matches = (\<lambda>s. str_includes (toLowerCase s) ''password'') in
      case fp_title p of
        Some (JStr t) \<Rightarrow> Inr (matches t \<or> matches (param_key p))
      | None \<Rightarrow> Inl (TypeError ''Cannot read properties of undefined'')
      | Some v \<Rightarrow> Inl (TypeError ''s.match is not a function''))"

definition array_item_type :: "form_param \<Rightarrow> json" where
  "array_item_type p =
     (case Option.bind (fp_member p ''items'') (\<lambda>i. js_member i ''type'') of
        None \<Rightarrow> JStr ''string'' | Some JNull \<Rightarrow> JStr ''string'' | Some t \<Rightarrow> t)"

definition renderConfigCurrentValuePro :: "form_param \<Rightarrow> js_error + value_cell" where
  "renderConfigCurrentValuePro p =
     (if is_truthy (fp_isCustomComponent p) then Inr CustomCell
      else if fp_hasProperties p = Some True then Inr EmptyCell
      else case fp_type p of
        None \<Rightarrow> Inr (TextCell None)
      | Some t \<Rightarrow>
          (if t = ''boolean'' then Inr BooleanCell
           else if t \<in> {''integer'', ''number''} then Inr SliderCell
           else if t = ''array'' then Inr (ArrayCell (array_item_type p))
           else if t = ''string''
           then map_sum id (\<lambda>b. TextCell (Some (if b then ''password'' else ''text''))) (is_password p)
           else Inr (TextCell None)))"

definition MAX_LENGTH :: nat where
  "MAX_LENGTH = 60"

text \<open>A text longer than the limit is cut, its end or its beginning replaced by dots; \<open>maxLength\<close> is positive.\<close>

definition trimmed_text :: "bool \<Rightarrow> nat \<Rightarrow> string \<Rightarrow> string" where
  "trimmed_text trimFromBeginning maxLength s =
     (if length s > maxLength
      then (if trimFromBeginning then ''...'' @ drop (length s - maxLength) s
            else take (maxLength - 1) s @ ''...'')
      else s)"

text \<open>
  \<open>renderCellWithTooltip\<close>: a text or number is shown as it is, but an empty text and zero as nothing; any other
  value as JSON. The length of a number is undefined, so numbers are never cut.
\<close>

definition value_text :: "lib \<Rightarrow> nat \<Rightarrow> json option \<Rightarrow> string" where
  "value_text L maxLength value =
     (case value of
        None \<Rightarrow> []
      | Some (JStr s) \<Rightarrow> trimmed_text False maxLength s
      | Some (JNum n) \<Rightarrow> if n = 0 then [] else json_String L (JNum n)
      | Some v \<Rightarrow> trimmed_text False maxLength (json_stringify L v))"

definition key_text :: "form_param \<Rightarrow> string" where
  "key_text p =
     trimmed_text True 40
       (if is_truthy (fp_member p ''deprecated'') then show_opt (fp_key p) @ '' (deprecated)''
        else opt_string (fp_key p))"

text \<open>The filter of the table: a row passes if it or one of its rows below does.\<close>

definition fuzzyFilter :: "('r \<Rightarrow> bool) \<Rightarrow> ('r \<Rightarrow> 'r list) \<Rightarrow> 'r \<Rightarrow> bool" where
  "fuzzyFilter passed subRows row = fold (\<lambda>sub acc. passed sub \<or> acc) (subRows row) (passed row)"


section \<open>The table\<close>

datatype param_editor =
    TextE text_editor | SliderE slider_editor | ArrayE array_editor | BooleanE boolean_editor

definition mount_editor :: "editor_lib \<Rightarrow> lib \<Rightarrow> form_param \<Rightarrow> param_editor option" where
  "mount_editor E L p =
     (case renderConfigCurrentValuePro p of
        Inr BooleanCell \<Rightarrow> Some (BooleanE (boolean_init p))
      | Inr SliderCell \<Rightarrow> Some (SliderE (slider_init E p))
      | Inr (ArrayCell type) \<Rightarrow> Some (ArrayE (array_init type p))
      | Inr (TextCell t) \<Rightarrow> Some (TextE (text_init L p))
      | _ \<Rightarrow> None)"

text \<open>What a user does in an editor: the events of its fields with their types.\<close>

datatype edit =
    Typed string string
  | Slid string string
  | Toggled bool
  | ItemChanged nat json
  | ItemAdded
  | ItemDeleted nat

record table_state =
  ts_editors :: "string \<Rightarrow> param_editor option"
  ts_timers :: form_timers
  ts_changes :: "json jsobj"

definition put_editor ::
  "string \<Rightarrow> param_editor \<Rightarrow> form_timers \<Rightarrow> table_state \<Rightarrow> table_state" where
  "put_editor k ed T s = s\<lparr>ts_editors := (ts_editors s)(k \<mapsto> ed), ts_timers := T\<rparr>"

fun edit_param ::
  "editor_lib \<Rightarrow> body_lib \<Rightarrow> lib \<Rightarrow> string \<Rightarrow> form_param \<Rightarrow> param_editor \<Rightarrow> edit \<Rightarrow> table_state
     \<Rightarrow> js_error option \<times> table_state" where
  "edit_param E B L k p (TextE ed) (Typed type v) s =
     (case text_change E L p type v ed (ts_timers s) of
        (err, ed', T) \<Rightarrow> (err, put_editor k (TextE ed') T s))"
| "edit_param E B L k p (SliderE ed) (Slid type v) s =
     (case slider_change E p type v ed (ts_timers s) of
        (err, ed', T) \<Rightarrow> (err, put_editor k (SliderE ed') T s))"
| "edit_param E B L k p (BooleanE ed) (Toggled b) s =
     (case boolean_change B L p b ed (ts_changes s) of
        (ed', changes) \<Rightarrow> (None, (put_editor k (BooleanE ed') (ts_timers s) s)\<lparr>ts_changes := changes\<rparr>))"
| "edit_param E B L k p (ArrayE ed) (ItemChanged i v) s =
     (case onChangeArrayItem E L p i v ed (ts_timers s) of
        (err, ed', T) \<Rightarrow> (err, put_editor k (ArrayE ed') T s))"
| "edit_param E B L k p (ArrayE ed) ItemAdded s =
     (case onAddArrayItem L (array_item_type p) p ed (ts_timers s) of
        (ed', T) \<Rightarrow> (None, put_editor k (ArrayE ed') T s))"
| "edit_param E B L k p (ArrayE ed) (ItemDeleted i) s =
     (None, put_editor k (ArrayE (onDeleteArrayItem i ed)) (ts_timers s) s)"
| "edit_param E B L k p ed e s = (None, s)"

text \<open>
  The table: an edit, the next timer, or a rendering that mounts an editor again. A mounted editor starts
  afresh, without the timers it had: those fire all the same.
\<close>

datatype table_event = Edit string edit | Fire | Mount string

definition table_step ::
  "editor_lib \<Rightarrow> body_lib \<Rightarrow> lib \<Rightarrow> (string \<Rightarrow> form_param option) \<Rightarrow> table_event \<Rightarrow> table_state
     \<Rightarrow> js_error option \<times> table_state" where
  "table_step E B L P ev s =
     (case ev of
        Edit k e \<Rightarrow>
          (case (P k, ts_editors s k) of
             (Some p, Some ed) \<Rightarrow> edit_param E B L k p ed e s
           | _ \<Rightarrow> (None, s))
      | Fire \<Rightarrow>
          (case fire_timer B L (ts_timers s, ts_changes s) of
             (T, changes) \<Rightarrow> (None, s\<lparr>ts_timers := T, ts_changes := changes\<rparr>))
      | Mount k \<Rightarrow>
          (None, s\<lparr>ts_editors := (ts_editors s)(k := Option.bind (P k) (mount_editor E L))\<rparr>))"

definition table_init ::
  "editor_lib \<Rightarrow> lib \<Rightarrow> (string \<Rightarrow> form_param option) \<Rightarrow> table_state" where
  "table_init E L P =
     \<lparr>ts_editors = (\<lambda>k. Option.bind (P k) (mount_editor E L)), ts_timers = no_timers, ts_changes = []\<rparr>"

definition table_run ::
  "editor_lib \<Rightarrow> body_lib \<Rightarrow> lib \<Rightarrow> (string \<Rightarrow> form_param option) \<Rightarrow> table_event list \<Rightarrow> table_state
     \<Rightarrow> table_state" where
  "table_run E B L P evs s = fold (\<lambda>ev s. snd (table_step E B L P ev s)) evs s"

section \<open>The specification\<close>

text \<open>
  Without timers: the items an array shows, and the values recorded for the keys. An edit that is accepted
  is recorded at once.
\<close>

record table_spec =
  sp_items :: "string \<Rightarrow> json list"
  sp_recorded :: "string \<Rightarrow> json option"

definition record_value :: "string \<Rightarrow> json \<Rightarrow> table_spec \<Rightarrow> table_spec" where
  "record_value k v a = a\<lparr>sp_recorded := (sp_recorded a)(k \<mapsto> v)\<rparr>"

definition accepted :: "editor_lib \<Rightarrow> form_param \<Rightarrow> string \<Rightarrow> bool" where
  "accepted E p v = (case el_validate E v (fp_schema p) of Inl e \<Rightarrow> False | Inr r \<Rightarrow> True)"

definition array_value :: "body_lib \<Rightarrow> lib \<Rightarrow> json list \<Rightarrow> json" where
  "array_value B L items = getValueFromEvent B L ''array'' (json_stringify L (JArr items))"

definition record_items ::
  "body_lib \<Rightarrow> lib \<Rightarrow> string \<Rightarrow> json list \<Rightarrow> table_spec \<Rightarrow> table_spec" where
  "record_items B L k items a =
     record_value k (array_value B L items) (a\<lparr>sp_items := (sp_items a)(k := items)\<rparr>)"

definition spec_edit ::
  "editor_lib \<Rightarrow> body_lib \<Rightarrow> lib \<Rightarrow> string \<Rightarrow> form_param \<Rightarrow> edit \<Rightarrow> table_spec \<Rightarrow> table_spec" where
  "spec_edit E B L k p e a =
     (case (renderConfigCurrentValuePro p, e) of
        (Inr (TextCell t), Typed type v) \<Rightarrow>
          (if accepted E p v then record_value k (getValueFromEvent B L (fst (text_event p type v)) v) a else a)
      | (Inr SliderCell, Slid type v) \<Rightarrow>
          (if accepted E p v then record_value k (getValueFromEvent B L type v) a else a)
      | (Inr BooleanCell, Toggled b) \<Rightarrow> record_value k (JBool b) a
      | (Inr (ArrayCell type), ItemChanged i v) \<Rightarrow> record_items B L k ((sp_items a k)[i := v]) a
      | (Inr (ArrayCell type), ItemAdded) \<Rightarrow>
          record_items B L k (sp_items a k @ [getDefaultDataFromType type]) a
      | (Inr (ArrayCell type), ItemDeleted i) \<Rightarrow>
          a\<lparr>sp_items := (sp_items a)(k := take i (sp_items a k) @ drop (Suc i) (sp_items a k))\<rparr>
      | _ \<Rightarrow> a)"

definition first_items :: "form_param \<Rightarrow> json list" where
  "first_items p = (case renderConfigCurrentValuePro p of
     Inr (ArrayCell type) \<Rightarrow> ar_items (array_init type p) | _ \<Rightarrow> [])"

definition spec_step ::
  "editor_lib \<Rightarrow> body_lib \<Rightarrow> lib \<Rightarrow> (string \<Rightarrow> form_param option) \<Rightarrow> table_event \<Rightarrow> table_spec \<Rightarrow> table_spec" where
  "spec_step E B L P ev a =
     (case ev of
        Edit k e \<Rightarrow> (case P k of None \<Rightarrow> a | Some p \<Rightarrow> spec_edit E B L k p e a)
      | Fire \<Rightarrow> a
      | Mount k \<Rightarrow> a\<lparr>sp_items := (sp_items a)(k := (case P k of None \<Rightarrow> [] | Some p \<Rightarrow> first_items p))\<rparr>)"

definition spec_init :: "(string \<Rightarrow> form_param option) \<Rightarrow> table_spec" where
  "spec_init P =
     \<lparr>sp_items = (\<lambda>k. case P k of None \<Rightarrow> [] | Some p \<Rightarrow> first_items p), sp_recorded = (\<lambda>k. None)\<rparr>"

text \<open>What the table stands for: the items shown, and the changes once every timer has fired.\<close>

definition eventual :: "body_lib \<Rightarrow> lib \<Rightarrow> form_timers \<Rightarrow> json jsobj \<Rightarrow> json jsobj" where
  "eventual B L T changes =
     fold (\<lambda>c m. obj_set (pc_key c) (change_value B L c) m) (ft_queue T) changes"

definition shown_items :: "param_editor option \<Rightarrow> json list" where
  "shown_items ed = (case ed of Some (ArrayE a) \<Rightarrow> ar_items a | _ \<Rightarrow> [])"

definition table_abs :: "body_lib \<Rightarrow> lib \<Rightarrow> table_state \<Rightarrow> table_spec" where
  "table_abs B L s =
     \<lparr>sp_items = (\<lambda>k. shown_items (ts_editors s k)),
      sp_recorded = obj_get (eventual B L (ts_timers s) (ts_changes s))\<rparr>"


section \<open>Gathered changes\<close>

lemma fold_set_get:
  "obj_get (fold (\<lambda>c m. obj_set (f c) (g c) m) cs m) k =
     (case find (\<lambda>c. f c = k) (rev cs) of None \<Rightarrow> obj_get m k | Some c \<Rightarrow> Some (g c))"
  by (induction cs rule: rev_induct) auto

lemma eventual_get:
  "obj_get (eventual B L T m) k =
     (case find (\<lambda>c. pc_key c = k) (rev (ft_queue T)) of
        None \<Rightarrow> obj_get m k | Some c \<Rightarrow> Some (change_value B L c))"
  by (simp add: eventual_def fold_set_get)

lemma find_filtered: "(\<And>x. x \<in> set xs \<Longrightarrow> P x \<Longrightarrow> Q x) \<Longrightarrow> find P (filter Q xs) = find P xs"
  by (induction xs) auto

fun editor_timeout :: "param_editor \<Rightarrow> nat option" where
  "editor_timeout (TextE ed) = ed_timeout ed"
| "editor_timeout (SliderE ed) = ed_timeout ed"
| "editor_timeout (ArrayE ed) = ed_timeout ed"
| "editor_timeout (BooleanE ed) = None"

text \<open>
  A timer that an editor remembers was started for its key, later timers have larger identifiers, and
  toggles start none.
\<close>

definition table_wf :: "table_state \<Rightarrow> bool" where
  "table_wf s \<longleftrightarrow>
     (\<forall>k ed t. ts_editors s k = Some ed \<longrightarrow> editor_timeout ed = Some t \<longrightarrow>
        t < ft_next (ts_timers s) \<and> (\<forall>c \<in> set (ft_queue (ts_timers s)). pc_id c = t \<longrightarrow> pc_key c = k)) \<and>
     (\<forall>c \<in> set (ft_queue (ts_timers s)). pc_id c < ft_next (ts_timers s) \<and>
        (\<forall>b. ts_editors s (pc_key c) \<noteq> Some (BooleanE b)))"

lemma wf_timeout:
  assumes "table_wf s" and "ts_editors s k = Some ed" and "editor_timeout ed = Some t"
  shows "t < ft_next (ts_timers s) \<and> (\<forall>c \<in> set (ft_queue (ts_timers s)). pc_id c = t \<longrightarrow> pc_key c = k)"
  using assms unfolding table_wf_def by blast

locale gathered_change =
  fixes change :: "'e \<Rightarrow> form_timers \<Rightarrow> 'e \<times> form_timers"
    and event :: "'e \<Rightarrow> string \<times> string"
    and as_editor :: "'e \<Rightarrow> param_editor"
    and key :: string
    and ok :: bool
  assumes change_timers: "ok \<Longrightarrow> snd (change ed T) =
      snd (setTimeout key (event ed) (clearTimeout (editor_timeout (as_editor ed)) T))"
    and change_timeout: "ok \<Longrightarrow> editor_timeout (as_editor (fst (change ed T))) = Some (ft_next T)"
    and no_boolean: "as_editor ed \<noteq> BooleanE b"
begin

lemma change_queue:
  assumes ok
  shows "ft_queue (snd (change ed T)) =
      filter (\<lambda>c. Some (pc_id c) \<noteq> editor_timeout (as_editor ed)) (ft_queue T) @
        [\<lparr>pc_id = ft_next T, pc_key = key, pc_type = fst (event ed), pc_value = snd (event ed)\<rparr>]"
    and "ft_next (snd (change ed T)) = Suc (ft_next T)"
  using change_timers [OF assms] by (simp_all add: setTimeout_def clearTimeout_def)

text \<open>A gathered change replaces what was recorded for its key, and nothing else.\<close>

lemma change_recorded:
  assumes ok and "\<forall>c \<in> set (ft_queue T). Some (pc_id c) = editor_timeout (as_editor ed) \<longrightarrow> pc_key c = key"
  shows "obj_get (eventual B L (snd (change ed T)) m) =
     (obj_get (eventual B L T m))(key \<mapsto> getValueFromEvent B L (fst (event ed)) (snd (event ed)))"
proof (rule ext)
  fix k
  have "find (\<lambda>c. pc_key c = k) (filter (\<lambda>c. Some (pc_id c) \<noteq> editor_timeout (as_editor ed)) (rev (ft_queue T))) =
      find (\<lambda>c. pc_key c = k) (rev (ft_queue T))" if "k \<noteq> key"
    using assms(2) that by (intro find_filtered) auto
  then show "obj_get (eventual B L (snd (change ed T)) m) k =
     ((obj_get (eventual B L T m))(key \<mapsto> getValueFromEvent B L (fst (event ed)) (snd (event ed)))) k"
    by (simp add: eventual_get change_queue [OF assms(1)] change_value_def rev_filter [symmetric])
qed

lemma change_wf:
  assumes ok and "table_wf s" and "ts_editors s key = Some (as_editor ed)" and "change ed (ts_timers s) = (ed', T)"
  shows "table_wf (put_editor key (as_editor ed') T s)"
proof -
  have q: "ft_queue T = filter (\<lambda>c. Some (pc_id c) \<noteq> editor_timeout (as_editor ed)) (ft_queue (ts_timers s)) @
        [\<lparr>pc_id = ft_next (ts_timers s), pc_key = key, pc_type = fst (event ed), pc_value = snd (event ed)\<rparr>]"
      and n: "ft_next T = Suc (ft_next (ts_timers s))"
      and t: "editor_timeout (as_editor ed') = Some (ft_next (ts_timers s))"
    using change_queue [OF assms(1), of ed "ts_timers s"] change_timeout [OF assms(1), of ed "ts_timers s"]
    by (simp_all add: assms(4))
  show ?thesis
    using assms(2) no_boolean
    by (fastforce simp: table_wf_def put_editor_def q n t)
qed

lemma change_refines:
  assumes ok and "table_wf s" and "ts_editors s key = Some (as_editor ed)" and "change ed (ts_timers s) = (ed', T)"
    and "s' = put_editor key (as_editor ed') T s"
  shows "table_wf s' \<and> ts_editors s' = (ts_editors s)(key \<mapsto> as_editor ed') \<and>
    table_abs B L s' = record_value key (getValueFromEvent B L (fst (event ed)) (snd (event ed)))
       ((table_abs B L s)\<lparr>sp_items := (sp_items (table_abs B L s))(key := shown_items (Some (as_editor ed')))\<rparr>)"
proof -
  have "\<forall>c \<in> set (ft_queue (ts_timers s)). Some (pc_id c) = editor_timeout (as_editor ed) \<longrightarrow> pc_key c = key"
    using assms(2,3) unfolding table_wf_def by metis
  from change_recorded [OF assms(1) this, of B L "ts_changes s"] change_wf [OF assms(1-4)] show ?thesis
    by (auto simp: table_abs_def put_editor_def record_value_def assms(4,5))
qed

end

interpretation texts: gathered_change
    "\<lambda>ed T. snd (text_change E L p type v ed T)" "\<lambda>ed. text_event p type v" TextE "param_key p" "accepted E p v"
  for E L p type v
  by unfold_locales
    (auto simp: text_change_def gather_def accepted_def setTimeout_def Let_def split: sum.splits)

interpretation sliders: gathered_change
    "\<lambda>ed T. snd (slider_change E p type v ed T)" "\<lambda>ed. (type, v)" SliderE "param_key p" "accepted E p v"
  for E p type v
  by unfold_locales
    (auto simp: slider_change_def gather_def accepted_def setTimeout_def Let_def split: sum.splits)

interpretation items: gathered_change
    "\<lambda>ed T. snd (onChangeArrayItem E L p i v ed T)" "\<lambda>ed. array_event L ((ar_items ed)[i := v])" ArrayE
    "param_key p" True
  for E L p i v
  by unfold_locales
    (auto simp: onChangeArrayItem_def setArrayChangesInParam_def gather_def setTimeout_def Let_def split: sum.splits)

interpretation additions: gathered_change
    "\<lambda>ed T. onAddArrayItem L type p ed T" "\<lambda>ed. array_event L (ar_items ed @ [getDefaultDataFromType type])"
    ArrayE "param_key p" True
  for L type p
  by unfold_locales (auto simp: onAddArrayItem_def setArrayChangesInParam_def gather_def setTimeout_def Let_def)

section \<open>The table implements the specification\<close>

text \<open>Every editor is the one its parameter asks for.\<close>

fun fits :: "js_error + value_cell \<Rightarrow> param_editor \<Rightarrow> bool" where
  "fits (Inr (TextCell t)) (TextE ed) = True"
| "fits (Inr SliderCell) (SliderE ed) = True"
| "fits (Inr BooleanCell) (BooleanE ed) = True"
| "fits (Inr (ArrayCell type)) (ArrayE ed) = True"
| "fits _ _ = False"

fun_cases fitsE: "fits cell (TextE ed)" "fits cell (SliderE ed)" "fits cell (BooleanE ed)" "fits cell (ArrayE ed)"

lemma no_fits [simp]:
  "(\<forall>ed. \<not> fits (Inr BooleanCell) ed) = False" "(\<forall>ed. \<not> fits (Inr SliderCell) ed) = False"
  "(\<forall>ed. \<not> fits (Inr (ArrayCell type)) ed) = False" "(\<forall>ed. \<not> fits (Inr (TextCell t)) ed) = False"
  by (meson fits.simps(1-4))+

lemma boolean_fits: "fits (Inr BooleanCell) ed = (\<exists>b. ed = BooleanE b)"
  by (cases ed) auto

lemma text_fits: "fits (Inr (TextCell t)) ed = (\<exists>x. ed = TextE x)"
  by (cases ed) auto

definition table_fits :: "(string \<Rightarrow> form_param option) \<Rightarrow> table_state \<Rightarrow> bool" where
  "table_fits P s \<longleftrightarrow>
     (\<forall>k. case ts_editors s k of
        None \<Rightarrow> (\<forall>p ed. P k = Some p \<longrightarrow> \<not> fits (renderConfigCurrentValuePro p) ed)
      | Some ed \<Rightarrow> (\<exists>p. P k = Some p \<and> fits (renderConfigCurrentValuePro p) ed))"

lemma fits_mount:
  "mount_editor E L p = Some e \<Longrightarrow>
     fits (renderConfigCurrentValuePro p) e \<and> editor_timeout e = None \<and> shown_items (Some e) = first_items p"
  "mount_editor E L p = None \<Longrightarrow> \<not> fits (renderConfigCurrentValuePro p) ed \<and> first_items p = []"
  by (auto simp: mount_editor_def first_items_def shown_items_def text_init_def slider_init_def array_init_def
      split: sum.splits value_cell.splits elim: fits.elims)

lemma array_cell_type: "renderConfigCurrentValuePro p = Inr (ArrayCell type) \<Longrightarrow> type = array_item_type p"
  by (cases "is_password p")
    (auto simp: renderConfigCurrentValuePro_def split: if_splits option.splits)

lemma rejected_text:
  "\<not> accepted E p v \<Longrightarrow> \<exists>e ed'. text_change E L p type v ed T = (Some e, ed', T) \<and> ed_timeout ed' = ed_timeout ed"
  by (auto simp: text_change_def accepted_def Let_def split: sum.splits)

lemma rejected_slider:
  "\<not> accepted E p v \<Longrightarrow> \<exists>e ed'. slider_change E p type v ed T = (Some e, ed', T) \<and> ed_timeout ed' = ed_timeout ed"
  by (auto simp: slider_change_def accepted_def Let_def split: sum.splits)

lemma local_change_wf:
  assumes "table_wf s" and "ts_editors s k = Some ed" and "editor_timeout ed' = editor_timeout ed"
    and "(\<exists>b. ed' = BooleanE b) = (\<exists>b. ed = BooleanE b)"
  shows "table_wf (put_editor k ed' (ts_timers s) s)"
proof -
  have "t < ft_next (ts_timers s) \<and> (\<forall>c \<in> set (ft_queue (ts_timers s)). pc_id c = t \<longrightarrow> pc_key c = j)"
    if "ts_editors (put_editor k ed' (ts_timers s) s) j = Some e" "editor_timeout e = Some t" for j e t
  proof (cases "j = k")
    case True
    with that assms(3) have "editor_timeout ed = Some t" by (simp add: put_editor_def)
    from wf_timeout [OF assms(1,2) this] True show ?thesis by simp
  next
    case False
    with that wf_timeout [OF assms(1)] show ?thesis by (simp add: put_editor_def)
  qed
  moreover have "pc_id c < ft_next (ts_timers s) \<and>
      ts_editors (put_editor k ed' (ts_timers s) s) (pc_key c) \<noteq> Some (BooleanE b)"
    if "c \<in> set (ft_queue (ts_timers s))" for c b
    using assms(1,2,4) that unfolding table_wf_def put_editor_def by (cases "pc_key c = k") auto
  ultimately show ?thesis unfolding table_wf_def by (simp add: put_editor_def)
qed

lemma boolean_recorded:
  assumes "table_wf s" and "ts_editors s k = Some (BooleanE b)"
  shows "obj_get (eventual B L (ts_timers s) (obj_set k v m)) = (obj_get (eventual B L (ts_timers s) m))(k \<mapsto> v)"
proof (rule ext)
  fix j
  have "find (\<lambda>c. pc_key c = k) (rev (ft_queue (ts_timers s))) = None"
    using assms by (force simp: table_wf_def find_None_iff)
  then show "obj_get (eventual B L (ts_timers s) (obj_set k v m)) j =
      ((obj_get (eventual B L (ts_timers s) m))(k \<mapsto> v)) j"
    by (auto simp: eventual_get split: option.split)
qed

lemma same_items: "sp_items a k = xs \<Longrightarrow> a\<lparr>sp_items := (sp_items a)(k := xs)\<rparr> = a"
  by (metis fun_upd_triv table_spec.surjective table_spec.update_convs(1))

lemma abs_items: "sp_items (table_abs B L s) k = shown_items (ts_editors s k)"
  by (simp add: table_abs_def)

lemma local_change_refines:
  assumes "table_wf s" and "ts_editors s k = Some ed" and "editor_timeout ed' = editor_timeout ed"
    and "(\<exists>b. ed' = BooleanE b) = (\<exists>b. ed = BooleanE b)" and "s' = put_editor k ed' (ts_timers s) s"
  shows "table_wf s' \<and> ts_editors s' = (ts_editors s)(k \<mapsto> ed') \<and>
    table_abs B L s' = (table_abs B L s)\<lparr>sp_items := (sp_items (table_abs B L s))(k := shown_items (Some ed'))\<rparr>"
  using local_change_wf [OF assms(1-4)] by (auto simp: assms(5) table_abs_def put_editor_def)

lemma shown_simps [simp]:
  "shown_items (Some (TextE t)) = []" "shown_items (Some (SliderE sl)) = []"
  "shown_items (Some (BooleanE b)) = []" "shown_items (Some (ArrayE a)) = ar_items a"
  by (simp_all add: shown_items_def)

text \<open>What an edit of one editor has to show: the table stays well formed, the editor fits its cell, and the
  abstract table takes the edit at once.\<close>

definition edit_refined ::
  "editor_lib \<Rightarrow> body_lib \<Rightarrow> lib \<Rightarrow> string \<Rightarrow> form_param \<Rightarrow> edit \<Rightarrow> table_state \<Rightarrow> table_state \<Rightarrow> bool" where
  "edit_refined E B L k p e s s' \<longleftrightarrow>
     table_wf s' \<and> (\<exists>ed'. ts_editors s' = (ts_editors s)(k \<mapsto> ed') \<and> fits (renderConfigCurrentValuePro p) ed') \<and>
     table_abs B L s' = spec_edit E B L k p e (table_abs B L s)"

lemma text_refines:
  assumes "table_wf s" and k: "param_key p = k" and ek: "ts_editors s k = Some (TextE x)"
    and fit: "fits (renderConfigCurrentValuePro p) (TextE x)" and step: "edit_param E B L k p (TextE x) (Typed type v) s = (err, s')"
  shows "edit_refined E B L k p (Typed type v) s s'"
proof -
  have same: "(table_abs B L s)\<lparr>sp_items := (sp_items (table_abs B L s))(k := [])\<rparr> = table_abs B L s"
    by (rule same_items) (simp add: abs_items ek)
  from fit obtain t where cell: "renderConfigCurrentValuePro p = Inr (TextCell t)" by (auto elim: fitsE)
  obtain er y T where c: "text_change E L p type v x (ts_timers s) = (er, y, T)" by (metis prod_cases3)
  then have s': "s' = put_editor (param_key p) (TextE y) T s" using k step by simp
  show ?thesis
  proof (cases "accepted E p v")
    case True
    have "snd (text_change E L p type v x (ts_timers s)) = (y, T)" by (simp add: c)
    from texts.change_refines [OF True assms(1) _ this s', of B L] show ?thesis
      using k ek same by (auto simp: cell True edit_refined_def spec_edit_def text_event_def)
  next
    case False
    from rejected_text [OF this, of L type x "ts_timers s"] c
    have "T = ts_timers s" "ed_timeout y = ed_timeout x" by auto
    with local_change_refines [OF assms(1) ek, of "TextE y" s' B L] s' k same show ?thesis
      by (auto simp: cell False edit_refined_def spec_edit_def)
  qed
qed

lemma slider_refines:
  assumes "table_wf s" and k: "param_key p = k" and ek: "ts_editors s k = Some (SliderE x)"
    and fit: "fits (renderConfigCurrentValuePro p) (SliderE x)" and step: "edit_param E B L k p (SliderE x) (Slid type v) s = (err, s')"
  shows "edit_refined E B L k p (Slid type v) s s'"
proof -
  have same: "(table_abs B L s)\<lparr>sp_items := (sp_items (table_abs B L s))(k := [])\<rparr> = table_abs B L s"
    by (rule same_items) (simp add: abs_items ek)
  from fit have cell: "renderConfigCurrentValuePro p = Inr SliderCell" by (auto elim: fitsE)
  obtain er y T where c: "slider_change E p type v x (ts_timers s) = (er, y, T)" by (metis prod_cases3)
  then have s': "s' = put_editor (param_key p) (SliderE y) T s" using k step by simp
  show ?thesis
  proof (cases "accepted E p v")
    case True
    have "snd (slider_change E p type v x (ts_timers s)) = (y, T)" by (simp add: c)
    from sliders.change_refines [OF True assms(1) _ this s', of B L] show ?thesis
      using k ek same by (auto simp: cell True edit_refined_def spec_edit_def)
  next
    case False
    from rejected_slider [OF this, of type x "ts_timers s"] c
    have "T = ts_timers s" "ed_timeout y = ed_timeout x" by auto
    with local_change_refines [OF assms(1) ek, of "SliderE y" s' B L] s' k same show ?thesis
      by (auto simp: cell False edit_refined_def spec_edit_def)
  qed
qed

lemma boolean_refines:
  assumes "table_wf s" and k: "param_key p = k" and ek: "ts_editors s k = Some (BooleanE x)"
    and fit: "fits (renderConfigCurrentValuePro p) (BooleanE x)" and step: "edit_param E B L k p (BooleanE x) (Toggled v) s = (err, s')"
  shows "edit_refined E B L k p (Toggled v) s s'"
proof -
  have same: "(table_abs B L s)\<lparr>sp_items := (sp_items (table_abs B L s))(k := [])\<rparr> = table_abs B L s"
    by (rule same_items) (simp add: abs_items ek)
  from fit have cell: "renderConfigCurrentValuePro p = Inr BooleanCell" by (auto elim: fitsE)
  obtain y m where c: "boolean_change B L p v x (ts_changes s) = (y, m)" by fastforce
  then have m: "m = obj_set k (JBool v) (ts_changes s)"
    by (auto simp: boolean_change_def k getValueFromEvent_def getStringValue_def)
  have s': "s' = (put_editor k (BooleanE y) (ts_timers s) s)\<lparr>ts_changes := m\<rparr>" using step c by simp
  have "table_wf (put_editor k (BooleanE y) (ts_timers s) s)"
    by (rule local_change_wf [OF assms(1) ek]) simp_all
  moreover have "table_abs B L s' = record_value k (JBool v)
      ((table_abs B L s)\<lparr>sp_items := (sp_items (table_abs B L s))(k := [])\<rparr>)"
    using boolean_recorded [OF assms(1) ek, of B L "JBool v" "ts_changes s"]
    by (auto simp: table_abs_def s' m put_editor_def record_value_def)
  ultimately show ?thesis using same
    by (auto simp: s' cell edit_refined_def spec_edit_def table_wf_def put_editor_def)
qed

lemma item_refines:
  assumes "table_wf s" and k: "param_key p = k" and ek: "ts_editors s k = Some (ArrayE x)"
    and fit: "fits (renderConfigCurrentValuePro p) (ArrayE x)" and step: "edit_param E B L k p (ArrayE x) (ItemChanged i v) s = (err, s')"
  shows "edit_refined E B L k p (ItemChanged i v) s s'"
proof -
  have items: "sp_items (table_abs B L s) k = ar_items x" using ek by (simp add: abs_items)
  from fit obtain t where cell: "renderConfigCurrentValuePro p = Inr (ArrayCell t)" by (auto elim: fitsE)
  obtain er y T where c: "onChangeArrayItem E L p i v x (ts_timers s) = (er, y, T)" by (metis prod_cases3)
  then have y: "ar_items y = (ar_items x)[i := v]"
    by (auto simp: onChangeArrayItem_def setArrayChangesInParam_def gather_def Let_def split: prod.splits sum.splits)
  from c have s': "s' = put_editor (param_key p) (ArrayE y) T s" using k step by simp
  have "snd (onChangeArrayItem E L p i v x (ts_timers s)) = (y, T)" by (simp add: c)
  from items.change_refines [OF TrueI assms(1) _ this s', of B L] show ?thesis
    using k ek items y
    by (auto simp: cell edit_refined_def spec_edit_def record_items_def array_value_def array_event_def getStringValue_def)
qed

lemma addition_refines:
  assumes "table_wf s" and k: "param_key p = k" and ek: "ts_editors s k = Some (ArrayE x)"
    and fit: "fits (renderConfigCurrentValuePro p) (ArrayE x)" and step: "edit_param E B L k p (ArrayE x) (ItemAdded) s = (err, s')"
  shows "edit_refined E B L k p (ItemAdded) s s'"
proof -
  have items: "sp_items (table_abs B L s) k = ar_items x" using ek by (simp add: abs_items)
  from fit obtain t where cell: "renderConfigCurrentValuePro p = Inr (ArrayCell t)" by (auto elim: fitsE)
  note t = array_cell_type [OF cell]
  obtain y T where c: "onAddArrayItem L t p x (ts_timers s) = (y, T)" by fastforce
  then have y: "ar_items y = ar_items x @ [getDefaultDataFromType t]"
    by (auto simp: onAddArrayItem_def setArrayChangesInParam_def gather_def Let_def split: prod.splits)
  from c have s': "s' = put_editor (param_key p) (ArrayE y) T s" using k step by (simp add: t)
  from additions.change_refines [OF TrueI assms(1) _ c s', of B L] show ?thesis
    using k ek items y
    by (auto simp: cell edit_refined_def spec_edit_def record_items_def array_value_def array_event_def getStringValue_def)
qed

lemma deletion_refines:
  assumes "table_wf s" and k: "param_key p = k" and ek: "ts_editors s k = Some (ArrayE x)"
    and fit: "fits (renderConfigCurrentValuePro p) (ArrayE x)" and step: "edit_param E B L k p (ArrayE x) (ItemDeleted i) s = (err, s')"
  shows "edit_refined E B L k p (ItemDeleted i) s s'"
proof -
  have items: "sp_items (table_abs B L s) k = ar_items x" using ek by (simp add: abs_items)
  from fit obtain t where cell: "renderConfigCurrentValuePro p = Inr (ArrayCell t)" by (auto elim: fitsE)
  have s': "s' = put_editor k (ArrayE (onDeleteArrayItem i x)) (ts_timers s) s" using step by simp
  from local_change_refines [OF assms(1) ek _ _ s', of B L] show ?thesis
    using items by (auto simp: cell edit_refined_def spec_edit_def onDeleteArrayItem_def)
qed

lemma edit_refines:
  assumes "table_wf s" and "param_key p = k" and ek: "ts_editors s k = Some ed"
    and fit: "fits (renderConfigCurrentValuePro p) ed" and step: "edit_param E B L k p ed e s = (err, s')"
  shows "edit_refined E B L k p e s s'"
proof -
  have still: "\<exists>ed'. ts_editors s = (ts_editors s)(k \<mapsto> ed') \<and> fits (renderConfigCurrentValuePro p) ed'"
    using ek fit by (intro exI [of _ ed]) (simp add: fun_upd_idem)
  show ?thesis
  proof (cases "(E, B, L, k, p, ed, e, s)" rule: edit_param.cases)
    case (1 E' B' L' k' p' x type v s0)
    then have "ed = TextE x" "e = Typed type v" by simp_all
    then show ?thesis using text_refines [OF assms(1,2)] ek fit step by blast
  next
    case (2 E' B' L' k' p' x type v s0)
    then have "ed = SliderE x" "e = Slid type v" by simp_all
    then show ?thesis using slider_refines [OF assms(1,2)] ek fit step by blast
  next
    case (3 E' B' L' k' p' x v s0)
    then have "ed = BooleanE x" "e = Toggled v" by simp_all
    then show ?thesis using boolean_refines [OF assms(1,2)] ek fit step by blast
  next
    case (4 E' B' L' k' p' x i v s0)
    then have "ed = ArrayE x" "e = ItemChanged i v" by simp_all
    then show ?thesis using item_refines [OF assms(1,2)] ek fit step by blast
  next
    case (5 E' B' L' k' p' x s0)
    then have "ed = ArrayE x" "e = ItemAdded" by simp_all
    then show ?thesis using addition_refines [OF assms(1,2)] ek fit step by blast
  next
    case (6 E' B' L' k' p' x i s0)
    then have "ed = ArrayE x" "e = ItemDeleted i" by simp_all
    then show ?thesis using deletion_refines [OF assms(1,2)] ek fit step by blast
  qed (use assms still in \<open>auto simp: edit_refined_def spec_edit_def elim!: fits.elims\<close>)
qed

lemma no_editor_spec: "\<forall>ed. \<not> fits (renderConfigCurrentValuePro p) ed \<Longrightarrow> spec_edit E B L k p e a = a"
  by (auto simp: spec_edit_def split: sum.split value_cell.split)

lemma fire_eventual:
  "fire_timer B L (T, m) = (T', m') \<Longrightarrow> eventual B L T' m' = eventual B L T m"
  by (auto simp: fire_timer_def eventual_def split: list.splits)

lemma fire_queue:
  assumes "fire_timer B L (T, m) = (T', m')"
  shows "ft_queue T' = tl (ft_queue T)" and "ft_next T' = ft_next T"
  using assms by (auto simp: fire_timer_def split: list.splits)

lemma table_wf_subset:
  assumes "table_wf s" and "set (ft_queue T) \<subseteq> set (ft_queue (ts_timers s))" and "ft_next T = ft_next (ts_timers s)"
  shows "table_wf (s\<lparr>ts_timers := T, ts_changes := m\<rparr>)"
  using assms unfolding table_wf_def by (simp add: subset_iff)

lemma mount_wf:
  assumes "table_wf s" and "table_fits P s"
  shows "table_wf (s\<lparr>ts_editors := (ts_editors s)(k := Option.bind (P k) (mount_editor E L))\<rparr>)"
    (is "table_wf ?s")
proof -
  have "t < ft_next (ts_timers s) \<and> (\<forall>c \<in> set (ft_queue (ts_timers s)). pc_id c = t \<longrightarrow> pc_key c = j)"
    if "ts_editors ?s j = Some e" "editor_timeout e = Some t" for j e t
  proof (cases "j = k")
    case True
    with that obtain p where "P k = Some p" "mount_editor E L p = Some e" by (auto simp: bind_eq_Some_conv)
    with fits_mount(1) [of E L p] that(2) show ?thesis by simp
  next
    case False
    with that wf_timeout [OF assms(1)] show ?thesis by simp
  qed
  moreover have "ts_editors ?s (pc_key c) \<noteq> Some (BooleanE b)" if c: "c \<in> set (ft_queue (ts_timers s))" for c b
  proof
    assume b: "ts_editors ?s (pc_key c) = Some (BooleanE b)"
    show False
    proof (cases "pc_key c = k")
      case True
      with b obtain p where p: "P k = Some p" "mount_editor E L p = Some (BooleanE b)" by (auto simp: bind_eq_Some_conv)
      with fits_mount(1) [of E L p] have cell: "renderConfigCurrentValuePro p = Inr BooleanCell" by (auto elim: fitsE)
      have "\<exists>b. ts_editors s k = Some (BooleanE b)"
        using assms(2) p(1) cell unfolding table_fits_def
        by (cases "ts_editors s k") (auto dest!: spec [of _ k] dest: boolean_fits [THEN iffD1])
      with assms(1) c True show False unfolding table_wf_def by blast
    next
      case False
      with b assms(1) c show False unfolding table_wf_def by auto
    qed
  qed
  ultimately show ?thesis using assms(1) unfolding table_wf_def by simp
qed

text \<open>The parameters of the table are found under their keys.\<close>

definition keyed :: "(string \<Rightarrow> form_param option) \<Rightarrow> bool" where
  "keyed P \<longleftrightarrow> (\<forall>k p. P k = Some p \<longrightarrow> param_key p = k)"

lemma keyedD: "keyed P \<Longrightarrow> P k = Some p \<Longrightarrow> param_key p = k"
  by (simp add: keyed_def)

lemma table_step_refines:
  assumes keys: "keyed P" and wf: "table_wf s" and ft: "table_fits P s"
    and s'_def: "s' = snd (table_step E B L P ev s)"
  shows "table_wf s' \<and> table_fits P s' \<and> table_abs B L s' = spec_step E B L P ev (table_abs B L s)"
proof (cases ev)
  case (Edit k e)
  show ?thesis
  proof (cases "P k")
    case None
    with wf ft show ?thesis by (simp add: s'_def Edit table_step_def spec_step_def)
  next
    case (Some p)
    show ?thesis
    proof (cases "ts_editors s k")
      case None
      then have "\<forall>ed. \<not> fits (renderConfigCurrentValuePro p) ed"
        using ft Some unfolding table_fits_def by (auto dest!: spec [of _ k])
      then show ?thesis using wf ft Some None
        by (simp add: s'_def Edit table_step_def spec_step_def no_editor_spec)
    next
      case (Some ed)
      have fit: "fits (renderConfigCurrentValuePro p) ed"
        using ft Some \<open>P k = Some p\<close> unfolding table_fits_def by (auto dest!: spec [of _ k])
      have "edit_param E B L k p ed e s = (fst (edit_param E B L k p ed e s), s')"
        by (simp add: s'_def Edit table_step_def \<open>P k = Some p\<close> Some)
      from edit_refines [OF wf keyedD [OF keys \<open>P k = Some p\<close>] Some fit this] show ?thesis
        using ft \<open>P k = Some p\<close> by (auto simp: edit_refined_def Edit spec_step_def table_fits_def)
    qed
  qed
next
  case Fire
  obtain T m where f: "fire_timer B L (ts_timers s, ts_changes s) = (T, m)" by fastforce
  have "set (ft_queue T) \<subseteq> set (ft_queue (ts_timers s))"
    using fire_queue(1) [OF f] by (cases "ft_queue (ts_timers s)") auto
  with table_wf_subset [OF wf this fire_queue(2) [OF f]] fire_eventual [OF f] ft show ?thesis
    by (simp add: s'_def Fire table_step_def f spec_step_def table_abs_def table_fits_def)
next
  case (Mount k)
  note fits' = fits_mount [of E L, THEN conjunct1]
  have "table_fits P s'"
    using ft fits' unfolding s'_def Mount table_step_def table_fits_def
    by (cases "P k"; cases "mount_editor E L (the (P k))") (auto split: option.splits dest: spec)
  moreover have "shown_items (Option.bind (P k) (mount_editor E L)) =
      (case P k of None \<Rightarrow> [] | Some p \<Rightarrow> first_items p)"
  proof (cases "P k")
    case (Some p)
    with fits_mount [of E L p] show ?thesis by (cases "mount_editor E L p") (simp_all add: shown_items_def)
  qed (simp add: shown_items_def)
  ultimately show ?thesis using mount_wf [OF wf ft, of k E L]
    by (simp add: s'_def Mount table_step_def spec_step_def table_abs_def fun_eq_iff)
qed

definition drained ::
  "editor_lib \<Rightarrow> body_lib \<Rightarrow> lib \<Rightarrow> (string \<Rightarrow> form_param option) \<Rightarrow> table_state \<Rightarrow> table_state" where
  "drained E B L P s = table_run E B L P (replicate (length (ft_queue (ts_timers s))) Fire) s"

lemma table_run_append:
  "table_run E B L P (evs @ evs') s = table_run E B L P evs' (table_run E B L P evs s)"
  by (simp add: table_run_def)

lemma table_run_refines:
  assumes keys: "keyed P"
  shows "table_wf s \<Longrightarrow> table_fits P s \<Longrightarrow>
    table_abs B L (table_run E B L P evs s) = fold (spec_step E B L P) evs (table_abs B L s)"
proof (induction evs arbitrary: s)
  case Nil
  then show ?case by (simp add: table_run_def)
next
  case (Cons ev evs)
  from table_step_refines [OF keys Cons.prems refl, of E B L ev] Cons.IH show ?case
    by (simp add: table_run_def)
qed

lemma table_run_fits:
  assumes "keyed P"
  shows "table_wf s \<Longrightarrow> table_fits P s \<Longrightarrow> table_fits P (table_run E B L P evs s)"
proof (induction evs arbitrary: s)
  case (Cons ev evs)
  from table_step_refines [OF assms Cons.prems refl, of E B L ev] Cons.IH show ?case
    by (simp add: table_run_def)
qed (simp add: table_run_def)

lemma table_init_good:
  shows "table_wf (table_init E L P)" and "table_fits P (table_init E L P)"
    and "table_abs B L (table_init E L P) = spec_init P"
proof -
  note fits = fits_mount [of E L]
  show "table_wf (table_init E L P)"
    using fits by (auto simp: table_wf_def table_init_def no_timers_def bind_eq_Some_conv)
  show "table_fits P (table_init E L P)"
    using fits by (auto simp: table_fits_def table_init_def bind_eq_Some_conv split: option.split Option.bind_splits)
  have "shown_items (Option.bind (P k) (mount_editor E L)) =
      (case P k of None \<Rightarrow> [] | Some p \<Rightarrow> first_items p)" for k
  proof (cases "P k")
    case (Some p)
    with fits [of p] show ?thesis by (cases "mount_editor E L p") (simp_all add: shown_items_def)
  qed (simp add: shown_items_def)
  then show "table_abs B L (table_init E L P) = spec_init P"
    by (simp add: table_abs_def table_init_def spec_init_def eventual_def no_timers_def fun_eq_iff)
qed

lemma drained_queue: "ft_queue (ts_timers (drained E B L P s)) = []"
proof -
  have "ft_queue (ts_timers (table_run E B L P (replicate n Fire) s)) = drop n (ft_queue (ts_timers s))" for n s
  proof (induction n arbitrary: s)
    case 0
    show ?case by (simp add: table_run_def)
  next
    case (Suc n)
    obtain T m where f: "fire_timer B L (ts_timers s, ts_changes s) = (T, m)" by fastforce
    from Suc [of "s\<lparr>ts_timers := T, ts_changes := m\<rparr>"] fire_queue(1) [OF f] show ?case
      by (simp add: table_run_def table_step_def f drop_Suc)
  qed
  then show ?thesis by (simp add: drained_def)
qed

lemma drained_refines:
  assumes "keyed P"
  shows "sp_recorded (fold (spec_step E B L P) evs (spec_init P)) =
      obj_get (ts_changes (drained E B L P (table_run E B L P evs (table_init E L P))))"
    and "sp_items (fold (spec_step E B L P) evs (spec_init P)) k =
      shown_items (ts_editors (table_run E B L P evs (table_init E L P)) k)"
proof -
  let ?s = "table_run E B L P evs (table_init E L P)"
  have fires: "(spec_step E B L P Fire ^^ n) a = a" for n a
    by (induction n) (simp_all add: spec_step_def)
  have abs: "table_abs B L ?s = fold (spec_step E B L P) evs (spec_init P)"
    using table_run_refines [OF assms table_init_good(1,2), where evs = evs and B = B and E = E and L = L] table_init_good(3) by simp
  have "table_abs B L (drained E B L P ?s) = table_abs B L ?s"
    using table_run_refines [OF assms table_init_good(1,2), where B = B and E = E and L = L
        and evs = "evs @ replicate (length (ft_queue (ts_timers ?s))) Fire"] abs table_init_good(3)
    by (simp add: drained_def table_run_append fires)
  then have "sp_recorded (fold (spec_step E B L P) evs (spec_init P)) =
      sp_recorded (table_abs B L (drained E B L P ?s))" by (simp add: abs)
  then show "sp_recorded (fold (spec_step E B L P) evs (spec_init P)) = obj_get (ts_changes (drained E B L P ?s))"
    by (simp add: table_abs_def eventual_def drained_queue)
  show "sp_items (fold (spec_step E B L P) evs (spec_init P)) k = shown_items (ts_editors ?s k)"
    unfolding abs [symmetric] by (simp add: table_abs_def)
qed

section \<open>Properties\<close>

text \<open>
  C11: The timers lose nothing in the end. Whatever the user does in the editors of the table, in
  whatever order timers fire in between, and however often editors are mounted again: once the pending timers
  have fired, the unsaved changes are those of a table that records every accepted edit at once, key by key,
  and the arrays show the items it shows.
\<close>
theorem gathered_changes_recorded:
  assumes "keyed P"
  shows "let s = table_run E B L P evs (table_init E L P); s' = drained E B L P s;
             a = fold (spec_step E B L P) evs (spec_init P) in
    ft_queue (ts_timers s') = [] \<and>
    (\<forall>k. obj_get (ts_changes s') k = sp_recorded a k \<and> shown_items (ts_editors s k) = sp_items a k)"
  using drained_refines [OF assms] drained_queue by (simp add: Let_def)

text \<open>
  A deleted item of an array stays in the values. The editor shows the array without it, and
  what is recorded is what was recorded before: unless another change of the array follows, the item is
  submitted.
\<close>
theorem deleted_item_stays:
  assumes "keyed P"
    and "P k = Some p" "renderConfigCurrentValuePro p = Inr (ArrayCell type)"
    and "s = table_run E B L P evs (table_init E L P)" "i < length (shown_items (ts_editors s k))"
  shows "let s' = snd (table_step E B L P (Edit k (ItemDeleted i)) s) in
    length (shown_items (ts_editors s' k)) < length (shown_items (ts_editors s k)) \<and>
    obj_get (ts_changes (drained E B L P s')) = obj_get (ts_changes (drained E B L P s))"
proof -
  let ?s' = "snd (table_step E B L P (Edit k (ItemDeleted i)) s)"
  have s': "?s' = table_run E B L P (evs @ [Edit k (ItemDeleted i)]) (table_init E L P)"
    by (simp add: assms(4) table_run_def)
  note after = drained_refines [OF assms(1), where evs = "evs @ [Edit k (ItemDeleted i)]" and E = E and B = B and L = L]
    and before = drained_refines [OF assms(1), where evs = evs and E = E and B = B and L = L]
  have step: "spec_step E B L P (Edit k (ItemDeleted i)) a =
      a\<lparr>sp_items := (sp_items a)(k := take i (sp_items a k) @ drop (Suc i) (sp_items a k))\<rparr>" for a
    by (simp add: spec_step_def spec_edit_def assms(2,3))
  have "shown_items (ts_editors ?s' k) =
      take i (shown_items (ts_editors s k)) @ drop (Suc i) (shown_items (ts_editors s k))"
    using after(2) [of k] before(2) [of k, folded assms(4)] unfolding s' [symmetric] by (simp add: step)
  moreover have "obj_get (ts_changes (drained E B L P ?s')) = obj_get (ts_changes (drained E B L P s))"
    using after(1) before(1) [folded assms(4)] unfolding s' [symmetric] by (simp add: step)
  ultimately show ?thesis using assms(5) by (simp add: Let_def)
qed

text \<open>
  C13: A text that is rejected is shown and not recorded. When the validation raises, as it does on a text
  that is no YAML, the field keeps the text and an earlier one stays pending: what is recorded in the end is
  what was recorded before the edit.
\<close>
theorem rejected_text_not_recorded:
  assumes "keyed P"
    and "P k = Some p" "renderConfigCurrentValuePro p = Inr (TextCell t)" "el_validate E v (fp_schema p) = Inl e"
    and "s = table_run E B L P evs (table_init E L P)"
  shows "\<exists>s' ed. table_step E B L P (Edit k (Typed type v)) s = (Some e, s') \<and>
    ts_editors s' k = Some (TextE ed) \<and> tx_currentValue ed = v \<and>
    obj_get (ts_changes (drained E B L P s')) = obj_get (ts_changes (drained E B L P s))"
proof -
  let ?r = "table_step E B L P (Edit k (Typed type v)) s"
  have s': "snd ?r = table_run E B L P (evs @ [Edit k (Typed type v)]) (table_init E L P)"
    by (simp add: assms(5) table_run_def)
  note after = drained_refines [OF assms(1), where evs = "evs @ [Edit k (Typed type v)]" and E = E and B = B and L = L]
    and before = drained_refines [OF assms(1), where evs = evs and E = E and B = B and L = L]
  have "spec_step E B L P (Edit k (Typed type v)) a = a" for a
    by (simp add: spec_step_def spec_edit_def assms(2,3,4) accepted_def)
  then have same: "obj_get (ts_changes (drained E B L P (snd ?r))) = obj_get (ts_changes (drained E B L P s))"
    using after before [folded assms(5)] unfolding s' [symmetric] by simp
  have "table_fits P s"
    unfolding assms(5) by (rule table_run_fits [OF assms(1) table_init_good(1,2)])
  then have "case ts_editors s k of None \<Rightarrow> \<forall>ed. \<not> fits (Inr (TextCell t)) ed | Some ed \<Rightarrow> fits (Inr (TextCell t)) ed"
    using assms(2,3) unfolding table_fits_def by (auto split: option.splits dest!: spec [of _ k])
  then obtain ed where ed: "ts_editors s k = Some (TextE ed)" by (auto simp: text_fits split: option.splits)
  then have "?r = (Some e, snd ?r)" "\<exists>ed'. ts_editors (snd ?r) k = Some (TextE ed') \<and> tx_currentValue ed' = v"
    using assms(2,4) ed by (auto simp: table_step_def text_change_def put_editor_def Let_def prod_eq_iff)
  with same show ?thesis by (metis prod.collapse)
qed

lemma gathered_event:
  assumes "text_change E L p type v ed T = (None, ed', T')"
    and "ft_queue (clearTimeout (ed_timeout ed) T) = []" and "fire_timer B L (T', []) = (T'', m)"
  shows "ft_queue T'' = []"
    and "m = [(param_key p, getValueFromEvent B L (fst (text_event p type v)) v)]"
proof -
  have "ft_queue T' = [\<lparr>pc_id = ft_next T, pc_key = param_key p, pc_type = fst (text_event p type v), pc_value = v\<rparr>]"
    using assms(1,2)
    by (auto simp: text_change_def gather_def setTimeout_def text_event_def Let_def split: sum.splits)
  with assms(3) show "ft_queue T'' = []" "m = [(param_key p, getValueFromEvent B L (fst (text_event p type v)) v)]"
    by (auto simp: fire_timer_def change_value_def)
qed


text \<open>
  The cells of the table stay short. Whatever a parameter is called and whatever text or JSON it
  holds, a cell shows at most three characters more than its limit, and it shows a value in full or a piece of it
  with dots.
\<close>
theorem cells_bounded:
  "length (key_text p) \<le> 43 \<and>
   (0 < n \<longrightarrow> (\<forall>m. value \<noteq> Some (JNum m)) \<longrightarrow> length (value_text L n value) \<le> n + 2) \<and>
   (\<exists>a b. s = a @ b \<and> trimmed_text front n s \<in> {s, ''...'' @ b, a @ ''...''})"
proof (intro conjI impI)
  show "length (key_text p) \<le> 43" by (simp add: key_text_def trimmed_text_def)
  show "length (value_text L n value) \<le> n + 2" if "0 < n" "\<forall>m. value \<noteq> Some (JNum m)"
    using that by (auto simp: value_text_def trimmed_text_def split: option.split json.split)
  show "\<exists>a b. s = a @ b \<and> trimmed_text front n s \<in> {s, ''...'' @ b, a @ ''...''}"
  proof (cases "length s > n")
    case True
    show ?thesis
      by (rule exI [of _ "if front then take (length s - n) s else take (n - 1) s"],
          rule exI [of _ "if front then drop (length s - n) s else drop (n - 1) s"])
        (simp add: True trimmed_text_def)
  qed (auto simp: trimmed_text_def)
qed

section \<open>Deviations\<close>

text \<open>A current value of zero is shown as the minimum of the schema.\<close>

lemma slider_zero_shows_minimum:
  assumes "el_toNumber E (Some (JNum 0)) = Some 0" "el_toNumber E None = None"
    and "edited_value p = Some (JNum 0)" "fp_member p ''exclusiveMinimum'' = None"
    and "el_toNumber E (fp_member p ''minimum'') = Some m"
  shows "sl_currentValue (slider_init E p) = Some m"
  using assms by (simp add: slider_init_def)

text \<open>A default value of zero is shown as an empty cell.\<close>

lemma zero_cell_empty: "value_text L n (Some (JNum 0)) = []"
  by (simp add: value_text_def)

text \<open>A deployed value does not count for the mark of a modified text.\<close>

lemma deployed_value_ignored:
  "fp_deployedValue p \<noteq> None \<Longrightarrow> is_truthy (fp_deployedValue p) \<Longrightarrow> \<not> tx_isValueModified ed \<Longrightarrow>
     text_isModified L p ed \<longleftrightarrow>
       getStringValue L (edited_value p) (fp_type p) \<noteq> getStringValue L (fp_defaultValue p) (fp_type p)"
  by (auto simp: text_isModified_def Let_def)

text \<open>The items a parameter has are not shown, and the first change of the array drops them.\<close>

lemma array_ignores_current:
  "ar_items (array_init type p) = ar_items (array_init type (with_current v p))"
  by (cases p) (simp add: array_init_def fp_number_def fp_member_def)

text \<open>An item picked from an enumeration of numbers is recorded as a text.\<close>

lemma enum_item_is_text: "item_value L number (JStr ''integer'') True (InputText ''8080'') = JStr ''8080''"
  by (simp add: item_value_def)


section \<open>Witnesses\<close>

definition sample_param :: "string \<Rightarrow> (string \<times> json) list \<Rightarrow> form_param" where
  "sample_param key schema =
     FormParam (Some key) (Some (JStr key)) (Some (JObj schema)) (Some False) None None (Some False) None None None
       (Plain None) None"

definition tag_param :: form_param where
  "tag_param = sample_param ''image/tag'' [(''type'', JStr ''string'')]"

definition ports_param :: form_param where
  "ports_param = sample_param ''ports'' [(''type'', JStr ''array'')]"

definition sample_table :: "string \<Rightarrow> form_param option" where
  "sample_table = map_of [(''image/tag'', tag_param), (''ports'', ports_param)]"

definition sample_editors :: editor_lib where
  "sample_editors =
     \<lparr>el_validate = (\<lambda>v s. if v = ''@'' then Inl (JsError ''Plain value cannot start with @'') else Inr (True, None)),
      el_toNumber = (\<lambda>v. case v of Some (JNum n) \<Rightarrow> Some n | _ \<Rightarrow> None)\<rparr>"

lemma sample_cells:
  "renderConfigCurrentValuePro tag_param = Inr (TextCell (Some ''text''))"
  "renderConfigCurrentValuePro ports_param = Inr (ArrayCell (JStr ''string''))"
  "param_key tag_param = ''image/tag''" "param_key ports_param = ''ports''"
  by (simp_all add: renderConfigCurrentValuePro_def tag_param_def ports_param_def sample_param_def is_truthy_def
      fp_type_def fp_member_def js_member_def is_password_def param_key_def opt_string_def array_item_type_def
      toLowerCase_def to_lower_char_def is_upper_def str_includes_def startsWith_def)

lemma sample_keyed: "keyed sample_table"
  by (auto simp: keyed_def sample_table_def sample_cells split: if_splits)

lemma sample_table_simps [simp]:
  "sample_table ''image/tag'' = Some tag_param" "sample_table ''ports'' = Some ports_param"
  by (simp_all add: sample_table_def)

lemma sample_accepted [simp]: "accepted sample_editors p v = (v \<noteq> ''@'')"
  by (simp add: accepted_def sample_editors_def)

lemma tag_type [simp]: "fp_type tag_param = Some ''string''"
  by (simp add: fp_type_def fp_member_def js_member_def tag_param_def sample_param_def)

lemmas spec_eval = spec_step_def spec_edit_def sample_cells record_value_def record_items_def text_event_def
  getValueFromEvent_def getValueFromString_def spec_init_def first_items_def

theorem gathered_changes_recorded_witness:
  "obj_get (ts_changes (drained sample_editors sample_body_lib sample_lib sample_table
     (table_run sample_editors sample_body_lib sample_lib sample_table
        [Edit ''image/tag'' (Typed ''text'' ''v1''), Edit ''ports'' ItemAdded, Fire,
         Edit ''image/tag'' (Typed ''text'' ''v2'')] (table_init sample_editors sample_lib sample_table)))) ''image/tag'' =
     Some (JStr ''v2'')"
  using gathered_changes_recorded [OF sample_keyed, where E = sample_editors and B = sample_body_lib and L = sample_lib
      and evs = "[Edit ''image/tag'' (Typed ''text'' ''v1''), Edit ''ports'' ItemAdded, Fire,
        Edit ''image/tag'' (Typed ''text'' ''v2'')]"]
  by (simp add: Let_def spec_eval)

theorem deleted_item_stays_witness:
  "let s = table_run sample_editors sample_body_lib sample_lib sample_table [Edit ''ports'' ItemAdded]
             (table_init sample_editors sample_lib sample_table);
       s' = snd (table_step sample_editors sample_body_lib sample_lib sample_table (Edit ''ports'' (ItemDeleted 0)) s) in
   length (shown_items (ts_editors s' ''ports'')) < length (shown_items (ts_editors s ''ports'')) \<and>
   obj_get (ts_changes (drained sample_editors sample_body_lib sample_lib sample_table s')) =
     obj_get (ts_changes (drained sample_editors sample_body_lib sample_lib sample_table s))"
proof -
  let ?s = "table_run sample_editors sample_body_lib sample_lib sample_table [Edit ''ports'' ItemAdded]
             (table_init sample_editors sample_lib sample_table)"
  have "0 < length (shown_items (ts_editors ?s ''ports''))"
    using drained_refines(2) [OF sample_keyed, where E = sample_editors and B = sample_body_lib and L = sample_lib
        and evs = "[Edit ''ports'' ItemAdded]" and k = "''ports''"]
    by (auto simp: spec_eval dest: sym)
  from deleted_item_stays [OF sample_keyed _ sample_cells(2) refl this] show ?thesis by (simp add: Let_def)
qed

theorem rejected_text_not_recorded_witness:
  "\<exists>e s' ed. table_step sample_editors sample_body_lib sample_lib sample_table (Edit ''image/tag'' (Typed ''text'' ''@''))
     (table_run sample_editors sample_body_lib sample_lib sample_table [] (table_init sample_editors sample_lib sample_table)) =
       (Some e, s') \<and>
     ts_editors s' ''image/tag'' = Some (TextE ed) \<and> tx_currentValue ed = ''@'' \<and>
     obj_get (ts_changes (drained sample_editors sample_body_lib sample_lib sample_table s')) ''image/tag'' = None"
proof -
  have e: "el_validate sample_editors ''@'' (fp_schema tag_param) = Inl (JsError ''Plain value cannot start with @'')"
    by (simp add: sample_editors_def)
  have "obj_get (ts_changes (drained sample_editors sample_body_lib sample_lib sample_table
      (table_run sample_editors sample_body_lib sample_lib sample_table [] (table_init sample_editors sample_lib sample_table))))
      = (\<lambda>k. None)"
    using drained_refines(1) [OF sample_keyed, where E = sample_editors and B = sample_body_lib and L = sample_lib
        and evs = "[]"] by (simp add: spec_init_def)
  with rejected_text_not_recorded [OF sample_keyed _ sample_cells(1) e refl,
      where k = "''image/tag''" and evs = "[]" and type = "''text''" and B = sample_body_lib and L = sample_lib]
  show ?thesis by auto
qed


theorem cells_bounded_witness:
  "length (value_text sample_lib 60 (Some (JStr (replicate 100 CHR ''x'')))) \<le> 62"
  using cells_bounded [of tag_param 60 "Some (JStr (replicate 100 CHR ''x''))" sample_lib "[]" True] by simp

end
