(* ===== verification/Rendering.thy ===== *)
theory Rendering
  imports Kubeapps_Prelude
begin

text \<open>
  Effects with dependencies, as the pages declare them: an effect runs after a rendering when one of its
  dependencies has changed since it last ran. The locale states this once for the effects of every page.
\<close>

lemma find_in_list: "find P xs = Some x \<Longrightarrow> x \<in> set xs \<and> P x"
  by (auto simp: find_Some_iff)

locale dependency_effect =
  fixes run :: "'d \<Rightarrow> 's \<Rightarrow> 's"
    and seen :: "'s \<Rightarrow> 'd option"
  assumes run_seen: "seen (run d s) = Some d"
    and run_quiet: "seen s = Some d \<Longrightarrow> run d s = s"
begin

lemma run_again: "run d (run d s) = run d s"
  by (simp add: run_quiet run_seen)

lemma quiet_renderings: "set ds \<subseteq> {d} \<Longrightarrow> seen s = Some d \<Longrightarrow> fold run ds s = s"
  by (induction ds) (auto simp: run_quiet)

text \<open>Any number of renderings on the same dependencies is one.\<close>

lemma renderings_once: "set ds = {d} \<Longrightarrow> fold run ds s = run d s"
  by (cases ds) (auto simp: quiet_renderings run_seen)

text \<open>What a handler changes is kept by every rendering until a dependency changes.\<close>

lemma handled_kept:
  "set ds \<subseteq> {d} \<Longrightarrow> seen s = Some d \<Longrightarrow> seen (handler s) = seen s \<Longrightarrow> fold run ds (handler s) = handler s"
  by (rule quiet_renderings) simp_all

end

end
