(* ===== verification/Session_View.thy ===== *)
theory Session_View
  imports Rendering Namespace_Actions Config_Actions Kube_Actions
begin

text \<open>
  What surrounds every page: the routes and the guard of the private ones
  (\<open>containers/RoutesContainer/Routes.tsx\<close>, \<open>components/RequireAuthentication\<close>), the login
  (\<open>components/LoginForm\<close>), the header with its menu and the selector of a cluster and a namespace
  (\<open>components/Header\<close>), the layout, the loaders and the hook that reports location changes
  (\<open>hooks/push.tsx\<close>). The choice of the route a path matches is the router's: a parameter.
\<close>

section \<open>Reporting location changes\<close>

text \<open>Every navigation makes a fresh location; its key tells it from the others.\<close>

record location =
  loc_pathname :: string
  loc_search :: string
  loc_key :: string

record push_hook =
  ph_firstRun :: bool
  ph_seen :: "location option"

definition mounted_push :: push_hook where
  "mounted_push = \<lparr>ph_firstRun = True, ph_seen = None\<rparr>"

text \<open>The effect runs when the location differs from the one it last ran with; its first run only clears a flag.\<close>

definition push_effect :: "location \<Rightarrow> push_hook \<Rightarrow> push_hook \<times> action list" where
  "push_effect loc h =
     (if ph_seen h = Some loc then (h, [])
      else (\<lparr>ph_firstRun = False, ph_seen = Some loc\<rparr>,
            if ph_firstRun h then [] else [LocationChange (loc_pathname loc)]))"

fun push_visits :: "push_hook \<Rightarrow> location list \<Rightarrow> action list" where
  "push_visits h [] = []"
| "push_visits h (l # ls) = (let (h', as) = push_effect l h in as @ push_visits h' ls)"

section \<open>Routes\<close>

datatype page =
    AppListPage | AppViewPage | AppUpgradePage | DeploymentFormPage | CatalogPage | PackageViewPage
  | PkgRepoListPage | ApiDocsPage | OperatorListPage | OperatorViewPage | OperatorNewPage
  | OperatorInstanceFormPage | OperatorInstancePage | OperatorInstanceUpdateFormPage

definition ns_route :: "string \<Rightarrow> string" where
  "ns_route rest = ''/c/:cluster/ns/:namespace/'' @ rest"

definition release_route :: string where
  "release_route = ns_route ''apps/:pluginName/:pluginVersion/:releaseName''"

definition package_route :: "string \<Rightarrow> string" where
  "package_route prefix =
     ns_route (prefix @ ''/:pluginName/:pluginVersion/:packageCluster/:packageNamespace/:packageId'')"

text \<open>The shorthand member \<open>AppUpgrade\<close> in the middle of the table makes a route of that name.\<close>

definition privateRoutes :: "(string \<times> page) list" where
  "privateRoutes =
     [(ns_route ''apps'', AppListPage),
      (release_route, AppViewPage),
      (release_route @ ''/upgrade'', AppUpgradePage),
      (release_route @ ''/upgrade/:version'', AppUpgradePage),
      (package_route ''apps/new'' @ ''/versions/:packageVersion'', DeploymentFormPage),
      (''AppUpgrade'', AppUpgradePage),
      (package_route ''apps/new'' @ ''/versions'', DeploymentFormPage),
      (ns_route ''catalog'', CatalogPage),
      (package_route ''packages'', PackageViewPage),
      (package_route ''packages'' @ ''/versions/:packageVersion'', PackageViewPage),
      (ns_route ''config/repos'', PkgRepoListPage),
      (''/docs'', ApiDocsPage)]"

definition operatorsRoutes :: "(string \<times> page) list" where
  "operatorsRoutes =
     [(ns_route ''operators'', OperatorListPage),
      (ns_route ''operators/:operator'', OperatorViewPage),
      (ns_route ''operators/new/:operator'', OperatorNewPage),
      (ns_route ''operators-instances/new/:csv/:crd'', OperatorInstanceFormPage),
      (ns_route ''operators-instances/:csv/:crd/:instanceName'', OperatorInstancePage),
      (ns_route ''operators-instances/:csv/:crd/:instanceName/update'', OperatorInstanceUpdateFormPage)]"

definition operators_deactivated :: string where
  "operators_deactivated = ''Operators support has been deactivated by default for Kubeapps. It can be enabled in values configuration.''"

definition unsupportedRoutes :: "(string \<times> string) list" where
  "unsupportedRoutes =
     [(ns_route ''operators/*'', operators_deactivated),
      (ns_route ''operators-instances/*'', operators_deactivated)]"

text \<open>What a route renders; a redirection to the login carries the path it came from.\<close>

datatype screen =
    FetchingClusterInfo
  | RedirectScreen string "string option"
  | LoginScreen
  | PageScreen page
  | SessionExpiredScreen
  | DeactivatedScreen string
  | NotFoundScreen

definition RequireAuthentication :: "IAuthState \<Rightarrow> string \<Rightarrow> page \<Rightarrow> screen" where
  "RequireAuthentication auth pathname page =
     (if authenticated auth then PageScreen page
      else if sessionExpired auth then SessionExpiredScreen
      else RedirectScreen ''/login'' (Some pathname))"

definition rootNamespacedRedirect :: "IAuthState \<Rightarrow> string option \<Rightarrow> string option \<Rightarrow> screen" where
  "rootNamespacedRedirect auth cluster currentNamespace =
     (if authenticated auth
      then (if \<not> truthy cluster \<or> \<not> truthy currentNamespace then FetchingClusterInfo
            else RedirectScreen (app_apps_list cluster currentNamespace) None)
      else RedirectScreen ''/login'' None)"

definition current_cluster :: "IStoreState \<Rightarrow> js_error + IClusterState" where
  "current_cluster s = read_cluster (st_clusters s) (current_key (st_clusters s))"

definition AppRoutes :: "IStoreState \<Rightarrow> string \<Rightarrow> js_error + (string \<times> screen) list" where
  "AppRoutes s pathname =
     (case current_cluster s of
        Inl e \<Rightarrow> Inl e
      | Inr c \<Rightarrow>
          (let guarded = map (\<lambda>(route, page). (route, RequireAuthentication (st_auth s) pathname page)) in
           Inr ([(''/'', rootNamespacedRedirect (st_auth s) (cl_currentCluster (st_clusters s))
                    (cs_currentNamespace c)),
                 (''/login'', LoginScreen)] @
                guarded privateRoutes @
                (if feature_operators (st_config s) then guarded operatorsRoutes
                 else map (\<lambda>(route, message). (route, DeactivatedScreen message)) unsupportedRoutes) @
                [(''*'', NotFoundScreen)])))"

text \<open>
  The router picks one of the declared paths for a path name. It is the router's documented behaviour that a
  path without parameters that equals the path name wins, and that \<open>*\<close> matches whatever nothing else does.
\<close>

type_synonym router = "string list \<Rightarrow> string \<Rightarrow> string option"

definition router_spec :: "router \<Rightarrow> bool" where
  "router_spec rt \<longleftrightarrow>
     (\<forall>ps p r. rt ps p = Some r \<longrightarrow> r \<in> set ps) \<and>
     (\<forall>ps p. p \<in> set ps \<longrightarrow> CHR '':'' \<notin> set p \<longrightarrow> CHR ''*'' \<notin> set p \<longrightarrow> rt ps p = Some p) \<and>
     (\<forall>ps p. ''*'' \<in> set ps \<longrightarrow> rt ps p \<noteq> None)"

definition routed :: "router \<Rightarrow> IStoreState \<Rightarrow> string \<Rightarrow> js_error + screen option" where
  "routed rt s pathname =
     map_sum id (\<lambda>routes. Option.bind (rt (map fst routes) pathname) (map_of routes)) (AppRoutes s pathname)"

section \<open>The frame of the page\<close>

record header_display =
  hd_showNav :: bool
  hd_routes :: "(string \<times> string) list"

definition header_view :: "IStoreState \<Rightarrow> js_error + header_display" where
  "header_view s =
     (case current_cluster s of
        Inl e \<Rightarrow> Inl e
      | Inr c \<Rightarrow>
          (let current = cl_currentCluster (st_clusters s); ns = cs_currentNamespace c in
           Inr \<lparr>hd_showNav = (authenticated (st_auth s) \<and> truthy current \<and> truthy ns),
                hd_routes = [(''Applications'', app_apps_list current ns),
                             (''Catalog'', base_path current ns @ ''/catalog'')]\<rparr>))"

definition header_effect :: "IStoreState \<Rightarrow> unit thunk" where
  "header_effect s =
     (if authenticated (st_auth s) \<and> truthy (cl_currentCluster (st_clusters s))
      then thenT (spawnT (fetchNamespaces (current_key (st_clusters s))))
             (spawnT (canCreate (current_key (st_clusters s))))
      else returnT ())"

definition layout_effect :: "lib \<Rightarrow> IStoreState \<Rightarrow> unit thunk" where
  "layout_effect L s =
     (if authenticated (st_auth s) \<and> truthy (cl_currentCluster (st_clusters s)) \<and> feature_operators (st_config s)
      then spawnT (getResourceKinds L (current_key (st_clusters s)))
      else returnT ())"

text \<open>
  The boundary of the layout shows an error of the page in its place; the header is outside of it, so that
  what the header raises takes everything down.
\<close>

datatype app_display =
    ConfigFailed string
  | ConfigLoading
  | TornDownApp js_error
  | AppWithError header_display string
  | AppShown header_display "js_error option" "screen option"

definition layout_view :: "router \<Rightarrow> IStoreState \<Rightarrow> string \<Rightarrow> app_display" where
  "layout_view rt s pathname =
     (case header_view s of
        Inl e \<Rightarrow> TornDownApp e
      | Inr h \<Rightarrow>
          (case routed rt s pathname of
             Inl e \<Rightarrow> AppWithError h (''An error occurred: '' @ error_message e @ ''.'')
           | Inr sc \<Rightarrow> AppShown h (kube_kindsError (st_kube s)) sc))"

definition config_effect :: "unit thunk" where
  "config_effect = spawnT getConfig"

definition head_effect :: "unit thunk" where
  "head_effect = spawnT getTheme"

definition app_view :: "router \<Rightarrow> IStoreState \<Rightarrow> string \<Rightarrow> app_display" where
  "app_view rt s pathname =
     (case config_error (st_config s) of
        Some e \<Rightarrow> ConfigFailed (''Unable to load the Kubeapps configuration: '' @ error_message e @ ''.'')
      | None \<Rightarrow> if loaded (st_config s) then layout_view rt s pathname else ConfigLoading)"

section \<open>The menu\<close>

definition toggleTheme :: "IConfigState \<Rightarrow> unit thunk" where
  "toggleTheme config =
     spawnT (setUserTheme (if config_theme config = Some (theme_string dark) then light else dark))"

definition menu_links :: "IStoreState \<Rightarrow> js_error + string list" where
  "menu_links s =
     map_sum id (\<lambda>c.
       (let cluster = cl_currentCluster (st_clusters s); ns = cs_currentNamespace c in
        [base_path cluster ns @ ''/config/repos''] @
        (if feature_operators (st_config s) then [base_path cluster ns @ ''/operators''] else []) @ [''/docs'']))
       (current_cluster s)"

section \<open>Signing in\<close>

text \<open>
  The state of the login form. \<open>lf_seen\<close> holds what the effect that checks the cookie last ran with: whether
  OAuth is configured, and the cluster.
\<close>

record login_form =
  lf_token :: string
  lf_cookieChecked :: bool
  lf_queryParamTokenAttempted :: bool
  lf_seen :: "(bool \<times> string) option"

definition initial_login :: login_form where
  "initial_login =
     \<lparr>lf_token = [], lf_cookieChecked = False, lf_queryParamTokenAttempted = False, lf_seen = None\<rparr>"

definition oAuthEnabledAndConfigured :: "IConfigState \<Rightarrow> bool" where
  "oAuthEnabledAndConfigured config \<longleftrightarrow> authProxyEnabled config \<and> oauthLoginURI config \<noteq> []"

text \<open>The thunks the form starts.\<close>

datatype login_call =
    CheckCookie string
  | Authenticate string string

fun login_thunk :: "login_call \<Rightarrow> unit thunk" where
  "login_thunk (CheckCookie cluster) = spawnT (checkCookieAuthentication cluster)"
| "login_thunk (Authenticate cluster token) = spawnT (authenticate cluster token False)"

definition cookie_effect ::
  "IConfigState \<Rightarrow> string \<Rightarrow> login_form \<Rightarrow> login_form \<times> login_call list" where
  "cookie_effect config cluster s =
     (let deps = (oAuthEnabledAndConfigured config, cluster) in
      if lf_seen s = Some deps then (s, [])
      else if oAuthEnabledAndConfigured config
      then (s\<lparr>lf_seen := Some deps\<rparr>, [CheckCookie cluster])
      else (s\<lparr>lf_seen := Some deps, lf_cookieChecked := True\<rparr>, []))"

text \<open>
  The token of the query is used once. The effect depends on everything its condition reads, so running it
  again on the same values would do nothing.
\<close>

definition query_effect ::
  "IConfigState \<Rightarrow> IAuthState \<Rightarrow> string \<Rightarrow> string \<Rightarrow> login_form \<Rightarrow> login_form \<times> login_call list" where
  "query_effect config auth cluster queryParamToken s =
     (if \<not> oAuthEnabledAndConfigured config \<and> \<not> authenticated auth \<and>
         \<not> lf_queryParamTokenAttempted s \<and> queryParamToken \<noteq> []
      then (s\<lparr>lf_queryParamTokenAttempted := True\<rparr>, [Authenticate cluster queryParamToken])
      else (s, []))"

definition handleSubmit :: "string \<Rightarrow> login_form \<Rightarrow> login_call list" where
  "handleSubmit cluster s = (if lf_token s \<noteq> [] then [Authenticate cluster (lf_token s)] else [])"

definition handleTokenChange :: "string \<Rightarrow> login_form \<Rightarrow> login_form" where
  "handleTokenChange v s = s\<lparr>lf_token := v\<rparr>"

text \<open>
  An event of the form: a rendering with its effects, the end of a check of the cookie, a change of the token,
  the submission. \<open>login_env\<close> is what the form reads when it happens.
\<close>

datatype login_event = LoginRendered | CookieAnswered | TokenTyped string | LoginSubmitted

record login_env =
  le_config :: IConfigState
  le_auth :: IAuthState
  le_cluster :: string
  le_queryParamToken :: string

fun login_step :: "login_env \<Rightarrow> login_event \<Rightarrow> login_form \<Rightarrow> login_form \<times> login_call list" where
  "login_step env LoginRendered s =
     (let (s1, cs) = cookie_effect (le_config env) (le_cluster env) s;
          (s2, qs) = query_effect (le_config env) (le_auth env) (le_cluster env) (le_queryParamToken env) s1
      in (s2, cs @ qs))"
| "login_step env CookieAnswered s = (s\<lparr>lf_cookieChecked := True\<rparr>, [])"
| "login_step env (TokenTyped v) s = (handleTokenChange v s, [])"
| "login_step env LoginSubmitted s = (s, handleSubmit (le_cluster env) s)"

fun login_run ::
  "(login_env \<times> login_event) list \<Rightarrow> login_form \<Rightarrow> login_form \<times> login_call list" where
  "login_run [] s = (s, [])"
| "login_run ((env, e) # es) s =
     (let (s1, cs) = login_step env e s; (s2, ds) = login_run es s1 in (s2, cs @ ds))"

datatype login_display =
    LoginLoading
  | LoginRedirect string
  | OAuthLogin "string option" string
  | TokenLogin "string option" string

text \<open>\<open>from\<close> is what the guard of the private pages put in the location, if anything.\<close>

definition login_view ::
  "IConfigState \<Rightarrow> IAuthState \<Rightarrow> string option \<Rightarrow> login_form \<Rightarrow> login_display" where
  "login_view config auth from s =
     (if authenticating auth \<or> \<not> lf_cookieChecked s then LoginLoading
      else if authenticated auth then LoginRedirect (case from of None \<Rightarrow> ''/'' | Some p \<Rightarrow> p)
      else if oAuthEnabledAndConfigured config then OAuthLogin (auth_error auth) (oauthLoginURI config)
      else TokenLogin (auth_error auth) (lf_token s))"

text \<open>A configured proxy whose login page is skipped: every rendering leaves for the login of the provider.\<close>

definition login_leaves :: "IConfigState \<Rightarrow> string list" where
  "login_leaves config =
     (if oAuthEnabledAndConfigured config \<and> authProxySkipLoginPage config then [oauthLoginURI config] else [])"

section \<open>Selecting a cluster and a namespace\<close>

text \<open>
  The local state of the selector. \<open>cx_changeDisabled\<close> is the code's \<open>enableChangeContext\<close>, which is the
  \<open>disabled\<close> attribute of the button. The map of clusters is an object of its own after every action that
  touches it: its identity is a number.
\<close>

record context_selector =
  cx_open :: bool
  cx_changeDisabled :: bool
  cx_cluster :: string
  cx_namespace :: "string option"
  cx_newNSModalIsOpen :: bool
  cx_newNS :: string
  cx_seenSelected :: "string option option"
  cx_seenClusters :: "(nat \<times> string) option"

definition initial_selector :: "IClustersState \<Rightarrow> js_error + context_selector" where
  "initial_selector cls =
     map_sum id (\<lambda>c.
       \<lparr>cx_open = False, cx_changeDisabled = False, cx_cluster = current_key cls,
        cx_namespace = cs_currentNamespace c, cx_newNSModalIsOpen = False, cx_newNS = [],
        cx_seenSelected = None, cx_seenClusters = None\<rparr>)
       (read_cluster cls (current_key cls))"

definition exists_effect :: "IClustersState \<Rightarrow> string option \<Rightarrow> unit thunk" where
  "exists_effect cls namespaceSelected =
     (if truthy namespaceSelected
      then spawnT (checkNamespaceExists (current_key cls) (the namespaceSelected)) else returnT ())"

definition selected_effect :: "string option \<Rightarrow> context_selector \<Rightarrow> context_selector" where
  "selected_effect namespaceSelected s =
     (if cx_seenSelected s = Some namespaceSelected then s
      else s\<lparr>cx_namespace := namespaceSelected, cx_seenSelected := Some namespaceSelected\<rparr>)"

definition clusters_effect :: "nat \<Rightarrow> IClustersState \<Rightarrow> context_selector \<Rightarrow> js_error + context_selector" where
  "clusters_effect ident cls s =
     (if cx_seenClusters s = Some (ident, cx_cluster s) then Inr s
      else (case read_cluster cls (cx_cluster s) of
              Inl e \<Rightarrow> Inl e
            | Inr c \<Rightarrow>
                (case cs_namespaces c of
                   None \<Rightarrow> Inl (TypeError ''Cannot read properties of undefined'')
                 | Some nss \<Rightarrow>
                     Inr (s\<lparr>cx_namespace := cs_currentNamespace c, cx_changeDisabled := (nss = []),
                            cx_seenClusters := Some (ident, cx_cluster s)\<rparr>))))"

text \<open>A rendering and its effects: what they set is no dependency of theirs.\<close>

definition selector_rendered ::
  "nat \<Rightarrow> IClustersState \<Rightarrow> context_selector \<Rightarrow> js_error + context_selector" where
  "selector_rendered ident cls s =
     (case read_cluster cls (current_key cls) of
        Inl e \<Rightarrow> Inl e
      | Inr c \<Rightarrow> clusters_effect ident cls (selected_effect (cs_currentNamespace c) s))"

definition toggleOpen :: "context_selector \<Rightarrow> context_selector" where
  "toggleOpen s = s\<lparr>cx_open := \<not> cx_open s\<rparr>"

definition selectCluster :: "string \<Rightarrow> context_selector \<Rightarrow> context_selector thunk" where
  "selectCluster c s = thenT (spawnT (fetchNamespaces c)) (returnT (s\<lparr>cx_cluster := c\<rparr>))"

definition selectNamespace :: "string \<Rightarrow> context_selector \<Rightarrow> context_selector" where
  "selectNamespace n s = s\<lparr>cx_namespace := Some n\<rparr>"

text \<open>
  \<open>/^\/c\/([^/]*)\/ns\/[^/]*\//\<close>: what follows the slash after the namespace, if the path is a namespaced
  one. Names without a dollar sign are taken literally by \<open>replace\<close>.
\<close>

definition ns_path_rest :: "string \<Rightarrow> string option" where
  "ns_path_rest pathname =
     (case strip_prefix ''/c/'' pathname of
        None \<Rightarrow> None
      | Some r \<Rightarrow>
          (case strip_prefix ''/ns/'' (dropWhile not_slash r) of
             None \<Rightarrow> None
           | Some q \<Rightarrow> strip_prefix ''/'' (dropWhile not_slash q)))"

definition changeContext :: "lib \<Rightarrow> location \<Rightarrow> context_selector \<Rightarrow> context_selector thunk" where
  "changeContext L loc s =
     thenT (spawnT (setNamespace L (cx_cluster s) (show_opt (cx_namespace s))))
       (thenT (case ns_path_rest (loc_pathname loc) of
                 None \<Rightarrow> returnT ()
               | Some rest \<Rightarrow>
                   assignLocation (base_path (Some (cx_cluster s)) (cx_namespace s) @ ''/'' @ rest @ loc_search loc))
         (returnT (s\<lparr>cx_open := False\<rparr>)))"

definition openNewNSModal :: "context_selector \<Rightarrow> context_selector" where
  "openNewNSModal s = s\<lparr>cx_newNSModalIsOpen := True\<rparr>"

definition closeNewNSModal :: "context_selector \<Rightarrow> context_selector" where
  "closeNewNSModal s = s\<lparr>cx_newNSModalIsOpen := False\<rparr>"

definition onChangeNewNS :: "string \<Rightarrow> context_selector \<Rightarrow> context_selector" where
  "onChangeNewNS v s = s\<lparr>cx_newNS := v\<rparr>"

definition createNewNS :: "lib \<Rightarrow> IConfigState \<Rightarrow> context_selector \<Rightarrow> context_selector thunk" where
  "createNewNS L config s =
     bindT (createNamespace (cx_cluster s) (cx_newNS s) (createNamespaceLabels config)) (\<lambda>created.
       if created
       then thenT (spawnT (setNamespace L (cx_cluster s) (cx_newNS s)))
              (thenT (assignLocation (app_apps_list (Some (cx_cluster s)) (Some (cx_newNS s))))
                (returnT ((closeNewNSModal s)\<lparr>cx_open := False\<rparr>)))
       else returnT s)"

section \<open>Facts\<close>

interpretation pushed: dependency_effect "\<lambda>loc h. fst (push_effect loc h)" ph_seen
  by unfold_locales (simp_all add: push_effect_def)

interpretation selected: dependency_effect selected_effect cx_seenSelected
  by unfold_locales (simp_all add: selected_effect_def)

lemma push_visits_seen:
  "\<not> ph_firstRun h \<Longrightarrow> ph_seen h = Some l \<Longrightarrow> distinct_adj (l # ls) \<Longrightarrow>
     push_visits h ls = map (\<lambda>m. LocationChange (loc_pathname m)) ls"
proof (induction ls arbitrary: h l)
  case (Cons m ls)
  then show ?case by (auto simp: push_effect_def distinct_adj_Cons)
qed simp

text \<open>
  The routes as one table: what a route renders is a function of the session, of the path and of what the
  route is for.
\<close>

datatype route_target = ToRoot | ToLogin | ToPrivate page | ToMessage string | ToNotFound

definition route_table :: "bool \<Rightarrow> (string \<times> route_target) list" where
  "route_table operators =
     [(''/'', ToRoot), (''/login'', ToLogin)] @ map (map_prod id ToPrivate) privateRoutes @
     (if operators then map (map_prod id ToPrivate) operatorsRoutes
      else map (map_prod id ToMessage) unsupportedRoutes) @ [(''*'', ToNotFound)]"

fun target_screen :: "IAuthState \<Rightarrow> string option \<Rightarrow> string option \<Rightarrow> string \<Rightarrow> route_target \<Rightarrow> screen" where
  "target_screen auth cluster ns p ToRoot = rootNamespacedRedirect auth cluster ns"
| "target_screen auth cluster ns p ToLogin = LoginScreen"
| "target_screen auth cluster ns p (ToPrivate page) = RequireAuthentication auth p page"
| "target_screen auth cluster ns p (ToMessage m) = DeactivatedScreen m"
| "target_screen auth cluster ns p ToNotFound = NotFoundScreen"

lemma AppRoutes_table:
  assumes "current_cluster s = Inr c"
  shows "AppRoutes s p = Inr (map (\<lambda>(r, t). (r, target_screen (st_auth s) (cl_currentCluster (st_clusters s))
           (cs_currentNamespace c) p t)) (route_table (feature_operators (st_config s))))"
  using assms by (simp add: AppRoutes_def route_table_def split_beta comp_def Let_def)

lemma routed_table:
  assumes "router_spec rt" and "current_cluster s = Inr c"
  obtains r t where "map_of (route_table (feature_operators (st_config s))) r = Some t"
    and "rt (map fst (route_table (feature_operators (st_config s)))) p = Some r"
    and "routed rt s p = Inr (Some (target_screen (st_auth s) (cl_currentCluster (st_clusters s))
           (cs_currentNamespace c) p t))"
proof -
  let ?tab = "route_table (feature_operators (st_config s))"
  have "''*'' \<in> set (map fst ?tab)" by (simp add: route_table_def)
  with assms(1) obtain r where r: "rt (map fst ?tab) p = Some r" and "r \<in> set (map fst ?tab)"
    unfolding router_spec_def by (metis not_None_eq)
  then obtain t where t: "map_of ?tab r = Some t" by (metis list.set_map map_of_eq_None_iff not_None_eq)
  have keys: "map fst (map (\<lambda>(r, t). (r, f t)) tab) = map fst tab" for f :: "route_target \<Rightarrow> screen" and tab
    by (induction tab) auto
  show ?thesis
  proof (rule that [OF t r])
    show "routed rt s p = Inr (Some (target_screen (st_auth s) (cl_currentCluster (st_clusters s))
           (cs_currentNamespace c) p t))"
      unfolding routed_def AppRoutes_table [OF assms(2)] by (simp only: map_sum.simps id_apply keys r) (simp add: map_of_map t)
  qed
qed

lemma operators_route_target:
  "map_of (route_table ops) r = Some (ToPrivate page) \<Longrightarrow> page \<in> snd ` set operatorsRoutes \<Longrightarrow> ops"
  by (drule map_of_SomeD) (auto simp: route_table_def privateRoutes_def operatorsRoutes_def split: if_splits)

lemma changed_auth [simp]:
  "current_cluster (s\<lparr>st_auth := a\<rparr>) = current_cluster s"
  by (simp add: current_cluster_def)

lemma runT_spawn: "runT R srv (spawnT p) w = runT R srv p w"
  by (simp add: runT_def spawnT_def run_def split_beta Let_def)

lemma authenticate_accepted:
  "token_accepted srv (w_ls w) cluster token \<Longrightarrow>
     w_store (runT (rootReducer L init) srv (authenticate cluster token False) w) =
       (w_store w)\<lparr>st_auth := (st_auth (w_store w))\<lparr>authenticated := True, oidcAuthenticated := False,
         authenticating := False\<rparr>\<rparr>"
  by (simp add: runT_def authenticate_def thenT_def tryT_def run_dispatchT run_validateToken)
    (simp add: thunk_simps)

section \<open>Properties\<close>

text \<open>
  The location changes a mounted page reports. The location it opens at is not reported, every later one is,
  also when only its query differs.
\<close>
theorem location_changes_reported:
  assumes "distinct_adj (l # ls)"
  shows "push_visits mounted_push (l # ls) = map (\<lambda>m. LocationChange (loc_pathname m)) ls"
  using assms push_visits_seen [of "\<lparr>ph_firstRun = False, ph_seen = Some l\<rparr>" l ls]
  by (simp add: push_effect_def mounted_push_def)

theorem location_changes_reported_witness:
  "push_visits mounted_push
     [\<lparr>loc_pathname = ''/c/k/ns/n/apps'', loc_search = [], loc_key = ''1''\<rparr>,
      \<lparr>loc_pathname = ''/c/k/ns/n/apps'', loc_search = ''?allns=yes'', loc_key = ''2''\<rparr>] =
   [LocationChange ''/c/k/ns/n/apps'']"
  by (subst location_changes_reported) simp_all

text \<open>
  C5: The pages behind the guard. Whatever the path, the router shows something; a page is shown to an
  authenticated user alone, and a page of the operators only where they are enabled. Anyone else gets the
  login, the way to it, the note that the session has expired, that operators are deactivated, or that there
  is no such page.
\<close>
theorem private_pages_guarded:
  assumes "router_spec rt" and "current_cluster s = Inr c"
  shows "\<exists>sc. routed rt s p = Inr (Some sc) \<and>
    (case sc of
       PageScreen page \<Rightarrow> authenticated (st_auth s) \<and>
         (page \<in> snd ` set operatorsRoutes \<longrightarrow> feature_operators (st_config s))
     | FetchingClusterInfo \<Rightarrow> authenticated (st_auth s)
     | RedirectScreen target from \<Rightarrow>
         (if authenticated (st_auth s)
          then target = app_apps_list (cl_currentCluster (st_clusters s)) (cs_currentNamespace c) \<and> from = None
          else target = ''/login'' \<and> (from = None \<or> (from = Some p \<and> \<not> sessionExpired (st_auth s))))
     | SessionExpiredScreen \<Rightarrow> \<not> authenticated (st_auth s) \<and> sessionExpired (st_auth s)
     | DeactivatedScreen m \<Rightarrow> \<not> feature_operators (st_config s)
     | _ \<Rightarrow> True)"
proof -
  from routed_table [OF assms, of p] obtain r t where
    t: "map_of (route_table (feature_operators (st_config s))) r = Some t"
    and shown: "routed rt s p = Inr (Some (target_screen (st_auth s) (cl_currentCluster (st_clusters s))
           (cs_currentNamespace c) p t))" by blast
  have "\<not> feature_operators (st_config s)" if "t = ToMessage m" for m
    using t that by (auto dest!: map_of_SomeD simp: route_table_def split: if_splits)
  with shown t show ?thesis
    by (cases t) (auto simp: rootNamespacedRedirect_def RequireAuthentication_def dest: operators_route_target)
qed

text \<open>The attempts to authenticate that the form makes.\<close>

definition is_attempt :: "login_call \<Rightarrow> bool" where
  "is_attempt c = (case c of Authenticate k t \<Rightarrow> True | _ \<Rightarrow> False)"

lemma login_step_attempts:
  "login_step env e s = (s', cs) \<Longrightarrow>
     length (filter is_attempt cs) + (if lf_queryParamTokenAttempted s' then 0 else 1) \<le>
       (if lf_queryParamTokenAttempted s then 0 else 1) + (if e = LoginSubmitted then 1 else 0)"
  by (cases e)
    (auto simp: cookie_effect_def query_effect_def handleSubmit_def handleTokenChange_def is_attempt_def Let_def
      split: if_splits)

lemma login_run_attempts:
  "login_run es s = (s', cs) \<Longrightarrow>
     length (filter is_attempt cs) \<le>
       (if lf_queryParamTokenAttempted s then 0 else 1) + length (filter (\<lambda>(env, e). e = LoginSubmitted) es)"
proof (induction es arbitrary: s s' cs)
  case (Cons ev es)
  obtain env e where ev: "ev = (env, e)" by (cases ev)
  obtain s1 as where step: "login_step env e s = (s1, as)" by (cases "login_step env e s")
  obtain s2 bs where rest: "login_run es s1 = (s2, bs)" by (cases "login_run es s1")
  from login_step_attempts [OF step] Cons.IH [OF rest] Cons.prems show ?case
    by (auto simp: ev step rest split: if_splits)
qed auto

text \<open>
  C33: A token in the query is tried at most once: whatever the user does, however often the form is rendered and
  whatever the backend answers, the form makes at most one attempt more than it was submitted.
\<close>
theorem login_attempts_bounded:
  "length (filter is_attempt (snd (login_run es initial_login))) \<le>
     Suc (length (filter (\<lambda>(env, e). e = LoginSubmitted) es))"
  using login_run_attempts [of es initial_login "fst (login_run es initial_login)" "snd (login_run es initial_login)"]
  by (simp add: initial_login_def)


text \<open>
  C7: Signing out of a token session. With the cluster \<open>default\<close> selected the application stays up and offers the
  login. With any other cluster selected, its entry is gone while it stays selected: the header raises,
  outside of the boundary that would catch it, and nothing is left to show.
\<close>
theorem sign_out_tears_down:
  assumes "\<not> usingOIDCToken (w_ls w)" and "init = cl_clusters (clusters_initialState L ls0)"
    and "loaded (st_config (w_store w))" and "config_error (st_config (w_store w)) = None"
  shows "let s = w_store (runT (rootReducer L init) srv logout w) in
    if current_key (st_clusters (w_store w)) = ''default''
    then (\<exists>h kinds sc. app_view rt s p = AppShown h kinds sc \<and> \<not> hd_showNav h)
    else (\<exists>e. app_view rt s p = TornDownApp e)"
proof -
  have s: "w_store (runT (rootReducer L init) srv logout w) =
      (w_store w)\<lparr>st_auth := logged_out (st_auth (w_store w)),
                  st_clusters := (st_clusters (w_store w))\<lparr>cl_clusters := init\<rparr>\<rparr>"
    using assms(1) by (simp add: runT_def logout_world_def)
  show ?thesis unfolding s Let_def using assms(2-4)
    by (auto simp: app_view_def layout_view_def header_view_def current_cluster_def read_cluster_def
        current_key_def clusters_initialState_def logged_out_def routed_def AppRoutes_def Let_def)
qed

text \<open>
  C6: Changing the context on the page of another one. The browser goes to the same page below the new cluster
  and namespace, with its query; the store has selected them, and what a path below them names is again the
  new cluster and namespace.
\<close>
theorem context_change_moves:
  assumes "loc_pathname loc = base_path (Some c0) (Some n0) @ ''/'' @ rest"
    and "CHR ''/'' \<notin> set c0" and "CHR ''/'' \<notin> set n0"
    and "cx_namespace s = Some n" and "CHR ''/'' \<notin> set (cx_cluster s)" and "CHR ''/'' \<notin> set n"
    and "setStoredNamespace L (cx_cluster s) n (w_ls w) = Inr ls'"
  shows "\<exists>w'. completes (rootReducer L init) srv (changeContext L loc s) w (s\<lparr>cx_open := False\<rparr>) w' \<and>
    w_locations w' = w_locations w @
      [base_path (Some (cx_cluster s)) (Some n) @ ''/'' @ rest @ loc_search loc] \<and>
    cl_currentCluster (st_clusters (w_store w')) = Some (cx_cluster s) \<and>
    cs_currentNamespace (spread_cluster (st_clusters (w_store w')) (cx_cluster s)) = Some n \<and>
    w_ls w' = ls' \<and>
    match_location (base_path (Some (cx_cluster s)) (Some n) @ ''/'' @ rest) = (Some (cx_cluster s), Some n)"
proof -
  have strip: "strip_prefix ''/c/'' (loc_pathname loc) = Some (c0 @ ''/ns/'' @ n0 @ ''/'' @ rest)"
    using assms(1) by (simp add: base_path_def)
  have dw: "dropWhile not_slash (a @ CHR ''/'' # b) = CHR ''/'' # b" if "CHR ''/'' \<notin> set a" for a b
    using dropWhile_until [OF that, of "CHR ''/'' # b"] by (simp add: not_slash_def [abs_def])
  have rest: "ns_path_rest (loc_pathname loc) = Some rest"
    using dw [OF assms(2)] dw [OF assms(3)] by (simp add: ns_path_rest_def strip)
  have "match_location (base_path (Some (cx_cluster s)) (Some n) @ ''/'' @ rest) = (Some (cx_cluster s), Some n)"
    by (rule match_base_path [OF assms(5,6)]) simp
  then show ?thesis
    by (intro exI conjI) (auto simp: completes_def changeContext_def thunk_simps rest setNamespace_def
        assms(4,7) run_spawn_nowait spread_cluster_def)
qed

text \<open>
  A namespace picked in the selector but not confirmed. Whatever replaces the map of clusters, be it an answer
  about another cluster, puts the selection back to the namespace the store has for the cluster.
\<close>
theorem picked_namespace_lost:
  assumes "clusters_wf cls" and "obj_get (cl_clusters cls) (cx_cluster s) = Some c"
    and "cx_seenClusters s \<noteq> Some (ident, cx_cluster s)"
  shows "\<exists>s'. selector_rendered ident cls (selectNamespace n s) = Inr s' \<and>
    cx_namespace s' = cs_currentNamespace c \<and> cx_cluster s' = cx_cluster s"
proof -
  obtain cur where cur: "read_cluster cls (current_key cls) = Inr cur"
    using assms(1) by (auto simp: clusters_wf_def read_cluster_def split: option.splits)
  obtain nss where "cs_namespaces c = Some nss"
    using assms(1,2) by (auto simp: clusters_wf_def complete_cluster_def)
  with cur assms(2,3) show ?thesis
    by (auto simp: selector_rendered_def clusters_effect_def selected_effect_def selectNamespace_def read_cluster_def)
qed

section \<open>Instances\<close>

text \<open>A router for paths without parameters, and a backend that answers everything.\<close>

definition sample_router :: router where
  "sample_router ps p = (if p \<in> set ps then Some p else if ''*'' \<in> set ps then Some ''*'' else None)"

lemma sample_router_spec: "router_spec sample_router"
  by (auto simp: router_spec_def sample_router_def)

definition willing_server :: server where
  "willing_server q = Inr (RBool True)"

definition open_world :: "storage \<Rightarrow> world" where
  "open_world ls = (sample_world ls)\<lparr>w_store := (initialStore sample_lib ls)\<lparr>st_config :=
     config_initialState\<lparr>loaded := True\<rparr>\<rparr>\<rparr>"

definition other_world :: world where
  "other_world = (open_world token_storage)\<lparr>w_store := (w_store (open_world token_storage))\<lparr>st_clusters :=
     \<lparr>cl_currentCluster = Some ''c1'', cl_clusters = [(''c1'', fresh_cluster ''dev'')]\<rparr>\<rparr>\<rparr>"

definition sample_login :: login_form where
  "sample_login = initial_login\<lparr>lf_token := ''token'', lf_cookieChecked := True\<rparr>"

lemma sample_world_facts [simp]:
  "w_ls (open_world ls) = ls"
  "st_config (w_store (open_world ls)) = config_initialState\<lparr>loaded := True\<rparr>"
  "st_clusters (w_store (open_world ls)) = clusters_initialState sample_lib ls"
  "st_auth (w_store (open_world ls)) = auth_initialState (getAuthToken ls) (usingOIDCToken ls)"
  "w_ls other_world = token_storage"
  "st_config (w_store other_world) = config_initialState\<lparr>loaded := True\<rparr>"
  "st_clusters (w_store other_world) = \<lparr>cl_currentCluster = Some ''c1'', cl_clusters = [(''c1'', fresh_cluster ''dev'')]\<rparr>"
  by (simp_all add: open_world_def other_world_def initialStore_def)

lemma open_world_cluster:
  "current_cluster (w_store (open_world ls)) = Inr (fresh_cluster (defaultNamespaceFromToken sample_lib (authTokenOrEmpty ls)))"
  by (simp add: current_cluster_def clusters_initialState_def current_key_def read_cluster_def)

lemma docs_needs_login:
  "routed sample_router (w_store (open_world [])) ''/docs'' = Inr (Some (RedirectScreen ''/login'' (Some ''/docs'')))"
  by (simp add: routed_def AppRoutes_def open_world_cluster Let_def sample_router_def privateRoutes_def
      unsupportedRoutes_def ns_route_def release_route_def package_route_def config_initialState_def
      RequireAuthentication_def auth_initialState_def getAuthToken_def)

theorem private_pages_guarded_witness:
  "\<exists>sc. routed sample_router (w_store (open_world [])) ''/docs'' = Inr (Some sc) \<and> (\<forall>page. sc \<noteq> PageScreen page)"
  using private_pages_guarded [OF sample_router_spec open_world_cluster [of "[]"], of "''/docs''"]
  by (auto simp: auth_initialState_def getAuthToken_def docs_needs_login)


theorem sign_out_tears_down_witness:
  "\<exists>e. app_view sample_router (w_store (runT (rootReducer sample_lib (cl_clusters (clusters_initialState sample_lib [])))
     unavailable_server logout other_world)) ''/docs'' = TornDownApp e"
  using sign_out_tears_down [where w = other_world and ?ls0.0 = "[]" and rt = sample_router and L = sample_lib
      and srv = unavailable_server and p = "''/docs''", OF _ refl]
  by (simp add: Let_def current_key_def config_initialState_def)

definition sample_location :: location where
  "sample_location = \<lparr>loc_pathname = ''/c/default/ns/dev/catalog'', loc_search = ''?q=x'', loc_key = []\<rparr>"

definition sample_selector :: context_selector where
  "sample_selector = \<lparr>cx_open = True, cx_changeDisabled = False, cx_cluster = ''c2'', cx_namespace = Some ''qa'',
     cx_newNSModalIsOpen = False, cx_newNS = [], cx_seenSelected = None, cx_seenClusters = None\<rparr>"

theorem context_change_moves_witness:
  "\<exists>w'. completes (rootReducer sample_lib []) unavailable_server
      (changeContext sample_lib sample_location sample_selector) (sample_world [])
      (sample_selector\<lparr>cx_open := False\<rparr>) w' \<and>
    w_locations w' = [''/c/c2/ns/qa/catalog?q=x'']"
  using context_change_moves [of sample_location "''default''" "''dev''" "''catalog''" sample_selector "''qa''"
      sample_lib "sample_world []" _ "[]" unavailable_server]
  by (auto simp: sample_location_def sample_selector_def base_path_def setStoredNamespace_def parseStoredNS_def
      json_assign_def sample_lib_def)

theorem picked_namespace_lost_witness:
  "\<exists>s'. selector_rendered 1 (clusters_initialState sample_lib [])
      (selectNamespace ''qa'' (sample_selector\<lparr>cx_cluster := ''default''\<rparr>)) = Inr s' \<and>
    cx_namespace s' \<noteq> Some ''qa''"
  using picked_namespace_lost [OF clusters_initial_wf, of sample_lib "[]" "sample_selector\<lparr>cx_cluster := ''default''\<rparr>" _ 1 "''qa''"]
  by (auto simp: clusters_initialState_def sample_selector_def fresh_cluster_def defaultNamespaceFromToken_def
      authTokenOrEmpty_def getAuthToken_def sample_lib_def)

end
