(* ===== verification/Operator_Forms.thy ===== *)
theory Operator_Forms
  imports Rendering Operator_Actions App_View Catalog_View Yaml_Paths
begin

text \<open>
  The pages of the operators: an operator and its installation (\<open>components/OperatorView\<close>,
  \<open>components/OperatorNew\<close>, \<open>components/OperatorSummary\<close>), and the instances it manages, created, shown,
  updated and deleted (\<open>components/OperatorInstanceForm\<close>, \<open>components/OperatorInstanceFormBody\<close>,
  \<open>components/OperatorInstance\<close>, \<open>components/OperatorInstanceUpdateForm\<close>). The yaml package is a parameter.
\<close>

section \<open>An operator\<close>

definition operatorView_fetch :: "lib \<Rightarrow> string \<Rightarrow> string \<Rightarrow> string \<Rightarrow> unit thunk" where
  "operatorView_fetch L cluster namespace operatorName =
     thenT (spawnT (getOperator L cluster namespace operatorName))
       (spawnT (listSubscriptions L cluster namespace))"

definition operatorView_csv :: "lib \<Rightarrow> string \<Rightarrow> string \<Rightarrow> IPackageManifest option \<Rightarrow> unit thunk" where
  "operatorView_csv L cluster namespace operator =
     (case Option.bind operator getDefaultChannel of
        None \<Rightarrow> returnT ()
      | Some ch \<Rightarrow> spawnT (getCSV L cluster namespace (ch_currentCSV ch)))"

definition operatorView_redirect :: "string \<Rightarrow> string \<Rightarrow> string \<Rightarrow> unit thunk" where
  "operatorView_redirect cluster namespace operatorName =
     assignLocation (app_operators_new cluster namespace operatorName)"

definition alreadyInstalled :: "IResource list \<Rightarrow> IPackageManifest \<Rightarrow> bool" where
  "alreadyInstalled subscriptions operator =
     list_ex (\<lambda>s. json_member (res_spec s) ''name'' = Some (JStr (md_name (pmf_metadata operator)))) subscriptions"

datatype operator_display =
    OperatorFailed string
  | OperatorLoading
  | OperatorNoChannel
  | OperatorShown bool

definition operatorView_view :: "IOperatorsState \<Rightarrow> operator_display" where
  "operatorView_view ops =
     (case oe_fetch (err_operator (op_errors ops)) of
        Some e \<Rightarrow> OperatorFailed (error_message e)
      | None \<Rightarrow>
          (case op_operator ops of
             None \<Rightarrow> OperatorLoading
           | Some operator \<Rightarrow>
               (if op_isFetching ops then OperatorLoading
                else if getDefaultChannel operator = None then OperatorNoChannel
                else OperatorShown (alreadyInstalled (op_subscriptions ops) operator))))"

text \<open>The summary next to it: the level of the operator, or of the version a manifest is missing for.\<close>

datatype summary_display = SummaryLoading | SummaryNoChannel string | SummaryShown string

definition csv_capability :: "IClusterServiceVersion \<Rightarrow> string" where
  "csv_capability csv = (case obj_get (md_annotations (csv_metadata csv)) ''capabilities'' of
     None \<Rightarrow> BASIC_INSTALL | Some c \<Rightarrow> c)"

definition operatorSummary :: "IOperatorsState \<Rightarrow> summary_display" where
  "operatorSummary ops =
     (if op_isFetching ops then SummaryLoading
      else (case (op_operator ops, op_csv ops) of
              (None, None) \<Rightarrow> SummaryLoading
            | (Some operator, csv) \<Rightarrow>
                (case getDefaultChannel operator of
                   None \<Rightarrow> SummaryNoChannel (md_name (pmf_metadata operator))
                 | Some ch \<Rightarrow> SummaryShown (case ch_capabilities ch of None \<Rightarrow> BASIC_INSTALL | Some c \<Rightarrow> c))
            | (None, Some csv) \<Rightarrow> SummaryShown (csv_capability csv)))"

section \<open>Installing an operator\<close>

record operator_form =
  of_updateChannel :: "IPackageManifestChannel option"
  of_updateChannelGlobal :: bool
  of_installationModeGlobal :: bool
  of_approvalStrategyAutomatic :: bool

definition initial_operator_form :: operator_form where
  "initial_operator_form =
     \<lparr>of_updateChannel = None, of_updateChannelGlobal = False, of_installationModeGlobal = False,
      of_approvalStrategyAutomatic = True\<rparr>"

definition operatorNew_fetch :: "lib \<Rightarrow> string \<Rightarrow> string \<Rightarrow> string \<Rightarrow> unit thunk" where
  "operatorNew_fetch L cluster namespace operatorName = spawnT (getOperator L cluster namespace operatorName)"

definition set_channel :: "IPackageManifestChannel option \<Rightarrow> operator_form \<Rightarrow> operator_form" where
  "set_channel ch s =
     s\<lparr>of_updateChannel := ch, of_updateChannelGlobal := global_channel ch,
       of_installationModeGlobal := global_channel ch\<rparr>"

definition operator_effect :: "IPackageManifest option \<Rightarrow> operator_form \<Rightarrow> operator_form" where
  "operator_effect operator s = (case operator of
     None \<Rightarrow> s | Some opr \<Rightarrow> set_channel (getDefaultChannel opr) s)"

definition selectChannel :: "IPackageManifest option \<Rightarrow> string \<Rightarrow> operator_form \<Rightarrow> operator_form" where
  "selectChannel operator channel s =
     set_channel (Option.bind operator (\<lambda>opr. find (\<lambda>ch. ch_name ch = channel) (pmf_channels opr))) s"

definition setInstallationMode :: "bool \<Rightarrow> operator_form \<Rightarrow> operator_form" where
  "setInstallationMode g s = s\<lparr>of_installationModeGlobal := g\<rparr>"

definition setApprovalStrategy :: "bool \<Rightarrow> operator_form \<Rightarrow> operator_form" where
  "setApprovalStrategy automatic s = s\<lparr>of_approvalStrategyAutomatic := automatic\<rparr>"

definition disableInstall :: "string \<Rightarrow> operator_form \<Rightarrow> bool" where
  "disableInstall namespace s \<longleftrightarrow> namespace = ''operators'' \<and> \<not> of_updateChannelGlobal s"

definition operator_targetNS :: "string \<Rightarrow> operator_form \<Rightarrow> string" where
  "operator_targetNS namespace s = (if of_installationModeGlobal s then ''operators'' else namespace)"

text \<open>The form is only rendered for an operator with a channel; without them the handler would raise.\<close>

definition operator_handleDeploy ::
  "lib \<Rightarrow> string \<Rightarrow> string \<Rightarrow> IPackageManifest option \<Rightarrow> operator_form \<Rightarrow> unit thunk" where
  "operator_handleDeploy L cluster namespace operator s =
     (case (operator, of_updateChannel s) of
        (Some opr, Some ch) \<Rightarrow>
          bindT (createOperator L cluster (operator_targetNS namespace s) (md_name (pmf_metadata opr)) (ch_name ch)
                   (if of_approvalStrategyAutomatic s then ''Automatic'' else ''Manual'') (ch_currentCSV ch))
            (\<lambda>deployed. if deployed then assignLocation (app_operators_list cluster namespace) else returnT ())
      | _ \<Rightarrow> throwT (TypeError ''Cannot read properties of undefined''))"

datatype operator_new_display =
    NewFetchFailed string
  | NewCreateFailed string
  | NewLoading
  | NewNoChannel
  | NewForm bool

definition operatorNew_view :: "string \<Rightarrow> IOperatorsState \<Rightarrow> operator_form \<Rightarrow> operator_new_display" where
  "operatorNew_view namespace ops s =
     (let errors = err_operator (op_errors ops) in
      case (oe_fetch errors, oe_create errors) of
        (Some e, _) \<Rightarrow> NewFetchFailed (error_message e)
      | (None, Some e) \<Rightarrow> NewCreateFailed (error_message e)
      | (None, None) \<Rightarrow>
          (if op_isFetching ops \<or> op_operator ops = None then NewLoading
           else if of_updateChannel s = None then NewNoChannel
           else NewForm (disableInstall namespace s)))"

text \<open>What can happen to the form, and what of it the rendered controls let happen.\<close>

datatype operator_form_event =
    OperatorArrived "IPackageManifest option"
  | ChannelPicked string
  | ModePicked bool
  | ApprovalPicked bool

fun operator_form_step ::
  "operator_form_event \<Rightarrow> IPackageManifest option \<times> operator_form \<Rightarrow> IPackageManifest option \<times> operator_form" where
  "operator_form_step (OperatorArrived operator) (old, s) = (operator, operator_effect operator s)"
| "operator_form_step (ChannelPicked channel) (operator, s) = (operator, selectChannel operator channel s)"
| "operator_form_step (ModePicked g) (operator, s) = (operator, setInstallationMode g s)"
| "operator_form_step (ApprovalPicked automatic) (operator, s) = (operator, setApprovalStrategy automatic s)"

fun operator_form_enabled :: "operator_form_event \<Rightarrow> operator_form \<Rightarrow> bool" where
  "operator_form_enabled (ModePicked g) s = (g \<longrightarrow> of_updateChannelGlobal s)"
| "operator_form_enabled _ s = True"

inductive operator_form_reachable :: "IPackageManifest option \<times> operator_form \<Rightarrow> bool" where
  form_opened [step_intros]: "operator_form_reachable (None, initial_operator_form)"
| form_event [step_intros]:
    "operator_form_reachable (operator, s) \<Longrightarrow> operator_form_enabled ev s \<Longrightarrow>
       operator_form_reachable (operator_form_step ev (operator, s))"

section \<open>The definition of an instance\<close>

record 'd instance_lib =
  il_yaml :: "'d yaml"
  il_toJS :: "'d \<Rightarrow> js_error + json"
  il_stringify :: "json \<Rightarrow> string"
  il_placeholder :: string

definition values_toJS :: "'d instance_lib \<Rightarrow> string \<Rightarrow> js_error + json" where
  "values_toJS I values = il_toJS I (yaml_parseDocument (il_yaml I) (str_or values ''{}''))"

record instance_form =
  if_defaultValues :: string
  if_currentValues :: string
  if_crd :: "ICRD option"
  if_icon :: string

definition clean_instance_form :: "'d instance_lib \<Rightarrow> instance_form" where
  "clean_instance_form I =
     \<lparr>if_defaultValues = [], if_currentValues = [], if_crd = None, if_icon = il_placeholder I\<rparr>"

definition not_object :: js_error where
  "not_object = TypeError ''Cannot read properties of undefined''"

definition member_or_raise :: "json \<Rightarrow> string \<Rightarrow> js_error + json option" where
  "member_or_raise v k = (if v = JNull then Inl not_object else Inr (json_member v k))"

text \<open>One example of the annotation: the last of the kind gives the default values.\<close>

definition take_example ::
  "'d instance_lib \<Rightarrow> string \<Rightarrow> json \<Rightarrow> instance_form \<Rightarrow> js_error + instance_form" where
  "take_example I kind example s =
     map_sum id (\<lambda>k. if k = Some (JStr kind) then s\<lparr>if_defaultValues := il_stringify I example\<rparr> else s)
       (member_or_raise example ''kind'')"

fun fold_raise :: "('a \<Rightarrow> 's \<Rightarrow> 'e + 's) \<Rightarrow> 'a list \<Rightarrow> 's \<Rightarrow> 'e + 's" where
  "fold_raise f [] s = Inr s"
| "fold_raise f (x # xs) s = (case f x s of Inl e \<Rightarrow> Inl e | Inr s' \<Rightarrow> fold_raise f xs s')"

definition alm_examples :: "lib \<Rightarrow> IClusterServiceVersion \<Rightarrow> js_error + json list" where
  "alm_examples L csv =
     (case json_parse L (case obj_get (md_annotations (csv_metadata csv)) ''alm-examples'' of
                           None \<Rightarrow> ''[]'' | Some t \<Rightarrow> t) of
        Inl e \<Rightarrow> Inl e
      | Inr (JArr xs) \<Rightarrow> Inr xs
      | Inr v \<Rightarrow> Inl (TypeError ''examples.forEach is not a function''))"

definition take_crd ::
  "'d instance_lib \<Rightarrow> lib \<Rightarrow> IClusterServiceVersion \<Rightarrow> string \<Rightarrow> bool \<Rightarrow> ICRD \<Rightarrow> instance_form
     \<Rightarrow> js_error + instance_form" where
  "take_crd I L csv crdName withDefaults crd s =
     (if crd_name crd = crdName
      then (let s1 = s\<lparr>if_crd := Some crd\<rparr> in
            if withDefaults
            then (case alm_examples L csv of
                    Inl e \<Rightarrow> Inl e
                  | Inr examples \<Rightarrow> fold_raise (take_example I (crd_kind crd)) examples s1)
            else Inr s1)
      else Inr s)"

definition parseCSV ::
  "'d instance_lib \<Rightarrow> lib \<Rightarrow> IClusterServiceVersion \<Rightarrow> string \<Rightarrow> bool \<Rightarrow> instance_form
     \<Rightarrow> js_error + instance_form" where
  "parseCSV I L csv crdName withDefaults s =
     fold_raise (take_crd I L csv crdName withDefaults)
       (case csv_owned csv of None \<Rightarrow> [] | Some crds \<Rightarrow> crds)
       (if csv_icon csv = [] then s else s\<lparr>if_icon := getIcon (il_placeholder I) csv\<rparr>)"

definition csv_effect ::
  "'d instance_lib \<Rightarrow> lib \<Rightarrow> IClusterServiceVersion option \<Rightarrow> string \<Rightarrow> bool \<Rightarrow> instance_form
     \<Rightarrow> js_error + instance_form" where
  "csv_effect I L csv crdName withDefaults s = (case csv of
     None \<Rightarrow> Inr s | Some c \<Rightarrow> parseCSV I L c crdName withDefaults s)"

section \<open>The body of the forms of an instance\<close>

text \<open>\<open>ib_seen\<close> holds the default and the deployed values the effect last ran with.\<close>

record instance_body =
  ib_values :: string
  ib_modalIsOpen :: bool
  ib_parseError :: "string option"
  ib_seen :: "(string \<times> string option) option"

definition initial_instance_body :: "string \<Rightarrow> instance_body" where
  "initial_instance_body defaults =
     \<lparr>ib_values = defaults, ib_modalIsOpen = False, ib_parseError = None, ib_seen = None\<rparr>"

definition instance_values_effect :: "string \<Rightarrow> string option \<Rightarrow> instance_body \<Rightarrow> instance_body" where
  "instance_values_effect defaults deployedValues b =
     (if ib_seen b = Some (defaults, deployedValues) then b
      else b\<lparr>ib_values := str_or (opt_string deployedValues) defaults,
             ib_seen := Some (defaults, deployedValues)\<rparr>)"

definition instance_handleValuesChange :: "string \<Rightarrow> instance_body \<Rightarrow> instance_body" where
  "instance_handleValuesChange v b = b\<lparr>ib_values := v\<rparr>"

definition instance_openModal :: "instance_body \<Rightarrow> instance_body" where
  "instance_openModal b = b\<lparr>ib_modalIsOpen := True\<rparr>"

definition instance_closeModal :: "instance_body \<Rightarrow> instance_body" where
  "instance_closeModal b = b\<lparr>ib_modalIsOpen := False\<rparr>"

definition instance_restoreDefaultValues :: "string \<Rightarrow> instance_body \<Rightarrow> instance_body" where
  "instance_restoreDefaultValues defaults b = instance_closeModal (b\<lparr>ib_values := defaults\<rparr>)"

text \<open>A submission shows an error, hands a resource on, or raises where no handler catches it.\<close>

datatype submit_outcome = NotSubmitted | Submitted json | SubmissionRaises js_error

definition parseAndDeploy :: "'d instance_lib \<Rightarrow> instance_body \<Rightarrow> instance_body \<times> submit_outcome" where
  "parseAndDeploy I b =
     (let b1 = b\<lparr>ib_parseError := None\<rparr> in
      case values_toJS I (ib_values b) of
        Inl e \<Rightarrow>
          (b1\<lparr>ib_parseError := Some (''Unable to parse the given YAML. Got: '' @ error_message e)\<rparr>, NotSubmitted)
      | Inr resource \<Rightarrow>
          (case member_or_raise resource ''apiVersion'' of
             Inl e \<Rightarrow> (b1, SubmissionRaises e)
           | Inr v \<Rightarrow>
               (if (case v of None \<Rightarrow> False | Some x \<Rightarrow> json_truthy x) then (b1, Submitted resource)
                else (b1\<lparr>ib_parseError := Some ''Unable parse the resource. Make sure it contains a valid apiVersion''\<rparr>,
                      NotSubmitted))))"

section \<open>Creating and updating an instance\<close>

definition instance_fetch :: "lib \<Rightarrow> string \<Rightarrow> string \<Rightarrow> string \<Rightarrow> unit thunk" where
  "instance_fetch L cluster namespace csvName = spawnT (getCSV L cluster namespace csvName)"

text \<open>The plural: what is before the first dot of a definition's name.\<close>

definition plural_of :: "string \<Rightarrow> string" where
  "plural_of name = hd (split_on CHR ''.'' name)"

definition resource_apiVersion :: "lib \<Rightarrow> json \<Rightarrow> string" where
  "resource_apiVersion L resource = show_json L (json_member resource ''apiVersion'')"

definition resource_name :: "json \<Rightarrow> js_error + json option" where
  "resource_name resource = (case json_member resource ''metadata'' of
     None \<Rightarrow> Inl not_object | Some m \<Rightarrow> member_or_raise m ''name'')"

text \<open>The error of a missing definition shows both; its text is shortened here.\<close>

definition instance_handleDeploy ::
  "lib \<Rightarrow> string \<Rightarrow> string \<Rightarrow> IClusterServiceVersion option \<Rightarrow> ICRD option \<Rightarrow> json \<Rightarrow> unit thunk" where
  "instance_handleDeploy L cluster namespace csv crd resource =
     (case (crd, csv) of
        (Some d, Some c) \<Rightarrow>
          bindT (createResource L cluster namespace (resource_apiVersion L resource) (plural_of (crd_name d)) resource)
            (\<lambda>created.
               if \<not> created then returnT ()
               else (case resource_name resource of
                       Inl e \<Rightarrow> throwT e
                     | Inr name \<Rightarrow>
                         assignLocation (app_operatorInstances_view cluster namespace (md_name (csv_metadata c))
                           (crd_name d) (show_json L name))))
      | _ \<Rightarrow> throwT (JsError ''Missing CRD or CSV''))"

datatype instance_display =
    InstanceMissing
  | InstanceFailed string
  | InstanceShown "js_error option"

definition instance_create_view :: "IOperatorsState \<Rightarrow> instance_form \<Rightarrow> instance_display" where
  "instance_create_view ops s =
     (case oe_fetch (err_csv (op_errors ops)) of
        Some e \<Rightarrow> InstanceFailed (error_message e)
      | None \<Rightarrow>
          (if \<not> op_isFetching ops \<and> if_crd s = None then InstanceMissing
           else InstanceShown (oe_create (err_resource (op_errors ops)))))"

definition update_fetch :: "lib \<Rightarrow> string \<Rightarrow> string \<Rightarrow> string \<Rightarrow> string \<Rightarrow> string \<Rightarrow> unit thunk" where
  "update_fetch L cluster namespace csvName crdName resourceName =
     thenT (spawnT (getResource L cluster namespace csvName crdName resourceName))
       (spawnT (getCSV L cluster namespace csvName))"

text \<open>The fetched resource, as the JSON of its answer, becomes the values of the form.\<close>

definition current_values_effect :: "'d instance_lib \<Rightarrow> json option \<Rightarrow> instance_form \<Rightarrow> instance_form" where
  "current_values_effect I resource s = (case resource of
     None \<Rightarrow> s | Some r \<Rightarrow> s\<lparr>if_currentValues := il_stringify I r\<rparr>)"

definition update_handleDeploy ::
  "lib \<Rightarrow> string \<Rightarrow> string \<Rightarrow> string \<Rightarrow> string \<Rightarrow> string \<Rightarrow> json \<Rightarrow> unit thunk" where
  "update_handleDeploy L cluster namespace csvName crdName resourceName resource =
     bindT (updateResource L cluster namespace (resource_apiVersion L resource) (plural_of crdName) resourceName resource)
       (\<lambda>created. if created
          then assignLocation (app_operatorInstances_view cluster namespace csvName crdName resourceName)
          else returnT ())"

definition instance_update_view :: "IOperatorsState \<Rightarrow> instance_display" where
  "instance_update_view ops =
     (case oe_fetch (err_resource (op_errors ops)) of
        Some e \<Rightarrow> InstanceFailed (error_message e)
      | None \<Rightarrow>
          (if \<not> op_isFetching ops \<and> op_resource ops = None then InstanceMissing
           else InstanceShown (oe_update (err_resource (op_errors ops)))))"

section \<open>Showing and deleting an instance\<close>

definition instanceView_fetch :: "lib \<Rightarrow> string \<Rightarrow> string \<Rightarrow> string \<Rightarrow> string \<Rightarrow> string \<Rightarrow> unit thunk" where
  "instanceView_fetch L cluster namespace csvName crdName instanceName =
     thenT (spawnT (getResource L cluster namespace csvName crdName instanceName))
       (spawnT (getCSV L cluster namespace csvName))"

definition crd_ref :: "IKind \<Rightarrow> string \<Rightarrow> string \<Rightarrow> IResource \<Rightarrow> string \<Rightarrow> ResourceRef" where
  "crd_ref kind cluster namespace resource k =
     ResourceRef.truncate (fromCRD k kind cluster namespace
       (JObj [(''name'', JStr (md_name (res_metadata resource))), (''kind'', JStr (res_kind resource))]))"

definition parseResource ::
  "IKind \<Rightarrow> string \<Rightarrow> string \<Rightarrow> IResource \<Rightarrow> ICRD \<Rightarrow> IAppViewResourceRefs" where
  "parseResource kind cluster namespace resource crd =
     (let ref = crd_ref kind cluster namespace resource in
      case crd_resources crd of
        Some kinds \<Rightarrow> foldl parse_ref no_refs (map ref kinds)
      | None \<Rightarrow>
          \<lparr>av_deployments = [ref ''Deployment''], av_statefulsets = [ref ''StatefulSet''],
           av_daemonsets = [ref ''DaemonSet''], av_services = [ref ''Service''],
           av_ingresses = [ref ''Ingress''], av_secrets = [ref ''Secret''], av_otherResources = []\<rparr>)"

record instance_view_state = instance_form +
  iv_deleting :: bool
  iv_resourceRefs :: IAppViewResourceRefs
  iv_modalIsOpen :: bool

definition instance_refs_effect ::
  "IKind jsobj \<Rightarrow> string \<Rightarrow> string \<Rightarrow> IResource option \<Rightarrow> instance_view_state \<Rightarrow> instance_view_state" where
  "instance_refs_effect kinds cluster namespace resource s =
     (case (if_crd s, resource) of
        (Some crd, Some r) \<Rightarrow>
          (case obj_get kinds (res_kind r) of
             None \<Rightarrow> s
           | Some kind \<Rightarrow> s\<lparr>iv_resourceRefs := parseResource kind cluster namespace r crd\<rparr>)
      | _ \<Rightarrow> s)"

definition onUpdateClick :: "string \<Rightarrow> string \<Rightarrow> string \<Rightarrow> string \<Rightarrow> string \<Rightarrow> unit thunk" where
  "onUpdateClick cluster namespace csvName crdName instanceName =
     assignLocation (app_operatorInstances_update cluster namespace csvName crdName instanceName)"

text \<open>Without a definition or a resource the handler raises after it has raised the flag of the dialog.\<close>

definition handleDeleteInstance ::
  "lib \<Rightarrow> string \<Rightarrow> string \<Rightarrow> IResource option \<Rightarrow> instance_view_state \<Rightarrow> instance_view_state thunk" where
  "handleDeleteInstance L cluster namespace resource s =
     (case (if_crd s, resource) of
        (Some crd, Some r) \<Rightarrow>
          bindT (deleteResource L cluster namespace (plural_of (crd_name crd)) r) (\<lambda>deleted.
            thenT (if deleted then assignLocation (app_apps_list (Some cluster) (Some namespace)) else returnT ())
              (returnT (s\<lparr>iv_deleting := False, iv_modalIsOpen := False\<rparr>)))
      | _ \<Rightarrow> returnT (s\<lparr>iv_deleting := True\<rparr>))"

definition instance_error :: "IOperatorsState \<Rightarrow> js_error option" where
  "instance_error ops = (case oe_delete (err_resource (op_errors ops)) of
     Some e \<Rightarrow> Some e | None \<Rightarrow> oe_update (err_resource (op_errors ops)))"

section \<open>Facts\<close>

interpretation ivalues: dependency_effect "\<lambda>(defaults, deployed) b. instance_values_effect defaults deployed b" ib_seen
  by unfold_locales (auto simp: instance_values_effect_def)

text \<open>What the form keeps: the flag of the channel is the channel's, and the mode is one it supports.\<close>

definition operator_form_ok :: "IPackageManifest option \<times> operator_form \<Rightarrow> bool" where
  "operator_form_ok c \<longleftrightarrow> (case c of (operator, s) \<Rightarrow>
     of_updateChannelGlobal s = global_channel (of_updateChannel s) \<and>
     (of_installationModeGlobal s \<longrightarrow> of_updateChannelGlobal s) \<and>
     (\<forall>opr ch. operator = Some opr \<longrightarrow> of_updateChannel s = Some ch \<longrightarrow> ch \<in> set (pmf_channels opr)))"

lemma operator_form_reachable_ok: "operator_form_reachable c \<Longrightarrow> operator_form_ok c"
proof (induction rule: operator_form_reachable.induct)
  case form_opened
  then show ?case by (simp add: operator_form_ok_def initial_operator_form_def global_channel_def)
next
  case (form_event operator s ev)
  then show ?case
    by (cases ev)
      (auto simp: operator_form_ok_def operator_effect_def set_channel_def selectChannel_def
        setInstallationMode_def setApprovalStrategy_def getDefaultChannel_def
        split: option.splits dest: find_in_list)
qed

lemma fold_raise_append:
  "fold_raise f (xs @ ys) s = (case fold_raise f xs s of Inl e \<Rightarrow> Inl e | Inr s' \<Rightarrow> fold_raise f ys s')"
  by (induction xs arbitrary: s) (auto split: sum.splits)

lemma fold_raise_skip: "(\<And>x s. x \<in> set xs \<Longrightarrow> f x s = Inr s) \<Longrightarrow> fold_raise f xs s = Inr s"
  by (induction xs) auto

lemma take_examples:
  assumes "JNull \<notin> set xs"
  shows "fold_raise (take_example I kind) xs s =
    Inr (case filter (\<lambda>x. json_member x ''kind'' = Some (JStr kind)) xs of
           [] \<Rightarrow> s | y # ys \<Rightarrow> s\<lparr>if_defaultValues := il_stringify I (last (y # ys))\<rparr>)"
  using assms
proof (induction xs arbitrary: s)
  case (Cons x xs)
  then show ?case
    by (auto simp: take_example_def member_or_raise_def split: list.split)
qed simp

lemma crd_ref_name [simp]: "rr_name (crd_ref kind cluster namespace resource k) = []"
  by (simp add: crd_ref_def fromCRD_def new_ResourceRef_def Let_def ResourceRef.truncate_def)

definition watched_refs :: "IAppViewResourceRefs \<Rightarrow> ResourceRef list set" where
  "watched_refs p = {av_deployments p, av_statefulsets p, av_daemonsets p, av_services p, av_ingresses p, av_secrets p}"

lemma parseResource_nameless:
  assumes "refs \<in> watched_refs (parseResource kind cluster namespace resource crd)" and "r \<in> set refs"
  shows "rr_name r = []"
proof (cases "crd_resources crd")
  case None
  with assms show ?thesis by (auto simp: parseResource_def watched_refs_def Let_def)
next
  case (Some kinds)
  then have "parseResource kind cluster namespace resource crd =
      parseResources (map (crd_ref kind cluster namespace resource) kinds)"
    by (simp add: parseResource_def parseResources_def)
  with assms show ?thesis by (auto simp: watched_refs_def parseResources_kinds of_kind_def)
qed

lemma nameless_not_found:
  assumes "\<And>r. r \<in> set refs \<Longrightarrow> rr_name r = []"
    and "\<And>k. k \<in> fst ` set items \<Longrightarrow> \<exists>r. k = keyForResourceRef r \<and> rr_name r \<noteq> [] \<and> CHR ''/'' \<notin> set (rr_name r)"
  shows "filterByResourceRefs refs items = []"
proof -
  have "obj_get items (keyForResourceRef r) = None" if "r \<in> set refs" for r
  proof (rule ccontr)
    assume "obj_get items (keyForResourceRef r) \<noteq> None"
    then have "keyForResourceRef r \<in> fst ` set items" by (simp add: map_of_eq_None_iff)
    then obtain q where key: "keyForResourceRef r = keyForResourceRef q"
      and q: "rr_name q \<noteq> []" "CHR ''/'' \<notin> set (rr_name q)" using assms(2) by blast
    have "last (keyForResourceRef r) = CHR ''/''"
      using assms(1) [OF that] by (simp add: keyForResourceRef_def)
    moreover have "last (keyForResourceRef q) = last (rr_name q)"
      using q(1) by (simp add: keyForResourceRef_def)
    ultimately show False using key q last_in_set by metis
  qed
  then show ?thesis by (auto simp: filterByResourceRefs_def List.map_filter_def filter_empty_conv)
qed

section \<open>Properties\<close>

text \<open>
  C32: The installation mode of an operator. Whatever channels and modes the user works through, and whatever
  operators arrive meanwhile, the channel is one of the shown operator, the mode for all namespaces is only
  chosen where the channel supports it, and with the button enabled an operator that does not support it is
  never sent to the namespace \<open>operators\<close>.
\<close>
theorem operator_mode_supported:
  assumes "operator_form_reachable (operator, s)"
  shows "(of_installationModeGlobal s \<longrightarrow> global_channel (of_updateChannel s)) \<and>
    (\<forall>opr ch. operator = Some opr \<longrightarrow> of_updateChannel s = Some ch \<longrightarrow> ch \<in> set (pmf_channels opr)) \<and>
    (\<not> disableInstall namespace s \<longrightarrow> operator_targetNS namespace s = ''operators'' \<longrightarrow>
       global_channel (of_updateChannel s))"
  using operator_form_reachable_ok [OF assms]
  by (auto simp: operator_form_ok_def disableInstall_def operator_targetNS_def split: if_splits)

text \<open>
  The default values of an instance. When the definition is owned once, it is found and the last example of its
  kind becomes the default values; examples that are no JSON, or no list, make the effect raise.
\<close>
theorem example_becomes_default:
  assumes "csv_owned csv = Some crds" and "filter (\<lambda>d. crd_name d = crdName) crds = [crd]"
    and "\<And>xs. alm_examples L csv = Inr xs \<Longrightarrow> JNull \<notin> set xs"
  shows "case alm_examples L csv of
      Inl e \<Rightarrow> parseCSV I L csv crdName True s = Inl e
    | Inr xs \<Rightarrow> (\<exists>s'. parseCSV I L csv crdName True s = Inr s' \<and> if_crd s' = Some crd \<and>
        if_defaultValues s' =
          (case filter (\<lambda>x. json_member x ''kind'' = Some (JStr (crd_kind crd))) xs of
             [] \<Rightarrow> if_defaultValues s | y # ys \<Rightarrow> il_stringify I (last (y # ys))))"
proof -
  obtain before after where crds: "crds = before @ crd # after"
    and others: "\<forall>d \<in> set before. crd_name d \<noteq> crdName" "\<forall>d \<in> set after. crd_name d \<noteq> crdName"
    and crd: "crd_name crd = crdName"
    using assms(2) unfolding filter_eq_Cons_iff
    by (auto simp: filter_empty_conv eq_commute [of "[]"])
  have skip: "fold_raise (take_crd I L csv crdName True) ds t = Inr t"
    if "\<forall>d \<in> set ds. crd_name d \<noteq> crdName" for ds t
    by (rule fold_raise_skip) (use that in \<open>simp add: take_crd_def\<close>)
  define t where "t = (if csv_icon csv = [] then s else s\<lparr>if_icon := getIcon (il_placeholder I) csv\<rparr>)"
  have "parseCSV I L csv crdName True s = take_crd I L csv crdName True crd t"
    by (simp add: parseCSV_def assms(1) crds fold_raise_append skip others t_def skip [OF others(2)] split: sum.split)
  moreover have "if_defaultValues t = if_defaultValues s" by (simp add: t_def)
  ultimately show ?thesis using assms(3)
    by (auto simp: take_crd_def crd take_examples split: sum.splits list.splits)
qed

text \<open>
  Every submission of the form of an instance ends in one of three ways and leaves the values alone. The
  resource is handed on exactly when the values parse to one with an API version. A document that is empty but
  for comments parses to null: the handler raises, and the user sees nothing. Everything else shows an error.
\<close>
theorem instance_submission_cases:
  "let (b', out) = parseAndDeploy I b; parsed = values_toJS I (ib_values b) in
     ib_values b' = ib_values b \<and>
     (\<forall>r. out = Submitted r \<longleftrightarrow> parsed = Inr r \<and> member_truthy r ''apiVersion'') \<and>
     ((\<exists>e. out = SubmissionRaises e) \<longleftrightarrow> parsed = Inr JNull) \<and>
     (out = NotSubmitted \<longleftrightarrow> ib_parseError b' \<noteq> None)"
  by (auto simp: parseAndDeploy_def Let_def member_or_raise_def member_truthy_def split: sum.split option.splits)

text \<open>
  What the user typed into the editor of an instance stays through every rendering on the same default and
  deployed values; the first rendering on others replaces it by the deployed values, or the defaults without them.
\<close>
theorem instance_edits_kept:
  assumes "ib_seen b = Some d" and "set ds \<subseteq> {d}"
  shows "let edited = fold (\<lambda>(defaults, deployed) b. instance_values_effect defaults deployed b) ds
             (instance_handleValuesChange v b)
         in ib_values edited = v \<and>
            (\<forall>defaults deployed. (defaults, deployed) \<noteq> d \<longrightarrow>
               ib_values (instance_values_effect defaults deployed edited) = str_or (opt_string deployed) defaults)"
  using ivalues.handled_kept [OF assms(2,1), of "instance_handleValuesChange v"] assms(1)
  by (auto simp: instance_handleValuesChange_def instance_values_effect_def Let_def)

text \<open>
  An update that changes nothing. The fetched resource is printed into the editor; submitted as it is, the same
  resource is handed to the update, provided printing and parsing are inverse and it has an API version.
\<close>
theorem unchanged_update_submits_resource:
  assumes "values_toJS I (il_stringify I r) = Inr r" and "il_stringify I r \<noteq> []"
    and "member_truthy r ''apiVersion''"
  shows "let s = current_values_effect I (Some r) f;
             b = instance_values_effect (if_defaultValues s) (Some (if_currentValues s)) b0 in
    ib_seen b0 \<noteq> Some (if_defaultValues s, Some (if_currentValues s)) \<longrightarrow>
    parseAndDeploy I b = (b\<lparr>ib_parseError := None\<rparr>, Submitted r)"
  using assms
  by (auto simp: Let_def current_values_effect_def instance_values_effect_def opt_string_def parseAndDeploy_def
      member_or_raise_def member_truthy_def split: option.splits)

text \<open>
  The workloads of an instance. The references made from a definition have no name, while the resources in the
  store are kept under the names they were requested with: the page of an instance never finds any of them, and
  its status is that there are no workloads.
\<close>
theorem instance_has_no_workloads:
  assumes "\<And>k. k \<in> fst ` set items \<Longrightarrow>
      \<exists>r. k = keyForResourceRef r \<and> rr_name r \<noteq> [] \<and> CHR ''/'' \<notin> set (rr_name r)"
  shows "let refs = parseResource kind cluster namespace resource crd in
    applicationStatus (filterByResourceRefs (av_deployments refs) items)
      (filterByResourceRefs (av_statefulsets refs) items) (filterByResourceRefs (av_daemonsets refs) items) None =
        Inr NoWorkload \<and>
    filterByResourceRefs (av_services refs) items = [] \<and> filterByResourceRefs (av_ingresses refs) items = []"
proof -
  let ?refs = "parseResource kind cluster namespace resource crd"
  have none: "filterByResourceRefs rs items = []" if "rs \<in> watched_refs ?refs" for rs
    by (rule nameless_not_found [OF _ assms]) (use that parseResource_nameless in blast)
  then show ?thesis
    by (simp add: watched_refs_def Let_def applicationStatus_def workloads_def flattenItemList_def totalPods_def)
qed

section \<open>Instances\<close>

text \<open>A yaml library whose only documents are an object with an API version and null, and an operator.\<close>

definition text_yaml :: "string yaml" where
  "text_yaml =
     \<lparr>yaml_parseDocument = (\<lambda>s. s), yaml_toString = Inr, yaml_isEmpty = (\<lambda>d. d = []), yaml_hasItems = (\<lambda>d. d \<noteq> []),
      yaml_getIn = (\<lambda>d p. YUndefined), yaml_setIn = (\<lambda>d p v. Inr d), yaml_deleteIn = (\<lambda>d p. Inr d),
      lodash_set = (\<lambda>k v. v), unescapePathComponent = (\<lambda>s. s)\<rparr>"

definition sample_instance :: json where
  "sample_instance = JObj [(''apiVersion'', JStr ''v1'')]"

definition sample_instance_lib :: "string instance_lib" where
  "sample_instance_lib =
     \<lparr>il_yaml = text_yaml, il_toJS = (\<lambda>d. if d = ''#'' then Inr JNull else Inr sample_instance),
      il_stringify = (\<lambda>v. ''apiVersion: v1''), il_placeholder = ''icon''\<rparr>"

definition sample_metadata :: "string \<Rightarrow> string jsobj \<Rightarrow> IResourceMetadata" where
  "sample_metadata n as = \<lparr>md_name = n, md_namespace = ''dev'', md_annotations = as, md_creationTimestamp = [],
     md_selfLink = [], md_resourceVersion = [], md_deletionTimestamp = None, md_uid = []\<rparr>"

definition sample_channel :: "string \<Rightarrow> bool \<Rightarrow> IPackageManifestChannel" where
  "sample_channel n supported = \<lparr>ch_name = n, ch_currentCSV = n,
     ch_installModes = [\<lparr>im_supported = supported, im_type = ''AllNamespaces''\<rparr>],
     ch_categories = None, ch_capabilities = None, ch_provider = None\<rparr>"

definition sample_manifest :: IPackageManifest where
  "sample_manifest = \<lparr>pmf_metadata = sample_metadata ''etcd'' [], pmf_defaultChannel = ''alpha'',
     pmf_channels = [sample_channel ''alpha'' True, sample_channel ''beta'' False]\<rparr>"

definition sample_crd :: ICRD where
  "sample_crd = \<lparr>crd_description = [], crd_displayName = [], crd_kind = ''Db'', crd_name = ''dbs.example.com'',
     crd_version = ''v1'', crd_resources = None\<rparr>"

definition sample_csv :: IClusterServiceVersion where
  "sample_csv = \<lparr>csv_metadata = sample_metadata ''db.v1'' [(''alm-examples'', ''{}'')], csv_version = ''1'',
     csv_owned = Some [sample_crd], csv_icon = [], csv_provider = []\<rparr>"

theorem operator_mode_supported_witness:
  "\<exists>s. operator_form_reachable (Some sample_manifest, s) \<and> of_installationModeGlobal s \<and>
     global_channel (of_updateChannel s)"
proof -
  have r: "operator_form_reachable (operator_form_step (OperatorArrived (Some sample_manifest)) (None, initial_operator_form))"
    by (rule form_event [OF form_opened]) simp
  then have "operator_form_reachable (Some sample_manifest, operator_effect (Some sample_manifest) initial_operator_form)"
    by simp
  from operator_mode_supported [OF this, of "''dev''"] this show ?thesis
    by (auto simp: operator_effect_def set_channel_def initial_operator_form_def getDefaultChannel_def
        sample_manifest_def sample_channel_def global_channel_def)
qed

theorem example_becomes_default_witness:
  "\<exists>e. parseCSV sample_instance_lib sample_lib sample_csv ''dbs.example.com'' True (clean_instance_form sample_instance_lib) = Inl e"
  using example_becomes_default [of sample_csv "[sample_crd]" "''dbs.example.com''" sample_crd sample_lib sample_instance_lib
      "clean_instance_form sample_instance_lib"]
  by (simp add: sample_csv_def sample_crd_def sample_metadata_def alm_examples_def sample_lib_def)

theorem instance_edits_kept_witness:
  "ib_values (fold (\<lambda>(defaults, deployed) b. instance_values_effect defaults deployed b)
     [(''a'', None), (''a'', None)]
     (instance_handleValuesChange ''mine'' (instance_values_effect ''a'' None (initial_instance_body [])))) = ''mine''"
  using instance_edits_kept [of "instance_values_effect ''a'' None (initial_instance_body [])" "(''a'', None)"
      "[(''a'', None), (''a'', None)]" "''mine''"]
  by (simp add: Let_def) (simp add: instance_values_effect_def initial_instance_body_def)

theorem unchanged_update_submits_resource_witness:
  "snd (parseAndDeploy sample_instance_lib (instance_values_effect [] (Some ''apiVersion: v1'') (initial_instance_body []))) =
     Submitted sample_instance"
  using unchanged_update_submits_resource [of sample_instance_lib sample_instance "clean_instance_form sample_instance_lib"
      "initial_instance_body []"]
  by (simp add: Let_def values_toJS_def sample_instance_lib_def text_yaml_def current_values_effect_def
      clean_instance_form_def initial_instance_body_def sample_instance_def member_truthy_def)

theorem instance_has_no_workloads_witness:
  "let refs = parseResource \<lparr>kind_apiVersion = ''apps/v1'', kind_plural = ''dbs'', kind_namespaced = True\<rparr> ''c'' ''dev''
       \<lparr>res_apiVersion = ''v1'', res_kind = ''Db'', res_type = [], res_spec = JObj [], res_status = JObj [],
        res_metadata = sample_metadata ''my-db'' []\<rparr> sample_crd;
     items = [(keyForResourceRef (sample_ref ''Deployment'' ''my-db''),
       \<lparr>ki_isFetching = False, ki_item = Some (JObj []), ki_error = None\<rparr>)] in
   applicationStatus (filterByResourceRefs (av_deployments refs) items)
     (filterByResourceRefs (av_statefulsets refs) items) (filterByResourceRefs (av_daemonsets refs) items) None = Inr NoWorkload"
  unfolding Let_def
  by (rule conjunct1 [OF instance_has_no_workloads [unfolded Let_def]])
    (auto simp: sample_ref_def intro!: exI [of _ "sample_ref ''Deployment'' ''my-db''"])

end
