(* ===== verification/Lists_View.thy ===== *)
theory Lists_View
  imports Rendering Catalog_View Namespace_Actions Installed_Actions Operator_Actions Repo_Actions
begin

text \<open>
  The list of the installed applications (\<open>components/AppList\<close>) and the list of the package repositories
  with the controls of each (\<open>components/Config/PkgRepoList\<close> but for the form, which is \<open>Repo_Form\<close>).
  The parser of query strings is a parameter.
\<close>

section \<open>Installed applications\<close>

text \<open>
  The local state of the list, and what its effects last ran with: the query and the switch of the location, what
  was fetched, and the cluster the permission was asked for.
\<close>

record app_list =
  al_searchFilter :: string
  al_allNS :: bool
  al_canSetAllNS :: bool
  al_seenSearch :: "string option"
  al_seenAllNS :: "string option"
  al_seenFetch :: "(string \<times> string option \<times> bool \<times> bool) option"
  al_seenCluster :: "string option"

definition search_query :: "(string \<Rightarrow> string jsobj) \<Rightarrow> string \<Rightarrow> string" where
  "search_query Q search = opt_string (obj_get (Q search) ''q'')"

definition allns_query :: "(string \<Rightarrow> string jsobj) \<Rightarrow> string \<Rightarrow> string" where
  "allns_query Q search = opt_string (obj_get (Q search) ''allns'')"

definition initial_app_list :: "string \<Rightarrow> app_list" where
  "initial_app_list allNSQuery =
     \<lparr>al_searchFilter = [], al_allNS = (allNSQuery = ''yes''), al_canSetAllNS = False, al_seenSearch = None,
      al_seenAllNS = None, al_seenFetch = None, al_seenCluster = None\<rparr>"

definition submitFilters :: "app_list \<Rightarrow> bool \<Rightarrow> string" where
  "submitFilters s allns =
     ''?'' @ join ''&'' ((if allns then [''allns=yes''] else [''allns=no'']) @
       (if al_searchFilter s \<noteq> [] then [''q='' @ al_searchFilter s] else []))"

definition submitSearchFilter :: "app_list \<Rightarrow> unit thunk" where
  "submitSearchFilter s = assignLocation (submitFilters s (al_allNS s))"

definition toggleListAllNS :: "app_list \<Rightarrow> app_list thunk" where
  "toggleListAllNS s =
     thenT (assignLocation (submitFilters s (\<not> al_allNS s))) (returnT (s\<lparr>al_allNS := \<not> al_allNS s\<rparr>))"

definition setAppSearchFilter :: "string \<Rightarrow> app_list \<Rightarrow> app_list" where
  "setAppSearchFilter v s = s\<lparr>al_searchFilter := v\<rparr>"

definition search_effect :: "string \<Rightarrow> app_list \<Rightarrow> app_list" where
  "search_effect searchQuery s =
     (if al_seenSearch s = Some searchQuery then s
      else s\<lparr>al_searchFilter := searchQuery, al_seenSearch := Some searchQuery\<rparr>)"

definition allns_effect :: "string \<Rightarrow> app_list \<Rightarrow> app_list" where
  "allns_effect allNSQuery s =
     (if al_seenAllNS s = Some allNSQuery then s
      else s\<lparr>al_allNS := (allNSQuery = ''yes''), al_seenAllNS := Some allNSQuery\<rparr>)"

text \<open>Nothing is fetched before the namespace is known; the fetch is of the rendered switch.\<close>

definition apps_effect ::
  "lib \<Rightarrow> string \<Rightarrow> string option \<Rightarrow> bool \<Rightarrow> bool \<Rightarrow> app_list \<Rightarrow> app_list thunk" where
  "apps_effect L cluster currentNamespace operators allNS s =
     (let deps = (cluster, currentNamespace, operators, allNS);
          ns = (if allNS then Some [] else currentNamespace)
      in if al_seenFetch s = Some deps then returnT s
         else thenT
           (if currentNamespace \<noteq> Some []
            then thenT (spawnT (fetchInstalledPackages cluster ns))
                   (if operators then spawnT (getResources L cluster (opt_string ns)) else returnT ())
            else returnT ())
           (returnT (s\<lparr>al_seenFetch := Some deps\<rparr>)))"

definition can_list_effect :: "string \<Rightarrow> app_list \<Rightarrow> app_list thunk" where
  "can_list_effect cluster s =
     (if al_seenCluster s = Some cluster then returnT s
      else bindT (canI cluster [] ''secrets'' ''list'' []) (\<lambda>allowed.
             returnT (s\<lparr>al_canSetAllNS := allowed, al_seenCluster := Some cluster\<rparr>)))"

text \<open>The switch is shown on by the location as well as by the state.\<close>

definition allns_checked :: "string \<Rightarrow> app_list \<Rightarrow> bool" where
  "allns_checked allNSQuery s \<longleftrightarrow> allNSQuery = ''yes'' \<or> al_allNS s"

section \<open>The grid\<close>

definition filteredReleases :: "string \<Rightarrow> InstalledPackageSummary list \<Rightarrow> InstalledPackageSummary list" where
  "filteredReleases pat apps = filter (\<lambda>a. matches_text pat (isum_name a)) apps"

definition filteredCRs :: "string \<Rightarrow> IResource list \<Rightarrow> IResource list" where
  "filteredCRs pat crs = filter (\<lambda>cr. matches_text pat (md_name (res_metadata cr))) crs"

definition owns_kind :: "string \<Rightarrow> IClusterServiceVersion \<Rightarrow> bool" where
  "owns_kind k csv \<longleftrightarrow> (case csv_owned csv of None \<Rightarrow> False | Some crds \<Rightarrow> list_ex (\<lambda>d. crd_kind d = k) crds)"

definition release_key :: "InstalledPackageSummary \<Rightarrow> string" where
  "release_key a =
     show_opt (map_option ctx_namespace (Option.bind (isum_installedPackageRef a) ipr_context)) @ ''-'' @
     show_opt (map_option ipr_identifier (isum_installedPackageRef a))"

datatype update_hint = NoUpdate | NewAppVersion string | NewPkgVersion string

definition update_available :: "InstalledPackageSummary \<Rightarrow> update_hint" where
  "update_available a =
     (let part = (\<lambda>f v. opt_string (map_option f v));
          latestApp = part pav_appVersion (isum_latestVersion a); currentApp = part pav_appVersion (isum_currentVersion a);
          latestPkg = part pav_pkgVersion (isum_latestVersion a); currentPkg = part pav_pkgVersion (isum_currentVersion a)
      in if latestApp \<noteq> [] \<and> currentApp \<noteq> [] \<and> currentApp \<noteq> latestApp then NewAppVersion latestApp
         else if latestPkg \<noteq> [] \<and> currentPkg \<noteq> [] \<and> latestPkg \<noteq> currentPkg then NewPkgVersion latestPkg
         else NoUpdate)"

text \<open>A card: its link, its title, its labels and the hint. A package without a reference has none.\<close>

record app_card =
  card_link :: string
  card_title :: string
  card_status :: string
  card_ready :: bool
  card_update :: update_hint

definition appListItem :: "InstalledPackageSummary \<Rightarrow> app_card option" where
  "appListItem a = (case isum_installedPackageRef a of
     None \<Rightarrow> None
   | Some ref \<Rightarrow> Some
       \<lparr>card_link = app_apps_get ref, card_title = isum_name a,
        card_status = getAppStatusLabel (map_option ips_reason (isum_status a)),
        card_ready = (case isum_status a of None \<Rightarrow> False | Some st \<Rightarrow> ips_ready st),
        card_update = update_available a\<rparr>)"

datatype resource_card = MissingCRD string | ResourceCard string string

text \<open>A resource whose version is not in the list: reading the version's members raises.\<close>

definition customResourceItem ::
  "string \<Rightarrow> IClusterServiceVersion option \<Rightarrow> IResource \<Rightarrow> js_error + resource_card" where
  "customResourceItem cluster csv r = (case csv of
     None \<Rightarrow> Inl (TypeError ''Cannot read properties of undefined (reading 'spec')'')
   | Some c \<Rightarrow>
       (case findOwnedKind c (res_kind r) of
          None \<Rightarrow> Inr (MissingCRD (''Unable to retrieve the CustomResourceDefinition for '' @ res_kind r @
                     '' in '' @ md_name (csv_metadata c)))
        | Some crd \<Rightarrow> Inr (ResourceCard
            (app_operatorInstances_view cluster (md_namespace (res_metadata r)) (md_name (csv_metadata c))
              (crd_name crd) (md_name (res_metadata r)))
            (md_name (res_metadata r)))))"

datatype grid_display = GridEmpty | Grid "app_card list" "resource_card list"

definition appListGrid ::
  "InstalledPackageSummary list option \<Rightarrow> IResource list \<Rightarrow> IClusterServiceVersion list \<Rightarrow> string \<Rightarrow> string
     \<Rightarrow> js_error + grid_display" where
  "appListGrid appList customResources csvs cluster pat =
     (let releases = filteredReleases pat (case appList of None \<Rightarrow> [] | Some as \<Rightarrow> as);
          crs = filteredCRs pat customResources
      in if releases = [] \<and> crs = [] then Inr GridEmpty
         else map_sum id (\<lambda>cards. Grid (List.map_filter appListItem releases) cards)
                (traverse (\<lambda>r. customResourceItem cluster (find (owns_kind (res_kind r)) csvs) r) crs))"

section \<open>Package repositories\<close>

record repo_list =
  pl_allNS :: bool
  pl_canSetAllNS :: bool
  pl_reposRBAC :: "(Plugin option \<times> PackageRepositoriesPermissions) list"
  pl_namespace :: string

definition initial_repo_list :: "bool \<Rightarrow> string \<Rightarrow> repo_list" where
  "initial_repo_list allNSQuery currentNamespace =
     \<lparr>pl_allNS = allNSQuery, pl_canSetAllNS = False, pl_reposRBAC = [],
      pl_namespace = (if allNSQuery then [] else currentNamespace)\<rparr>"

definition supportedCluster :: "IConfig \<Rightarrow> string \<Rightarrow> bool" where
  "supportedCluster config cluster \<longleftrightarrow> cluster = kubeappsCluster config"

definition refetchRepos :: "lib \<Rightarrow> IConfig \<Rightarrow> string \<Rightarrow> repo_list \<Rightarrow> unit thunk" where
  "refetchRepos L config cluster s =
     (if pl_namespace s = [] \<or> \<not> supportedCluster config cluster \<or> pl_namespace s = helmGlobalNamespace config
      then spawnT (fetchRepoSummaries L [] False)
      else spawnT (fetchRepoSummaries L (pl_namespace s) True))"

definition fetchPermissions :: "IConfig \<Rightarrow> string \<Rightarrow> repo_list \<Rightarrow> unit thunk" where
  "fetchPermissions config cluster s =
     (if supportedCluster config cluster
      then spawnT (fetchReposPermissions (kubeappsCluster config) (pl_namespace s)) else returnT ())"

definition toggleReposAllNS :: "repo_list \<Rightarrow> repo_list thunk" where
  "toggleReposAllNS s =
     thenT (assignLocation (if \<not> pl_allNS s then ''?allns=yes'' else ''?allns=no''))
       (returnT (s\<lparr>pl_allNS := \<not> pl_allNS s\<rparr>))"

definition repos_namespace_effect :: "string \<Rightarrow> repo_list \<Rightarrow> repo_list" where
  "repos_namespace_effect currentNamespace s =
     s\<lparr>pl_namespace := (if pl_allNS s then [] else currentNamespace)\<rparr>"

text \<open>The permissions by plugin: a later entry of the same plugin replaces an earlier one in place.\<close>

definition permission_of :: "bool jsobj \<Rightarrow> string \<Rightarrow> bool" where
  "permission_of ps verb = (obj_get ps verb = Some True)"

definition rbac_effect :: "PackageRepositoriesPermissions list \<Rightarrow> repo_list \<Rightarrow> repo_list" where
  "rbac_effect perms s =
     (let rbac = foldl (\<lambda>m p. AList.update (prp_plugin p) p m) [] perms in
      s\<lparr>pl_reposRBAC := rbac, pl_canSetAllNS := list_ex (\<lambda>p. permission_of (prp_global (snd p)) ''list'') rbac\<rparr>)"

definition canEditGlobalRepos :: "repo_list \<Rightarrow> Plugin option \<Rightarrow> bool" where
  "canEditGlobalRepos s plugin =
     (if plugin = None then False
      else (case map_of (pl_reposRBAC s) plugin of
              None \<Rightarrow> False | Some p \<Rightarrow> permission_of (prp_global p) ''update''))"

definition canEditNamespacedRepos :: "repo_list \<Rightarrow> Plugin option \<Rightarrow> bool" where
  "canEditNamespacedRepos s plugin =
     (if plugin = None then False
      else (case map_of (pl_reposRBAC s) plugin of
              None \<Rightarrow> False | Some p \<Rightarrow> permission_of (prp_namespace p) ''update''))"

definition canAddRepos :: "repo_list \<Rightarrow> bool" where
  "canAddRepos s \<longleftrightarrow> list_ex (\<lambda>p. permission_of (prp_global (snd p)) ''create'' \<or>
     permission_of (prp_namespace (snd p)) ''create'') (pl_reposRBAC s)"

definition globalRepos :: "PackageRepositorySummary list \<Rightarrow> PackageRepositorySummary list" where
  "globalRepos repos = filter (\<lambda>r. \<not> prsum_namespaceScoped r) repos"

definition namespacedRepos :: "repo_list \<Rightarrow> PackageRepositorySummary list \<Rightarrow> PackageRepositorySummary list" where
  "namespacedRepos s repos = filter (\<lambda>r. prsum_namespaceScoped r \<and>
     (pl_allNS s \<or> map_option ctx_namespace (Option.bind (prsum_packageRepoRef r) prr_context) = Some (pl_namespace s)))
     repos"

text \<open>A row: the repository, whether it is ready, and whether it can be edited and deleted.\<close>

record repo_row =
  row_repo :: PackageRepositorySummary
  row_ready :: bool
  row_enabled :: bool

definition repo_rows ::
  "(Plugin option \<Rightarrow> bool) \<Rightarrow> PackageRepositorySummary list \<Rightarrow> repo_row list" where
  "repo_rows disableControls repos =
     map (\<lambda>r. \<lparr>row_repo = r,
        row_ready = (case prsum_status r of None \<Rightarrow> False | Some st \<Rightarrow> prs_ready st),
        row_enabled = (\<not> disableControls (Option.bind (prsum_packageRepoRef r) prr_plugin))\<rparr>) repos"

text \<open>
  The second argument of the code's table of global repositories is the negation of a function, which is false:
  what disables a row there is the permission of its plugin alone.
\<close>

definition global_table :: "repo_list \<Rightarrow> PackageRepositorySummary list \<Rightarrow> bool \<Rightarrow> repo_row list" where
  "global_table s repos disableControls =
     repo_rows (\<lambda>plugin. disableControls \<or> \<not> canEditGlobalRepos s plugin) (globalRepos repos)"

datatype repo_page =
    OtherCluster "repo_row list"
  | ReposPage "js_error option" "repo_row list" "repo_row list option"
  | ReposLoading "js_error option"
  | ReposFailed string "js_error option"

definition pkgRepoList_view ::
  "IConfig \<Rightarrow> string \<Rightarrow> IPackageRepositoryState \<Rightarrow> repo_list \<Rightarrow> repo_page" where
  "pkgRepoList_view config cluster st s =
     (let repos = rp_reposSummaries st; deleteError = re_delete (rp_errors st) in
      if \<not> supportedCluster config cluster then OtherCluster (global_table s repos True)
      else (case re_fetch (rp_errors st) of
              Some e \<Rightarrow> ReposFailed (error_message e) deleteError
            | None \<Rightarrow>
                (if rp_isFetching st then ReposLoading deleteError
                 else ReposPage deleteError (global_table s repos False)
                   (if pl_namespace s = helmGlobalNamespace config then None
                    else Some (repo_rows (\<lambda>plugin. \<not> canEditNamespacedRepos s plugin) (namespacedRepos s repos))))))"

definition repo_link :: "string \<Rightarrow> PackageRepositorySummary \<Rightarrow> string" where
  "repo_link cluster r =
     app_catalog cluster (opt_string (map_option ctx_namespace (Option.bind (prsum_packageRepoRef r) prr_context))) @
     filtersToQuery [(REPO, [prsum_name r])]"

section \<open>The controls of a repository\<close>

definition handleDeleteClick ::
  "lib \<Rightarrow> IConfig \<Rightarrow> string \<Rightarrow> repo_list \<Rightarrow> PackageRepositoryReference \<Rightarrow> bool thunk" where
  "handleDeleteClick L config cluster s ref =
     bindT (deleteRepo ref) (\<lambda>deleted.
       thenT (if deleted then refetchRepos L config cluster s else returnT ()) (returnT False))"

definition openRepoModal :: "bool thunk" where
  "openRepoModal = thenT (dispatchT (ReposA RequestRepoDetail)) (returnT True)"

definition repo_onSubmit ::
  "lib \<Rightarrow> PackageRepositoryReference option \<Rightarrow> IPkgRepoFormData \<Rightarrow> bool thunk" where
  "repo_onSubmit L packageRepoRef request =
     (if packageRepoRef \<noteq> None then updateRepo L request else addRepo L request)"

definition add_repo_disabled :: "IConfig \<Rightarrow> string \<Rightarrow> repo_list \<Rightarrow> bool" where
  "add_repo_disabled config cluster s \<longleftrightarrow> \<not> supportedCluster config cluster \<or> \<not> canAddRepos s"

section \<open>Facts\<close>

interpretation asearch: dependency_effect search_effect al_seenSearch
  by unfold_locales (simp_all add: search_effect_def)

interpretation aallns: dependency_effect allns_effect al_seenAllNS
  by unfold_locales (simp_all add: allns_effect_def)

text \<open>What \<open>qs\<close> documents for a query of plain pairs: characters that need no encoding are read as they are.\<close>

definition qs_plain_spec :: "(string \<Rightarrow> string jsobj) \<Rightarrow> bool" where
  "qs_plain_spec Q \<longleftrightarrow>
     (\<forall>ps. ps \<noteq> [] \<longrightarrow> distinct (map fst ps) \<longrightarrow>
        (\<forall>p \<in> set ps. fst p \<noteq> [] \<and> (\<forall>c \<in> set (fst p) \<union> set (snd p). is_unreserved c)) \<longrightarrow>
        Q (''?'' @ join ''&'' (map (\<lambda>p. fst p @ ''='' @ snd p) ps)) = ps)"

lemma traverse_raises: "(\<exists>e. traverse f xs = Inl e) \<longleftrightarrow> (\<exists>x \<in> set xs. \<exists>e. f x = Inl e)"
  by (induction xs) (auto split: sum.splits)

lemma rbac_update:
  "map_of (foldl (\<lambda>m p. AList.update (prp_plugin p) p m) m perms) plugin = Some q \<Longrightarrow>
     q \<in> set perms \<and> prp_plugin q = plugin \<or> map_of m plugin = Some q"
proof (induction perms arbitrary: m)
  case (Cons p perms)
  from Cons.IH [of "AList.update (prp_plugin p) p m"] Cons.prems show ?case
    by (auto simp: update_conv split: if_splits)
qed simp

section \<open>Properties\<close>

text \<open>
  The filters of the list of applications. The location that the list pushes gives back its switch and its search
  text, if the text has only characters that need no encoding: the code does not encode it.
\<close>
theorem app_filters_round_trip:
  assumes "qs_plain_spec Q" and "\<forall>c \<in> set (al_searchFilter s). is_unreserved c"
  shows "search_query Q (submitFilters s allns) = al_searchFilter s \<and>
    al_searchFilter (search_effect (search_query Q (submitFilters s allns)) s0) =
      (if al_seenSearch s0 = Some (al_searchFilter s) then al_searchFilter s0 else al_searchFilter s) \<and>
    (allns_query Q (submitFilters s allns) = ''yes'' \<longleftrightarrow> allns)"
proof -
  define ps where "ps = (''allns'', if allns then ''yes'' else ''no'') #
    (if al_searchFilter s = [] then [] else [(''q'', al_searchFilter s)])"
  have "submitFilters s allns = ''?'' @ join ''&'' (map (\<lambda>p. fst p @ ''='' @ snd p) ps)"
    by (simp add: submitFilters_def ps_def)
  moreover have "Q (''?'' @ join ''&'' (map (\<lambda>p. fst p @ ''='' @ snd p) ps)) = ps"
    by (rule assms(1) [unfolded qs_plain_spec_def, rule_format])
      (use assms(2) in \<open>auto simp: ps_def is_unreserved_def split: if_splits\<close>)
  ultimately have "Q (submitFilters s allns) = ps" by simp
  then show ?thesis
    by (auto simp: search_query_def allns_query_def ps_def opt_string_def search_effect_def)
qed

text \<open>
  The grid of the applications shows every release whose name matches the search, in order, and has a reference;
  it raises exactly when a matching custom resource is of a kind that no known version owns.
\<close>
theorem grid_shows_or_raises:
  "case appListGrid appList customResources csvs cluster pat of
     Inl e \<Rightarrow> \<exists>r \<in> set customResources. matches_text pat (md_name (res_metadata r)) \<and>
       (\<forall>c \<in> set csvs. \<not> owns_kind (res_kind r) c)
   | Inr GridEmpty \<Rightarrow> \<forall>a \<in> set (case appList of None \<Rightarrow> [] | Some as \<Rightarrow> as). \<not> matches_text pat (isum_name a)
   | Inr (Grid cards resources) \<Rightarrow>
       cards = List.map_filter appListItem
         (filter (\<lambda>a. matches_text pat (isum_name a)) (case appList of None \<Rightarrow> [] | Some as \<Rightarrow> as)) \<and>
       length resources = length (filteredCRs pat customResources) \<and>
       (\<forall>r \<in> set customResources. matches_text pat (md_name (res_metadata r)) \<longrightarrow>
          (\<exists>c \<in> set csvs. owns_kind (res_kind r) c))"
proof -
  let ?item = "\<lambda>r. customResourceItem cluster (find (owns_kind (res_kind r)) csvs) r"
  have item: "(\<exists>e. ?item r = Inl e) \<longleftrightarrow> (\<forall>c \<in> set csvs. \<not> owns_kind (res_kind r) c)" for r
  proof (cases "find (owns_kind (res_kind r)) csvs")
    case None
    moreover from this have "\<forall>c \<in> set csvs. \<not> owns_kind (res_kind r) c" by (auto simp: find_None_iff)
    ultimately show ?thesis by (simp add: customResourceItem_def)
  next
    case (Some c)
    then show ?thesis using find_in_list [OF Some] by (auto simp: customResourceItem_def split: option.split)
  qed
  show ?thesis
  proof (cases "traverse ?item (filteredCRs pat customResources)")
    case (Inl e)
    with traverse_raises [of ?item "filteredCRs pat customResources"] item show ?thesis
      by (auto simp: appListGrid_def Let_def filteredCRs_def filteredReleases_def filter_empty_conv)
  next
    case (Inr cards)
    with traverse_raises [of ?item "filteredCRs pat customResources"] item
    have "\<forall>r \<in> set (filteredCRs pat customResources). \<exists>c \<in> set csvs. owns_kind (res_kind r) c" by fastforce
    with Inr traverse_Inr [OF Inr] show ?thesis
      by (auto simp: appListGrid_def Let_def filteredCRs_def filteredReleases_def filter_empty_conv
          dest: list_all2_lengthD)
  qed
qed

text \<open>
  C31: The controls of the repositories. A repository is in the table of its scope alone; it can be edited and deleted
  only where the backend grants the update to the plugin in that scope, and never from another cluster.
\<close>
theorem repo_controls_follow_permissions:
  assumes "s = rbac_effect perms s0"
  shows "case pkgRepoList_view config cluster st s of
      OtherCluster rows \<Rightarrow> cluster \<noteq> kubeappsCluster config \<and> (\<forall>row \<in> set rows. \<not> row_enabled row)
    | ReposPage err rows nsRows \<Rightarrow> cluster = kubeappsCluster config \<and>
        map row_repo rows = filter (\<lambda>r. \<not> prsum_namespaceScoped r) (rp_reposSummaries st) \<and>
        (\<forall>row \<in> set rows. row_enabled row \<longrightarrow>
           (\<exists>p \<in> set perms. prp_plugin p = Option.bind (prsum_packageRepoRef (row_repo row)) prr_plugin \<and>
              permission_of (prp_global p) ''update'')) \<and>
        (\<forall>row \<in> set (case nsRows of None \<Rightarrow> [] | Some rs \<Rightarrow> rs). prsum_namespaceScoped (row_repo row) \<and>
           (row_enabled row \<longrightarrow>
             (\<exists>p \<in> set perms. prp_plugin p = Option.bind (prsum_packageRepoRef (row_repo row)) prr_plugin \<and>
                permission_of (prp_namespace p) ''update'')))
    | _ \<Rightarrow> cluster = kubeappsCluster config"
proof -
  have rbac: "q \<in> set perms \<and> prp_plugin q = plugin" if "map_of (pl_reposRBAC s) plugin = Some q" for plugin q
    using that rbac_update [of "[]" perms plugin q] by (simp add: assms rbac_effect_def Let_def)
  have "\<exists>p \<in> set perms. prp_plugin p = plugin \<and> permission_of (prp_global p) ''update''"
    if "canEditGlobalRepos s plugin" for plugin
    using that rbac by (force simp: canEditGlobalRepos_def split: if_splits option.splits)
  moreover have "\<exists>p \<in> set perms. prp_plugin p = plugin \<and> permission_of (prp_namespace p) ''update''"
    if "canEditNamespacedRepos s plugin" for plugin
    using that rbac by (force simp: canEditNamespacedRepos_def split: if_splits option.splits)
  ultimately show ?thesis
    by (auto simp: pkgRepoList_view_def Let_def supportedCluster_def global_table_def repo_rows_def globalRepos_def
        namespacedRepos_def comp_def split: option.splits)
qed

section \<open>Instances\<close>

definition simple_qs :: "string \<Rightarrow> string jsobj" where
  "simple_qs s = map (\<lambda>kv. (takeWhile (\<lambda>c. c \<noteq> CHR ''='') kv, drop 1 (dropWhile (\<lambda>c. c \<noteq> CHR ''='') kv)))
     (split_on CHR ''&'' (drop 1 s))"

lemma simple_qs_plain: "qs_plain_spec simple_qs"
proof -
  have reserved: "\<not> is_unreserved CHR ''=''" "\<not> is_unreserved CHR ''&''" by (simp_all add: is_unreserved_def)
  have "simple_qs (''?'' @ join ''&'' (map (\<lambda>p. fst p @ ''='' @ snd p) ps)) = ps"
    if ps: "ps \<noteq> []" "\<forall>p \<in> set ps. \<forall>c \<in> set (fst p) \<union> set (snd p). is_unreserved c" for ps
  proof -
    have plain: "CHR ''='' \<notin> set (fst p)" "CHR ''&'' \<notin> set (fst p @ ''='' @ snd p)" if "p \<in> set ps" for p
      using ps(2) that reserved by auto
    then have "split_on CHR ''&'' (join ''&'' (map (\<lambda>p. fst p @ ''='' @ snd p) ps)) = map (\<lambda>p. fst p @ ''='' @ snd p) ps"
      using ps(1) by (intro split_on_join) auto
    moreover have "takeWhile (\<lambda>c. c \<noteq> CHR ''='') (fst p @ ''='' @ snd p) = fst p"
        "dropWhile (\<lambda>c. c \<noteq> CHR ''='') (fst p @ ''='' @ snd p) = ''='' @ snd p" if "p \<in> set ps" for p
      using plain(1) [OF that] by (auto intro: takeWhile_until dropWhile_until)
    ultimately show ?thesis by (auto simp: simple_qs_def intro: map_idI)
  qed
  then show ?thesis by (auto simp: qs_plain_spec_def)
qed

theorem app_filters_round_trip_witness:
  "search_query simple_qs (submitFilters (setAppSearchFilter ''my-db'' (initial_app_list [])) True) = ''my-db''"
  using app_filters_round_trip [OF simple_qs_plain, of "setAppSearchFilter ''my-db'' (initial_app_list [])" True]
  by (simp add: setAppSearchFilter_def is_unreserved_def)

definition sample_resource :: IResource where
  "sample_resource = \<lparr>res_apiVersion = ''v1'', res_kind = ''Db'', res_type = [], res_spec = JObj [], res_status = JObj [],
     res_metadata = \<lparr>md_name = ''my-db'', md_namespace = ''dev'', md_annotations = [], md_creationTimestamp = [],
       md_selfLink = [], md_resourceVersion = [], md_deletionTimestamp = None, md_uid = []\<rparr>\<rparr>"

theorem grid_shows_or_raises_witness:
  "\<exists>e. appListGrid None [sample_resource] [] ''c'' [] = Inl e"
proof -
  have m: "matches_text [] (md_name (res_metadata sample_resource))" by (auto simp: matches_text_def str_includes_iff toLowerCase_def intro: exI [of _ "[]"])
  then show ?thesis
    using grid_shows_or_raises [where appList = None and customResources = "[sample_resource]" and csvs = "[]"
        and cluster = "''c''" and pat = "[]"]
    by (auto simp: appListGrid_def Let_def filteredCRs_def split: sum.splits grid_display.splits)
qed

definition granted_permissions :: PackageRepositoriesPermissions where
  "granted_permissions = \<lparr>prp_plugin = Some \<lparr>plugin_name = PACKAGES_HELM, plugin_version = ''v1''\<rparr>,
     prp_global = [(''update'', True)], prp_namespace = []\<rparr>"

definition sample_repo_summary :: PackageRepositorySummary where
  "sample_repo_summary = \<lparr>prsum_packageRepoRef = Some \<lparr>prr_context = None, prr_identifier = ''bitnami'',
      prr_plugin = Some \<lparr>plugin_name = PACKAGES_HELM, plugin_version = ''v1''\<rparr>\<rparr>,
     prsum_name = ''bitnami'', prsum_description = [], prsum_namespaceScoped = False, prsum_type = STORAGE_HELM,
     prsum_url = [], prsum_status = None, prsum_requiresAuth = False\<rparr>"

theorem repo_controls_follow_permissions_witness:
  "let s = rbac_effect [granted_permissions] (initial_repo_list False ''dev'');
       config = config_initialState\<lparr>kubeappsCluster := ''default''\<rparr> in
   \<exists>rows nsRows. pkgRepoList_view (IConfig.truncate config) ''default''
       (repos_initialState\<lparr>rp_reposSummaries := [sample_repo_summary]\<rparr>) s = ReposPage None rows nsRows \<and>
     map row_repo rows = [sample_repo_summary] \<and> row_enabled (hd rows)"
proof -
  let ?s = "rbac_effect [granted_permissions] (initial_repo_list False ''dev'')"
    and ?c = "IConfig.truncate (config_initialState\<lparr>kubeappsCluster := ''default''\<rparr>)"
    and ?st = "repos_initialState\<lparr>rp_reposSummaries := [sample_repo_summary]\<rparr>"
  obtain rows nsRows where v: "pkgRepoList_view ?c ''default'' ?st ?s = ReposPage None rows nsRows"
      and en: "row_enabled (hd rows)"
    by (simp add: pkgRepoList_view_def Let_def supportedCluster_def IConfig.truncate_def config_initialState_def
        repos_initialState_def no_repo_errors_def rbac_effect_def granted_permissions_def initial_repo_list_def
        global_table_def repo_rows_def globalRepos_def sample_repo_summary_def canEditGlobalRepos_def
        permission_of_def)
  have "map row_repo rows = filter (\<lambda>r. \<not> prsum_namespaceScoped r) (rp_reposSummaries ?st)"
    using repo_controls_follow_permissions [OF refl,
        where config = ?c and cluster = "''default''" and st = ?st and perms = "[granted_permissions]"
          and ?s0.0 = "initial_repo_list False ''dev''"]
    unfolding v repo_page.case by blast
  then have "map row_repo rows = [sample_repo_summary]" by (simp add: sample_repo_summary_def)
  with v en show ?thesis by (simp add: Let_def)
qed

end
