(* ===== verification/App_Controls.thy ===== *)
theory App_Controls
  imports Rendering App_View Installed_Actions
begin

text \<open>
  The controls of an installed application (\<open>components/AppView/AppControls\<close> and
  \<open>components/ConfirmDialog\<close>): buttons that follow the status of the package, the deletion with its
  confirmation, and the rollback with the choice of a revision.
\<close>

section \<open>Buttons that follow the status\<close>

definition default_statuses :: "StatusReason list" where
  "default_statuses = [REASON_UNINSTALLED, REASON_PENDING]"

definition default_tooltip :: "StatusReason \<Rightarrow> string option" where
  "default_tooltip r =
     (if r = REASON_UNINSTALLED then Some ''The application is being deleted.''
      else if r = REASON_PENDING then Some ''The application is pending installation.'' else None)"

text \<open>An empty list of statuses counts as a missing one.\<close>

definition button_disabled :: "bool \<Rightarrow> StatusReason list \<Rightarrow> InstalledPackageStatus option \<Rightarrow> bool" where
  "button_disabled disabled statusesToDeactivate releaseStatus =
     (let statuses = (if statusesToDeactivate = [] then default_statuses else statusesToDeactivate) in
      disabled \<or> (case releaseStatus of None \<Rightarrow> True | Some s \<Rightarrow> ips_reason s \<in> set statuses))"

text \<open>The reason without a name is zero, which is falsy.\<close>

definition button_tooltip ::
  "(StatusReason \<Rightarrow> string option) option \<Rightarrow> InstalledPackageStatus option \<Rightarrow> string option" where
  "button_tooltip tooltips releaseStatus =
     (case releaseStatus of
        None \<Rightarrow> None
      | Some s \<Rightarrow>
          if ips_reason s = REASON_UNSPECIFIED then None
          else (case tooltips of None \<Rightarrow> default_tooltip | Some t \<Rightarrow> t) (ips_reason s))"

definition upgrade_link :: "InstalledPackageReference \<Rightarrow> bool \<Rightarrow> string option" where
  "upgrade_link ref disabled = (if disabled then None else Some (app_apps_upgrade ref))"

section \<open>Dialogs\<close>

datatype dialog_message = NoDialogError | DialogWarning string | DeleteFailed string | DialogError string

definition dialog_error :: "js_error option \<Rightarrow> dialog_message" where
  "dialog_error error = (case error of
     None \<Rightarrow> NoDialogError
   | Some e \<Rightarrow>
       (case e of
          Custom c m cs \<Rightarrow>
            (if c = FetchWarning then DialogWarning m
             else if c = DeleteError then DeleteFailed m else DialogError m)
        | _ \<Rightarrow> DialogError (error_message e)))"

datatype confirm_display =
    ConfirmClosed
  | ConfirmLoading dialog_message
  | ConfirmOpen dialog_message string

definition ConfirmDialog :: "bool \<Rightarrow> bool \<Rightarrow> js_error option \<Rightarrow> string option \<Rightarrow> confirm_display" where
  "ConfirmDialog modalIsOpen loading error confirmationButtonText =
     (if \<not> modalIsOpen then ConfirmClosed
      else if loading then ConfirmLoading (dialog_error error)
      else ConfirmOpen (dialog_error error) (str_or (opt_string confirmationButtonText) ''Delete''))"

section \<open>Deletion\<close>

record delete_button =
  db_modalIsOpen :: bool
  db_deleting :: bool

definition delete_disabled :: "bool \<Rightarrow> InstalledPackageStatus option \<Rightarrow> bool" where
  "delete_disabled disabled releaseStatus = button_disabled disabled [REASON_UNINSTALLED] releaseStatus"

definition handleDeleteApp ::
  "InstalledPackageReference \<Rightarrow> delete_button \<Rightarrow> delete_button thunk" where
  "handleDeleteApp ref s =
     bindT (deleteInstalledPackage ref) (\<lambda>deleted.
       thenT (if deleted
              then assignLocation (app_apps_list (map_option ctx_cluster (ipr_context ref))
                     (map_option ctx_namespace (ipr_context ref)))
              else returnT ())
         (returnT (s\<lparr>db_deleting := False\<rparr>)))"

section \<open>Rollback\<close>

text \<open>The dialog stays mounted while it is closed; \<open>rd_seen\<close> has the dependencies its effect last ran with.\<close>

record rollback_dialog =
  rd_targetRevision :: int
  rd_hasUserChanges :: bool
  rd_seen :: "(bool \<times> int) option"

definition initial_rollback :: "int \<Rightarrow> rollback_dialog" where
  "initial_rollback currentRevision =
     \<lparr>rd_targetRevision = currentRevision, rd_hasUserChanges = False, rd_seen = None\<rparr>"

text \<open>\<open>for (let i = currentRevision - 1; i > 0; i--)\<close>.\<close>

function rollback_options_from :: "int \<Rightarrow> int list" where
  "rollback_options_from i = (if i > 0 then i # rollback_options_from (i - 1) else [])"
  by pat_completeness auto
termination by (relation "measure nat") auto

declare rollback_options_from.simps [simp del]

definition rollback_options :: "int \<Rightarrow> int list" where
  "rollback_options currentRevision = rollback_options_from (currentRevision - 1)"

definition disableRollback :: "int \<Rightarrow> bool" where
  "disableRollback currentRevision \<longleftrightarrow> currentRevision = 1"

definition selectRevision :: "int \<Rightarrow> rollback_dialog \<Rightarrow> rollback_dialog" where
  "selectRevision r d = d\<lparr>rd_hasUserChanges := True, rd_targetRevision := r\<rparr>"

definition rollback_effect :: "bool \<times> int \<Rightarrow> rollback_dialog \<Rightarrow> rollback_dialog" where
  "rollback_effect deps d =
     (if rd_seen d = Some deps then d
      else (let d' = d\<lparr>rd_seen := Some deps\<rparr> in
            if fst deps then d' else d'\<lparr>rd_targetRevision := snd deps - 1\<rparr>))"

text \<open>A rendering with the current revision, and the effect after it.\<close>

definition render_rollback :: "int \<Rightarrow> rollback_dialog \<Rightarrow> rollback_dialog" where
  "render_rollback currentRevision d = rollback_effect (rd_hasUserChanges d, currentRevision) d"

record rollback_button =
  rb_modalIsOpen :: bool
  rb_loading :: bool

text \<open>The button of the dialog asks for the target; the dialog is closed when the backend has accepted it.\<close>

definition handleRollback ::
  "InstalledPackageReference \<Rightarrow> int \<Rightarrow> rollback_button \<Rightarrow> rollback_button thunk" where
  "handleRollback ref r s =
     bindT (rollbackInstalledPackage ref (nat r)) (\<lambda>success.
       returnT (if success then s\<lparr>rb_loading := False, rb_modalIsOpen := False\<rparr> else s\<lparr>rb_loading := False\<rparr>))"

text \<open>The custom view rolls back to the first revision, whichever is the current one.\<close>

definition custom_handleRollback :: "InstalledPackageReference \<Rightarrow> bool thunk" where
  "custom_handleRollback ref = rollbackInstalledPackage ref 1"

definition custom_handleDelete :: "InstalledPackageReference \<Rightarrow> bool thunk" where
  "custom_handleDelete ref = deleteInstalledPackage ref"

definition custom_view_url :: "string \<Rightarrow> string \<Rightarrow> string" where
  "custom_view_url remoteUrl origin = str_or remoteUrl (origin @ ''/custom_components.js'')"

section \<open>Updates\<close>

datatype package_update = UpToDate | AppUpdate string string | PkgUpdate string string

definition PackageUpdateInfo :: "InstalledPackageDetail \<Rightarrow> package_update" where
  "PackageUpdateInfo d =
     (let part = (\<lambda>f v. opt_string (map_option f v));
          latestApp = part pav_appVersion (ipd_latestVersion d); currentApp = part pav_appVersion (ipd_currentVersion d);
          latestPkg = part pav_pkgVersion (ipd_latestVersion d); currentPkg = part pav_pkgVersion (ipd_currentVersion d)
      in case ipd_installedPackageRef d of
           None \<Rightarrow> UpToDate
         | Some ref \<Rightarrow>
             (let link = app_apps_upgradeTo ref (map_option pav_pkgVersion (ipd_latestVersion d)) in
              if latestApp \<noteq> [] \<and> currentApp \<noteq> [] \<and> currentApp \<noteq> latestApp then AppUpdate latestApp link
              else if latestPkg \<noteq> [] \<and> currentPkg \<noteq> [] \<and> latestPkg \<noteq> currentPkg then PkgUpdate latestPkg link
              else UpToDate))"

section \<open>The choice of a revision\<close>

lemma options_from: "set (rollback_options_from i) = {1..i}"
  by (induction i rule: rollback_options_from.induct) (subst rollback_options_from.simps, auto)

interpretation rollbacks: dependency_effect rollback_effect rd_seen
  by unfold_locales (auto simp: rollback_effect_def Let_def)

text \<open>
  What happens to the dialog of an application: it is rendered with the revision the store has, which only
  grows, and the user picks one of the options it shows.
\<close>

inductive rollback_reach :: "int \<Rightarrow> rollback_dialog \<Rightarrow> bool" where
  rollback_mounted: "1 \<le> c \<Longrightarrow> rollback_reach c (render_rollback c (initial_rollback c))"
| rollback_selected: "rollback_reach c d \<Longrightarrow> r \<in> set (rollback_options c) \<Longrightarrow>
    rollback_reach c (render_rollback c (selectRevision r d))"
| rollback_rendered: "rollback_reach c d \<Longrightarrow> c \<le> c' \<Longrightarrow> rollback_reach c' (render_rollback c' d)"

definition rollback_ok :: "int \<Rightarrow> rollback_dialog \<Rightarrow> bool" where
  "rollback_ok c d \<longleftrightarrow> 1 \<le> c \<and>
     (if rd_hasUserChanges d then 1 \<le> rd_targetRevision d \<and> rd_targetRevision d < c
      else rd_targetRevision d = c - 1 \<and> rd_seen d = Some (False, c))"

lemma rollback_reach_ok: "rollback_reach c d \<Longrightarrow> rollback_ok c d"
proof (induction rule: rollback_reach.induct)
  case (rollback_selected c d r)
  then show ?case
    by (auto simp: rollback_ok_def render_rollback_def rollback_effect_def selectRevision_def rollback_options_def
        options_from Let_def)
qed (auto simp: rollback_ok_def render_rollback_def rollback_effect_def initial_rollback_def Let_def)

section \<open>Properties\<close>


text \<open>
  Deleting an application leaves its page exactly when the backend has deleted it. One deletion is
  requested; on success the browser goes to the list of its namespace, on an error that keeps the session the error
  is in the store and the page stays where it is, in either case with the dialog ready again.
\<close>
theorem delete_leaves_page:
  shows "let call = DeleteInstalledPackage ref in
    (call_result srv (w_ls w) call done_reply = Inr () \<longrightarrow>
      (\<exists>w'. completes (rootReducer L init) srv (handleDeleteApp ref s) w (s\<lparr>db_deleting := False\<rparr>) w' \<and>
         w_locations w' = w_locations w @ [app_apps_list (map_option ctx_cluster (ipr_context ref))
           (map_option ctx_namespace (ipr_context ref))] \<and>
         w_sent w' = w_sent w @ [Grpc (request_token None (w_ls w)) call])) \<and>
    (\<forall>e. call_result srv (w_ls w) call done_reply = Inl e \<longrightarrow> \<not> is_unauthorized e \<longrightarrow>
      (\<exists>w'. completes (rootReducer L init) srv (handleDeleteApp ref s) w (s\<lparr>db_deleting := False\<rparr>) w' \<and>
         w_locations w' = w_locations w \<and>
         ip_error (st_apps (w_store w')) = Some (newError DeleteError (error_message e))))"
  unfolding Let_def
  by (auto simp: completes_def handleDeleteApp_def deleteInstalledPackage_def service_deleteInstalledPackage_def
      thunk_core assignLocation_def run_dispatchT fail_installed_world_def intro!: exI)


text \<open>A refused rollback leaves the dialog open with the error of the backend in the store.\<close>

lemma rollback_refused:
  assumes "supports_rollback ref" and "call_result srv (w_ls w) (RollbackInstalledPackage ref (nat r)) done_reply = Inl e"
    and "\<not> is_unauthorized e"
  shows "\<exists>w'. completes (rootReducer L init) srv (handleRollback ref r s) w (s\<lparr>rb_loading := False\<rparr>) w' \<and>
    ip_error (st_apps (w_store w')) = Some (newError RollbackError (error_message e))"
  using assms
  by (auto simp: completes_def handleRollback_def rollbackInstalledPackage_def service_rollbackInstalledPackage_def
      thunk_core run_dispatchT fail_installed_world_def intro!: exI)

section \<open>Deviations\<close>

text \<open>Without a reference the page of an application says it is up to date, whatever the versions.\<close>

lemma update_hidden_without_reference: "ipd_installedPackageRef d = None \<Longrightarrow> PackageUpdateInfo d = UpToDate"
  by (simp add: PackageUpdateInfo_def Let_def)

section \<open>Witnesses\<close>


theorem delete_leaves_page_witness:
  "\<exists>w'. completes (rootReducer sample_lib []) done_server (handleDeleteApp flux_installed \<lparr>db_modalIsOpen = True, db_deleting = True\<rparr>)
      (sample_world []) \<lparr>db_modalIsOpen = True, db_deleting = False\<rparr> w' \<and> length (w_locations w') = 1"
  using delete_leaves_page [where ref = flux_installed and s = "\<lparr>db_modalIsOpen = True, db_deleting = True\<rparr>" and
      srv = done_server and w = "sample_world []" and L = sample_lib and init = "[]"]
  by (auto simp: Let_def call_result_def done_server_def)

end
