(* ===== verification/Display_View.thy ===== *)
theory Display_View
  imports App_Controls Catalog_View Lists_View
begin

text \<open>
  What the pages show: the tables of resources (\<open>components/AppView/ResourceTable\<close>), the secrets, the
  tabs, the cards of the catalog, the alerts, icons and search boxes, the headings of rendered Markdown, and the
  choice of the messages (\<open>shared/I18n.ts\<close>). Markup is reduced to the values it is given.
\<close>

section \<open>Tables of resources\<close>

text \<open>What a cell of the table holds: a value of the resource, or one of the marks of its state.\<close>

datatype cell =
    ValueCell json
  | SecretData "(string \<times> string) list"
  | LoadingMark
  | ErrorMark string

text \<open>\<open>get(target, "a.b")\<close>.\<close>

fun get_path :: "json \<Rightarrow> string list \<Rightarrow> json option" where
  "get_path v [] = Some v"
| "get_path v (k # ks) = Option.bind (json_member v k) (\<lambda>w. get_path w ks)"

type_synonym column = "string \<times> (json \<Rightarrow> cell option)"

definition path_column :: "string \<Rightarrow> string list \<Rightarrow> column" where
  "path_column accessor path = (accessor, \<lambda>r. map_option ValueCell (get_path r path))"

definition name_column :: column where
  "name_column = path_column ''name'' [''metadata'', ''name'']"

definition DeploymentColumns :: "column list" where
  "DeploymentColumns =
     [name_column, path_column ''desired'' [''status'', ''replicas''],
      path_column ''upToDate'' [''status'', ''updatedReplicas''],
      path_column ''available'' [''status'', ''availableReplicas'']]"

definition StatefulSetColumns :: "column list" where
  "StatefulSetColumns =
     [name_column, path_column ''desired'' [''spec'', ''replicas''],
      path_column ''upToDate'' [''status'', ''updatedReplicas''],
      path_column ''ready'' [''status'', ''readyReplicas'']]"

definition DaemonSetColumns :: "column list" where
  "DaemonSetColumns =
     [name_column, path_column ''desired'' [''status'', ''currentNumberScheduled''],
      path_column ''available'' [''status'', ''numberReady'']]"

definition OtherResourceColumns :: "column list" where
  "OtherResourceColumns = [name_column, path_column ''kind'' [''kind'']]"

text \<open>
  How the members of a resource are read as a service, and how base64 is decoded. A resource is what the
  API server serves: a service has a specification and a status, and a secret its metadata.
\<close>

record display_lib =
  dl_service :: "json \<Rightarrow> IService"
  dl_base64 :: "string \<Rightarrow> string"

definition ServiceColumns :: "display_lib \<Rightarrow> column list" where
  "ServiceColumns D =
     [name_column, path_column ''type'' [''spec'', ''type''], path_column ''clusterIP'' [''spec'', ''clusterIP''],
      (''externalIP'', \<lambda>r. Some (ValueCell (JStr (getServiceExternalIP (dl_service D r))))),
      (''ports'', \<lambda>r. Some (ValueCell (JStr (getServicePorts (dl_service D r)))))]"

text \<open>The entries of a secret, decoded; a missing or empty one has none.\<close>

definition secret_entries :: "display_lib \<Rightarrow> json \<Rightarrow> (string \<times> string) list" where
  "secret_entries D secret = (case json_member secret ''data'' of
     Some (JObj ms) \<Rightarrow> map (\<lambda>(k, v). (k, dl_base64 D (case v of JStr s \<Rightarrow> s | _ \<Rightarrow> []))) ms
   | _ \<Rightarrow> [])"

definition getSecretData :: "display_lib \<Rightarrow> json \<Rightarrow> cell" where
  "getSecretData D secret =
     (case secret_entries D secret of
        [] \<Rightarrow> ValueCell (JStr ''This Secret is empty'')
      | es \<Rightarrow> SecretData (map (\<lambda>(k, v). (''secret-'' @ k, v)) es))"

definition SecretColumns :: "display_lib \<Rightarrow> column list" where
  "SecretColumns D =
     [name_column, path_column ''type'' [''type''], (''data'', \<lambda>r. Some (getSecretData D r))]"

definition getColumns :: "display_lib \<Rightarrow> ResourceRef \<Rightarrow> column list" where
  "getColumns D r =
     (if rr_kind r = ''Deployment'' then DeploymentColumns
      else if rr_kind r = ''StatefulSet'' then StatefulSetColumns
      else if rr_kind r = ''DaemonSet'' then DaemonSetColumns
      else if rr_kind r = ''Service'' then ServiceColumns D
      else if rr_kind r = ''Secret'' then SecretColumns D
      else OtherResourceColumns)"

type_synonym row = "cell option jsobj"

text \<open>A resource without an item and without an error gives no row at all, but undefined.\<close>

definition getData :: "string \<Rightarrow> column list \<Rightarrow> IKubeItem \<Rightarrow> row option" where
  "getData name columns resource =
     (let named = [(''name'', Some (ValueCell (JStr name)))]; mark = fst (columns ! 1) in
      if ki_isFetching resource then Some (obj_set mark (Some LoadingMark) named)
      else case ki_error resource of
        Some e \<Rightarrow> Some (obj_set mark (Some (ErrorMark (''Error: '' @ error_message e))) named)
      | None \<Rightarrow>
          (case ki_item resource of
             Some item \<Rightarrow> Some (fold (\<lambda>(accessor, getter) data. obj_set accessor (getter item) data) columns named)
           | None \<Rightarrow> None))"

text \<open>The row at an index is labelled with the reference at that index, or with the only one.\<close>

definition table_rows :: "column list \<Rightarrow> ResourceRef list \<Rightarrow> IKubeItem list \<Rightarrow> row option list" where
  "table_rows columns refs resources =
     map (\<lambda>(i, resource).
       (if length refs = 1 then getData (rr_name (hd refs)) columns resource
        else if i < length refs then getData (rr_name (refs ! i)) columns resource
        else Some []))
       (enumerate 0 resources)"

text \<open>\<open>data || "-"\<close>: what is falsy shows as a dash. Reading a cell of an undefined row raises.\<close>

datatype shown_cell = Dash | Shown cell

definition show_cell :: "cell option option \<Rightarrow> shown_cell" where
  "show_cell c = (case c of
     Some (Some (ValueCell v)) \<Rightarrow> if json_truthy v then Shown (ValueCell v) else Dash
   | Some (Some m) \<Rightarrow> Shown m
   | _ \<Rightarrow> Dash)"

definition table_row :: "string list \<Rightarrow> row option \<Rightarrow> js_error + shown_cell list" where
  "table_row accessors r = (case r of
     None \<Rightarrow> Inl (TypeError ''Cannot read properties of undefined'')
   | Some cells \<Rightarrow> Inr (map (\<lambda>a. show_cell (obj_get cells a)) accessors))"

definition ResourceTable ::
  "display_lib \<Rightarrow> ResourceRef list \<Rightarrow> IKubeItem jsobj \<Rightarrow> js_error + (string list \<times> shown_cell list list) option" where
  "ResourceTable D refs items =
     (case refs of
        [] \<Rightarrow> Inr None
      | r # rs \<Rightarrow>
          (let columns = getColumns D r; accessors = map fst columns in
           map_sum id (\<lambda>rows. Some (accessors, rows))
             (traverse (table_row accessors) (table_rows columns refs (filterByResourceRefs refs items)))))"

section \<open>Tabs and secrets\<close>

definition ResourceTabs :: "IAppViewResourceRefs \<Rightarrow> (string \<times> ResourceRef list) list" where
  "ResourceTabs r =
     filter (\<lambda>t. snd t \<noteq> [])
       [(''Deployments'', av_deployments r), (''StatefulSets'', av_statefulsets r),
        (''DaemonSets'', av_daemonsets r), (''Secrets'', av_secrets r), (''Services'', av_services r),
        (''Other Resources'', av_otherResources r)]"

text \<open>A click on a tab runs its handler and selects it.\<close>

definition tab_click :: "('s \<Rightarrow> 's) list \<Rightarrow> nat \<Rightarrow> nat \<times> 's \<Rightarrow> nat \<times> 's" where
  "tab_click handlers tab s = (tab, (handlers ! tab) (snd s))"

datatype secrets_display = SecretsLoading | NoSecrets | SecretsShown "(string \<times> string) list list"

definition AppSecrets :: "display_lib \<Rightarrow> ResourceRef list \<Rightarrow> IKubeItem jsobj \<Rightarrow> secrets_display" where
  "AppSecrets D secretRefs items =
     (let secrets = filterByResourceRefs secretRefs items in
      if list_ex ki_isFetching secrets then SecretsLoading
      else if secretRefs = [] then NoSecrets
      else SecretsShown (map (\<lambda>s. case ki_item s of None \<Rightarrow> [] | Some i \<Rightarrow> secret_entries D i) secrets))"

section \<open>Alerts\<close>

datatype alert_line = AlertLine string bool | RpcLine string string string

definition cause_line :: "js_error \<Rightarrow> alert_line" where
  "cause_line e = (case e of RpcError c d m \<Rightarrow> RpcLine m c d | _ \<Rightarrow> AlertLine (error_message e) True)"

definition ErrorAlert :: "js_error \<Rightarrow> alert_line list" where
  "ErrorAlert e =
     AlertLine (error_message e) False #
     (case e of Custom c m (Some causes) \<Rightarrow> map cause_line causes | _ \<Rightarrow> [])"

section \<open>Icons\<close>

record icon_state =
  ic_srcIcon :: "string option"
  ic_errored :: bool

text \<open>\<open>None\<close> is the placeholder.\<close>

definition initial_icon :: icon_state where
  "initial_icon = \<lparr>ic_srcIcon = None, ic_errored = False\<rparr>"

definition icon_effect :: "string option \<Rightarrow> icon_state \<Rightarrow> icon_state" where
  "icon_effect icon s =
     (if ic_srcIcon s \<noteq> icon \<and> truthy icon \<and> \<not> ic_errored s then s\<lparr>ic_srcIcon := icon\<rparr> else s)"

definition icon_onError :: "icon_state \<Rightarrow> icon_state" where
  "icon_onError s = s\<lparr>ic_errored := True, ic_srcIcon := None\<rparr>"

section \<open>Search and filters\<close>

text \<open>
  The search box: what it shows and the text that waits for the timer. Submitting does not wait for it.
\<close>

record search_filter =
  sf_value :: string
  sf_waiting :: "string option"

datatype search_event = SearchTyped string | SearchTimer | SearchSubmit

text \<open>Its client has a filter and a record of the filters it submitted.\<close>

fun search_step :: "search_event \<Rightarrow> search_filter \<times> string \<times> string list \<Rightarrow> search_filter \<times> string \<times> string list" where
  "search_step (SearchTyped t) (s, flt, submitted) =
     (s\<lparr>sf_value := t, sf_waiting := Some t\<rparr>, flt, submitted)"
| "search_step SearchTimer (s, flt, submitted) =
     (case sf_waiting s of
        None \<Rightarrow> (s, flt, submitted)
      | Some t \<Rightarrow> (s\<lparr>sf_waiting := None\<rparr>, t, submitted))"
| "search_step SearchSubmit (s, flt, submitted) = (s, flt, submitted @ [flt])"

text \<open>A box of a group of filters: it is removed when it is there and added when it is not.\<close>

definition filter_toggle ::
  "(string \<Rightarrow> string \<Rightarrow> 's \<Rightarrow> 's) \<Rightarrow> (string \<Rightarrow> string \<Rightarrow> 's \<Rightarrow> 's) \<Rightarrow> string \<Rightarrow> string list \<Rightarrow> string \<Rightarrow> 's \<Rightarrow> 's" where
  "filter_toggle onAddFilter onRemoveFilter name currentFilters v s =
     (if v \<in> set currentFilters then onRemoveFilter name v s else onAddFilter name v s)"

definition checked_options :: "string list \<Rightarrow> string list \<Rightarrow> (string \<times> bool) list" where
  "checked_options options v = map (\<lambda>opt. (opt, opt \<in> set v)) options"

section \<open>Cards of the catalog\<close>

text \<open>
  \<open>decodeURIComponent\<close> of the standard library, the inverse of \<open>encodeURIComponent\<close>: a percent sign that two
  hexadecimal digits do not follow raises.
\<close>

definition hex_of :: "char \<Rightarrow> nat option" where
  "hex_of c = (let n = of_char c :: nat in
     if 48 \<le> n \<and> n \<le> 57 then Some (n - 48)
     else if 65 \<le> n \<and> n \<le> 70 then Some (n - 55)
     else if 97 \<le> n \<and> n \<le> 102 then Some (n - 87) else None)"

definition uri_malformed :: js_error where
  "uri_malformed = JsError ''URI malformed''"

fun decodeURIComponent :: "string \<Rightarrow> js_error + string" where
  "decodeURIComponent [] = Inr []"
| "decodeURIComponent (c # cs) =
     (if c = CHR ''%''
      then (case cs of
              h # l # rest \<Rightarrow>
                (case (hex_of h, hex_of l) of
                   (Some a, Some b) \<Rightarrow> map_sum id ((#) (char_of (16 * a + b))) (decodeURIComponent rest)
                 | _ \<Rightarrow> Inl uri_malformed)
            | _ \<Rightarrow> Inl uri_malformed)
      else map_sum id ((#) c) (decodeURIComponent cs))"

record info_card =
  ic_title :: string
  ic_link :: string
  ic_info :: string
  ic_icon :: string
  ic_description :: string
  ic_tag1 :: "string option"
  ic_tag2 :: "string option"
  ic_bgIcon :: icon

text \<open>The repository is the first part of an identifier that has a second one.\<close>

definition card_repository :: "AvailablePackageReference option \<Rightarrow> string option" where
  "card_repository ref = Option.bind ref (\<lambda>r.
     let parts = split_on CHR ''/'' (apr_identifier r) in if length parts > 1 then Some (hd parts) else None)"

text \<open>A summary without a reference raises when its link is built; so does a name that cannot be decoded.\<close>

definition PackageCatalogItem :: "string \<Rightarrow> string \<Rightarrow> AvailablePackageSummary \<Rightarrow> js_error + info_card" where
  "PackageCatalogItem cluster namespace a =
     (case aps_availablePackageRef a of
        None \<Rightarrow> Inl (TypeError ''Cannot read properties of undefined'')
      | Some ref \<Rightarrow>
          map_sum id (\<lambda>title.
            \<lparr>ic_title = title, ic_link = app_packages_get cluster namespace ref,
             ic_info = opt_string (map_option pav_pkgVersion (aps_latestVersion a)), ic_icon = aps_iconUrl a,
             ic_description = trimDescription (aps_shortDescription a), ic_tag1 = card_repository (Some ref),
             ic_tag2 = getPluginName (plugin_arg_of (apr_plugin ref)), ic_bgIcon = getPluginIcon (plugin_arg_of (apr_plugin ref))\<rparr>)
            (decodeURIComponent (aps_displayName a)))"

definition OperatorCatalogItem ::
  "string \<Rightarrow> string \<Rightarrow> string \<Rightarrow> string \<Rightarrow> string \<Rightarrow> string \<Rightarrow> string \<Rightarrow> string \<Rightarrow> info_card" where
  "OperatorCatalogItem cluster namespace crd name csv version description icon =
     \<lparr>ic_title = name, ic_link = app_operatorInstances_new cluster namespace csv crd,
      ic_info = str_or version ''-'', ic_icon = icon, ic_description = trimDescription description,
      ic_tag1 = Some (hd (split_on CHR ''.'' csv)), ic_tag2 = Some ''operator'',
      ic_bgIcon = getPluginIcon (PluginStr ''operator'')\<rparr>"

section \<open>Details of a package\<close>

definition isKubernetesPackages :: "string \<Rightarrow> bool" where
  "isKubernetesPackages repoURL \<longleftrightarrow>
     repoURL = ''https://kubernetes-charts.storage.googleapis.com'' \<or>
     repoURL = ''https://kubernetes-charts-incubator.storage.googleapis.com''"

definition maintainer_link :: "bool \<Rightarrow> Maintainer \<Rightarrow> string option \<times> string" where
  "maintainer_link githubIDAsNames m =
     (if githubIDAsNames then Some (''https://github.com/'' @ mt_name m)
      else if mt_email m \<noteq> [] then Some (''mailto:'' @ mt_email m) else None, mt_name m)"

datatype excerpt =
    ExcerptAppVersion string
  | ExcerptPkgVersion string
  | ExcerptCategories "string list"
  | ExcerptHome string
  | ExcerptMaintainers "(string option \<times> string) list"
  | ExcerptSources "string list"

definition AvailablePackageDetailExcerpt :: "AvailablePackageDetail \<Rightarrow> excerpt list" where
  "AvailablePackageDetailExcerpt pkg =
     (let app = opt_string (map_option pav_appVersion (apd_version pkg));
          ver = opt_string (map_option pav_pkgVersion (apd_version pkg)) in
      (if app \<noteq> [] then [ExcerptAppVersion app] else []) @
      (if ver \<noteq> [] then [ExcerptPkgVersion ver] else []) @
      (case apd_categories pkg of
         [] \<Rightarrow> [] | c # cs \<Rightarrow> if c \<noteq> [] then [ExcerptCategories (c # cs)] else []) @
      (if apd_homeUrl pkg \<noteq> [] then [ExcerptHome (apd_homeUrl pkg)] else []) @
      (if apd_maintainers pkg \<noteq> []
       then [ExcerptMaintainers (map (maintainer_link (isKubernetesPackages (apd_repoUrl pkg))) (apd_maintainers pkg))]
       else []) @
      (if apd_sourceUrls pkg \<noteq> [] then [ExcerptSources (apd_sourceUrls pkg)] else []))"

datatype readme_display = NoReadmeFound | ReadmeError string | ReadmeLoading | ReadmeMissing | Readme string

definition PackageReadme :: "string option \<Rightarrow> string option \<Rightarrow> bool \<Rightarrow> readme_display" where
  "PackageReadme error readme isFetching =
     (if truthy error
      then (if str_includes (toLowerCase (the error)) ''not found'' then NoReadmeFound else ReadmeError (the error))
      else if isFetching then ReadmeLoading
      else if truthy readme then Readme (the readme) else ReadmeMissing)"

section \<open>Markdown\<close>

text \<open>The children of a heading: texts, and elements with children of their own.\<close>

datatype md_node = MdText string | MdElement "md_node list"

fun flatten_md :: "string \<Rightarrow> md_node \<Rightarrow> string" where
  "flatten_md t (MdText s) = t @ s"
| "flatten_md t (MdElement ns) = fold (\<lambda>n t. flatten_md t n) ns t"

definition is_word_char :: "char \<Rightarrow> bool" where
  "is_word_char c = (let n = of_char c :: nat in
     (48 \<le> n \<and> n \<le> 57) \<or> (65 \<le> n \<and> n \<le> 90) \<or> (97 \<le> n \<and> n \<le> 122) \<or> c = CHR ''_'')"

definition heading_slug :: "md_node list \<Rightarrow> string" where
  "heading_slug children =
     map (\<lambda>c. if is_space c then CHR ''-'' else c)
       (filter (\<lambda>c. is_word_char c \<or> is_space c) (toLowerCase (fold (\<lambda>n t. flatten_md t n) children [])))"

datatype md_link = HashLink string | ExternalLink string

definition LinkRenderer :: "string \<Rightarrow> md_link" where
  "LinkRenderer href = (if startsWith href ''#'' then HashLink href else ExternalLink href)"

section \<open>Messages\<close>

record II18nConfig =
  i18n_locale :: string
  i18n_messages :: "string jsobj"

definition supported_lang :: "string \<Rightarrow> bool" where
  "supported_lang lang \<longleftrightarrow> lang = ''en''"

definition getDefaultConfig :: "string jsobj \<Rightarrow> II18nConfig" where
  "getDefaultConfig messages_en = \<lparr>i18n_locale = ''en'', i18n_messages = messages_en\<rparr>"

definition i18n_getConfig :: "string jsobj \<Rightarrow> string \<Rightarrow> II18nConfig" where
  "i18n_getConfig messages_en lang =
     (if lang \<noteq> [] \<and> supported_lang lang then \<lparr>i18n_locale = lang, i18n_messages = messages_en\<rparr>
      else getDefaultConfig messages_en)"

text \<open>The custom messages, as the request for them answered.\<close>

definition getCustomConfig :: "string jsobj \<Rightarrow> string \<Rightarrow> js_error + string jsobj \<Rightarrow> II18nConfig" where
  "getCustomConfig messages_en lang answer =
     (case answer of
        Inr (m # ms) \<Rightarrow> \<lparr>i18n_locale = lang, i18n_messages = m # ms\<rparr>
      | _ \<Rightarrow> if lang \<noteq> [] \<and> supported_lang lang then i18n_getConfig messages_en lang
             else getDefaultConfig messages_en)"


section \<open>Facts\<close>

lemma columns_head: "\<exists>c cs. getColumns D r = name_column # c # cs"
  by (auto simp: getColumns_def DeploymentColumns_def StatefulSetColumns_def DaemonSetColumns_def ServiceColumns_def
      SecretColumns_def OtherResourceColumns_def)

lemma name_distinct: "''name'' \<notin> fst ` set (tl (getColumns D r))"
  by (auto simp: getColumns_def DeploymentColumns_def StatefulSetColumns_def DaemonSetColumns_def ServiceColumns_def
      SecretColumns_def OtherResourceColumns_def path_column_def)

lemma fold_cells_other:
  "k \<notin> fst ` set columns \<Longrightarrow> obj_get (fold (\<lambda>(a, g) data. obj_set a (g item) data) columns m) k = obj_get m k"
  by (induction columns arbitrary: m) auto

lemma traverse_total: "(\<And>x. x \<in> set xs \<Longrightarrow> \<exists>y. f x = Inr y) \<Longrightarrow> \<exists>ys. traverse f xs = Inr ys"
proof (induction xs)
  case (Cons x xs)
  then obtain ys where "traverse f xs = Inr ys" by auto
  moreover obtain y where "f x = Inr y" using Cons.prems [of x] by auto
  ultimately show ?case by simp
qed simp

lemma traverse_nth:
  "traverse f xs = Inr ys \<Longrightarrow> length ys = length xs \<and> (\<forall>i < length xs. f (xs ! i) = Inr (ys ! i))"
proof (induction xs arbitrary: ys)
  case (Cons x xs)
  then obtain y zs where "f x = Inr y" "traverse f xs = Inr zs" "ys = y # zs" by (auto split: sum.splits)
  with Cons.IH [of zs] show ?case by (auto simp: nth_Cons split: nat.split)
qed simp

text \<open>The cells of an item that has arrived: its own name first, whatever the label of its row.\<close>

lemma getData_item:
  assumes "\<not> ki_isFetching i" "ki_error i = None" "ki_item i = Some v"
  shows "\<exists>cells. getData name (getColumns D r) i = Some cells \<and>
     obj_get cells ''name'' = Some (map_option ValueCell (get_path v [''metadata'', ''name'']))"
proof -
  obtain c cs where cols: "getColumns D r = name_column # c # cs" using columns_head by blast
  have "''name'' \<notin> fst ` set (c # cs)" using name_distinct [of D r] by (simp add: cols)
  from fold_cells_other [OF this] show ?thesis
    using assms by (simp add: getData_def cols Let_def name_column_def path_column_def)
qed

lemma getData_error:
  assumes "\<not> ki_isFetching i" "ki_error i = Some e"
  shows "\<exists>cells. getData name (getColumns D r) i = Some cells \<and>
     obj_get cells (fst (getColumns D r ! 1)) = Some (Some (ErrorMark (''Error: '' @ error_message e)))"
  using assms by (simp add: getData_def Let_def)

lemma filtered_items:
  "i \<in> set (filterByResourceRefs refs items) \<Longrightarrow> \<exists>k. obj_get items k = Some i"
  by (auto simp: filterByResourceRefs_def map_filter_def split: option.splits if_splits)

lemma filtered_length: "length (filterByResourceRefs refs items) \<le> length refs"
  by (induction refs) (simp_all add: filterByResourceRefs_def map_filter_simps split: option.split)

lemma table_rows_nth:
  assumes "length rs \<le> length refs" and "i < length rs"
  shows "\<exists>name. table_rows columns refs rs ! i = getData name columns (rs ! i)"
  using assms by (auto simp: table_rows_def nth_enumerate_eq)

section \<open>Properties\<close>

lemma getData_settled:
  assumes "\<not> ki_isFetching it" and "(ki_item it = None) \<noteq> (ki_error it = None)"
  shows "\<exists>cells. getData name (getColumns D r) it = Some cells \<and>
      (\<forall>v. ki_item it = Some v \<longrightarrow> obj_get cells ''name'' = Some (map_option ValueCell (get_path v [''metadata'', ''name'']))) \<and>
      (\<forall>e. ki_error it = Some e \<longrightarrow>
         obj_get cells (fst (getColumns D r ! 1)) = Some (Some (ErrorMark (''Error: '' @ error_message e))))"
proof (cases "ki_error it")
  case None
  with assms obtain v where "ki_item it = Some v" by auto
  with getData_item [OF _ None this, of name D r] assms None show ?thesis by auto
next
  case (Some e)
  with getData_error [OF _ Some, of name D r] assms show ?thesis by auto
qed

text \<open>
  The table of the resources of an application. With the resources of a store that keeps its invariant the
  table never raises: it has one row for every reference whose resource has arrived, in their order, each with the
  resource's own name or, in its second cell, with its error.
\<close>
theorem resource_table_rows:
  assumes "kube_inv k" and "refs \<noteq> []"
  defines "found \<equiv> filterByResourceRefs refs (kube_items k)"
  shows "\<exists>rows. ResourceTable D refs (kube_items k) = Inr (Some (map fst (getColumns D (hd refs)), rows)) \<and>
    length rows = length found \<and>
    (\<forall>i < length found.
       (\<forall>v. ki_item (found ! i) = Some v \<longrightarrow>
          rows ! i ! 0 = show_cell (Some (map_option ValueCell (get_path v [''metadata'', ''name''])))) \<and>
       (\<forall>e. ki_error (found ! i) = Some e \<longrightarrow>
          rows ! i ! 1 = Shown (ErrorMark (''Error: '' @ error_message e))))"
proof -
  let ?cols = "getColumns D (hd refs)" and ?rs = "table_rows (getColumns D (hd refs)) refs found"
  have len: "length found \<le> length refs" using filtered_length by (simp add: found_def)
  have n: "length ?rs = length found" by (simp add: table_rows_def)
  have inv: "\<not> ki_isFetching (found ! i) \<and> (ki_item (found ! i) = None) \<noteq> (ki_error (found ! i) = None)"
    if "i < length found" for i
    using assms(1) filtered_items nth_mem [OF that] unfolding found_def kube_inv_def by metis
  have row: "\<exists>cells. ?rs ! i = Some cells \<and>
      (\<forall>v. ki_item (found ! i) = Some v \<longrightarrow>
         obj_get cells ''name'' = Some (map_option ValueCell (get_path v [''metadata'', ''name'']))) \<and>
      (\<forall>e. ki_error (found ! i) = Some e \<longrightarrow>
         obj_get cells (fst (?cols ! 1)) = Some (Some (ErrorMark (''Error: '' @ error_message e))))"
    if i: "i < length found" for i
    using table_rows_nth [OF len i] getData_settled inv [OF i] by metis
  have total: "\<exists>y. table_row (map fst ?cols) x = Inr y" if mem: "x \<in> set ?rs" for x
  proof -
    obtain i where "i < length ?rs" and x: "?rs ! i = x" using mem unfolding in_set_conv_nth by blast
    then have "i < length found" by (simp only: n)
    from row [OF this] x obtain cells where "x = Some cells" by metis
    then show ?thesis by (simp add: table_row_def)
  qed
  have "\<exists>rows. traverse (table_row (map fst ?cols)) ?rs = Inr rows" by (rule traverse_total) (rule total)
  then obtain rows where rows: "traverse (table_row (map fst ?cols)) ?rs = Inr rows" ..
  obtain c cs where cols: "?cols = name_column # c # cs" using columns_head by blast
  have cell: "rows ! i ! 0 = show_cell (obj_get cells ''name'')" "rows ! i ! 1 = show_cell (obj_get cells (fst (?cols ! 1)))"
    if "i < length found" "?rs ! i = Some cells" for i cells
  proof -
    have "table_row (map fst ?cols) (?rs ! i) = Inr (rows ! i)" using traverse_nth [OF rows] that(1) n by simp
    then have "rows ! i = map (\<lambda>a. show_cell (obj_get cells a)) (map fst ?cols)" by (simp add: that(2) table_row_def)
    moreover have "map fst ?cols = ''name'' # fst (?cols ! 1) # map fst cs"
      by (simp add: cols name_column_def path_column_def)
    ultimately show "rows ! i ! 0 = show_cell (obj_get cells ''name'')"
      "rows ! i ! 1 = show_cell (obj_get cells (fst (?cols ! 1)))" by simp_all
  qed
  have "ResourceTable D refs (kube_items k) = Inr (Some (map fst ?cols, rows))"
    using assms(2) rows by (cases refs) (simp_all add: ResourceTable_def Let_def found_def)
  moreover have "length rows = length found" using traverse_nth [OF rows] n by simp
  moreover have "(\<forall>v. ki_item (found ! i) = Some v \<longrightarrow>
          rows ! i ! 0 = show_cell (Some (map_option ValueCell (get_path v [''metadata'', ''name''])))) \<and>
       (\<forall>e. ki_error (found ! i) = Some e \<longrightarrow>
          rows ! i ! 1 = Shown (ErrorMark (''Error: '' @ error_message e)))" if "i < length found" for i
    using row [OF that] cell [OF that] by (auto simp: show_cell_def)
  ultimately show ?thesis by blast
qed

text \<open>
  The tabs of the resources. Every resource of a package but its ingresses, which have a table of their
  own, is in exactly one tab, and no tab is empty.
\<close>
theorem resource_tabs_partition:
  "mset (concat (map snd (ResourceTabs (parseResources refs)))) = mset (filter (\<lambda>r. rr_kind r \<noteq> ''Ingress'') refs) \<and>
   (\<forall>t \<in> set (ResourceTabs r). snd t \<noteq> [])"
proof -
  have drop_empty: "concat (map snd (filter (\<lambda>t. snd t \<noteq> []) ts)) = concat (map snd ts)"
    for ts :: "(string \<times> ResourceRef list) list"
    by (induction ts) auto
  have "mset (concat (map snd (ResourceTabs (parseResources refs)))) = mset (filter (\<lambda>r. rr_kind r \<noteq> ''Ingress'') refs)"
    unfolding ResourceTabs_def drop_empty parseResources_kinds
    by (induction refs) (auto simp: of_kind_def workload_kinds_def)
  then show ?thesis by (auto simp: ResourceTabs_def)
qed

text \<open>
  The list of applications and the page of an application agree on updates: for the same versions they
  announce the same new version, and the page links to the upgrade to it.
\<close>
theorem update_hints_agree:
  assumes "isum_latestVersion a = ipd_latestVersion d" "isum_currentVersion a = ipd_currentVersion d"
    and "ipd_installedPackageRef d = Some ref"
  shows "PackageUpdateInfo d =
    (let link = app_apps_upgradeTo ref (map_option pav_pkgVersion (ipd_latestVersion d)) in
     case update_available a of
       NoUpdate \<Rightarrow> UpToDate | NewAppVersion v \<Rightarrow> AppUpdate v link | NewPkgVersion v \<Rightarrow> PkgUpdate v link)"
  by (simp add: PackageUpdateInfo_def update_available_def Let_def assms)

lemma decode_hex: "n < 16 \<Longrightarrow> hex_of (hex_digit n) = Some n"
  by (simp add: hex_of_def hex_digit_def Let_def)

text \<open>Decoding undoes encoding.\<close>

lemma decode_encoded: "decodeURIComponent (encodeURIComponent s) = Inr s"
proof (induction s)
  case (Cons c s)
  have "c \<noteq> CHR ''%''" if "is_unreserved c" using that by (auto simp: is_unreserved_def)
  then show ?case
    using Cons decode_hex [OF char_nibbles(1), of c] decode_hex [OF char_nibbles(2), of c] by simp
qed simp

text \<open>The identifier of a heading has lower-case letters, digits, underscores and dashes.\<close>

lemma slug_chars: "c \<in> set (heading_slug ns) \<Longrightarrow> c = CHR ''-'' \<or> (is_word_char c \<and> \<not> is_upper c)"
proof -
  have lower: "\<not> is_upper (to_lower_char d)" for d
    by (auto simp: to_lower_char_def is_upper_def)
  assume "c \<in> set (heading_slug ns)"
  then show ?thesis using lower by (auto simp: heading_slug_def toLowerCase_def split: if_splits)
qed

text \<open>What the search box hands on after its timer is the text typed last; the texts before it are skipped.\<close>

lemma search_last_typed:
  "ts \<noteq> [] \<Longrightarrow> fold search_step (map SearchTyped ts @ [SearchTimer]) (s, flt, sub) =
     (s\<lparr>sf_value := last ts, sf_waiting := None\<rparr>, last ts, sub)"
proof -
  have "fold search_step (map SearchTyped ts) (s, flt, sub) =
      (if ts = [] then s else s\<lparr>sf_value := last ts, sf_waiting := Some (last ts)\<rparr>, flt, sub)"
    by (induction ts arbitrary: s) auto
  then show "ts \<noteq> [] \<Longrightarrow> ?thesis" by simp
qed

section \<open>Deviations\<close>

text \<open>Submitting the search right after typing submits the filter from before.\<close>

lemma search_submits_stale:
  "fold search_step [SearchTyped t, SearchSubmit] (s, flt, sub) =
     (s\<lparr>sf_value := t, sf_waiting := Some t\<rparr>, flt, sub @ [flt])"
  by simp

text \<open>After an icon has failed to load the placeholder stays, whatever icon is rendered next.\<close>

lemma failed_icon_stays: "fold icon_effect icons (icon_onError s) = icon_onError s"
  by (induction icons) (simp_all add: icon_effect_def icon_onError_def)

text \<open>A package whose name has a percent sign that encodes nothing cannot be shown in the catalog.\<close>

lemma percent_name_raises:
  "aps_displayName a = ''50%'' \<Longrightarrow> \<exists>e. PackageCatalogItem cluster namespace a = Inl e"
  by (cases "aps_availablePackageRef a") (simp_all add: PackageCatalogItem_def)

text \<open>A count of zero shows as a dash, as a missing one does.\<close>

lemma zero_count_dash: "show_cell (Some (Some (ValueCell (JNum 0)))) = Dash"
  by (simp add: show_cell_def)

text \<open>An item without a resource and without an error takes the table down; the store has none.\<close>

lemma unknown_item_raises:
  "ki_item i = None \<Longrightarrow> ki_error i = None \<Longrightarrow> \<not> ki_isFetching i \<Longrightarrow>
     obj_get items (keyForResourceRef r) = Some i \<Longrightarrow> \<exists>e. ResourceTable D [r] items = Inl e"
  by (simp add: ResourceTable_def filterByResourceRefs_def map_filter_simps Let_def table_rows_def enumerate_simps
      getData_def table_row_def)


section \<open>Witnesses\<close>

definition arrived_store :: IKubeState where
  "arrived_store = kube_initialState\<lparr>kube_items :=
     [(keyForResourceRef (sample_ref ''Deployment'' ''web''), sample_deployment 2 2)]\<rparr>"

definition sample_display :: display_lib where
  "sample_display = \<lparr>dl_service = (\<lambda>_. \<lparr>svc_name = ''web'', svc_type = ''ClusterIP'', svc_ports = [], svc_status = None\<rparr>),
     dl_base64 = id\<rparr>"

theorem resource_table_rows_witness:
  "\<exists>rows. ResourceTable sample_display [sample_ref ''Deployment'' ''web''] (kube_items arrived_store) =
     Inr (Some ([''name'', ''desired'', ''upToDate'', ''available''], rows)) \<and> length rows = 1"
proof -
  have "kube_inv arrived_store"
    by (simp add: kube_inv_def arrived_store_def sample_deployment_def)
  from resource_table_rows [OF this, of "[sample_ref ''Deployment'' ''web'']" sample_display] show ?thesis
    by (auto simp: arrived_store_def filterByResourceRefs_def map_filter_simps getColumns_def sample_ref_def
        DeploymentColumns_def name_column_def path_column_def)
qed

end
