(* ===== verification/Wire_Format.thy ===== *)
theory Wire_Format
  imports Kubeapps_Prelude "HOL-Library.Word"
begin

text \<open>
  The messages of \<open>src/dashboard/src/gen/google\<close> read and write themselves with the writers and the
  readers of protobufjs, which are a parameter: a record of what each call writes and of what it
  reads, with what the code relies on in \<open>wire_spec\<close>.

  A reader is the bytes it has left. A read that fails is an exception; the loop that every \<open>decode\<close>
  runs (\<open>while (reader.pos < end)\<close>) has fuel, and \<open>None\<close> is running out of it, which
  \<open>decode_total\<close> excludes for whatever bytes arrive. \<open>written\<close> says that some bytes are fields whose
  reading takes one message to another; \<open>read_written\<close> runs the loop over them.
\<close>


section \<open>The library\<close>

type_synonym bytes = "8 word list"

text \<open>
  What protobufjs writes for each call of a writer and what each call of a reader returns, with the
  bytes that follow; \<open>None\<close> is its range error. \<open>w_ldelim\<close> is a \<open>fork()\<close> closed by \<open>ldelim()\<close>. \<open>long_toNumber\<close> is
  the number nearest to a 64-bit integer.
\<close>

record wire_lib =
  w_uint32 :: "nat \<Rightarrow> bytes"
  w_int32 :: "int \<Rightarrow> bytes"
  w_uint64 :: "int \<Rightarrow> bytes"
  w_int64 :: "int \<Rightarrow> bytes"
  w_float :: "int \<Rightarrow> bytes"
  w_double :: "int \<Rightarrow> bytes"
  w_bool :: "bool \<Rightarrow> bytes"
  w_string :: "string \<Rightarrow> bytes"
  w_bytes :: "bytes \<Rightarrow> bytes"
  w_ldelim :: "bytes \<Rightarrow> bytes"
  r_uint32 :: "bytes \<Rightarrow> (nat \<times> bytes) option"
  r_int32 :: "bytes \<Rightarrow> (int \<times> bytes) option"
  r_uint64 :: "bytes \<Rightarrow> (int \<times> bytes) option"
  r_int64 :: "bytes \<Rightarrow> (int \<times> bytes) option"
  r_float :: "bytes \<Rightarrow> (int \<times> bytes) option"
  r_double :: "bytes \<Rightarrow> (int \<times> bytes) option"
  r_bool :: "bytes \<Rightarrow> (bool \<times> bytes) option"
  r_string :: "bytes \<Rightarrow> (string \<times> bytes) option"
  r_bytes :: "bytes \<Rightarrow> (bytes \<times> bytes) option"
  r_skip :: "nat \<Rightarrow> bytes \<Rightarrow> (unit \<times> bytes) option"
  long_toNumber :: "int \<Rightarrow> int"

text \<open>The integers that a number of the language holds exactly, and those a single-precision one does.\<close>

definition safe_int :: "int \<Rightarrow> bool" where
  "safe_int n \<longleftrightarrow> \<bar>n\<bar> \<le> 2 ^ 53 - 1"

definition single_int :: "int \<Rightarrow> bool" where
  "single_int n \<longleftrightarrow> \<bar>n\<bar> \<le> 2 ^ 24"

text \<open>
  What is read back is what was written, for the values the call can carry; a tag or a length takes at
  least one byte, a nested message is written whole, and no read gives bytes back.
\<close>

definition reads_back :: "('a \<Rightarrow> bytes) \<Rightarrow> (bytes \<Rightarrow> ('a \<times> bytes) option) \<Rightarrow> ('a \<Rightarrow> bool) \<Rightarrow> bool" where
  "reads_back w r ok \<longleftrightarrow>
     (\<forall>x rest. ok x \<longrightarrow> r (w x @ rest) = Some (x, rest)) \<and>
     (\<forall>bs x bs'. r bs = Some (x, bs') \<longrightarrow> length bs' \<le> length bs)"

definition wire_spec :: "wire_lib \<Rightarrow> bool" where
  "wire_spec W \<longleftrightarrow>
     reads_back (w_uint32 W) (r_uint32 W) (\<lambda>n. n < 2 ^ 32) \<and>
     reads_back (w_int32 W) (r_int32 W) (\<lambda>n. - (2 ^ 31) \<le> n \<and> n < 2 ^ 31) \<and>
     reads_back (w_uint64 W) (r_uint64 W) (\<lambda>n. 0 \<le> n \<and> safe_int n) \<and>
     reads_back (w_int64 W) (r_int64 W) safe_int \<and>
     reads_back (w_float W) (r_float W) single_int \<and>
     reads_back (w_double W) (r_double W) safe_int \<and>
     reads_back (w_bool W) (r_bool W) (\<lambda>_. True) \<and>
     reads_back (w_string W) (r_string W) (\<lambda>_. True) \<and>
     reads_back (w_bytes W) (r_bytes W) (\<lambda>_. True) \<and>
     (\<forall>b rest. length b < 2 ^ 32 \<longrightarrow> r_uint32 W (w_ldelim W b @ rest) = Some (length b, b @ rest)) \<and>
     (\<forall>b. length b < length (w_ldelim W b)) \<and>
     (\<forall>bs n bs'. r_uint32 W bs = Some (n, bs') \<longrightarrow> length bs' < length bs) \<and>
     (\<forall>k bs u bs'. r_skip W k bs = Some (u, bs') \<longrightarrow> length bs' \<le> length bs) \<and>
     (\<forall>i. safe_int i \<longrightarrow> long_toNumber W i = i)"

lemma reads_back_at: "reads_back w r ok \<Longrightarrow> ok x \<Longrightarrow> r (w x @ rest) = Some (x, rest)"
  by (simp add: reads_back_def)

lemma reads_back_shrinks: "reads_back w r ok \<Longrightarrow> r bs = Some (x, bs') \<Longrightarrow> length bs' \<le> length bs"
  unfolding reads_back_def by blast

lemma wire_parts:
  assumes "wire_spec W"
  shows "reads_back (w_uint32 W) (r_uint32 W) (\<lambda>n. n < 2 ^ 32)"
    and "reads_back (w_int32 W) (r_int32 W) (\<lambda>n. - (2 ^ 31) \<le> n \<and> n < 2 ^ 31)"
    and "reads_back (w_uint64 W) (r_uint64 W) (\<lambda>n. 0 \<le> n \<and> safe_int n)"
    and "reads_back (w_int64 W) (r_int64 W) safe_int"
    and "reads_back (w_float W) (r_float W) single_int"
    and "reads_back (w_double W) (r_double W) safe_int"
    and "reads_back (w_bool W) (r_bool W) (\<lambda>_. True)"
    and "reads_back (w_string W) (r_string W) (\<lambda>_. True)"
    and "reads_back (w_bytes W) (r_bytes W) (\<lambda>_. True)"
  using assms unfolding wire_spec_def by blast+

lemma wire_ldelim:
  "wire_spec W \<Longrightarrow> length b < 2 ^ 32 \<Longrightarrow> r_uint32 W (w_ldelim W b @ rest) = Some (length b, b @ rest)"
  unfolding wire_spec_def by blast

lemma wire_reads:
  assumes "wire_spec W"
  shows "n < 2 ^ 32 \<Longrightarrow> r_uint32 W (w_uint32 W n @ rest) = Some (n, rest)"
    and "- (2 ^ 31) \<le> i \<Longrightarrow> i < 2 ^ 31 \<Longrightarrow> r_int32 W (w_int32 W i @ rest) = Some (i, rest)"
    and "0 \<le> i \<Longrightarrow> safe_int i \<Longrightarrow> r_uint64 W (w_uint64 W i @ rest) = Some (i, rest)"
    and "safe_int i \<Longrightarrow> r_int64 W (w_int64 W i @ rest) = Some (i, rest)"
    and "single_int i \<Longrightarrow> r_float W (w_float W i @ rest) = Some (i, rest)"
    and "safe_int i \<Longrightarrow> r_double W (w_double W i @ rest) = Some (i, rest)"
    and "r_bool W (w_bool W p @ rest) = Some (p, rest)"
    and "r_string W (w_string W s @ rest) = Some (s, rest)"
    and "r_bytes W (w_bytes W b @ rest) = Some (b, rest)"
  by (simp_all add: wire_parts [OF assms, THEN reads_back_at])

lemma wire_tag_shorter: "wire_spec W \<Longrightarrow> r_uint32 W bs = Some (n, bs') \<Longrightarrow> length bs' < length bs"
  unfolding wire_spec_def by blast

lemma wire_shrinks:
  assumes "wire_spec W"
  shows "r_int32 W bs = Some (i, bs') \<Longrightarrow> length bs' \<le> length bs"
    and "r_uint64 W bs = Some (i, bs') \<Longrightarrow> length bs' \<le> length bs"
    and "r_int64 W bs = Some (i, bs') \<Longrightarrow> length bs' \<le> length bs"
    and "r_float W bs = Some (i, bs') \<Longrightarrow> length bs' \<le> length bs"
    and "r_double W bs = Some (i, bs') \<Longrightarrow> length bs' \<le> length bs"
    and "r_bool W bs = Some (p, bs') \<Longrightarrow> length bs' \<le> length bs"
    and "r_string W bs = Some (s, bs') \<Longrightarrow> length bs' \<le> length bs"
    and "r_bytes W bs = Some (b, bs') \<Longrightarrow> length bs' \<le> length bs"
    and "r_uint32 W bs = Some (n, bs') \<Longrightarrow> length bs' \<le> length bs"
  by (erule wire_parts [OF assms, THEN reads_back_shrinks])+

lemma wire_skip_shrinks: "wire_spec W \<Longrightarrow> r_skip W k bs = Some (u, bs') \<Longrightarrow> length bs' \<le> length bs"
  unfolding wire_spec_def by blast

lemma wire_nonempty:
  assumes W: "wire_spec W" and n: "n < 2 ^ 32"
  shows "0 < length (w_uint32 W n)"
  using wire_tag_shorter [OF W wire_reads(1) [OF W n, of "[]"]] by simp

lemma wire_ldelim_longer: "wire_spec W \<Longrightarrow> length b < length (w_ldelim W b)"
  unfolding wire_spec_def by blast

lemma wire_toNumber: "wire_spec W \<Longrightarrow> safe_int i \<Longrightarrow> long_toNumber W i = i"
  unfolding wire_spec_def by blast


section \<open>Reading a message\<close>

text \<open>A read: out of fuel, an exception, or a value and the bytes that are left.\<close>

type_synonym 'a reading = "(string + 'a \<times> bytes) option"

definition range_error :: string where
  "range_error = ''index out of range''"

definition rd :: "('a \<times> bytes) option \<Rightarrow> 'a reading" where
  "rd r = (case r of None \<Rightarrow> Some (Inl range_error) | Some x \<Rightarrow> Some (Inr x))"

definition bind_read :: "'a reading \<Rightarrow> ('a \<Rightarrow> bytes \<Rightarrow> 'b reading) \<Rightarrow> 'b reading" where
  "bind_read r k = (case r of None \<Rightarrow> None | Some (Inl e) \<Rightarrow> Some (Inl e) | Some (Inr (x, bs)) \<Rightarrow> k x bs)"

definition store_read :: "'a reading \<Rightarrow> ('a \<Rightarrow> 'm) \<Rightarrow> 'm reading" where
  "store_read r f = bind_read r (\<lambda>x bs. Some (Inr (f x, bs)))"

lemma read_simps [simp]:
  "rd None = Some (Inl range_error)"
  "rd (Some x) = Some (Inr x)"
  "bind_read (Some (Inr (y, bs))) k = k y bs"
  "bind_read (Some (Inl e)) k = Some (Inl e)"
  "store_read (Some (Inr (y, bs))) f = Some (Inr (f y, bs))"
  "store_read (Some (Inl e)) f = Some (Inl e)"
  by (simp_all add: rd_def bind_read_def store_read_def)

text \<open>
  The loop of \<open>decode\<close>: while there are more bytes than those after the end of the message, a tag and
  the field it announces. \<open>field\<close> is the body of its switch.
\<close>

type_synonym 'm field_reader = "nat \<Rightarrow> 'm \<Rightarrow> bytes \<Rightarrow> 'm reading"

fun read_fields :: "wire_lib \<Rightarrow> 'm field_reader \<Rightarrow> nat \<Rightarrow> int \<Rightarrow> 'm \<Rightarrow> bytes \<Rightarrow> 'm reading" where
  "read_fields W field 0 stop m bs = None"
| "read_fields W field (Suc n) stop m bs =
     (if stop < int (length bs)
      then bind_read (rd (r_uint32 W bs)) (\<lambda>tag bs1.
             bind_read (field tag m bs1) (\<lambda>m' bs2. read_fields W field n stop m' bs2))
      else Some (Inr (m, bs)))"

declare read_fields.simps [simp del]

lemma read_fields_more [simp]:
  "stop < int (length bs) \<Longrightarrow> read_fields W field (Suc n) stop m bs =
     bind_read (rd (r_uint32 W bs)) (\<lambda>tag bs1.
       bind_read (field tag m bs1) (\<lambda>m' bs2. read_fields W field n stop m' bs2))"
  "\<not> stop < int (length bs) \<Longrightarrow> read_fields W field (Suc n) stop m bs = Some (Inr (m, bs))"
  by (simp_all add: read_fields.simps)

text \<open>\<open>decode(input)\<close> on a whole buffer, and \<open>decode(reader, reader.uint32())\<close> on a part of one.\<close>

definition decode_message :: "wire_lib \<Rightarrow> 'm field_reader \<Rightarrow> 'm \<Rightarrow> bytes \<Rightarrow> (string + 'm) option" where
  "decode_message W field base bs =
     map_option (map_sum id fst) (read_fields W field (Suc (length bs)) 0 base bs)"

definition decode_sub :: "wire_lib \<Rightarrow> 'm field_reader \<Rightarrow> 'm \<Rightarrow> bytes \<Rightarrow> 'm reading" where
  "decode_sub W field base bs =
     bind_read (rd (r_uint32 W bs)) (\<lambda>len bs1.
       read_fields W field (Suc (length bs1)) (int (length bs1) - int len) base bs1)"

text \<open>The default of every switch: the field is skipped by its wire type.\<close>

definition skip_field :: "wire_lib \<Rightarrow> nat \<Rightarrow> 'm \<Rightarrow> bytes \<Rightarrow> 'm reading" where
  "skip_field W tag m bs = store_read (rd (r_skip W (tag mod 8) bs)) (\<lambda>_. m)"


section \<open>Fields that were written\<close>

inductive written :: "wire_lib \<Rightarrow> 'm field_reader \<Rightarrow> 'm \<Rightarrow> bytes \<Rightarrow> 'm \<Rightarrow> bool"
  for W :: wire_lib and field :: "'m field_reader" where
  written_none: "written W field m [] m"
| written_more: "tag < 2 ^ 32 \<Longrightarrow> \<forall>rest. field tag m (pay @ rest) = Some (Inr (m', rest)) \<Longrightarrow>
    written W field m' bs m'' \<Longrightarrow> written W field m (w_uint32 W tag @ pay @ bs) m''"

lemma written_field:
  "tag < 2 ^ 32 \<Longrightarrow> (\<And>rest. field tag m (pay @ rest) = Some (Inr (m', rest))) \<Longrightarrow>
     written W field m (w_uint32 W tag @ pay) m'"
  using written_more [of tag field m pay m' W "[]" m'] by (simp add: written_none)

lemma written_append:
  "written W field m a m' \<Longrightarrow> written W field m' b m'' \<Longrightarrow> written W field m (a @ b) m''"
  by (induction rule: written.induct) (auto intro: written_more)

lemma written_if:
  "(c \<Longrightarrow> written W field m a m') \<Longrightarrow> (\<not> c \<Longrightarrow> m' = m) \<Longrightarrow> written W field m (if c then a else []) m'"
  by (cases c) (auto intro: written_none)

lemma read_written:
  assumes "wire_spec W" and "written W field m bs m'" and "length bs < n"
  shows "read_fields W field n (int (length rest)) m (bs @ rest) = Some (Inr (m', rest))"
  using assms(2,3)
proof (induction arbitrary: n rule: written.induct)
  case (written_none m)
  then show ?case by (cases n) auto
next
  case (written_more tag m pay m' bs m'')
  have tag: "0 < length (w_uint32 W tag)" using wire_nonempty [OF assms(1) written_more.hyps(1)] .
  obtain k where n: "n = Suc k" using written_more.prems by (cases n) auto
  have "length bs < k" using tag n written_more.prems by (simp del: length_greater_0_conv)
  moreover have more: "int (length rest) < int (length (w_uint32 W tag @ pay @ bs @ rest))"
    using tag by (simp del: length_greater_0_conv)
  ultimately show ?case
    using written_more by (simp add: n read_fields_more(1) [OF more] wire_reads(1) [OF assms(1)])
qed

lemma decode_written:
  "wire_spec W \<Longrightarrow> written W field base bs m \<Longrightarrow> decode_message W field base bs = Some (Inr m)"
  using read_written [of W field base bs m "Suc (length bs)" "[]"] by (simp add: decode_message_def)

lemma sub_written:
  assumes "wire_spec W" and "written W field base bs m" and "length bs < 2 ^ 32"
  shows "decode_sub W field base (w_ldelim W bs @ rest) = Some (Inr (m, rest))"
  using read_written [OF assms(1,2), of "Suc (length (bs @ rest))" rest]
  by (simp add: decode_sub_def wire_ldelim [OF assms(1,3)])


section \<open>Decoding ends\<close>

text \<open>A read that does not run out of fuel and gives no bytes back.\<close>

fun read_ok :: "nat \<Rightarrow> 'a reading \<Rightarrow> bool" where
  "read_ok k None = False"
| "read_ok k (Some (Inl e)) = True"
| "read_ok k (Some (Inr (x, bs))) = (length bs \<le> k)"

definition total_below :: "nat \<Rightarrow> 'm field_reader \<Rightarrow> bool" where
  "total_below n field \<longleftrightarrow> (\<forall>tag m bs. length bs < n \<longrightarrow> read_ok (length bs) (field tag m bs))"

lemma read_ok_rd: "(\<And>x bs'. r = Some (x, bs') \<Longrightarrow> length bs' \<le> k) \<Longrightarrow> read_ok k (rd r)"
  by (cases r) auto

lemma read_ok_bind:
  "read_ok k r \<Longrightarrow> (\<And>x bs. r = Some (Inr (x, bs)) \<Longrightarrow> length bs \<le> k \<Longrightarrow> read_ok k (f x bs)) \<Longrightarrow>
     read_ok k (bind_read r f)"
  by (cases "(k, r)" rule: read_ok.cases) auto

lemma read_ok_store [simp]: "read_ok k (store_read r f) = read_ok k r"
  by (cases "(k, r)" rule: read_ok.cases) (auto simp: store_read_def bind_read_def)

lemma read_ok_mono: "read_ok j r \<Longrightarrow> j \<le> k \<Longrightarrow> read_ok k r"
  by (cases "(j, r)" rule: read_ok.cases) auto

lemma read_ok_skip: "wire_spec W \<Longrightarrow> read_ok (length bs) (skip_field W tag m bs)"
  unfolding skip_field_def by (auto intro!: read_ok_rd dest: wire_skip_shrinks)

lemma read_ok_reads:
  assumes "wire_spec W"
  shows "read_ok (length bs) (rd (r_int32 W bs))" "read_ok (length bs) (rd (r_uint64 W bs))"
    "read_ok (length bs) (rd (r_int64 W bs))" "read_ok (length bs) (rd (r_float W bs))"
    "read_ok (length bs) (rd (r_double W bs))" "read_ok (length bs) (rd (r_bool W bs))"
    "read_ok (length bs) (rd (r_string W bs))" "read_ok (length bs) (rd (r_bytes W bs))"
    "read_ok (length bs) (rd (r_uint32 W bs))"
  by (auto intro!: read_ok_rd dest: wire_shrinks [OF assms])

lemma read_fields_total:
  assumes "wire_spec W" and "total_below k field"
  shows "length bs < n \<Longrightarrow> length bs \<le> k \<Longrightarrow> read_ok (length bs) (read_fields W field n stop m bs)"
proof (induction n arbitrary: m bs)
  case (Suc n)
  show ?case
  proof (cases "stop < int (length bs)")
    case True
    have rest: "read_ok (length bs) (bind_read (field tag m bs1) (read_fields W field n stop))"
      if less: "length bs1 < length bs" for tag bs1
    proof (rule read_ok_bind)
      have "read_ok (length bs1) (field tag m bs1)"
        using assms(2) less Suc.prems by (simp add: total_below_def)
      then show "read_ok (length bs) (field tag m bs1)" using less by (auto intro: read_ok_mono)
      fix m' bs2
      assume "field tag m bs1 = Some (Inr (m', bs2))"
      with \<open>read_ok (length bs1) (field tag m bs1)\<close> have "length bs2 \<le> length bs1" by simp
      then show "read_ok (length bs) (read_fields W field n stop m' bs2)"
        using Suc.IH [of bs2 m'] less Suc.prems by (auto intro: read_ok_mono)
    qed
    show ?thesis
      using rest wire_tag_shorter [OF assms(1)] True by (cases "r_uint32 W bs") auto
  qed simp
qed simp

lemma decode_sub_total:
  assumes "wire_spec W" and "total_below k field" and "length bs \<le> Suc k"
  shows "read_ok (length bs) (decode_sub W field base bs)"
proof (cases "r_uint32 W bs")
  case (Some r)
  obtain len bs1 where r: "r = (len, bs1)" by (cases r)
  have less: "length bs1 < length bs" using wire_tag_shorter [OF assms(1)] Some r by simp
  have "read_ok (length bs1)
      (read_fields W field (Suc (length bs1)) (int (length bs1) - int len) base bs1)"
    using read_fields_total [OF assms(1,2)] less assms(3) by simp
  then show ?thesis using Some r less by (auto simp: decode_sub_def intro: read_ok_mono)
qed (simp add: decode_sub_def)

lemma decode_total:
  assumes "wire_spec W" and "total_below (length bs) field"
  shows "decode_message W field base bs \<noteq> None"
  using read_fields_total [OF assms, of bs "Suc (length bs)" 0 base]
  by (cases "read_fields W field (Suc (length bs)) 0 base bs") (auto simp: decode_message_def)


section \<open>An instance\<close>

text \<open>A library with the laws: base-128 integers, and strings and bytes behind their lengths.\<close>

fun varint :: "nat \<Rightarrow> bytes" where
  "varint n = (if n < 128 then [of_nat n] else of_nat (128 + n mod 128) # varint (n div 128))"

declare varint.simps [simp del]

fun read_varint :: "bytes \<Rightarrow> (nat \<times> bytes) option" where
  "read_varint [] = None"
| "read_varint (b # bs) =
     (if unat b < 128 then Some (unat b, bs)
      else map_option (\<lambda>(n, rest). (unat b - 128 + 128 * n, rest)) (read_varint bs))"

definition zigzag :: "int \<Rightarrow> nat" where
  "zigzag i = (if 0 \<le> i then 2 * nat i else 2 * nat (- i) - 1)"

definition unzigzag :: "nat \<Rightarrow> int" where
  "unzigzag n = (if even n then int (n div 2) else - int (n div 2) - 1)"

definition delimited :: "bytes \<Rightarrow> bytes" where
  "delimited b = varint (length b) @ b"

definition read_part :: "nat \<Rightarrow> bytes \<Rightarrow> (bytes \<times> bytes) option" where
  "read_part n bs = (if n \<le> length bs then Some (take n bs, drop n bs) else None)"

definition read_delimited :: "bytes \<Rightarrow> (bytes \<times> bytes) option" where
  "read_delimited bs = Option.bind (read_varint bs) (\<lambda>(n, rest). read_part n rest)"

definition sample_skip :: "nat \<Rightarrow> bytes \<Rightarrow> (unit \<times> bytes) option" where
  "sample_skip k bs = map_option (\<lambda>r. ((), r))
     (if k = 0 then map_option snd (read_varint bs)
      else if k = 2 then map_option snd (read_delimited bs)
      else if k = 1 then map_option snd (read_part 8 bs)
      else if k = 5 then map_option snd (read_part 4 bs)
      else None)"

definition read_int :: "bytes \<Rightarrow> (int \<times> bytes) option" where
  "read_int bs = map_option (map_prod unzigzag id) (read_varint bs)"

definition sample_wire :: wire_lib where
  "sample_wire = \<lparr>w_uint32 = varint, w_int32 = varint \<circ> zigzag, w_uint64 = varint \<circ> zigzag,
     w_int64 = varint \<circ> zigzag, w_float = varint \<circ> zigzag, w_double = varint \<circ> zigzag,
     w_bool = (\<lambda>b. varint (of_bool b)), w_string = (\<lambda>s. delimited (map (\<lambda>c. of_nat (of_char c)) s)),
     w_bytes = delimited, w_ldelim = delimited,
     r_uint32 = read_varint, r_int32 = read_int, r_uint64 = read_int, r_int64 = read_int,
     r_float = read_int, r_double = read_int,
     r_bool = (\<lambda>bs. map_option (map_prod (\<lambda>n. n \<noteq> 0) id) (read_varint bs)),
     r_string = (\<lambda>bs. map_option (map_prod (map (\<lambda>b. char_of (unat b))) id) (read_delimited bs)),
     r_bytes = read_delimited, r_skip = sample_skip, long_toNumber = id\<rparr>"

lemma read_varint_varint [simp]: "read_varint (varint n @ rest) = Some (n, rest)"
proof (induction n rule: varint.induct)
  case (1 n)
  have "unat (of_nat (128 + n mod 128) :: 8 word) = 128 + n mod 128"
    by (simp only: unat_of_nat) (simp add: mod_less)
  then show ?case
    using 1 by (simp add: varint.simps [of n] unat_of_nat mod_less)
qed

lemma read_varint_shorter: "read_varint bs = Some (n, rest) \<Longrightarrow> length rest < length bs"
  by (induction bs arbitrary: n rest) (fastforce split: if_splits)+

lemma unzigzag_zigzag [simp]: "unzigzag (zigzag i) = i"
  by (cases "0 \<le> i") (auto simp: zigzag_def unzigzag_def nat_mult_distrib)

lemma varint_nonempty: "0 < length (varint n)"
  by (subst varint.simps) simp

lemma read_part_append: "n = length b \<Longrightarrow> read_part n (b @ rest) = Some (b, rest)"
  by (simp add: read_part_def)

lemma read_delimited_delimited [simp]: "read_delimited (delimited b @ rest) = Some (b, rest)"
  by (simp add: read_delimited_def delimited_def read_part_append)

lemma delimited_longer: "length b < length (delimited b)"
  using varint_nonempty [of "length b"] by (simp add: delimited_def del: length_greater_0_conv)

lemma delimited_length: "read_varint (delimited b @ rest) = Some (length b, b @ rest)"
  by (simp add: delimited_def)

lemma read_part_shrinks: "read_part n bs = Some (b, rest) \<Longrightarrow> length rest \<le> length bs"
  by (auto simp: read_part_def split: if_splits)

lemma read_delimited_shrinks: "read_delimited bs = Some (b, rest) \<Longrightarrow> length rest \<le> length bs"
  by (auto simp: read_delimited_def bind_eq_Some_conv dest!: read_varint_shorter read_part_shrinks)

lemma unat_of_char: "unat (of_nat (of_char (c::char)) :: 8 word) = of_char c"
  by (simp add: unat_of_nat mod_less)

lemma sample_wire_spec: "wire_spec sample_wire"
proof -
  have ints: "read_int (varint (zigzag i) @ rest) = Some (i, rest)" for i rest
    by (simp add: read_int_def)
  have shrinks: "read_int bs = Some (i, rest) \<Longrightarrow> length rest \<le> length bs" for bs i rest
    by (auto simp: read_int_def dest!: read_varint_shorter)
  show ?thesis
    unfolding wire_spec_def
    by (intro conjI) (auto simp: sample_wire_def ints reads_back_def sample_skip_def unat_of_char o_def
        delimited_longer delimited_length dest!: read_varint_shorter read_delimited_shrinks read_part_shrinks shrinks
        split: if_splits)
qed

end
