(* ===== verification/Struct_Values.thy ===== *)
theory Struct_Values
  imports Wire_Format
begin

text \<open>
  \<open>src/dashboard/src/gen/google/protobuf/struct.ts\<close>: values of any shape as messages. A value is wrapped
  into a \<open>Value\<close> with one of its members set, which \<open>encode\<close> writes through \<open>Struct\<close>, \<open>Struct_FieldsEntry\<close> and
  \<open>ListValue\<close>, wrapping the values inside on the way; \<open>decode\<close> unwraps them again. \<open>struct_values_survive\<close>
  is the round trip, through an object that loses its undefined members; \<open>struct_decoding_ends\<close> says that
  decoding returns or raises on any bytes.
\<close>


section \<open>Values of any type\<close>

text \<open>
  A value of type \<open>any\<close>: \<open>AOther\<close> is one that \<open>typeof\<close> calls a function, a symbol or a big integer, by that
  name. Numbers are the integers among them.
\<close>

datatype jsany = AUndef | ANull | ABool bool | ANum int | AStr string
  | AArr "jsany list" | AObj "(string \<times> jsany) list" | AOther string

definition isSet :: "jsany \<Rightarrow> bool" where
  "isSet v \<longleftrightarrow> v \<noteq> ANull \<and> v \<noteq> AUndef"

fun isObject :: "jsany \<Rightarrow> bool" where
  "isObject (AArr xs) = True"
| "isObject (AObj ms) = True"
| "isObject v = False"

text \<open>The entries of an object, and of an array by the text of its indices.\<close>

fun object_entries_of :: "jsany \<Rightarrow> (string \<times> jsany) list" where
  "object_entries_of (AObj ms) = ms"
| "object_entries_of (AArr xs) = map (\<lambda>(i, x). (show_nat i, x)) (enumerate 0 xs)"
| "object_entries_of v = []"

text \<open>Reading a member raises on null and undefined; the optional chain \<open>?.\<close> does not.\<close>

definition member_chain :: "jsany \<Rightarrow> string \<Rightarrow> jsany" where
  "member_chain v k = (case v of
     AObj ms \<Rightarrow> (case obj_get ms k of None \<Rightarrow> AUndef | Some x \<Rightarrow> x)
   | _ \<Rightarrow> AUndef)"

definition get_member :: "jsany \<Rightarrow> string \<Rightarrow> string + jsany" where
  "get_member v k =
     (if isSet v then Inr (member_chain v k) else Inl (''Cannot read properties (reading '' @ k @ '')''))"

text \<open>\<open>Boolean(v)\<close>; \<open>Number(v)\<close> and \<open>String(v)\<close> are parameters, of which the identity on their type is used.\<close>

fun js_Boolean :: "jsany \<Rightarrow> bool" where
  "js_Boolean AUndef = False"
| "js_Boolean ANull = False"
| "js_Boolean (ABool b) = b"
| "js_Boolean (ANum n) = (n \<noteq> 0)"
| "js_Boolean (AStr s) = (s \<noteq> [])"
| "js_Boolean v = True"

record conv_lib =
  js_Number :: "jsany \<Rightarrow> int"
  js_String :: "jsany \<Rightarrow> string"

definition conv_spec :: "conv_lib \<Rightarrow> bool" where
  "conv_spec C \<longleftrightarrow> (\<forall>n. js_Number C (ANum n) = n) \<and> (\<forall>s. js_String C (AStr s) = s)"


section \<open>The messages\<close>

definition NULL_VALUE :: int where "NULL_VALUE = 0"
definition NULL_UNRECOGNIZED :: int where "NULL_UNRECOGNIZED = - 1"

definition nullValueFromJSON :: "jsany \<Rightarrow> int" where
  "nullValueFromJSON object =
     (if object = ANum 0 \<or> object = AStr ''NULL_VALUE'' then NULL_VALUE else NULL_UNRECOGNIZED)"

definition nullValueToJSON :: "int \<Rightarrow> string" where
  "nullValueToJSON object = (if object = NULL_VALUE then ''NULL_VALUE'' else ''UNRECOGNIZED'')"

record Struct =
  struct_fields :: "jsany jsobj"

record Struct_FieldsEntry =
  entry_key :: string
  entry_value :: jsany

record Value =
  nullValue :: "int option"
  numberValue :: "int option"
  stringValue :: "string option"
  boolValue :: "bool option"
  structValue :: "jsany option"
  listValue :: "jsany list option"

record ListValue =
  list_values :: "jsany list"

definition createBaseStruct :: Struct where
  "createBaseStruct = \<lparr>struct_fields = []\<rparr>"

definition createBaseStruct_FieldsEntry :: Struct_FieldsEntry where
  "createBaseStruct_FieldsEntry = \<lparr>entry_key = [], entry_value = AUndef\<rparr>"

definition createBaseValue :: Value where
  "createBaseValue = \<lparr>nullValue = None, numberValue = None, stringValue = None, boolValue = None,
     structValue = None, listValue = None\<rparr>"

definition createBaseListValue :: ListValue where
  "createBaseListValue = \<lparr>list_values = []\<rparr>"


section \<open>Wrapping\<close>

text \<open>Copying the members of an object into a new one, in their order.\<close>

definition copy_members :: "(string \<times> jsany) list \<Rightarrow> jsany jsobj \<Rightarrow> jsany jsobj" where
  "copy_members ms ob = fold (\<lambda>(k, v). obj_set k v) ms ob"

definition Struct_wrap :: "jsany \<Rightarrow> Struct" where
  "Struct_wrap object = createBaseStruct\<lparr>struct_fields := copy_members (object_entries_of object) []\<rparr>"

definition Struct_unwrap :: "Struct \<Rightarrow> jsany" where
  "Struct_unwrap message = AObj (copy_members (struct_fields message) [])"

fun Value_wrap :: "jsany \<Rightarrow> string + Value" where
  "Value_wrap ANull = Inr (createBaseValue\<lparr>nullValue := Some NULL_VALUE\<rparr>)"
| "Value_wrap (ABool b) = Inr (createBaseValue\<lparr>boolValue := Some b\<rparr>)"
| "Value_wrap (ANum n) = Inr (createBaseValue\<lparr>numberValue := Some n\<rparr>)"
| "Value_wrap (AStr s) = Inr (createBaseValue\<lparr>stringValue := Some s\<rparr>)"
| "Value_wrap (AArr xs) = Inr (createBaseValue\<lparr>listValue := Some xs\<rparr>)"
| "Value_wrap (AObj ms) = Inr (createBaseValue\<lparr>structValue := Some (AObj ms)\<rparr>)"
| "Value_wrap AUndef = Inr createBaseValue"
| "Value_wrap (AOther t) = Inl (''Unsupported any value type: '' @ t)"

definition Value_unwrap :: "Value \<Rightarrow> jsany" where
  "Value_unwrap message =
     (case stringValue message of Some s \<Rightarrow> AStr s | None \<Rightarrow>
      case numberValue message of Some n \<Rightarrow> ANum n | None \<Rightarrow>
      case boolValue message of Some b \<Rightarrow> ABool b | None \<Rightarrow>
      case structValue message of Some v \<Rightarrow> v | None \<Rightarrow>
      case listValue message of Some xs \<Rightarrow> AArr xs | None \<Rightarrow>
      case nullValue message of Some n \<Rightarrow> ANull | None \<Rightarrow> AUndef)"

definition ListValue_wrap :: "jsany list option \<Rightarrow> ListValue" where
  "ListValue_wrap array = createBaseListValue\<lparr>list_values := (case array of None \<Rightarrow> [] | Some xs \<Rightarrow> xs)\<rparr>"

definition ListValue_unwrap :: "ListValue \<Rightarrow> jsany list" where
  "ListValue_unwrap message = list_values message"


section \<open>Writing\<close>

text \<open>Parts written one after another; the first exception is the result.\<close>

fun enc_parts :: "(string + bytes) list \<Rightarrow> string + bytes" where
  "enc_parts [] = Inr []"
| "enc_parts (Inl e # ps) = Inl e"
| "enc_parts (Inr b # ps) = map_sum id (append b) (enc_parts ps)"

definition sub :: "wire_lib \<Rightarrow> nat \<Rightarrow> string + bytes \<Rightarrow> string + bytes" where
  "sub W tag r = map_sum id (\<lambda>b. w_uint32 W tag @ w_ldelim W b) r"

definition when_some :: "'a option \<Rightarrow> ('a \<Rightarrow> string + bytes) \<Rightarrow> string + bytes" where
  "when_some v f = (case v of None \<Rightarrow> Inr [] | Some x \<Rightarrow> f x)"

lemma when_some_cong [fundef_cong]: "v = v' \<Longrightarrow> (\<And>x. v' = Some x \<Longrightarrow> f x = g x) \<Longrightarrow> when_some v f = when_some v' g"
  by (simp add: when_some_def split: option.splits)

definition wrapped :: "jsany \<Rightarrow> (Value \<Rightarrow> string + bytes) \<Rightarrow> string + bytes" where
  "wrapped v f = (case Value_wrap v of Inl e \<Rightarrow> Inl e | Inr m \<Rightarrow> f m)"

lemma wrapped_cong [fundef_cong]: "v = v' \<Longrightarrow> (\<And>m. Value_wrap v' = Inr m \<Longrightarrow> f m = g m) \<Longrightarrow> wrapped v f = wrapped v' g"
  by (simp add: wrapped_def split: sum.splits)

text \<open>The size of what a message holds, for the termination of its writing.\<close>

definition members_size :: "(string \<times> jsany) list \<Rightarrow> nat" where
  "members_size ms = size_list (\<lambda>(k, v). Suc (size v)) ms"

definition value_size :: "Value \<Rightarrow> nat" where
  "value_size m =
     (case structValue m of None \<Rightarrow> 0 | Some v \<Rightarrow> members_size (object_entries_of v)) +
     (case listValue m of None \<Rightarrow> 0 | Some xs \<Rightarrow> size_list size xs)"

lemma members_size_simps [simp]:
  "members_size [] = 0" "members_size ((k, v) # ms) = 2 + size v + members_size ms"
  by (simp_all add: members_size_def)

lemma members_size_member: "(k, v) \<in> set ms \<Longrightarrow> size v + 2 \<le> members_size ms"
  by (induction ms) auto

lemma members_size_obj_set: "members_size (obj_set k v ob) \<le> members_size ob + size v + 2"
  by (induction ob) auto

lemma members_size_copy: "members_size (copy_members ms ob) \<le> members_size ms + members_size ob"
proof (induction ms arbitrary: ob)
  case (Cons m ms)
  obtain k v where m: "m = (k, v)" by (cases m)
  show ?case
    using Cons [of "obj_set k v ob"] members_size_obj_set [of k v ob] by (simp add: m copy_members_def)
qed (simp add: copy_members_def)

lemma size_element: "(x::jsany) \<in> set xs \<Longrightarrow> size x < size_list size xs"
  by (induction xs) auto

lemma value_size_wrap: "Value_wrap v = Inr m \<Longrightarrow> value_size m \<le> size v"
proof (cases v)
  case (AObj ms)
  have "members_size ms \<le> size (AObj ms)" by (induction ms) auto
  then show "Value_wrap v = Inr m \<Longrightarrow> ?thesis" using AObj by (auto simp: value_size_def createBaseValue_def)
qed (auto simp: value_size_def createBaseValue_def)

function (sequential) Value_encode :: "wire_lib \<Rightarrow> Value \<Rightarrow> string + bytes"
  and Struct_encode :: "wire_lib \<Rightarrow> Struct \<Rightarrow> string + bytes"
  and Struct_FieldsEntry_encode :: "wire_lib \<Rightarrow> Struct_FieldsEntry \<Rightarrow> string + bytes"
  and ListValue_encode :: "wire_lib \<Rightarrow> ListValue \<Rightarrow> string + bytes" where
  "Value_encode W message = enc_parts
     [when_some (nullValue message) (\<lambda>n. Inr (w_uint32 W 8 @ w_int32 W n)),
      when_some (numberValue message) (\<lambda>n. Inr (w_uint32 W 17 @ w_double W n)),
      when_some (stringValue message) (\<lambda>s. Inr (w_uint32 W 26 @ w_string W s)),
      when_some (boolValue message) (\<lambda>b. Inr (w_uint32 W 32 @ w_bool W b)),
      when_some (structValue message) (\<lambda>v. sub W 42 (Struct_encode W (Struct_wrap v))),
      when_some (listValue message) (\<lambda>xs. sub W 50 (ListValue_encode W (ListValue_wrap (Some xs))))]"
| "Struct_encode W message = enc_parts
     (map (\<lambda>(key, value). if value \<noteq> AUndef
           then sub W 10 (Struct_FieldsEntry_encode W \<lparr>entry_key = key, entry_value = value\<rparr>) else Inr [])
        (struct_fields message))"
| "Struct_FieldsEntry_encode W message = enc_parts
     [if entry_key message \<noteq> [] then Inr (w_uint32 W 10 @ w_string W (entry_key message)) else Inr [],
      if entry_value message \<noteq> AUndef
      then wrapped (entry_value message) (\<lambda>v. sub W 18 (Value_encode W v)) else Inr []]"
| "ListValue_encode W message = enc_parts
     (map (\<lambda>v. wrapped v (\<lambda>m. sub W 10 (Value_encode W m))) (list_values message))"
  by pat_completeness auto

termination
proof (relation "measure (case_sum
    (case_sum (\<lambda>(W, m). 4 * value_size m + 3) (\<lambda>(W, m). 4 * members_size (struct_fields m) + 2))
    (case_sum (\<lambda>(W, m). 4 * size (entry_value m) + 4) (\<lambda>(W, m). 4 * size_list size (list_values m) + 2)))",
    goal_cases)
  case (2 W message v)
  have "members_size (struct_fields (Struct_wrap v)) \<le> members_size (object_entries_of v)"
    using members_size_copy [of "object_entries_of v" "[]"] by (simp add: Struct_wrap_def createBaseStruct_def)
  then show ?case using 2 by (simp add: value_size_def)
next
  case (3 W message xs)
  then show ?case by (simp add: value_size_def ListValue_wrap_def createBaseListValue_def)
next
  case (4 W message z k v)
  then have "size v + 2 \<le> members_size (struct_fields message)" by (intro members_size_member [of k]) simp
  then show ?case using 4 by simp
next
  case (5 W message m)
  then show ?case using value_size_wrap [of "entry_value message" m] by simp
next
  case (6 W message x m)
  then have "size x < size_list size (list_values message)" by (intro size_element) simp
  then show ?case using 6 value_size_wrap [of x m] by simp
qed simp

declare Value_encode.simps [simp del] Struct_encode.simps [simp del]
  Struct_FieldsEntry_encode.simps [simp del] ListValue_encode.simps [simp del]


section \<open>Reading\<close>

text \<open>
  The bodies of the switches, over the readers of the messages inside; a value within a value is read with
  one unit less of depth, of which \<open>decode\<close> has one more than there are bytes.
\<close>

definition Value_body :: "wire_lib \<Rightarrow> Struct field_reader \<Rightarrow> ListValue field_reader \<Rightarrow> Value field_reader" where
  "Value_body W structs arrays tag message bs =
     (if tag div 8 = 1 then store_read (rd (r_int32 W bs)) (\<lambda>n. message\<lparr>nullValue := Some n\<rparr>)
      else if tag div 8 = 2 then store_read (rd (r_double W bs)) (\<lambda>n. message\<lparr>numberValue := Some n\<rparr>)
      else if tag div 8 = 3 then store_read (rd (r_string W bs)) (\<lambda>s. message\<lparr>stringValue := Some s\<rparr>)
      else if tag div 8 = 4 then store_read (rd (r_bool W bs)) (\<lambda>b. message\<lparr>boolValue := Some b\<rparr>)
      else if tag div 8 = 5
      then store_read (decode_sub W structs createBaseStruct bs)
        (\<lambda>s. message\<lparr>structValue := Some (Struct_unwrap s)\<rparr>)
      else if tag div 8 = 6
      then store_read (decode_sub W arrays createBaseListValue bs)
        (\<lambda>l. message\<lparr>listValue := Some (ListValue_unwrap l)\<rparr>)
      else skip_field W tag message bs)"

definition Struct_body :: "wire_lib \<Rightarrow> Struct_FieldsEntry field_reader \<Rightarrow> Struct field_reader" where
  "Struct_body W entries tag message bs =
     (if tag div 8 = 1
      then store_read (decode_sub W entries createBaseStruct_FieldsEntry bs)
        (\<lambda>entry. if entry_value entry \<noteq> AUndef
           then message\<lparr>struct_fields := obj_set (entry_key entry) (entry_value entry) (struct_fields message)\<rparr>
           else message)
      else skip_field W tag message bs)"

definition Struct_FieldsEntry_body :: "wire_lib \<Rightarrow> Value field_reader \<Rightarrow> Struct_FieldsEntry field_reader" where
  "Struct_FieldsEntry_body W values tag message bs =
     (if tag div 8 = 1 then store_read (rd (r_string W bs)) (\<lambda>s. message\<lparr>entry_key := s\<rparr>)
      else if tag div 8 = 2
      then store_read (decode_sub W values createBaseValue bs) (\<lambda>v. message\<lparr>entry_value := Value_unwrap v\<rparr>)
      else skip_field W tag message bs)"

definition ListValue_body :: "wire_lib \<Rightarrow> Value field_reader \<Rightarrow> ListValue field_reader" where
  "ListValue_body W values tag message bs =
     (if tag div 8 = 1
      then store_read (decode_sub W values createBaseValue bs)
        (\<lambda>v. message\<lparr>list_values := list_values message @ [Value_unwrap v]\<rparr>)
      else skip_field W tag message bs)"

primrec Value_field :: "wire_lib \<Rightarrow> nat \<Rightarrow> Value field_reader" where
  "Value_field W 0 = (\<lambda>tag message bs. None)"
| "Value_field W (Suc depth) =
     Value_body W (Struct_body W (Struct_FieldsEntry_body W (Value_field W depth)))
       (ListValue_body W (Value_field W depth))"

definition Value_decode :: "wire_lib \<Rightarrow> bytes \<Rightarrow> (string + Value) option" where
  "Value_decode W input = decode_message W (Value_field W (Suc (length input))) createBaseValue input"

definition Struct_decode :: "wire_lib \<Rightarrow> bytes \<Rightarrow> (string + Struct) option" where
  "Struct_decode W input =
     decode_message W (Struct_body W (Struct_FieldsEntry_body W (Value_field W (Suc (length input)))))
       createBaseStruct input"

definition Struct_FieldsEntry_decode :: "wire_lib \<Rightarrow> bytes \<Rightarrow> (string + Struct_FieldsEntry) option" where
  "Struct_FieldsEntry_decode W input =
     decode_message W (Struct_FieldsEntry_body W (Value_field W (Suc (length input))))
       createBaseStruct_FieldsEntry input"

definition ListValue_decode :: "wire_lib \<Rightarrow> bytes \<Rightarrow> (string + ListValue) option" where
  "ListValue_decode W input =
     decode_message W (ListValue_body W (Value_field W (Suc (length input)))) createBaseListValue input"


section \<open>Decoding ends\<close>

lemma value_body_total:
  assumes "wire_spec W" and "total_below n structs" and "total_below n arrays"
  shows "total_below (Suc n) (Value_body W structs arrays)"
  using decode_sub_total [OF assms(1,2)] decode_sub_total [OF assms(1,3)]
  by (simp add: total_below_def Value_body_def read_ok_reads [OF assms(1)] read_ok_skip [OF assms(1)])

lemma struct_body_total:
  assumes "wire_spec W" and "total_below n entries"
  shows "total_below n (Struct_body W entries)"
  using decode_sub_total [OF assms]
  by (simp add: total_below_def Struct_body_def read_ok_skip [OF assms(1)])

lemma entry_body_total:
  assumes "wire_spec W" and "total_below n values"
  shows "total_below n (Struct_FieldsEntry_body W values)"
  using decode_sub_total [OF assms]
  by (simp add: total_below_def Struct_FieldsEntry_body_def read_ok_reads [OF assms(1)] read_ok_skip [OF assms(1)])

lemma list_body_total:
  assumes "wire_spec W" and "total_below n values"
  shows "total_below n (ListValue_body W values)"
  using decode_sub_total [OF assms]
  by (simp add: total_below_def ListValue_body_def read_ok_skip [OF assms(1)])

lemmas body_totals = value_body_total struct_body_total entry_body_total list_body_total

lemma value_field_total: "wire_spec W \<Longrightarrow> total_below n (Value_field W n)"
proof (induction n)
  case (Suc n)
  then show ?case by (simp add: body_totals)
qed (simp add: total_below_def)

lemma value_field_below: "wire_spec W \<Longrightarrow> total_below n (Value_field W (Suc n))"
  using value_field_total [of W "Suc n"] by (simp add: total_below_def)

text \<open>
  C40: Decoding a struct message returns a message or raises an exception on any bytes whatever,
  however deeply the lengths in them nest: neither the loop nor the recursion runs on for ever.
\<close>
theorem struct_decoding_ends:
  assumes "wire_spec W"
  shows "Value_decode W input \<noteq> None \<and> Struct_decode W input \<noteq> None \<and>
    Struct_FieldsEntry_decode W input \<noteq> None \<and> ListValue_decode W input \<noteq> None"
  unfolding Value_decode_def Struct_decode_def Struct_FieldsEntry_decode_def ListValue_decode_def
  using assms by (intro conjI decode_total) (simp_all add: value_field_below body_totals del: Value_field.simps)


section \<open>The round trip\<close>

text \<open>
  The values that can be sent: no function, symbol or big integer in them, numbers a double holds exactly,
  and the keys of an object distinct. What arrives is the value without the undefined members of its objects.
\<close>

fun supported :: "jsany \<Rightarrow> bool" where
  "supported (ANum n) = safe_int n"
| "supported (AArr xs) = (\<forall>x \<in> set xs. supported x)"
| "supported (AObj ms) = (distinct (map fst ms) \<and> (\<forall>(k, v) \<in> set ms. supported v))"
| "supported (AOther t) = False"
| "supported v = True"

definition defined_members :: "(string \<times> jsany) list \<Rightarrow> (string \<times> jsany) list" where
  "defined_members ms = filter (\<lambda>(k, v). v \<noteq> AUndef) ms"

function sent :: "jsany \<Rightarrow> jsany" where
  "sent (AArr xs) = AArr (map sent xs)"
| "sent (AObj ms) = AObj (map (\<lambda>(k, v). (k, sent v)) (defined_members ms))"
| "sent AUndef = AUndef" | "sent ANull = ANull" | "sent (ABool b) = ABool b" | "sent (ANum n) = ANum n"
| "sent (AStr s) = AStr s" | "sent (AOther t) = AOther t"
  by pat_completeness auto

termination
proof (relation "measure size", goal_cases)
  case (2 xs x)
  then show ?case using size_element [of x xs] by simp
next
  case (3 ms z k v)
  then have "size v + 2 \<le> members_size ms"
    by (intro members_size_member [of k]) (auto simp: defined_members_def)
  moreover have "members_size ms \<le> size (AObj ms)" by (induction ms) auto
  ultimately show ?case by simp
qed simp

lemma sent_undefined [simp]: "sent v = AUndef \<longleftrightarrow> v = AUndef"
  by (cases v) auto

lemma obj_set_new: "k \<notin> fst ` set ob \<Longrightarrow> obj_set k v ob = ob @ [(k, v)]"
  by (induction ob) auto

lemma copy_members_new:
  "distinct (map fst ms) \<Longrightarrow> fst ` set ms \<inter> fst ` set ob = {} \<Longrightarrow> copy_members ms ob = ob @ ms"
proof (induction ms arbitrary: ob)
  case (Cons m ms)
  obtain k v where m: "m = (k, v)" by (cases m)
  with Cons show ?case by (simp add: copy_members_def obj_set_new)
qed (simp add: copy_members_def)

lemma copy_members_id [simp]: "distinct (map fst ms) \<Longrightarrow> copy_members ms [] = ms"
  by (simp add: copy_members_new)

lemma parts_Cons_Inr: "enc_parts (r # rs) = Inr b \<longleftrightarrow> (\<exists>x y. r = Inr x \<and> enc_parts rs = Inr y \<and> b = x @ y)"
  by (cases r; cases "enc_parts rs") auto

text \<open>A value that is written and read back.\<close>

definition value_travels :: "wire_lib \<Rightarrow> jsany \<Rightarrow> bool" where
  "value_travels W v \<longleftrightarrow> (\<exists>m b. Value_wrap v = Inr m \<and> Value_encode W m = Inr b \<and>
     (\<forall>n. length b < 2 ^ 32 \<longrightarrow> length b < n \<longrightarrow>
        (\<exists>m'. written W (Value_field W n) createBaseValue b m' \<and> Value_unwrap m' = sent v)))"

text \<open>The message of a value inside another, read and unwrapped wherever it is stored.\<close>

lemma value_sub:
  assumes W: "wire_spec W" and v: "value_travels W v"
  shows "\<exists>b. (\<forall>tag. wrapped v (\<lambda>m. sub W tag (Value_encode W m)) = Inr (w_uint32 W tag @ w_ldelim W b)) \<and>
    (\<forall>n rest (f :: jsany \<Rightarrow> 'm). length b < 2 ^ 32 \<longrightarrow> length b < n \<longrightarrow>
       store_read (decode_sub W (Value_field W n) createBaseValue (w_ldelim W b @ rest)) (\<lambda>m. f (Value_unwrap m)) =
         Some (Inr (f (sent v), rest)))"
proof -
  from v obtain m b where b: "Value_wrap v = Inr m" "Value_encode W m = Inr b"
    "\<And>n. length b < 2 ^ 32 \<Longrightarrow> length b < n \<Longrightarrow>
       \<exists>m'. written W (Value_field W n) createBaseValue b m' \<and> Value_unwrap m' = sent v"
    unfolding value_travels_def by blast
  have "store_read (decode_sub W (Value_field W n) createBaseValue (w_ldelim W b @ rest)) (\<lambda>m. f (Value_unwrap m)) =
      Some (Inr (f (sent v), rest))" if "length b < 2 ^ 32" "length b < n" for n rest and f :: "jsany \<Rightarrow> 'm"
    using b(3) [OF that] sub_written [OF W _ that(1)] by fastforce
  then show ?thesis using b(1,2) by (intro exI [of _ b]) (simp add: wrapped_def sub_def)
qed

lemma list_travels:
  assumes W: "wire_spec W" and "\<forall>x \<in> set xs. value_travels W x"
  shows "\<exists>b. ListValue_encode W \<lparr>list_values = xs\<rparr> = Inr b \<and>
    (\<forall>n ys. length b < 2 ^ 32 \<longrightarrow> length b < n \<longrightarrow>
       written W (ListValue_body W (Value_field W n)) \<lparr>list_values = ys\<rparr> b \<lparr>list_values = ys @ map sent xs\<rparr>)"
  using assms(2)
proof (induction xs)
  case Nil
  then show ?case by (simp add: ListValue_encode.simps written_none)
next
  case (Cons x xs)
  from Cons.prems have "value_travels W x" by simp
  then obtain b where b: "wrapped x (\<lambda>m. sub W 10 (Value_encode W m)) = Inr (w_uint32 W 10 @ w_ldelim W b)"
    "\<And>n rest (f :: jsany \<Rightarrow> ListValue). length b < 2 ^ 32 \<Longrightarrow> length b < n \<Longrightarrow>
       store_read (decode_sub W (Value_field W n) createBaseValue (w_ldelim W b @ rest)) (\<lambda>m. f (Value_unwrap m)) =
         Some (Inr (f (sent x), rest))"
    using value_sub [OF W, of x, where 'm = ListValue] by metis
  from Cons obtain c where c: "ListValue_encode W \<lparr>list_values = xs\<rparr> = Inr c"
    "\<And>n ys. length c < 2 ^ 32 \<Longrightarrow> length c < n \<Longrightarrow>
       written W (ListValue_body W (Value_field W n)) \<lparr>list_values = ys\<rparr> c \<lparr>list_values = ys @ map sent xs\<rparr>"
    by auto
  let ?a = "w_uint32 W 10 @ w_ldelim W b"
  have "written W (ListValue_body W (Value_field W n)) \<lparr>list_values = ys\<rparr> (?a @ c)
      \<lparr>list_values = ys @ map sent (x # xs)\<rparr>"
    if n: "length (?a @ c) < 2 ^ 32" "length (?a @ c) < n" for n ys
  proof (rule written_append)
    have "length b < length ?a" using wire_ldelim_longer [OF W, of b] by simp
    then have "length b < 2 ^ 32" "length b < n" using n by auto
    then show "written W (ListValue_body W (Value_field W n)) \<lparr>list_values = ys\<rparr> ?a \<lparr>list_values = ys @ [sent x]\<rparr>"
      using b(2) [where f = "\<lambda>v. \<lparr>list_values = ys @ [v]\<rparr>"]
      by (intro written_field) (simp_all add: ListValue_body_def)
    show "written W (ListValue_body W (Value_field W n)) \<lparr>list_values = ys @ [sent x]\<rparr> c
        \<lparr>list_values = ys @ map sent (x # xs)\<rparr>"
      using c(2) [of n "ys @ [sent x]"] n by simp
  qed
  then show ?case using b(1) c(1) by (intro exI [of _ "?a @ c"]) (simp add: ListValue_encode.simps)
qed

lemma entry_travels:
  assumes W: "wire_spec W" and v: "value_travels W v" "v \<noteq> AUndef"
  shows "\<exists>b. Struct_FieldsEntry_encode W \<lparr>entry_key = k, entry_value = v\<rparr> = Inr b \<and>
    (\<forall>n. length b < 2 ^ 32 \<longrightarrow> length b < n \<longrightarrow>
       written W (Struct_FieldsEntry_body W (Value_field W n)) createBaseStruct_FieldsEntry b
         \<lparr>entry_key = k, entry_value = sent v\<rparr>)"
proof -
  from v obtain b where b: "wrapped v (\<lambda>m. sub W 18 (Value_encode W m)) = Inr (w_uint32 W 18 @ w_ldelim W b)"
    "\<And>n rest (f :: jsany \<Rightarrow> Struct_FieldsEntry). length b < 2 ^ 32 \<Longrightarrow> length b < n \<Longrightarrow>
       store_read (decode_sub W (Value_field W n) createBaseValue (w_ldelim W b @ rest)) (\<lambda>m. f (Value_unwrap m)) =
         Some (Inr (f (sent v), rest))"
    using value_sub [OF W, of v, where 'm = Struct_FieldsEntry] by metis
  let ?key = "if k \<noteq> [] then w_uint32 W 10 @ w_string W k else []"
  let ?a = "w_uint32 W 18 @ w_ldelim W b"
  have "written W (Struct_FieldsEntry_body W (Value_field W n)) createBaseStruct_FieldsEntry (?key @ ?a)
      \<lparr>entry_key = k, entry_value = sent v\<rparr>"
    if n: "length (?key @ ?a) < 2 ^ 32" "length (?key @ ?a) < n" for n
  proof (rule written_append)
    show "written W (Struct_FieldsEntry_body W (Value_field W n)) createBaseStruct_FieldsEntry ?key
        \<lparr>entry_key = k, entry_value = AUndef\<rparr>"
      by (intro written_if written_field)
        (simp_all add: Struct_FieldsEntry_body_def createBaseStruct_FieldsEntry_def wire_reads [OF W])
    have "length b < length ?a" using wire_ldelim_longer [OF W, of b] by simp
    then have "length b < 2 ^ 32" "length b < n" using n by auto
    then show "written W (Struct_FieldsEntry_body W (Value_field W n)) \<lparr>entry_key = k, entry_value = AUndef\<rparr> ?a
        \<lparr>entry_key = k, entry_value = sent v\<rparr>"
      using b(2) [where f = "\<lambda>v. \<lparr>entry_key = k, entry_value = v\<rparr>"]
      by (intro written_field) (simp_all add: Struct_FieldsEntry_body_def)
  qed
  then show ?thesis
    using b(1) v(2) by (intro exI [of _ "?key @ ?a"]) (simp add: Struct_FieldsEntry_encode.simps)
qed

text \<open>The members of a struct, read after those that are there.\<close>

lemma struct_travels:
  assumes W: "wire_spec W" and "\<forall>(k, v) \<in> set ms. value_travels W v" and "distinct (map fst ms)"
  shows "\<exists>b. Struct_encode W \<lparr>struct_fields = ms\<rparr> = Inr b \<and>
    (\<forall>n ob. length b < 2 ^ 32 \<longrightarrow> length b < n \<longrightarrow> fst ` set ms \<inter> fst ` set ob = {} \<longrightarrow>
       written W (Struct_body W (Struct_FieldsEntry_body W (Value_field W n))) \<lparr>struct_fields = ob\<rparr> b
         \<lparr>struct_fields = ob @ map (\<lambda>(k, v). (k, sent v)) (defined_members ms)\<rparr>)"
  using assms(2,3)
proof (induction ms)
  case Nil
  then show ?case by (simp add: Struct_encode.simps written_none defined_members_def)
next
  case (Cons m ms)
  obtain k v where m: "m = (k, v)" by (cases m)
  from Cons m obtain c where c: "Struct_encode W \<lparr>struct_fields = ms\<rparr> = Inr c"
    "\<And>n ob. length c < 2 ^ 32 \<Longrightarrow> length c < n \<Longrightarrow> fst ` set ms \<inter> fst ` set ob = {} \<Longrightarrow>
       written W (Struct_body W (Struct_FieldsEntry_body W (Value_field W n))) \<lparr>struct_fields = ob\<rparr> c
         \<lparr>struct_fields = ob @ map (\<lambda>(k, v). (k, sent v)) (defined_members ms)\<rparr>"
    by auto
  show ?case
  proof (cases "v = AUndef")
    case True
    then show ?thesis
      using c by (intro exI [of _ c]) (auto simp: m Struct_encode.simps defined_members_def)
  next
    case False
    obtain b where b: "Struct_FieldsEntry_encode W \<lparr>entry_key = k, entry_value = v\<rparr> = Inr b"
      "\<And>n. length b < 2 ^ 32 \<Longrightarrow> length b < n \<Longrightarrow>
         written W (Struct_FieldsEntry_body W (Value_field W n)) createBaseStruct_FieldsEntry b
           \<lparr>entry_key = k, entry_value = sent v\<rparr>"
      using entry_travels [OF W _ False] Cons.prems m by fastforce
    let ?a = "w_uint32 W 10 @ w_ldelim W b"
    have "written W (Struct_body W (Struct_FieldsEntry_body W (Value_field W n))) \<lparr>struct_fields = ob\<rparr> (?a @ c)
        \<lparr>struct_fields = ob @ map (\<lambda>(k, v). (k, sent v)) (defined_members (m # ms))\<rparr>"
      if n: "length (?a @ c) < 2 ^ 32" "length (?a @ c) < n" and ob: "fst ` set (m # ms) \<inter> fst ` set ob = {}" for n ob
    proof (rule written_append)
      have "length b < length ?a" using wire_ldelim_longer [OF W, of b] by simp
      then have "length b < 2 ^ 32" "length b < n" using n by auto
      from sub_written [OF W b(2) [OF this] this(1)] False ob m
      show "written W (Struct_body W (Struct_FieldsEntry_body W (Value_field W n))) \<lparr>struct_fields = ob\<rparr> ?a
          \<lparr>struct_fields = ob @ [(k, sent v)]\<rparr>"
        by (intro written_field) (simp_all add: Struct_body_def obj_set_new)
      show "written W (Struct_body W (Struct_FieldsEntry_body W (Value_field W n)))
          \<lparr>struct_fields = ob @ [(k, sent v)]\<rparr> c
          \<lparr>struct_fields = ob @ map (\<lambda>(k, v). (k, sent v)) (defined_members (m # ms))\<rparr>"
        using c(2) [of n "ob @ [(k, sent v)]"] n ob False Cons.prems by (auto simp: m defined_members_def)
    qed
    then show ?thesis
      using b(1) c(1) False by (intro exI [of _ "?a @ c"]) (simp add: m Struct_encode.simps sub_def)
  qed
qed


lemma distinct_defined: "distinct (map fst ms) \<Longrightarrow> distinct (map fst (map (\<lambda>(k, v). (k, sent v)) (defined_members ms)))"
  by (induction ms) (auto simp: defined_members_def rev_image_eqI)

text \<open>What a message with one member set writes, and how it is read.\<close>

lemma travels_plain:
  assumes "wire_spec W" and "Value_wrap v = Inr m"
    and "Value_encode W m = Inr (w_uint32 W tag @ pay)" and "tag < 2 ^ 32"
    and "\<And>n rest. Value_field W (Suc n) tag createBaseValue (pay @ rest) = Some (Inr (m, rest))"
    and "Value_unwrap m = sent v"
  shows "value_travels W v"
proof -
  have "written W (Value_field W n) createBaseValue (w_uint32 W tag @ pay) m"
    if "length (w_uint32 W tag @ pay) < n" for n
    using that assms(4,5) by (cases n) (auto intro!: written_field simp del: Value_field.simps)
  then show ?thesis using assms(2,3,6) unfolding value_travels_def by blast
qed

lemma array_travels:
  assumes "wire_spec W" and "\<forall>x \<in> set xs. value_travels W x"
  shows "value_travels W (AArr xs)"
proof -
  from list_travels [OF assms] obtain b where b: "ListValue_encode W \<lparr>list_values = xs\<rparr> = Inr b"
    "\<And>n ys. length b < 2 ^ 32 \<Longrightarrow> length b < n \<Longrightarrow>
       written W (ListValue_body W (Value_field W n)) \<lparr>list_values = ys\<rparr> b \<lparr>list_values = ys @ map sent xs\<rparr>"
    by blast
  let ?a = "w_uint32 W 50 @ w_ldelim W b"
  have enc: "Value_encode W (createBaseValue\<lparr>listValue := Some xs\<rparr>) = Inr ?a"
    using b(1) by (simp add: Value_encode.simps createBaseValue_def when_some_def sub_def ListValue_wrap_def
        createBaseListValue_def)
  have "written W (Value_field W n) createBaseValue ?a (createBaseValue\<lparr>listValue := Some (map sent xs)\<rparr>)"
    if n: "length ?a < 2 ^ 32" "length ?a < n" for n
  proof -
    obtain d where d: "n = Suc d" using n(2) by (cases n) auto
    have "length b < length (w_ldelim W b)" "0 < length (w_uint32 W 50)"
      using wire_ldelim_longer wire_nonempty assms(1) by auto
    then have "length b < 2 ^ 32" "length b < d" using n d by (simp_all del: length_greater_0_conv)
    from sub_written [OF assms(1) b(2) [OF this, of "[]"] this(1)] show ?thesis
      unfolding d by (intro written_field) (simp_all add: Value_body_def createBaseListValue_def ListValue_unwrap_def)
  qed
  then show ?thesis using enc unfolding value_travels_def
    by (intro exI [of _ "createBaseValue\<lparr>listValue := Some xs\<rparr>"] exI [of _ ?a])
      (auto intro!: exI [of _ "createBaseValue\<lparr>listValue := Some (map sent xs)\<rparr>"]
        simp: Value_unwrap_def createBaseValue_def simp del: length_append)
qed

lemma object_travels:
  assumes "wire_spec W" and "\<forall>(k, v) \<in> set ms. value_travels W v" and "distinct (map fst ms)"
  shows "value_travels W (AObj ms)"
proof -
  note dist = assms(3)
  from struct_travels [OF assms] obtain b where
    b: "Struct_encode W \<lparr>struct_fields = ms\<rparr> = Inr b" and
    any: "\<forall>n ob. length b < 2 ^ 32 \<longrightarrow> length b < n \<longrightarrow> fst ` set ms \<inter> fst ` set ob = {} \<longrightarrow>
       written W (Struct_body W (Struct_FieldsEntry_body W (Value_field W n))) \<lparr>struct_fields = ob\<rparr> b
         \<lparr>struct_fields = ob @ map (\<lambda>(k, v). (k, sent v)) (defined_members ms)\<rparr>" by blast
  have rd: "written W (Struct_body W (Struct_FieldsEntry_body W (Value_field W n))) \<lparr>struct_fields = []\<rparr> b
      \<lparr>struct_fields = map (\<lambda>(k, v). (k, sent v)) (defined_members ms)\<rparr>"
    if "length b < 2 ^ 32" "length b < n" for n
    using any [rule_format, OF that, of "[]"] by simp
  let ?a = "w_uint32 W 42 @ w_ldelim W b" and ?ms = "map (\<lambda>(k, v). (k, sent v)) (defined_members ms)"
  have enc: "Value_encode W (createBaseValue\<lparr>structValue := Some (AObj ms)\<rparr>) = Inr ?a"
    using b dist by (simp add: Value_encode.simps createBaseValue_def when_some_def sub_def Struct_wrap_def
        createBaseStruct_def)
  have "written W (Value_field W n) createBaseValue ?a (createBaseValue\<lparr>structValue := Some (AObj ?ms)\<rparr>)"
    if n: "length ?a < 2 ^ 32" "length ?a < n" for n
  proof -
    obtain d where d: "n = Suc d" using n(2) by (cases n) auto
    have "length b < length (w_ldelim W b)" "0 < length (w_uint32 W 42)"
      using wire_ldelim_longer wire_nonempty assms(1) by auto
    then have "length b < 2 ^ 32" "length b < d" using n d by (simp_all del: length_greater_0_conv)
    from sub_written [OF assms(1) rd [OF this] this(1)] distinct_defined [OF dist] show ?thesis
      unfolding d by (intro written_field) (simp_all add: Value_body_def createBaseStruct_def Struct_unwrap_def)
  qed
  then show ?thesis using enc unfolding value_travels_def
    by (intro exI [of _ "createBaseValue\<lparr>structValue := Some (AObj ms)\<rparr>"] exI [of _ ?a])
      (auto intro!: exI [of _ "createBaseValue\<lparr>structValue := Some (AObj ?ms)\<rparr>"]
        simp: Value_unwrap_def createBaseValue_def simp del: length_append)
qed

lemma supported_travels: "wire_spec W \<Longrightarrow> supported v \<Longrightarrow> value_travels W v"
proof (induction v)
  case AUndef
  have "Value_encode W createBaseValue = Inr []"
    by (simp add: Value_encode.simps createBaseValue_def when_some_def)
  then show ?case
    by (auto simp: value_travels_def createBaseValue_def Value_unwrap_def intro!: exI [of _ createBaseValue] written_none)
next
  case ANull
  then show ?case
    by (intro travels_plain [where m = "createBaseValue\<lparr>nullValue := Some NULL_VALUE\<rparr>" and tag = 8 and pay = "w_int32 W 0"])
      (simp_all add: Value_encode.simps createBaseValue_def when_some_def NULL_VALUE_def Value_body_def
        wire_reads Value_unwrap_def)
next
  case (ABool b)
  then show ?case
    by (intro travels_plain [where m = "createBaseValue\<lparr>boolValue := Some b\<rparr>" and tag = 32 and pay = "w_bool W b"])
      (simp_all add: Value_encode.simps createBaseValue_def when_some_def Value_body_def wire_reads Value_unwrap_def)
next
  case (ANum n)
  then show ?case
    by (intro travels_plain [where m = "createBaseValue\<lparr>numberValue := Some n\<rparr>" and tag = 17 and pay = "w_double W n"])
      (simp_all add: Value_encode.simps createBaseValue_def when_some_def Value_body_def wire_reads Value_unwrap_def)
next
  case (AStr s)
  then show ?case
    by (intro travels_plain [where m = "createBaseValue\<lparr>stringValue := Some s\<rparr>" and tag = 26 and pay = "w_string W s"])
      (simp_all add: Value_encode.simps createBaseValue_def when_some_def Value_body_def wire_reads Value_unwrap_def)
next
  case (AArr xs)
  then show ?case by (intro array_travels) auto
next
  case (AObj ms)
  then show ?case by (intro object_travels) fastforce+
qed simp

text \<open>
  C39: A value that can be sent is written without an exception, and what \<open>decode\<close> reads from the bytes
  unwraps to the value again, all its arrays and objects included, less the undefined members of its objects.
\<close>
theorem struct_values_survive:
  assumes "wire_spec W" and "supported v"
  shows "\<exists>m b. Value_wrap v = Inr m \<and> Value_encode W m = Inr b \<and>
    (length b < 2 ^ 32 \<longrightarrow> (\<exists>m'. Value_decode W b = Some (Inr m') \<and> Value_unwrap m' = sent v))"
proof -
  from supported_travels [OF assms] obtain m b where "Value_wrap v = Inr m" "Value_encode W m = Inr b"
    "\<And>n. length b < 2 ^ 32 \<Longrightarrow> length b < n \<Longrightarrow>
       \<exists>m'. written W (Value_field W n) createBaseValue b m' \<and> Value_unwrap m' = sent v"
    unfolding value_travels_def by blast
  moreover have "\<exists>m'. Value_decode W b = Some (Inr m') \<and> Value_unwrap m' = sent v" if "length b < 2 ^ 32"
    using calculation(3) [OF that, of "Suc (length b)"] decode_written [OF assms(1)]
    unfolding Value_decode_def by (metis lessI)
  ultimately show ?thesis by blast
qed

text \<open>A value that cannot be sent raises, wherever in an array it is.\<close>

lemma parts_raise: "Inl e \<in> set ps \<Longrightarrow> \<exists>e'. enc_parts ps = Inl e'"
proof (induction ps)
  case (Cons p ps)
  then show ?case by (cases p) auto
qed simp

lemma function_in_array_raises: "AOther t \<in> set xs \<Longrightarrow> \<exists>e. ListValue_encode W \<lparr>list_values = xs\<rparr> = Inl e"
  by (auto simp: ListValue_encode.simps wrapped_def image_iff intro!: parts_raise bexI [of _ "AOther t"])


section \<open>JSON\<close>

definition Struct_fromJSON :: "jsany \<Rightarrow> string + Struct" where
  "Struct_fromJSON object = map_sum id
     (\<lambda>f. \<lparr>struct_fields = (if isObject f then copy_members (object_entries_of f) [] else [])\<rparr>)
     (get_member object ''fields'')"

definition Struct_toJSON :: "Struct \<Rightarrow> jsany" where
  "Struct_toJSON message = AObj [(''fields'', AObj (copy_members (struct_fields message) []))]"

definition Struct_fromPartial :: "jsany \<Rightarrow> string + Struct" where
  "Struct_fromPartial object = map_sum id
     (\<lambda>f. createBaseStruct\<lparr>struct_fields := copy_members (defined_members (object_entries_of f)) []\<rparr>)
     (get_member object ''fields'')"

definition Struct_FieldsEntry_fromJSON :: "conv_lib \<Rightarrow> jsany \<Rightarrow> string + Struct_FieldsEntry" where
  "Struct_FieldsEntry_fromJSON C object = map_sum id
     (\<lambda>k. \<lparr>entry_key = (if isSet k then js_String C k else []),
         entry_value = (if isSet (member_chain object ''value'') then member_chain object ''value'' else AUndef)\<rparr>)
     (get_member object ''key'')"

definition Struct_FieldsEntry_toJSON :: "Struct_FieldsEntry \<Rightarrow> jsany" where
  "Struct_FieldsEntry_toJSON message = AObj
     ([(''key'', AStr (entry_key message))] @
      (if entry_value message \<noteq> AUndef then [(''value'', entry_value message)] else []))"

definition opt_member :: "string \<Rightarrow> ('a \<Rightarrow> jsany) \<Rightarrow> 'a option \<Rightarrow> (string \<times> jsany) list" where
  "opt_member k f v = (case v of None \<Rightarrow> [] | Some x \<Rightarrow> [(k, f x)])"

definition if_set :: "(jsany \<Rightarrow> 'a) \<Rightarrow> jsany \<Rightarrow> 'a option" where
  "if_set f v = (if isSet v then Some (f v) else None)"

text \<open>The first member that is read raises on null and undefined; from then on the object is known.\<close>

definition Value_fromJSON :: "conv_lib \<Rightarrow> jsany \<Rightarrow> string + Value" where
  "Value_fromJSON C object = map_sum id
     (\<lambda>n. \<lparr>nullValue = if_set nullValueFromJSON n,
         numberValue = if_set (js_Number C) (member_chain object ''numberValue''),
         stringValue = if_set (js_String C) (member_chain object ''stringValue''),
         boolValue = if_set js_Boolean (member_chain object ''boolValue''),
         structValue = (if isObject (member_chain object ''structValue'')
                        then Some (member_chain object ''structValue'') else None),
         listValue = (case member_chain object ''listValue'' of AArr xs \<Rightarrow> Some xs | _ \<Rightarrow> None)\<rparr>)
     (get_member object ''nullValue'')"

definition Value_toJSON :: "Value \<Rightarrow> jsany" where
  "Value_toJSON message = AObj
     (opt_member ''nullValue'' (\<lambda>n. AStr (nullValueToJSON n)) (nullValue message) @
      opt_member ''numberValue'' ANum (numberValue message) @
      opt_member ''stringValue'' AStr (stringValue message) @
      opt_member ''boolValue'' ABool (boolValue message) @
      opt_member ''structValue'' id (structValue message) @
      opt_member ''listValue'' AArr (listValue message))"

definition ListValue_fromJSON :: "jsany \<Rightarrow> ListValue" where
  "ListValue_fromJSON object =
     \<lparr>list_values = (case member_chain object ''values'' of AArr xs \<Rightarrow> xs | _ \<Rightarrow> [])\<rparr>"

definition ListValue_toJSON :: "ListValue \<Rightarrow> jsany" where
  "ListValue_toJSON message = AObj [(''values'', AArr (list_values message))]"

text \<open>A value as the types allow it: one of the two null values, and an object as a struct.\<close>

definition value_ok :: "Value \<Rightarrow> bool" where
  "value_ok m \<longleftrightarrow>
     (case nullValue m of None \<Rightarrow> True | Some n \<Rightarrow> n = NULL_VALUE \<or> n = NULL_UNRECOGNIZED) \<and>
     (case structValue m of None \<Rightarrow> True | Some v \<Rightarrow> isObject v)"

definition opt_any :: "('a \<Rightarrow> jsany) \<Rightarrow> 'a option \<Rightarrow> jsany" where
  "opt_any f v = (case v of None \<Rightarrow> AUndef | Some x \<Rightarrow> f x)"

lemma opt_member_get [simp]:
  "obj_get (opt_member k f v) j = (if j = k then map_option f v else None)"
  "obj_get (opt_member k f v @ ms) j = (if j = k \<and> v \<noteq> None then map_option f v else obj_get ms j)"
  by (auto simp: opt_member_def split: option.splits)

lemma value_json_members:
  "member_chain (Value_toJSON m) ''nullValue'' = opt_any (\<lambda>n. AStr (nullValueToJSON n)) (nullValue m)"
  "member_chain (Value_toJSON m) ''numberValue'' = opt_any ANum (numberValue m)"
  "member_chain (Value_toJSON m) ''stringValue'' = opt_any AStr (stringValue m)"
  "member_chain (Value_toJSON m) ''boolValue'' = opt_any ABool (boolValue m)"
  "member_chain (Value_toJSON m) ''structValue'' = opt_any id (structValue m)"
  "member_chain (Value_toJSON m) ''listValue'' = opt_any AArr (listValue m)"
  by (auto simp: member_chain_def Value_toJSON_def opt_any_def split: option.splits)

lemma if_set_opt: "(\<And>x. v = Some x \<Longrightarrow> isSet (g x) \<and> f (g x) = x) \<Longrightarrow> if_set f (opt_any g v) = v"
  by (cases v) (auto simp: if_set_def opt_any_def isSet_def)

lemma value_json_round_trip:
  assumes "conv_spec C" and "value_ok m"
  shows "Value_fromJSON C (Value_toJSON m) = Inr m"
proof -
  have null: "if_set nullValueFromJSON (opt_any (\<lambda>n. AStr (nullValueToJSON n)) (nullValue m)) = nullValue m"
    using assms(2) by (intro if_set_opt) (auto simp: value_ok_def isSet_def nullValueFromJSON_def nullValueToJSON_def
        NULL_VALUE_def NULL_UNRECOGNIZED_def)
  have plain: "if_set (js_Number C) (opt_any ANum (numberValue m)) = numberValue m"
    "if_set (js_String C) (opt_any AStr (stringValue m)) = stringValue m"
    "if_set js_Boolean (opt_any ABool (boolValue m)) = boolValue m"
    using assms(1) by (auto intro!: if_set_opt simp: conv_spec_def isSet_def)
  have struct: "(if isObject (opt_any id (structValue m)) then Some (opt_any id (structValue m)) else None) = structValue m"
    using assms(2) by (auto simp: value_ok_def opt_any_def split: option.splits)
  have list: "(case opt_any AArr (listValue m) of AArr xs \<Rightarrow> Some xs | _ \<Rightarrow> None) = listValue m"
    by (simp add: opt_any_def split: option.splits)
  have "get_member (Value_toJSON m) ''nullValue'' = Inr (member_chain (Value_toJSON m) ''nullValue'')"
    by (simp add: get_member_def isSet_def Value_toJSON_def)
  then show ?thesis unfolding Value_fromJSON_def value_json_members null plain struct list by (simp add: null)
qed

lemma struct_json_round_trip: "distinct (map fst (struct_fields m)) \<Longrightarrow> Struct_fromJSON (Struct_toJSON m) = Inr m"
  by (simp add: Struct_fromJSON_def Struct_toJSON_def get_member_def isSet_def member_chain_def)

text \<open>The JSON of a wrapped value is an object that names its kind, never the value, as the comments have it.\<close>

lemma value_json_is_not_the_value: "Value_wrap v = Inr m \<Longrightarrow> Value_toJSON m \<noteq> v"
proof
  assume "Value_wrap v = Inr m" "Value_toJSON m = v"
  then have "size (Value_toJSON m) = size v" "Value_wrap v = Inr m" by simp_all
  then show False
    by (cases v) (auto simp: Value_toJSON_def opt_member_def createBaseValue_def)
qed

lemma struct_json_is_not_the_object:
  assumes "distinct (map fst ms)"
  shows "Struct_toJSON (Struct_wrap (AObj ms)) \<noteq> AObj ms"
proof
  assume "Struct_toJSON (Struct_wrap (AObj ms)) = AObj ms"
  then have "size (AObj [(''fields'', AObj ms)]) = size (AObj ms)"
    using assms by (simp add: Struct_toJSON_def Struct_wrap_def createBaseStruct_def)
  then show False by simp
qed


section \<open>Witnesses\<close>

definition sample_any :: jsany where
  "sample_any = AObj [(''on'', ABool True), (''gone'', AUndef), (''at'', AArr [ANum 443, ANull])]"

lemmas wire_eval = sample_wire_def delimited_def varint.simps zigzag_def enc_parts.simps when_some_def wrapped_def sub_def
  createBaseValue_def createBaseListValue_def createBaseStruct_def Struct_wrap_def ListValue_wrap_def copy_members_def

lemma scalars_written:
  "Value_encode sample_wire (createBaseValue\<lparr>boolValue := Some True\<rparr>) = Inr [32, 1]"
  "Value_encode sample_wire (createBaseValue\<lparr>nullValue := Some NULL_VALUE\<rparr>) = Inr [8, 0]"
  "Value_encode sample_wire (createBaseValue\<lparr>numberValue := Some 443\<rparr>) = Inr [17, 246, 6]"
  by (subst Value_encode.simps, simp add: wire_eval NULL_VALUE_def)+

lemma list_written:
  "ListValue_encode sample_wire \<lparr>list_values = [ANum 443, ANull]\<rparr> = Inr [10, 3, 17, 246, 6, 10, 2, 8, 0]"
  by (subst ListValue_encode.simps) (simp add: wrapped_def scalars_written, simp add: wire_eval)

lemma array_written:
  "Value_encode sample_wire (createBaseValue\<lparr>listValue := Some [ANum 443, ANull]\<rparr>) =
     Inr [50, 9, 10, 3, 17, 246, 6, 10, 2, 8, 0]"
  by (subst Value_encode.simps)
    (simp add: when_some_def createBaseValue_def ListValue_wrap_def createBaseListValue_def list_written, simp add: wire_eval)

lemma entries_written:
  "Struct_FieldsEntry_encode sample_wire \<lparr>entry_key = ''on'', entry_value = ABool True\<rparr> =
     Inr [10, 2, 111, 110, 18, 2, 32, 1]"
  "Struct_FieldsEntry_encode sample_wire \<lparr>entry_key = ''at'', entry_value = AArr [ANum 443, ANull]\<rparr> =
     Inr [10, 2, 97, 116, 18, 11, 50, 9, 10, 3, 17, 246, 6, 10, 2, 8, 0]"
  by (subst Struct_FieldsEntry_encode.simps,
      simp add: wrapped_def scalars_written array_written, simp add: wire_eval)+

definition sample_bytes :: bytes where
  "sample_bytes = [42, 29, 10, 8, 10, 2, 111, 110, 18, 2, 32, 1,
     10, 17, 10, 2, 97, 116, 18, 11, 50, 9, 10, 3, 17, 246, 6, 10, 2, 8, 0]"

lemma struct_written:
  "Struct_wrap sample_any = \<lparr>struct_fields = [(''on'', ABool True), (''gone'', AUndef), (''at'', AArr [ANum 443, ANull])]\<rparr>"
  "Struct_encode sample_wire
     \<lparr>struct_fields = [(''on'', ABool True), (''gone'', AUndef), (''at'', AArr [ANum 443, ANull])]\<rparr> = Inr (drop 2 sample_bytes)"
  by (simp add: sample_any_def Struct_wrap_def copy_members_def createBaseStruct_def)
    (subst Struct_encode.simps, simp add: entries_written, simp add: wire_eval sample_bytes_def)

lemma sample_written:
  "Value_encode sample_wire (createBaseValue\<lparr>structValue := Some sample_any\<rparr>) = Inr sample_bytes"
  by (subst Value_encode.simps)
    (simp add: when_some_def createBaseValue_def struct_written, simp add: wire_eval sample_bytes_def)

theorem struct_values_survive_witness:
  "Value_wrap sample_any = Inr (createBaseValue\<lparr>structValue := Some sample_any\<rparr>) \<and>
    Value_encode sample_wire (createBaseValue\<lparr>structValue := Some sample_any\<rparr>) = Inr sample_bytes \<and>
    (\<exists>m. Value_decode sample_wire sample_bytes = Some (Inr m) \<and>
       Value_unwrap m = AObj [(''on'', ABool True), (''at'', AArr [ANum 443, ANull])])"
proof -
  have "supported sample_any" by (simp add: sample_any_def safe_int_def)
  moreover have w: "Value_wrap sample_any = Inr (createBaseValue\<lparr>structValue := Some sample_any\<rparr>)"
    by (simp add: sample_any_def)
  moreover have "length sample_bytes < 2 ^ 32" by (simp add: sample_bytes_def)
  moreover have "sent sample_any = AObj [(''on'', ABool True), (''at'', AArr [ANum 443, ANull])]"
    by (simp add: sample_any_def defined_members_def)
  ultimately show ?thesis
    using struct_values_survive [OF sample_wire_spec, of sample_any] sample_written by auto
qed

theorem struct_decoding_ends_witness:
  "Value_decode sample_wire [42, 255, 255, 255, 7] \<noteq> None \<and> ListValue_decode sample_wire [10, 10, 10] \<noteq> None"
  using struct_decoding_ends [OF sample_wire_spec] by blast

end
