(* ===== verification/Well_Known.thy ===== *)
theory Well_Known
  imports Struct_Values
begin

text \<open>
  The other messages of \<open>src/dashboard/src/gen/google\<close>: \<open>Any\<close>, which carries the custom detail of a
  repository, the wrappers of scalars, and the rules that map a method to HTTP. \<open>wrappers_survive\<close> and
  \<open>http_rules_survive\<close> are their round trips, the latter through nested bindings of any depth;
  \<open>longToNumber\<close> rejects only the integers that are too large, not those that are too small.
\<close>


section \<open>Any\<close>

text \<open>
  The global object of the platform: the writer and the reader of its \<open>Buffer\<close>, if it has one, and
  \<open>btoa\<close> and \<open>atob\<close>, the latter of which raises on a text that is not in base 64.
\<close>

record base64_lib =
  js_Buffer :: "((bytes \<Rightarrow> string) \<times> (string \<Rightarrow> bytes)) option"
  js_btoa :: "string \<Rightarrow> string"
  js_atob :: "string \<Rightarrow> string + string"

definition bytesFromBase64 :: "base64_lib \<Rightarrow> string \<Rightarrow> string + bytes" where
  "bytesFromBase64 B b64 = (case js_Buffer B of
     Some (_, from_base64) \<Rightarrow> Inr (from_base64 b64)
   | None \<Rightarrow> map_sum id (map (\<lambda>c. word_of_nat (of_char c))) (js_atob B b64))"

definition base64FromBytes :: "base64_lib \<Rightarrow> bytes \<Rightarrow> string" where
  "base64FromBytes B arr = (case js_Buffer B of
     Some (to_base64, _) \<Rightarrow> to_base64 arr
   | None \<Rightarrow> js_btoa B (map (\<lambda>b. char_of (unat b)) arr))"

definition base64_spec :: "base64_lib \<Rightarrow> bool" where
  "base64_spec B \<longleftrightarrow> (\<forall>s. js_atob B (js_btoa B s) = Inr s) \<and>
     (case js_Buffer B of None \<Rightarrow> True | Some (enc, dec) \<Rightarrow> \<forall>b. dec (enc b) = b)"

lemma base64_round_trip:
  assumes "base64_spec B"
  shows "bytesFromBase64 B (base64FromBytes B arr) = Inr arr"
proof -
  have "of_char (char_of (unat b)) = unat b" for b :: "8 word"
    using unsigned_less [of b, where ?'a = nat] by simp
  then show ?thesis
    using assms by (auto simp: base64_spec_def bytesFromBase64_def base64FromBytes_def comp_def split: option.splits)
qed

record Any =
  typeUrl :: string
  packed :: bytes

definition createBaseAny :: Any where
  "createBaseAny = \<lparr>typeUrl = [], packed = []\<rparr>"

definition Any_encode :: "wire_lib \<Rightarrow> Any \<Rightarrow> bytes" where
  "Any_encode W message =
     (if typeUrl message \<noteq> [] then w_uint32 W 10 @ w_string W (typeUrl message) else []) @
     (if packed message \<noteq> [] then w_uint32 W 18 @ w_bytes W (packed message) else [])"

definition Any_field :: "wire_lib \<Rightarrow> Any field_reader" where
  "Any_field W tag message bs =
     (if tag div 8 = 1 then store_read (rd (r_string W bs)) (\<lambda>s. message\<lparr>typeUrl := s\<rparr>)
      else if tag div 8 = 2 then store_read (rd (r_bytes W bs)) (\<lambda>b. message\<lparr>packed := b\<rparr>)
      else skip_field W tag message bs)"

definition Any_decode :: "wire_lib \<Rightarrow> bytes \<Rightarrow> (string + Any) option" where
  "Any_decode W input = decode_message W (Any_field W) createBaseAny input"

definition Any_fromJSON :: "conv_lib \<Rightarrow> base64_lib \<Rightarrow> jsany \<Rightarrow> string + Any" where
  "Any_fromJSON C B object = (case get_member object ''typeUrl'' of
     Inl e \<Rightarrow> Inl e
   | Inr t \<Rightarrow> map_sum id (\<lambda>b. \<lparr>typeUrl = (if isSet t then js_String C t else []), packed = b\<rparr>)
       (let v = member_chain object ''value'' in if isSet v then bytesFromBase64 B (js_String C v) else Inr []))"

definition Any_toJSON :: "base64_lib \<Rightarrow> Any \<Rightarrow> jsany" where
  "Any_toJSON B message = AObj [(''typeUrl'', AStr (typeUrl message)), (''value'', AStr (base64FromBytes B (packed message)))]"

definition Any_fromPartial :: "string option \<Rightarrow> bytes option \<Rightarrow> Any" where
  "Any_fromPartial url b =
     \<lparr>typeUrl = (case url of None \<Rightarrow> [] | Some u \<Rightarrow> u), packed = (case b of None \<Rightarrow> [] | Some x \<Rightarrow> x)\<rparr>"

lemma any_round_trip:
  assumes "wire_spec W"
  shows "Any_decode W (Any_encode W m) = Some (Inr m)"
proof -
  have "written W (Any_field W) createBaseAny
      (if typeUrl m \<noteq> [] then w_uint32 W 10 @ w_string W (typeUrl m) else []) \<lparr>typeUrl = typeUrl m, packed = []\<rparr>"
    by (intro written_if written_field) (simp_all add: Any_field_def createBaseAny_def wire_reads [OF assms])
  moreover have "written W (Any_field W) \<lparr>typeUrl = typeUrl m, packed = []\<rparr>
      (if packed m \<noteq> [] then w_uint32 W 18 @ w_bytes W (packed m) else []) m"
    by (intro written_if written_field) (simp_all add: Any_field_def wire_reads [OF assms])
  ultimately show ?thesis
    unfolding Any_decode_def Any_encode_def by (intro decode_written [OF assms] written_append)
qed

lemma any_json_round_trip:
  "conv_spec C \<Longrightarrow> base64_spec B \<Longrightarrow> Any_fromJSON C B (Any_toJSON B m) = Inr m"
  by (simp add: Any_fromJSON_def Any_toJSON_def get_member_def member_chain_def isSet_def conv_spec_def base64_round_trip)


section \<open>Wrappers of scalars\<close>

record 'a wrapper =
  scalar :: 'a

text \<open>\<open>value ?? zero\<close>, and the member \<open>value\<close> of a parsed object.\<close>

definition wrapper_fromPartial :: "'a \<Rightarrow> 'a option \<Rightarrow> 'a wrapper" where
  "wrapper_fromPartial zero v = \<lparr>scalar = (case v of None \<Rightarrow> zero | Some x \<Rightarrow> x)\<rparr>"

definition wrapper_fromJSON :: "(jsany \<Rightarrow> 'a) \<Rightarrow> 'a \<Rightarrow> jsany \<Rightarrow> string + 'a wrapper" where
  "wrapper_fromJSON conv zero object =
     map_sum id (\<lambda>v. \<lparr>scalar = (if isSet v then conv v else zero)\<rparr>) (get_member object ''value'')"

definition wrapper_toJSON :: "('a \<Rightarrow> jsany) \<Rightarrow> 'a wrapper \<Rightarrow> jsany" where
  "wrapper_toJSON f message = AObj [(''value'', f (scalar message))]"

definition MAX_SAFE_INTEGER :: int where
  "MAX_SAFE_INTEGER = 2 ^ 53 - 1"

definition longToNumber :: "wire_lib \<Rightarrow> int \<Rightarrow> string + int" where
  "longToNumber W long =
     (if long > MAX_SAFE_INTEGER then Inl ''Value is larger than Number.MAX_SAFE_INTEGER''
      else Inr (long_toNumber W long))"

definition read_long :: "wire_lib \<Rightarrow> (int \<times> bytes) option \<Rightarrow> int reading" where
  "read_long W r = bind_read (rd r) (\<lambda>long bs. Some (map_sum id (\<lambda>n. (n, bs)) (longToNumber W long)))"

definition DoubleValue_encode :: "wire_lib \<Rightarrow> int wrapper \<Rightarrow> bytes" where
  "DoubleValue_encode W message = (if scalar message \<noteq> 0 then w_uint32 W 9 @ w_double W (scalar message) else [])"

definition FloatValue_encode :: "wire_lib \<Rightarrow> int wrapper \<Rightarrow> bytes" where
  "FloatValue_encode W message = (if scalar message \<noteq> 0 then w_uint32 W 13 @ w_float W (scalar message) else [])"

definition Int64Value_encode :: "wire_lib \<Rightarrow> int wrapper \<Rightarrow> bytes" where
  "Int64Value_encode W message = (if scalar message \<noteq> 0 then w_uint32 W 8 @ w_int64 W (scalar message) else [])"

definition UInt64Value_encode :: "wire_lib \<Rightarrow> int wrapper \<Rightarrow> bytes" where
  "UInt64Value_encode W message = (if scalar message \<noteq> 0 then w_uint32 W 8 @ w_uint64 W (scalar message) else [])"

definition Int32Value_encode :: "wire_lib \<Rightarrow> int wrapper \<Rightarrow> bytes" where
  "Int32Value_encode W message = (if scalar message \<noteq> 0 then w_uint32 W 8 @ w_int32 W (scalar message) else [])"

definition UInt32Value_encode :: "wire_lib \<Rightarrow> nat wrapper \<Rightarrow> bytes" where
  "UInt32Value_encode W message = (if scalar message \<noteq> 0 then w_uint32 W 8 @ w_uint32 W (scalar message) else [])"

definition BoolValue_encode :: "wire_lib \<Rightarrow> bool wrapper \<Rightarrow> bytes" where
  "BoolValue_encode W message = (if scalar message then w_uint32 W 8 @ w_bool W (scalar message) else [])"

definition StringValue_encode :: "wire_lib \<Rightarrow> string wrapper \<Rightarrow> bytes" where
  "StringValue_encode W message = (if scalar message \<noteq> [] then w_uint32 W 10 @ w_string W (scalar message) else [])"

definition BytesValue_encode :: "wire_lib \<Rightarrow> bytes wrapper \<Rightarrow> bytes" where
  "BytesValue_encode W message = (if scalar message \<noteq> [] then w_uint32 W 10 @ w_bytes W (scalar message) else [])"

text \<open>The switch of a wrapper has one case.\<close>

definition wrapper_field :: "wire_lib \<Rightarrow> (bytes \<Rightarrow> 'a reading) \<Rightarrow> 'a wrapper field_reader" where
  "wrapper_field W r tag message bs =
     (if tag div 8 = 1 then store_read (r bs) (\<lambda>v. message\<lparr>scalar := v\<rparr>) else skip_field W tag message bs)"

definition DoubleValue_decode :: "wire_lib \<Rightarrow> bytes \<Rightarrow> (string + int wrapper) option" where
  "DoubleValue_decode W input = decode_message W (wrapper_field W (\<lambda>bs. rd (r_double W bs))) \<lparr>scalar = 0\<rparr> input"

definition FloatValue_decode :: "wire_lib \<Rightarrow> bytes \<Rightarrow> (string + int wrapper) option" where
  "FloatValue_decode W input = decode_message W (wrapper_field W (\<lambda>bs. rd (r_float W bs))) \<lparr>scalar = 0\<rparr> input"

definition Int64Value_decode :: "wire_lib \<Rightarrow> bytes \<Rightarrow> (string + int wrapper) option" where
  "Int64Value_decode W input = decode_message W (wrapper_field W (\<lambda>bs. read_long W (r_int64 W bs))) \<lparr>scalar = 0\<rparr> input"

definition UInt64Value_decode :: "wire_lib \<Rightarrow> bytes \<Rightarrow> (string + int wrapper) option" where
  "UInt64Value_decode W input = decode_message W (wrapper_field W (\<lambda>bs. read_long W (r_uint64 W bs))) \<lparr>scalar = 0\<rparr> input"

definition Int32Value_decode :: "wire_lib \<Rightarrow> bytes \<Rightarrow> (string + int wrapper) option" where
  "Int32Value_decode W input = decode_message W (wrapper_field W (\<lambda>bs. rd (r_int32 W bs))) \<lparr>scalar = 0\<rparr> input"

definition UInt32Value_decode :: "wire_lib \<Rightarrow> bytes \<Rightarrow> (string + nat wrapper) option" where
  "UInt32Value_decode W input = decode_message W (wrapper_field W (\<lambda>bs. rd (r_uint32 W bs))) \<lparr>scalar = 0\<rparr> input"

definition BoolValue_decode :: "wire_lib \<Rightarrow> bytes \<Rightarrow> (string + bool wrapper) option" where
  "BoolValue_decode W input = decode_message W (wrapper_field W (\<lambda>bs. rd (r_bool W bs))) \<lparr>scalar = False\<rparr> input"

definition StringValue_decode :: "wire_lib \<Rightarrow> bytes \<Rightarrow> (string + string wrapper) option" where
  "StringValue_decode W input = decode_message W (wrapper_field W (\<lambda>bs. rd (r_string W bs))) \<lparr>scalar = []\<rparr> input"

definition BytesValue_decode :: "wire_lib \<Rightarrow> bytes \<Rightarrow> (string + bytes wrapper) option" where
  "BytesValue_decode W input = decode_message W (wrapper_field W (\<lambda>bs. rd (r_bytes W bs))) \<lparr>scalar = []\<rparr> input"

definition DoubleValue_fromJSON :: "conv_lib \<Rightarrow> jsany \<Rightarrow> string + int wrapper" where
  "DoubleValue_fromJSON C = wrapper_fromJSON (js_Number C) 0"

definition FloatValue_fromJSON :: "conv_lib \<Rightarrow> jsany \<Rightarrow> string + int wrapper" where
  "FloatValue_fromJSON C = wrapper_fromJSON (js_Number C) 0"

definition Int64Value_fromJSON :: "conv_lib \<Rightarrow> jsany \<Rightarrow> string + int wrapper" where
  "Int64Value_fromJSON C = wrapper_fromJSON (js_Number C) 0"

definition UInt64Value_fromJSON :: "conv_lib \<Rightarrow> jsany \<Rightarrow> string + int wrapper" where
  "UInt64Value_fromJSON C = wrapper_fromJSON (js_Number C) 0"

definition Int32Value_fromJSON :: "conv_lib \<Rightarrow> jsany \<Rightarrow> string + int wrapper" where
  "Int32Value_fromJSON C = wrapper_fromJSON (js_Number C) 0"

definition BoolValue_fromJSON :: "jsany \<Rightarrow> string + bool wrapper" where
  "BoolValue_fromJSON = wrapper_fromJSON js_Boolean False"

definition StringValue_fromJSON :: "conv_lib \<Rightarrow> jsany \<Rightarrow> string + string wrapper" where
  "StringValue_fromJSON C = wrapper_fromJSON (js_String C) []"

definition BytesValue_fromJSON :: "conv_lib \<Rightarrow> base64_lib \<Rightarrow> jsany \<Rightarrow> string + bytes wrapper" where
  "BytesValue_fromJSON C B object = (case get_member object ''value'' of
     Inl e \<Rightarrow> Inl e
   | Inr v \<Rightarrow> map_sum id (\<lambda>b. \<lparr>scalar = b\<rparr>) (if isSet v then bytesFromBase64 B (js_String C v) else Inr []))"

text \<open>The rounding that the integers go through leaves an integer as it is.\<close>

definition number_toJSON :: "int wrapper \<Rightarrow> jsany" where
  "number_toJSON = wrapper_toJSON ANum"

definition BoolValue_toJSON :: "bool wrapper \<Rightarrow> jsany" where
  "BoolValue_toJSON = wrapper_toJSON ABool"

definition StringValue_toJSON :: "string wrapper \<Rightarrow> jsany" where
  "StringValue_toJSON = wrapper_toJSON AStr"

definition BytesValue_toJSON :: "base64_lib \<Rightarrow> bytes wrapper \<Rightarrow> jsany" where
  "BytesValue_toJSON B = wrapper_toJSON (\<lambda>b. AStr (base64FromBytes B b))"

lemma wrapper_travels:
  assumes "wire_spec W" and "tag < 2 ^ 32" and "tag div 8 = 1"
    and "c \<Longrightarrow> (\<And>rest. r (pay @ rest) = Some (Inr (scalar m, rest)))" and "\<not> c \<Longrightarrow> scalar m = zero"
  shows "decode_message W (wrapper_field W r) \<lparr>scalar = zero\<rparr> (if c then w_uint32 W tag @ pay else []) = Some (Inr m)"
proof (rule decode_written [OF assms(1)], rule written_if)
  assume c
  then show "written W (wrapper_field W r) \<lparr>scalar = zero\<rparr> (w_uint32 W tag @ pay) m"
    using assms by (intro written_field) (simp_all add: wrapper_field_def)
qed (use assms(5) in simp)

lemma read_long_safe: "wire_spec W \<Longrightarrow> safe_int i \<Longrightarrow> read_long W (Some (i, bs)) = Some (Inr (i, bs))"
  by (auto simp: read_long_def longToNumber_def MAX_SAFE_INTEGER_def wire_toNumber safe_int_def)

text \<open>
  A scalar in a wrapper is read back as it was written: a double and a 64-bit integer as far as a
  number of the language is exact, a float as far as single precision is, and anything else without exception.
\<close>
theorem wrappers_survive:
  assumes "wire_spec W"
  shows "safe_int (scalar n) \<Longrightarrow> DoubleValue_decode W (DoubleValue_encode W n) = Some (Inr n) \<and>
      Int64Value_decode W (Int64Value_encode W n) = Some (Inr n) \<and>
      (0 \<le> scalar n \<longrightarrow> UInt64Value_decode W (UInt64Value_encode W n) = Some (Inr n))"
    and "single_int (scalar n) \<Longrightarrow> FloatValue_decode W (FloatValue_encode W n) = Some (Inr n)"
    and "- (2 ^ 31) \<le> scalar n \<Longrightarrow> scalar n < 2 ^ 31 \<Longrightarrow> Int32Value_decode W (Int32Value_encode W n) = Some (Inr n)"
    and "scalar u < 2 ^ 32 \<Longrightarrow> UInt32Value_decode W (UInt32Value_encode W u) = Some (Inr u)"
    and "BoolValue_decode W (BoolValue_encode W b) = Some (Inr b)"
    and "StringValue_decode W (StringValue_encode W s) = Some (Inr s)"
    and "BytesValue_decode W (BytesValue_encode W y) = Some (Inr y)"
  unfolding DoubleValue_decode_def DoubleValue_encode_def Int64Value_decode_def Int64Value_encode_def
    UInt64Value_decode_def UInt64Value_encode_def FloatValue_decode_def FloatValue_encode_def
    Int32Value_decode_def Int32Value_encode_def UInt32Value_decode_def UInt32Value_encode_def
    BoolValue_decode_def BoolValue_encode_def StringValue_decode_def StringValue_encode_def
    BytesValue_decode_def BytesValue_encode_def
  by (intro conjI impI wrapper_travels [OF assms]; simp add: wire_reads [OF assms] read_long_safe [OF assms])+


text \<open>An integer that is too large raises; one that is too small is rounded without a word.\<close>

lemma longToNumber_one_sided:
  "MAX_SAFE_INTEGER < n \<Longrightarrow> \<exists>e. longToNumber W n = Inl e"
  "n < - MAX_SAFE_INTEGER \<Longrightarrow> longToNumber W n = Inr (long_toNumber W n)"
  by (simp_all add: longToNumber_def MAX_SAFE_INTEGER_def)

text \<open>The JSON of a wrapper is an object, not the scalar its comment promises.\<close>

lemma wrapper_json_is_an_object: "number_toJSON \<lparr>scalar = n\<rparr> = AObj [(''value'', ANum n)]"
  by (simp add: number_toJSON_def wrapper_toJSON_def)

lemma wrapper_json_round_trip:
  "isSet (f (scalar m)) \<Longrightarrow> conv (f (scalar m)) = scalar m \<Longrightarrow>
     wrapper_fromJSON conv zero (wrapper_toJSON f m) = Inr m"
  by (simp add: wrapper_fromJSON_def wrapper_toJSON_def get_member_def member_chain_def isSet_def)


section \<open>HTTP rules\<close>

text \<open>\<open>src/dashboard/src/gen/google/api/http.ts\<close>. A rule holds rules: its other fields are a record.\<close>

record CustomHttpPattern =
  pattern_kind :: string
  pattern_path :: string

record HttpRuleFields =
  http_selector :: string
  http_get :: "string option"
  http_put :: "string option"
  http_post :: "string option"
  http_delete :: "string option"
  http_patch :: "string option"
  http_custom :: "CustomHttpPattern option"
  http_body :: string
  responseBody :: string

datatype HttpRule = HttpRule (rule_fields: HttpRuleFields) (additionalBindings: "HttpRule list")

record Http =
  http_rules :: "HttpRule list"
  fullyDecodeReservedExpansion :: bool

definition createBaseCustomHttpPattern :: CustomHttpPattern where
  "createBaseCustomHttpPattern = \<lparr>pattern_kind = [], pattern_path = []\<rparr>"

definition createBaseHttpRule :: HttpRule where
  "createBaseHttpRule = HttpRule
     \<lparr>http_selector = [], http_get = None, http_put = None, http_post = None, http_delete = None,
      http_patch = None, http_custom = None, http_body = [], responseBody = []\<rparr> []"

definition createBaseHttp :: Http where
  "createBaseHttp = \<lparr>http_rules = [], fullyDecodeReservedExpansion = False\<rparr>"

definition put_text :: "wire_lib \<Rightarrow> nat \<Rightarrow> string \<Rightarrow> bytes" where
  "put_text W tag s = (if s \<noteq> [] then w_uint32 W tag @ w_string W s else [])"

definition put_opt :: "wire_lib \<Rightarrow> nat \<Rightarrow> string option \<Rightarrow> bytes" where
  "put_opt W tag v = (case v of None \<Rightarrow> [] | Some s \<Rightarrow> w_uint32 W tag @ w_string W s)"

definition CustomHttpPattern_encode :: "wire_lib \<Rightarrow> CustomHttpPattern \<Rightarrow> bytes" where
  "CustomHttpPattern_encode W message = put_text W 10 (pattern_kind message) @ put_text W 18 (pattern_path message)"

definition custom_part :: "wire_lib \<Rightarrow> CustomHttpPattern option \<Rightarrow> bytes" where
  "custom_part W v = (case v of None \<Rightarrow> []
     | Some c \<Rightarrow> w_uint32 W 66 @ w_ldelim W (CustomHttpPattern_encode W c))"

primrec HttpRule_encode :: "wire_lib \<Rightarrow> HttpRule \<Rightarrow> bytes" where
  "HttpRule_encode W (HttpRule m bindings) =
     put_text W 10 (http_selector m) @ put_opt W 18 (http_get m) @ put_opt W 26 (http_put m) @
     put_opt W 34 (http_post m) @ put_opt W 42 (http_delete m) @ put_opt W 50 (http_patch m) @
     custom_part W (http_custom m) @ put_text W 58 (http_body m) @ put_text W 98 (responseBody m) @
     concat (map (\<lambda>b. w_uint32 W 90 @ w_ldelim W b) (map (HttpRule_encode W) bindings))"

definition Http_encode :: "wire_lib \<Rightarrow> Http \<Rightarrow> bytes" where
  "Http_encode W message =
     concat (map (\<lambda>b. w_uint32 W 10 @ w_ldelim W b) (map (HttpRule_encode W) (http_rules message))) @
     (if fullyDecodeReservedExpansion message then w_uint32 W 16 @ w_bool W True else [])"

definition CustomHttpPattern_field :: "wire_lib \<Rightarrow> CustomHttpPattern field_reader" where
  "CustomHttpPattern_field W tag message bs =
     (if tag div 8 = 1 then store_read (rd (r_string W bs)) (\<lambda>s. message\<lparr>pattern_kind := s\<rparr>)
      else if tag div 8 = 2 then store_read (rd (r_string W bs)) (\<lambda>s. message\<lparr>pattern_path := s\<rparr>)
      else skip_field W tag message bs)"

definition HttpRule_body :: "wire_lib \<Rightarrow> HttpRule field_reader \<Rightarrow> HttpRule field_reader" where
  "HttpRule_body W rules tag message bs = (case message of HttpRule m bindings \<Rightarrow>
     if tag div 8 = 1 then store_read (rd (r_string W bs)) (\<lambda>s. HttpRule (m\<lparr>http_selector := s\<rparr>) bindings)
     else if tag div 8 = 2 then store_read (rd (r_string W bs)) (\<lambda>s. HttpRule (m\<lparr>http_get := Some s\<rparr>) bindings)
     else if tag div 8 = 3 then store_read (rd (r_string W bs)) (\<lambda>s. HttpRule (m\<lparr>http_put := Some s\<rparr>) bindings)
     else if tag div 8 = 4 then store_read (rd (r_string W bs)) (\<lambda>s. HttpRule (m\<lparr>http_post := Some s\<rparr>) bindings)
     else if tag div 8 = 5 then store_read (rd (r_string W bs)) (\<lambda>s. HttpRule (m\<lparr>http_delete := Some s\<rparr>) bindings)
     else if tag div 8 = 6 then store_read (rd (r_string W bs)) (\<lambda>s. HttpRule (m\<lparr>http_patch := Some s\<rparr>) bindings)
     else if tag div 8 = 8
     then store_read (decode_sub W (CustomHttpPattern_field W) createBaseCustomHttpPattern bs)
       (\<lambda>c. HttpRule (m\<lparr>http_custom := Some c\<rparr>) bindings)
     else if tag div 8 = 7 then store_read (rd (r_string W bs)) (\<lambda>s. HttpRule (m\<lparr>http_body := s\<rparr>) bindings)
     else if tag div 8 = 12 then store_read (rd (r_string W bs)) (\<lambda>s. HttpRule (m\<lparr>responseBody := s\<rparr>) bindings)
     else if tag div 8 = 11
     then store_read (decode_sub W rules createBaseHttpRule bs) (\<lambda>r. HttpRule m (bindings @ [r]))
     else skip_field W tag message bs)"

primrec HttpRule_field :: "wire_lib \<Rightarrow> nat \<Rightarrow> HttpRule field_reader" where
  "HttpRule_field W 0 = (\<lambda>tag message bs. None)"
| "HttpRule_field W (Suc depth) = HttpRule_body W (HttpRule_field W depth)"

definition HttpRule_decode :: "wire_lib \<Rightarrow> bytes \<Rightarrow> (string + HttpRule) option" where
  "HttpRule_decode W input = decode_message W (HttpRule_field W (Suc (length input))) createBaseHttpRule input"

definition Http_field :: "wire_lib \<Rightarrow> nat \<Rightarrow> Http field_reader" where
  "Http_field W depth tag message bs =
     (if tag div 8 = 1
      then store_read (decode_sub W (HttpRule_field W depth) createBaseHttpRule bs)
        (\<lambda>r. message\<lparr>http_rules := http_rules message @ [r]\<rparr>)
      else if tag div 8 = 2
      then store_read (rd (r_bool W bs)) (\<lambda>b. message\<lparr>fullyDecodeReservedExpansion := b\<rparr>)
      else skip_field W tag message bs)"

definition Http_decode :: "wire_lib \<Rightarrow> bytes \<Rightarrow> (string + Http) option" where
  "Http_decode W input = decode_message W (Http_field W (Suc (length input))) createBaseHttp input"

lemma http_rule_total: "wire_spec W \<Longrightarrow> total_below n (HttpRule_field W n)"
proof (induction n)
  case (Suc n)
  have custom: "total_below n (CustomHttpPattern_field W)"
    using Suc.prems by (simp add: total_below_def CustomHttpPattern_field_def read_ok_reads read_ok_skip)
  show ?case
    using decode_sub_total [OF Suc.prems custom] decode_sub_total [OF Suc.prems Suc.IH [OF Suc.prems]] Suc.prems
    by (simp add: total_below_def HttpRule_body_def read_ok_reads read_ok_skip split: HttpRule.split)
qed (simp add: total_below_def)

lemma http_decoding_ends: "wire_spec W \<Longrightarrow> HttpRule_decode W input \<noteq> None"
  unfolding HttpRule_decode_def using http_rule_total [of W "Suc (length input)"]
  by (intro decode_total) (simp_all add: total_below_def del: HttpRule_field.simps)

lemma put_text_written:
  "tag < 2 ^ 32 \<Longrightarrow> (\<And>rest. field tag m (w_string W s @ rest) = Some (Inr (m', rest))) \<Longrightarrow> (s = [] \<Longrightarrow> m' = m) \<Longrightarrow>
     written W field m (put_text W tag s) m'"
  unfolding put_text_def by (intro written_if written_field) auto

lemma put_opt_written:
  "tag < 2 ^ 32 \<Longrightarrow> (\<And>s rest. v = Some s \<Longrightarrow> field tag m (w_string W s @ rest) = Some (Inr (m', rest))) \<Longrightarrow>
     (v = None \<Longrightarrow> m' = m) \<Longrightarrow> written W field m (put_opt W tag v) m'"
  by (cases v) (auto simp: put_opt_def intro: written_none written_field)

lemma custom_pattern_written:
  assumes "wire_spec W"
  shows "written W (CustomHttpPattern_field W) createBaseCustomHttpPattern (CustomHttpPattern_encode W c) c"
  unfolding CustomHttpPattern_encode_def
  by (rule written_append [where m' = "\<lparr>pattern_kind = pattern_kind c, pattern_path = []\<rparr>"]; rule put_text_written)
    (simp_all add: CustomHttpPattern_field_def createBaseCustomHttpPattern_def wire_reads [OF assms])

definition rule_travels :: "wire_lib \<Rightarrow> HttpRule \<Rightarrow> bool" where
  "rule_travels W r \<longleftrightarrow> (\<forall>n. length (HttpRule_encode W r) < 2 ^ 32 \<longrightarrow> length (HttpRule_encode W r) < n \<longrightarrow>
     written W (HttpRule_field W n) createBaseHttpRule (HttpRule_encode W r) r)"

abbreviation rule_parts :: "wire_lib \<Rightarrow> nat \<Rightarrow> HttpRule list \<Rightarrow> bytes" where
  "rule_parts W tag rs \<equiv> concat (map (\<lambda>b. w_uint32 W tag @ w_ldelim W b) (map (HttpRule_encode W) rs))"

text \<open>A list of rules is read one by one behind those that are there, whatever holds them.\<close>

lemma rules_written:
  assumes W: "wire_spec W" and "\<forall>r \<in> set rs. rule_travels W r" and tag: "tag < 2 ^ 32"
    and field: "\<And>ds r rest bs. decode_sub W (HttpRule_field W n) createBaseHttpRule bs = Some (Inr (r, rest)) \<Longrightarrow>
      field tag (hold ds) bs = Some (Inr (hold (ds @ [r]), rest))"
    and "length (rule_parts W tag rs) < 2 ^ 32" "length (rule_parts W tag rs) \<le> n"
  shows "written W field (hold ds) (rule_parts W tag rs) (hold (ds @ rs))"
  using assms(2,5,6)
proof (induction rs arbitrary: ds)
  case Nil
  then show ?case by (simp add: written_none)
next
  case (Cons r rs)
  let ?b = "HttpRule_encode W r"
  have "length ?b < length (w_ldelim W ?b)" using wire_ldelim_longer [OF W] .
  then have b: "length ?b < 2 ^ 32" "length ?b < n" using Cons.prems by simp_all
  with Cons.prems have "written W (HttpRule_field W n) createBaseHttpRule ?b r" by (simp add: rule_travels_def)
  from field [OF sub_written [OF W this b(1)]]
  have "written W field (hold ds) (w_uint32 W tag @ w_ldelim W ?b) (hold (ds @ [r]))"
    using tag by (intro written_field) auto
  moreover have "written W field (hold (ds @ [r])) (rule_parts W tag rs) (hold (ds @ r # rs))"
    using Cons.IH [of "ds @ [r]"] Cons.prems by simp
  ultimately show ?case by (auto dest: written_append)
qed

lemma rule_fields_written:
  assumes W: "wire_spec W" and c: "length (custom_part W (http_custom m)) < 2 ^ 32"
  shows "written W (HttpRule_body W rules) createBaseHttpRule
    (put_text W 10 (http_selector m) @ put_opt W 18 (http_get m) @ put_opt W 26 (http_put m) @
     put_opt W 34 (http_post m) @ put_opt W 42 (http_delete m) @ put_opt W 50 (http_patch m) @
     custom_part W (http_custom m) @ put_text W 58 (http_body m) @ put_text W 98 (responseBody m)) (HttpRule m [])"
proof -
  note step = HttpRule_body_def wire_reads [OF W] createBaseHttpRule_def
  define m1 where "m1 = (rule_fields createBaseHttpRule)\<lparr>http_selector := http_selector m\<rparr>"
  define m2 where "m2 = m1\<lparr>http_get := http_get m\<rparr>"
  define m3 where "m3 = m2\<lparr>http_put := http_put m\<rparr>"
  define m4 where "m4 = m3\<lparr>http_post := http_post m\<rparr>"
  define m5 where "m5 = m4\<lparr>http_delete := http_delete m\<rparr>"
  define m6 where "m6 = m5\<lparr>http_patch := http_patch m\<rparr>"
  define m7 where "m7 = m6\<lparr>http_custom := http_custom m\<rparr>"
  define m8 where "m8 = m7\<lparr>http_body := http_body m\<rparr>"
  note ms = m1_def m2_def m3_def m4_def m5_def m6_def m7_def m8_def
  let ?w = "\<lambda>a b c. written W (HttpRule_body W rules) (HttpRule a []) b (HttpRule c [])"
  have "?w (rule_fields createBaseHttpRule) (put_text W 10 (http_selector m)) m1"
    by (rule put_text_written) (simp_all add: step ms)
  moreover have "?w m1 (put_opt W 18 (http_get m)) m2" by (rule put_opt_written) (simp_all add: step ms)
  moreover have "?w m2 (put_opt W 26 (http_put m)) m3" by (rule put_opt_written) (simp_all add: step ms)
  moreover have "?w m3 (put_opt W 34 (http_post m)) m4" by (rule put_opt_written) (simp_all add: step ms)
  moreover have "?w m4 (put_opt W 42 (http_delete m)) m5" by (rule put_opt_written) (simp_all add: step ms)
  moreover have "?w m5 (put_opt W 50 (http_patch m)) m6" by (rule put_opt_written) (simp_all add: step ms)
  moreover have "?w m6 (custom_part W (http_custom m)) m7"
  proof (cases "http_custom m")
    case None
    then show ?thesis by (simp add: custom_part_def written_none step ms)
  next
    case (Some p)
    have "length (CustomHttpPattern_encode W p) < 2 ^ 32"
      using c Some wire_ldelim_longer [OF W, of "CustomHttpPattern_encode W p"] by (simp add: custom_part_def)
    from sub_written [OF W custom_pattern_written [OF W] this] show ?thesis
      unfolding custom_part_def Some m7_def
      by (simp add: HttpRule_body_def Some) (rule written_field, simp_all add: HttpRule_body_def)
  qed
  moreover have "?w m7 (put_text W 58 (http_body m)) m8" by (rule put_text_written) (simp_all add: step ms)
  moreover have "?w m8 (put_text W 98 (responseBody m)) m" by (rule put_text_written) (simp_all add: step ms)
  ultimately show ?thesis
    by (intro written_append) (assumption | simp add: createBaseHttpRule_def)+
qed

lemma rules_travel: "wire_spec W \<Longrightarrow> rule_travels W r"
proof (induction r)
  case (HttpRule m bindings)
  show ?case unfolding rule_travels_def
  proof (intro allI impI)
    fix n
    assume n: "length (HttpRule_encode W (HttpRule m bindings)) < 2 ^ 32"
      "length (HttpRule_encode W (HttpRule m bindings)) < n"
    obtain d where d: "n = Suc d" using n(2) by (cases n) auto
    have "written W (HttpRule_body W (HttpRule_field W d)) (HttpRule m []) (rule_parts W 90 bindings)
        (HttpRule m ([] @ bindings))"
      by (rule rules_written [OF HttpRule.prems, where n = d])
        (use HttpRule n d in \<open>simp_all add: HttpRule_body_def\<close>)
    moreover have "length (custom_part W (http_custom m)) < 2 ^ 32" using n by simp
    ultimately show "written W (HttpRule_field W n) createBaseHttpRule (HttpRule_encode W (HttpRule m bindings)) (HttpRule m bindings)"
      using written_append [OF rule_fields_written [OF HttpRule.prems]] by (simp add: d)
  qed
qed


text \<open>
  A rule is read back as it was written, and so are the rules bound to it, to any depth.
\<close>
theorem http_rules_survive:
  assumes "wire_spec W" and "length (HttpRule_encode W r) < 2 ^ 32"
  shows "HttpRule_decode W (HttpRule_encode W r) = Some (Inr r)"
  unfolding HttpRule_decode_def using rules_travel [OF assms(1), of r] assms(2)
  by (intro decode_written [OF assms(1)]) (simp add: rule_travels_def del: HttpRule_field.simps)

lemma http_survives:
  assumes "wire_spec W" and "length (Http_encode W m) < 2 ^ 32"
  shows "Http_decode W (Http_encode W m) = Some (Inr m)"
proof -
  define n where "n = Suc (length (Http_encode W m))"
  have rules: "written W (Http_field W n) createBaseHttp (rule_parts W 10 (http_rules m))
      (createBaseHttp\<lparr>http_rules := [] @ http_rules m\<rparr>)"
    using rules_written [where hold = "\<lambda>rs. createBaseHttp\<lparr>http_rules := rs\<rparr>" and ds = "[]" and tag = 10 and n = n
        and rs = "http_rules m" and field = "Http_field W n" and W = W] assms rules_travel
    by (simp add: Http_field_def Http_encode_def createBaseHttp_def n_def)
  have "written W (Http_field W n) (createBaseHttp\<lparr>http_rules := [] @ http_rules m\<rparr>)
      (if fullyDecodeReservedExpansion m then w_uint32 W 16 @ w_bool W True else []) m"
    by (intro written_if written_field) (simp_all add: Http_field_def createBaseHttp_def wire_reads [OF assms(1)])
  from written_append [OF rules this] show ?thesis
    unfolding Http_decode_def n_def [symmetric] by (intro decode_written [OF assms(1)]) (simp only: Http_encode_def)
qed


section \<open>JSON of the rules\<close>

definition text_fromJSON :: "conv_lib \<Rightarrow> jsany \<Rightarrow> string" where
  "text_fromJSON C v = (if isSet v then js_String C v else [])"

definition CustomHttpPattern_fromJSON :: "conv_lib \<Rightarrow> jsany \<Rightarrow> string + CustomHttpPattern" where
  "CustomHttpPattern_fromJSON C object = map_sum id
     (\<lambda>k. \<lparr>pattern_kind = text_fromJSON C k, pattern_path = text_fromJSON C (member_chain object ''path'')\<rparr>)
     (get_member object ''kind'')"

definition CustomHttpPattern_toJSON :: "CustomHttpPattern \<Rightarrow> jsany" where
  "CustomHttpPattern_toJSON message =
     AObj [(''kind'', AStr (pattern_kind message)), (''path'', AStr (pattern_path message))]"

definition custom_fromJSON :: "conv_lib \<Rightarrow> jsany \<Rightarrow> string + CustomHttpPattern option" where
  "custom_fromJSON C v = (if isSet v then map_sum id Some (CustomHttpPattern_fromJSON C v) else Inr None)"

definition rule_fromJSON :: "conv_lib \<Rightarrow> jsany \<Rightarrow> CustomHttpPattern option \<Rightarrow> HttpRuleFields" where
  "rule_fromJSON C object c =
     \<lparr>http_selector = text_fromJSON C (member_chain object ''selector''),
      http_get = if_set (js_String C) (member_chain object ''get''),
      http_put = if_set (js_String C) (member_chain object ''put''),
      http_post = if_set (js_String C) (member_chain object ''post''),
      http_delete = if_set (js_String C) (member_chain object ''delete''),
      http_patch = if_set (js_String C) (member_chain object ''patch''),
      http_custom = c,
      http_body = text_fromJSON C (member_chain object ''body''),
      responseBody = text_fromJSON C (member_chain object ''responseBody'')\<rparr>"

definition array_member :: "jsany \<Rightarrow> string \<Rightarrow> jsany list" where
  "array_member object k = (case member_chain object k of AArr xs \<Rightarrow> xs | _ \<Rightarrow> [])"

lemma array_member_smaller: "x \<in> set (array_member object k) \<Longrightarrow> size x < size object"
proof -
  assume x: "x \<in> set (array_member object k)"
  then obtain ms xs where ms: "object = AObj ms" "obj_get ms k = Some (AArr xs)" "x \<in> set xs"
    by (auto simp: array_member_def member_chain_def split: jsany.splits option.splits)
  have "members_size ms \<le> size (AObj ms)" by (induction ms) auto
  moreover have "size (AArr xs) + 2 \<le> members_size ms" using members_size_member map_of_SomeD [OF ms(2)] .
  ultimately show ?thesis using size_element [OF ms(3)] by (simp add: ms(1))
qed

function HttpRule_fromJSON :: "conv_lib \<Rightarrow> jsany \<Rightarrow> string + HttpRule" where
  "HttpRule_fromJSON C object =
     (if isSet object
      then (case custom_fromJSON C (member_chain object ''custom'') of
              Inl e \<Rightarrow> Inl e
            | Inr c \<Rightarrow> map_sum id (HttpRule (rule_fromJSON C object c))
                (traverse (HttpRule_fromJSON C) (array_member object ''additionalBindings'')))
      else Inl (''Cannot read properties (reading selector)''))"
  by pat_completeness auto

termination
  by (relation "measure (\<lambda>(C, v). size v)") (auto intro: array_member_smaller)

declare HttpRule_fromJSON.simps [simp del]

primrec HttpRule_toJSON :: "HttpRule \<Rightarrow> jsany" where
  "HttpRule_toJSON (HttpRule m bindings) = AObj
     ([(''selector'', AStr (http_selector m))] @
      opt_member ''get'' AStr (http_get m) @ opt_member ''put'' AStr (http_put m) @
      opt_member ''post'' AStr (http_post m) @ opt_member ''delete'' AStr (http_delete m) @
      opt_member ''patch'' AStr (http_patch m) @ opt_member ''custom'' CustomHttpPattern_toJSON (http_custom m) @
      [(''body'', AStr (http_body m)), (''responseBody'', AStr (responseBody m)),
       (''additionalBindings'', AArr (map HttpRule_toJSON bindings))])"

definition Http_fromJSON :: "conv_lib \<Rightarrow> jsany \<Rightarrow> string + Http" where
  "Http_fromJSON C object = (case traverse (HttpRule_fromJSON C) (array_member object ''rules'') of
     Inl e \<Rightarrow> Inl e
   | Inr rs \<Rightarrow> map_sum id (\<lambda>b. \<lparr>http_rules = rs, fullyDecodeReservedExpansion = (if isSet b then js_Boolean b else False)\<rparr>)
       (get_member object ''fullyDecodeReservedExpansion''))"

definition Http_toJSON :: "Http \<Rightarrow> jsany" where
  "Http_toJSON message = AObj [(''rules'', AArr (map HttpRule_toJSON (http_rules message))),
     (''fullyDecodeReservedExpansion'', ABool (fullyDecodeReservedExpansion message))]"

text \<open>A rule comes back from its JSON.\<close>

lemma text_fromJSON_str [simp]: "conv_spec C \<Longrightarrow> text_fromJSON C (AStr s) = s"
  by (simp add: text_fromJSON_def isSet_def conv_spec_def)

lemma custom_json: "conv_spec C \<Longrightarrow> custom_fromJSON C (opt_any CustomHttpPattern_toJSON c) = Inr c"
  by (cases c) (simp_all add: custom_fromJSON_def opt_any_def isSet_def CustomHttpPattern_fromJSON_def
      CustomHttpPattern_toJSON_def get_member_def member_chain_def)

lemma traverse_all: "\<forall>x \<in> set xs. f (g x) = Inr x \<Longrightarrow> traverse f (map g xs) = Inr xs"
  by (induction xs) auto

lemma rule_json_members:
  "member_chain (HttpRule_toJSON (HttpRule m bs)) ''selector'' = AStr (http_selector m)"
  "member_chain (HttpRule_toJSON (HttpRule m bs)) ''get'' = opt_any AStr (http_get m)"
  "member_chain (HttpRule_toJSON (HttpRule m bs)) ''put'' = opt_any AStr (http_put m)"
  "member_chain (HttpRule_toJSON (HttpRule m bs)) ''post'' = opt_any AStr (http_post m)"
  "member_chain (HttpRule_toJSON (HttpRule m bs)) ''delete'' = opt_any AStr (http_delete m)"
  "member_chain (HttpRule_toJSON (HttpRule m bs)) ''patch'' = opt_any AStr (http_patch m)"
  "member_chain (HttpRule_toJSON (HttpRule m bs)) ''custom'' = opt_any CustomHttpPattern_toJSON (http_custom m)"
  "member_chain (HttpRule_toJSON (HttpRule m bs)) ''body'' = AStr (http_body m)"
  "member_chain (HttpRule_toJSON (HttpRule m bs)) ''responseBody'' = AStr (responseBody m)"
  "array_member (HttpRule_toJSON (HttpRule m bs)) ''additionalBindings'' = map HttpRule_toJSON bs"
  by (auto simp: array_member_def member_chain_def opt_any_def split: option.splits)

lemma http_rule_json_round_trip: "conv_spec C \<Longrightarrow> HttpRule_fromJSON C (HttpRule_toJSON r) = Inr r"
proof (induction r)
  case (HttpRule m bs)
  have opt: "if_set (js_String C) (opt_any AStr v) = v" for v
    using HttpRule.prems by (intro if_set_opt) (auto simp: conv_spec_def isSet_def)
  have "traverse (HttpRule_fromJSON C) (map HttpRule_toJSON bs) = Inr bs"
    using HttpRule by (intro traverse_all) simp
  moreover have "isSet (HttpRule_toJSON (HttpRule m bs))" by (simp add: isSet_def)
  moreover have "rule_fromJSON C (HttpRule_toJSON (HttpRule m bs)) (http_custom m) = m"
    using HttpRule.prems unfolding rule_fromJSON_def rule_json_members opt by simp
  ultimately show ?case
    using HttpRule.prems
    by (simp add: HttpRule_fromJSON.simps [of C "HttpRule_toJSON (HttpRule m bs)"] rule_json_members custom_json
        del: HttpRule_toJSON.simps)
qed


section \<open>Witnesses\<close>

definition sample_rule :: HttpRule where
  "sample_rule = HttpRule
     \<lparr>http_selector = [], http_get = Some ''/core/packages'', http_put = None, http_post = None, http_delete = None,
      http_patch = None, http_custom = None, http_body = [], responseBody = []\<rparr> []"

theorem http_rules_survive_witness:
  "HttpRule_decode sample_wire (HttpRule_encode sample_wire sample_rule) = Some (Inr sample_rule)"
proof -
  have "length (HttpRule_encode sample_wire sample_rule) < 2 ^ 32"
    by (simp add: sample_rule_def put_text_def put_opt_def custom_part_def sample_wire_def delimited_def varint.simps)
  from http_rules_survive [OF sample_wire_spec this] show ?thesis .
qed

end
