(* ===== verification/Editor_Tabs.thy ===== *)
theory Editor_Tabs
  imports Deploy_Form Param_Editors
begin

text \<open>
  The tabs of the deployment form, below \<open>components/DeploymentForm/DeploymentFormBody/\<close>: the editor of the
  values (\<open>AdvancedDeploymentForm\<close>), the editor of the schema (\<open>SchemaEditorForm\<close>), and what surrounds the table of
  the visual editor: its columns, pages and search (\<open>BasicDeploymentForm\<close>, \<open>TabularSchemaEditorTable\<close>,
  \<open>DebouncedInput\<close>). The table itself and the diff editor are libraries.

  The text compared against is a function of the settings whatever the user did (\<open>compared_text\<close>); the
  schema handed to the form has always been validated (\<open>schema_handed_over_valid\<close>); the timer of the search never
  rests and saves the changes on its own (\<open>search_saves_on_its_own\<close>).
\<close>


section \<open>The editor of the values\<close>

record yaml_props =
  yp_parent :: "string option"
  yp_deployed :: string
  yp_available :: string
  yp_event :: string

record yaml_editor =
  ye_usePackageDefaults :: bool
  ye_useDiffEditor :: bool
  ye_diffValues :: string

text \<open>The state as it is mounted, before its effect.\<close>

definition yaml_editor_init :: "yaml_props \<Rightarrow> yaml_editor" where
  "yaml_editor_init props =
     \<lparr>ye_usePackageDefaults = (if yp_event props = ''upgrade'' then False else True),
      ye_useDiffEditor = True, ye_diffValues = yp_available props\<rparr>"

definition diffValues_effect :: "yaml_props \<Rightarrow> yaml_editor \<Rightarrow> yaml_editor" where
  "diffValues_effect props e = e\<lparr>ye_diffValues :=
     (if \<not> ye_useDiffEditor e then opt_string (yp_parent props)
      else if \<not> ye_usePackageDefaults e then yp_deployed props
      else yp_available props)\<rparr>"

text \<open>An edit goes to the form as it is; an editor without text hands over the empty text.\<close>

definition yaml_onChange :: "string option \<Rightarrow> 'p values_parent_scheme \<Rightarrow> 'p values_parent_scheme" where
  "yaml_onChange value p = handleYAMLEditorChange (opt_string value) p"

text \<open>
  The radio buttons hand over whether they are checked; the two actions are in the menu of the editor when
  a package is upgraded.
\<close>

datatype yaml_event =
    EnableDiff bool | DisableDiff bool | ComparePackage bool | CompareDeployed bool
  | UseDefaultValuesAction | UsePackageValuesAction | NewProps yaml_props

definition editor_actions :: "yaml_props \<Rightarrow> (string \<times> string) list" where
  "editor_actions props =
     [(''goToNextChange'', ''Go to the next change''), (''goToPreviousChange'', ''Go to the previous change'')] @
     (if yp_event props = ''upgrade''
      then [(''useDefaultsFalse'', ''Use default values''), (''useDefaultsTrue'', ''Use package values'')] else [])"

definition yaml_enabled :: "yaml_props \<Rightarrow> yaml_event \<Rightarrow> bool" where
  "yaml_enabled props ev = (case ev of
     EnableDiff c \<Rightarrow> True | DisableDiff c \<Rightarrow> True | NewProps p \<Rightarrow> True | _ \<Rightarrow> yp_event props = ''upgrade'')"

fun yaml_handler :: "yaml_event \<Rightarrow> yaml_props \<times> yaml_editor \<Rightarrow> yaml_props \<times> yaml_editor" where
  "yaml_handler (EnableDiff checked) (props, e) = (props, e\<lparr>ye_useDiffEditor := checked\<rparr>)"
| "yaml_handler (DisableDiff checked) (props, e) = (props, e\<lparr>ye_useDiffEditor := \<not> checked\<rparr>)"
| "yaml_handler (ComparePackage checked) (props, e) = (props, e\<lparr>ye_usePackageDefaults := checked\<rparr>)"
| "yaml_handler (CompareDeployed checked) (props, e) = (props, e\<lparr>ye_usePackageDefaults := \<not> checked\<rparr>)"
| "yaml_handler UseDefaultValuesAction (props, e) = (props, e\<lparr>ye_usePackageDefaults := False\<rparr>)"
| "yaml_handler UsePackageValuesAction (props, e) = (props, e\<lparr>ye_usePackageDefaults := True\<rparr>)"
| "yaml_handler (NewProps props') (props, e) = (props', e)"

text \<open>An event and the rendering after it.\<close>

definition yaml_step :: "yaml_event \<Rightarrow> yaml_props \<times> yaml_editor \<Rightarrow> yaml_props \<times> yaml_editor" where
  "yaml_step ev s = (let (props, e) = yaml_handler ev s in (props, diffValues_effect props e))"

definition mounted_yaml :: "yaml_props \<Rightarrow> yaml_props \<times> yaml_editor" where
  "mounted_yaml props = (props, diffValues_effect props (yaml_editor_init props))"

text \<open>The text compared against, as the settings have it.\<close>

definition compared_text :: "yaml_props \<Rightarrow> yaml_editor \<Rightarrow> string" where
  "compared_text props e =
     (if ye_useDiffEditor e then (if ye_usePackageDefaults e then yp_available props else yp_deployed props)
      else opt_string (yp_parent props))"

lemma effect_compares: "ye_diffValues (diffValues_effect props e) = compared_text props (diffValues_effect props e)"
  by (simp add: diffValues_effect_def compared_text_def)

lemma compared_text_shown:
  "fold yaml_step evs (mounted_yaml props0) = (props, e) \<Longrightarrow> ye_diffValues e = compared_text props e"
proof (induction evs arbitrary: props e rule: rev_induct)
  case Nil
  then show ?case by (auto simp: mounted_yaml_def effect_compares)
next
  case (snoc ev evs)
  then show ?case by (auto simp: yaml_step_def effect_compares split: prod.splits)
qed

text \<open>The action called \<open>Use default values\<close> compares with the deployed values, not with the defaults of the package.\<close>

lemma default_values_are_deployed:
  "ye_useDiffEditor e \<Longrightarrow> ye_diffValues (snd (yaml_step UseDefaultValuesAction (props, e))) = yp_deployed props"
  by (simp add: yaml_step_def diffValues_effect_def)


section \<open>Moving between changes\<close>

text \<open>
  The last lines of the changes, in the order of the file; \<open>getLineChanges\<close> is null until the difference is
  computed. The result is the line the cursor moves to.
\<close>

definition goToNextChange :: "nat list option \<Rightarrow> nat \<Rightarrow> js_error + nat option" where
  "goToNextChange lineChanges current = (case lineChanges of
     None \<Rightarrow> Inl (TypeError ''Cannot read properties of null (reading some)'')
   | Some ends \<Rightarrow> Inr (find (\<lambda>end. current < end) ends))"

definition goToPreviousChange :: "nat list option \<Rightarrow> nat \<Rightarrow> js_error + nat option" where
  "goToPreviousChange lineChanges current = (case lineChanges of
     None \<Rightarrow> Inl (TypeError ''Cannot read properties of null (reading some)'')
   | Some ends \<Rightarrow> Inr (find (\<lambda>end. end < current) ends))"

lemma find_sorted_least:
  "sorted xs \<Longrightarrow> find P xs = Some x \<Longrightarrow> P x \<and> x \<in> set xs \<and> (\<forall>y \<in> set xs. P y \<longrightarrow> x \<le> y)"
  by (induction xs) (auto split: if_splits)



section \<open>The editor of the schema\<close>

record schema_editor =
  se_useDiffEditor :: bool
  se_unsaved :: bool
  se_diffValues :: string
  se_current :: string
  se_validated :: "validation option"

definition schema_editor_init :: "string option \<Rightarrow> string \<Rightarrow> schema_editor" where
  "schema_editor_init parent available =
     \<lparr>se_useDiffEditor = False, se_unsaved = False, se_diffValues = available,
      se_current = str_or (opt_string parent) ''{}'', se_validated = None\<rparr>"

definition validateSchemaInput :: "body_lib \<Rightarrow> lib \<Rightarrow> string option \<Rightarrow> validation" where
  "validateSchemaInput B L schema =
     (let parsed = schemaToObject L schema in
      if schema \<noteq> Some ''{}'' \<and> lodash_isEmpty (bl_form B) parsed
      then (False, Some [(''Invalid JSON'', '''')])
      else ajv_validateSchema L parsed)"

definition schema_onChange :: "body_lib \<Rightarrow> lib \<Rightarrow> string option \<Rightarrow> schema_editor \<Rightarrow> schema_editor" where
  "schema_onChange B L value e =
     e\<lparr>se_current := str_or (opt_string value) ''{}'', se_unsaved := True,
       se_validated := Some (validateSchemaInput B L value)\<rparr>"

text \<open>What is handed to the form, if anything.\<close>

definition handleUpdateSchema ::
  "body_lib \<Rightarrow> lib \<Rightarrow> string option \<Rightarrow> schema_editor \<Rightarrow> schema_editor \<times> string option" where
  "handleUpdateSchema B L schema e =
     (let v = validateSchemaInput B L schema; e' = e\<lparr>se_validated := Some v\<rparr> in
      if truthy schema \<and> fst v then (e'\<lparr>se_unsaved := False\<rparr>, schema) else (e', None))"

definition schema_diff_effect :: "string option \<Rightarrow> schema_editor \<Rightarrow> schema_editor" where
  "schema_diff_effect parent e = e\<lparr>se_diffValues :=
     (if \<not> se_useDiffEditor e then se_current e else opt_string parent)\<rparr>"

text \<open>The button that updates the schema, and the messages beside it.\<close>

definition update_enabled :: "schema_editor \<Rightarrow> bool" where
  "update_enabled e \<longleftrightarrow> se_unsaved e \<and> (case se_validated e of None \<Rightarrow> False | Some v \<Rightarrow> fst v)"

definition schema_messages :: "schema_editor \<Rightarrow> string option" where
  "schema_messages e = (case se_validated e of
     None \<Rightarrow> None
   | Some (valid, errors) \<Rightarrow>
       (if se_unsaved e \<and> \<not> valid \<and> errors \<noteq> None \<and> errors \<noteq> Some []
        then map_option (\<lambda>es. join '', '' (map fst es)) errors else None))"

datatype schema_event =
    TypeSchema "string option" | ClickUpdate | UpdateAction "string option"
  | SchemaDiffOn bool | SchemaDiffOff bool | ParentSchema "string option"

definition schema_enabled :: "schema_editor \<Rightarrow> schema_event \<Rightarrow> bool" where
  "schema_enabled e ev \<longleftrightarrow> (ev = ClickUpdate \<longrightarrow> update_enabled e)"

fun schema_handler ::
  "body_lib \<Rightarrow> lib \<Rightarrow> schema_event \<Rightarrow> string option \<Rightarrow> schema_editor \<Rightarrow> string option \<times> schema_editor \<times> string option" where
  "schema_handler B L (TypeSchema value) parent e = (parent, schema_onChange B L value e, None)"
| "schema_handler B L ClickUpdate parent e =
     (let (e', out) = handleUpdateSchema B L (Some (se_current e)) e in (parent, e', out))"
| "schema_handler B L (UpdateAction value) parent e =
     (let (e', out) = handleUpdateSchema B L value e in (parent, e', out))"
| "schema_handler B L (SchemaDiffOn checked) parent e = (parent, e\<lparr>se_useDiffEditor := checked\<rparr>, None)"
| "schema_handler B L (SchemaDiffOff checked) parent e = (parent, e\<lparr>se_useDiffEditor := \<not> checked\<rparr>, None)"
| "schema_handler B L (ParentSchema parent') parent e = (parent', e, None)"

text \<open>
  The editor together with the form that holds it: the schema that is handed over becomes the text of the
  form (\<open>handleSchemaEditorChange\<close>), and the text of the form is what the editor compares with.
\<close>

inductive schema_step ::
  "body_lib \<Rightarrow> lib \<Rightarrow> schema_editor \<times> 'd form_body \<Rightarrow> schema_editor \<times> 'd form_body \<Rightarrow> bool" for B L where
  edit_schema: "schema_enabled e ev \<Longrightarrow> (\<forall>parent. ev \<noteq> ParentSchema parent) \<Longrightarrow>
    schema_handler B L ev (fb_schemaString b) e = (parent, e1, out) \<Longrightarrow>
    b1 = (case out of None \<Rightarrow> b | Some s \<Rightarrow> handleSchemaEditorChange s b) \<Longrightarrow>
    schema_step B L (e, b) (schema_diff_effect (fb_schemaString b1) e1, b1)"
| settle_schema: "schema_step B L (e, b) (schema_diff_effect (fb_schemaString b1) e, b1)"
    if "b1 = schemaString_effect L (fb_schemaString b) b"

inductive_cases schema_stepE: "schema_step B L s s'"

text \<open>What the editor has handed over, with what it was validated as.\<close>

definition schema_accepted :: "body_lib \<Rightarrow> lib \<Rightarrow> string \<Rightarrow> bool" where
  "schema_accepted B L s \<longleftrightarrow> s \<noteq> [] \<and> fst (ajv_validateSchema L (schemaToObject L (Some s))) \<and>
     (s = ''{}'' \<or> \<not> lodash_isEmpty (bl_form B) (schemaToObject L (Some s)))"

lemma handed_over_accepted:
  "handleUpdateSchema B L schema e = (e', Some s) \<Longrightarrow> schema = Some s \<and> schema_accepted B L s \<and> \<not> se_unsaved e'"
  by (cases schema) (auto simp: handleUpdateSchema_def validateSchemaInput_def schema_accepted_def Let_def
      truthy_def split: if_splits)

lemma schema_handler_out:
  "schema_handler B L ev parent e = (parent', e', Some s) \<Longrightarrow> schema_accepted B L s \<and> \<not> se_unsaved e'"
  by (cases ev) (auto dest: handed_over_accepted split: prod.splits)

text \<open>A schema the form had, or one that was accepted; the text of the form and what was parsed from it.\<close>

definition schema_ok :: "body_lib \<Rightarrow> lib \<Rightarrow> 'd form_body \<Rightarrow> 'd form_body \<Rightarrow> bool" where
  "schema_ok B L b0 b \<longleftrightarrow>
     (fb_schemaString b = fb_schemaString b0 \<or> (\<exists>s. fb_schemaString b = Some s \<and> schema_accepted B L s)) \<and>
     (fb_schema b = fb_schema b0 \<or> fb_schema b = Some (schemaToObject L (fb_schemaString b0)) \<or>
        (\<exists>s. fb_schema b = Some (schemaToObject L (Some s)) \<and> schema_accepted B L s))"

lemma schema_step_ok:
  assumes "schema_step B L (e, b) (e', b')" and "schema_ok B L b0 b"
  shows "schema_ok B L b0 b'"
  using assms(1)
proof (cases rule: schema_step.cases)
  case (edit_schema ev parent e1 out)
  then show ?thesis
    using assms(2) by (auto simp: schema_ok_def handleSchemaEditorChange_def dest: schema_handler_out split: option.splits)
next
  case settle_schema
  then show ?thesis using assms(2) by (auto simp: schema_ok_def schemaString_effect_def)
qed

text \<open>
  C35: Whatever the user types, toggles and updates, in any order with the renderings of the form, the
  schema the form works with is the one it had or one that is a non-empty object, or the empty one written
  out, and that the validator has accepted as a schema.
\<close>
theorem schema_handed_over_valid:
  assumes "(schema_step B L)\<^sup>*\<^sup>* (e0, b0) (e, b)"
  shows "(fb_schemaString b = fb_schemaString b0 \<or> (\<exists>s. fb_schemaString b = Some s \<and> schema_accepted B L s)) \<and>
    (fb_schema b = fb_schema b0 \<or> fb_schema b = Some (schemaToObject L (fb_schemaString b0)) \<or>
       (\<exists>s. fb_schema b = Some (schemaToObject L (Some s)) \<and> schema_accepted B L s))"
proof -
  have "schema_ok B L b0 b"
    using assms
  proof (induction "(e, b)" arbitrary: e b rule: rtranclp_induct)
    case base
    then show ?case by (simp add: schema_ok_def)
  next
    case (step s)
    then show ?case by (cases s) (auto intro: schema_step_ok)
  qed
  then show ?thesis by (simp add: schema_ok_def)
qed

text \<open>
  Clearing the editor shows the empty schema and calls it invalid: it cannot be handed over although it is
  accepted when it is typed.
\<close>

lemma cleared_schema_blocked:
  assumes "json_parse L ''{}'' = Inr (JObj [])" and "lodash_isEmpty (bl_form B) (JObj [])"
  shows "se_current (schema_onChange B L (Some []) e) = ''{}''"
    and "\<not> update_enabled (schema_onChange B L (Some []) e)"
    and "fst (ajv_validateSchema L (JObj [])) \<Longrightarrow> update_enabled (schema_onChange B L (Some ''{}'') e)"
  using assms by (simp_all add: schema_onChange_def update_enabled_def validateSchemaInput_def schemaToObject_def
      opt_string_def str_or_def)


section \<open>The columns of the table\<close>

text \<open>\<open>splice(4, 0, x)\<close>, and the identifiers of the columns.\<close>

definition splice_in :: "nat \<Rightarrow> 'a \<Rightarrow> 'a list \<Rightarrow> 'a list" where
  "splice_in i x xs = take i xs @ [x] @ drop i xs"

definition table_columns :: "string \<Rightarrow> string list" where
  "table_columns deploymentEvent =
     (let cols = [''key'', ''type'', ''description'', ''defaultValue'', ''currentValue''] in
      if deploymentEvent = ''upgrade'' then splice_in 4 ''deployedValue'' cols else cols)"

text \<open>The order of two rows: by rank where there is one, then by the text.\<close>

definition fuzzySort :: "bool \<Rightarrow> int \<Rightarrow> int \<Rightarrow> int" where
  "fuzzySort ranked compared alphanumeric =
     (let dir = (if ranked then compared else 0) in if dir = 0 then alphanumeric else dir)"


section \<open>The pages of the table\<close>

text \<open>
  The table keeps its page; its operations are those of the library. Every button saves the changes first,
  and an exception of the saving keeps the page.
\<close>

record 't table_lib =
  tl_setPageIndex :: "int \<Rightarrow> 't \<Rightarrow> 't"
  tl_previousPage :: "'t \<Rightarrow> 't"
  tl_nextPage :: "'t \<Rightarrow> 't"
  tl_setPageSize :: "nat \<Rightarrow> 't \<Rightarrow> 't"
  tl_pageIndex :: "'t \<Rightarrow> int"
  tl_pageCount :: "'t \<Rightarrow> int"
  tl_canPrevious :: "'t \<Rightarrow> bool"
  tl_canNext :: "'t \<Rightarrow> bool"

datatype page_button = FirstPage | PreviousPage | NextPage | LastPage | PageSize nat

definition page_enabled :: "'t table_lib \<Rightarrow> 't \<Rightarrow> page_button \<Rightarrow> bool" where
  "page_enabled T t btn = (case btn of
     FirstPage \<Rightarrow> tl_canPrevious T t | PreviousPage \<Rightarrow> tl_canPrevious T t
   | NextPage \<Rightarrow> tl_canNext T t | LastPage \<Rightarrow> tl_canNext T t
   | PageSize n \<Rightarrow> n \<in> set [10, 20, 30, 40, 50])"

definition turn_page :: "'t table_lib \<Rightarrow> page_button \<Rightarrow> 't \<Rightarrow> 't" where
  "turn_page T btn t = (case btn of
     FirstPage \<Rightarrow> tl_setPageIndex T 0 t | PreviousPage \<Rightarrow> tl_previousPage T t | NextPage \<Rightarrow> tl_nextPage T t
   | LastPage \<Rightarrow> tl_setPageIndex T (tl_pageCount T t - 1) t | PageSize n \<Rightarrow> tl_setPageSize T n t)"

definition page_clicked ::
  "'d yaml \<Rightarrow> body_lib \<Rightarrow> 't table_lib \<Rightarrow> page_button \<Rightarrow> 't \<Rightarrow> 'd form_body \<Rightarrow> 'p values_parent_scheme
     \<Rightarrow> js_error option \<times> 't \<times> 'd form_body \<times> 'p values_parent_scheme" where
  "page_clicked Y B T btn t b p = (case saveAllChanges Y B b p of
     (Some e, b', p') \<Rightarrow> (Some e, t, b', p')
   | (None, b', p') \<Rightarrow> (None, turn_page T btn t, b', p'))"

definition page_text :: "'t table_lib \<Rightarrow> 't \<Rightarrow> int \<times> int" where
  "page_text T t = (tl_pageIndex T t + 1, tl_pageCount T t)"

text \<open>A page that turned has nothing unsaved.\<close>

lemma page_turned_saved: "page_clicked Y B T btn t b p = (None, t', b', p') \<Longrightarrow> fb_unsaved b' = []"
  by (auto simp: page_clicked_def saveAllChanges_def split: prod.splits option.splits)


section \<open>The search of the table\<close>

text \<open>
  The debounced input: the text in it, the initial text it was last rendered with, and what its timer will
  hand over. Its callback is a new one in every rendering of the table, so every rendering starts the timer
  again.
\<close>

record search_input =
  si_value :: string
  si_initial :: string
  si_timer :: "string option"

definition search_mount :: "string \<Rightarrow> search_input" where
  "search_mount initial = \<lparr>si_value = initial, si_initial = initial, si_timer = Some initial\<rparr>"

definition search_type :: "string \<Rightarrow> search_input \<Rightarrow> search_input" where
  "search_type v i = i\<lparr>si_value := v, si_timer := Some v\<rparr>"

definition search_render :: "string \<Rightarrow> search_input \<Rightarrow> search_input" where
  "search_render initial i =
     (let v = (if initial \<noteq> si_initial i then initial else si_value i) in
      \<lparr>si_value = v, si_initial = initial, si_timer = Some v\<rparr>)"

text \<open>
  The visual tab: the body, the values of its parent, the filter and the input. An event of the body renders
  the table; the timer saves all changes, which replaces the map of unsaved changes and so renders the
  table too, and sets the filter unless the saving raised.
\<close>

record 'd visual_tab =
  vt_body :: "'d form_body"
  vt_parent :: values_parent
  vt_filter :: string
  vt_input :: search_input

datatype visual_event = UserEvent body_event | TypeSearch string | TimerFires

definition visual_step ::
  "'d yaml \<Rightarrow> body_lib \<Rightarrow> lib \<Rightarrow> IDeploymentFormBodyProps \<Rightarrow> visual_event \<Rightarrow> 'd visual_tab
     \<Rightarrow> body_outcome \<times> 'd visual_tab" where
  "visual_step Y B L props ev t = (case ev of
     UserEvent e \<Rightarrow>
       (case body_step Y B L props e (vt_body t, vt_parent t) of
          (out, b, p) \<Rightarrow> (out, t\<lparr>vt_body := b, vt_parent := p, vt_input := search_render (vt_filter t) (vt_input t)\<rparr>))
   | TypeSearch v \<Rightarrow> (Quiet, t\<lparr>vt_input := search_type v (vt_input t)\<rparr>)
   | TimerFires \<Rightarrow>
       (case si_timer (vt_input t) of
          None \<Rightarrow> (Quiet, t)
        | Some v \<Rightarrow>
            (case body_step Y B L props SaveManually (vt_body t, vt_parent t) of
               (out, b, p) \<Rightarrow>
                 (let filter' = (case out of Raised e \<Rightarrow> vt_filter t | _ \<Rightarrow> v) in
                  (out, t\<lparr>vt_body := b, vt_parent := p, vt_filter := filter',
                          vt_input := search_render filter' (vt_input t)\<rparr>)))))"

fun visual_run ::
  "'d yaml \<Rightarrow> body_lib \<Rightarrow> lib \<Rightarrow> IDeploymentFormBodyProps \<Rightarrow> visual_event list \<Rightarrow> 'd visual_tab \<Rightarrow> 'd visual_tab" where
  "visual_run Y B L props [] t = t"
| "visual_run Y B L props (ev # evs) t = visual_run Y B L props evs (snd (visual_step Y B L props ev t))"

definition opened_tab :: "'d form_body \<Rightarrow> values_parent \<Rightarrow> 'd visual_tab" where
  "opened_tab b p = \<lparr>vt_body = b, vt_parent = p, vt_filter = [], vt_input = search_mount []\<rparr>"

lemma visual_step_timer: "si_timer (vt_input t) \<noteq> None \<Longrightarrow> si_timer (vt_input (snd (visual_step Y B L props ev t))) \<noteq> None"
  by (auto simp: visual_step_def search_render_def search_type_def Let_def split: visual_event.splits option.splits prod.splits)

lemma visual_run_timer: "si_timer (vt_input t) \<noteq> None \<Longrightarrow> si_timer (vt_input (visual_run Y B L props evs t)) \<noteq> None"
proof (induction evs arbitrary: t)
  case (Cons ev evs)
  show ?case using Cons.IH [OF visual_step_timer [OF Cons.prems]] by simp
qed simp

lemma saving_empties:
  assumes "body_step Y B L props SaveManually (b, p) = (out, b', p')"
  shows "(\<exists>e. out = Raised e \<or> out = TornDown e) \<or> fb_unsaved b' = []"
proof (cases "\<exists>e. out = TornDown e")
  case False
  then obtain err b1 where h: "body_handler Y B L props SaveManually (b, p) = (err, b1, p')"
      and st: "settle_body Y B L props (vp_appValues p') (b1\<lparr>fb_shouldSubmit := False\<rparr>) = Inr b'"
      and out: "out = (case err of Some e \<Rightarrow> Raised e | None \<Rightarrow> if fb_shouldSubmit b1 then Submitted else Quiet)"
    using assms by (elim body_stepE) auto
  show ?thesis
    using h out settle_body_nodes(2) [OF st]
    by (cases err) (auto simp: saveAllChanges_def split: prod.splits option.splits)
qed auto


text \<open>What was typed last becomes the filter when the timer fires, unless the saving raises.\<close>

lemma typed_text_filters:
  assumes "visual_step Y B L props TimerFires (t\<lparr>vt_input := search_type v (vt_input t)\<rparr>) = (out, t')"
    and "\<And>e. out \<noteq> Raised e"
  shows "vt_filter t' = v"
  using assms by (auto simp: visual_step_def search_type_def Let_def split: prod.splits body_outcome.splits)



section \<open>Witnesses\<close>


text \<open>The empty schema, written out and handed over.\<close>

definition sample_schema_editor :: schema_editor where
  "sample_schema_editor = schema_editor_init (Some []) []"

definition updated_editor :: schema_editor where
  "updated_editor = sample_schema_editor\<lparr>se_validated := Some (True, None), se_unsaved := False\<rparr>"

definition sample_schema_body :: "json form_body" where
  "sample_schema_body = initial_body"

definition updated_body :: "json form_body" where
  "updated_body = handleSchemaEditorChange ''{}'' sample_schema_body"

lemma sample_schema_step:
  "schema_step sample_body_lib sample_lib (sample_schema_editor, sample_schema_body)
     (schema_diff_effect (fb_schemaString updated_body) updated_editor, updated_body)"
proof (rule edit_schema)
  show "schema_handler sample_body_lib sample_lib (UpdateAction (Some ''{}'')) (fb_schemaString sample_schema_body)
      sample_schema_editor = (fb_schemaString sample_schema_body, updated_editor, Some ''{}'')"
    by (simp add: handleUpdateSchema_def validateSchemaInput_def sample_lib_def Let_def truthy_def updated_editor_def)
qed (simp_all add: schema_enabled_def updated_body_def)

theorem schema_handed_over_valid_witness:
  "\<exists>e b. (schema_step sample_body_lib sample_lib)\<^sup>*\<^sup>* (sample_schema_editor, sample_schema_body) (e, b) \<and>
    fb_schemaString b = Some ''{}'' \<and> schema_accepted sample_body_lib sample_lib ''{}''"
proof -
  have steps: "(schema_step sample_body_lib sample_lib)\<^sup>*\<^sup>* (sample_schema_editor, sample_schema_body)
      (schema_diff_effect (fb_schemaString updated_body) updated_editor, updated_body)"
    by (rule r_into_rtranclp) (rule sample_schema_step)
  have "fb_schemaString updated_body = Some ''{}''" "fb_schemaString sample_schema_body = Some []"
    by (simp_all add: updated_body_def sample_schema_body_def handleSchemaEditorChange_def initial_body_def)
  with schema_handed_over_valid [OF steps] steps show ?thesis by auto
qed

end
