(* ===== verification/Page_Views.thy ===== *)
theory Page_Views
  imports Display_View Deploy_Form
begin

text \<open>
  Whole pages, as the values they show: the page of an application with its local state
  (\<open>components/AppView/AppView.tsx\<close>), the details and the headers of a package (\<open>PackageInfo\<close>, \<open>PackageHeader\<close>,
  \<open>PageHeader\<close>), an entry of a secret (\<open>SecretItemDatum\<close>), the catalog and the list of operators with their
  filters, and the choice of a repository. \<open>retry_keeps_error\<close> shows that the button to try again on the
  page of an application cannot bring the page back; \<open>operators_listed_once\<close> says which operators are listed.
\<close>


section \<open>The page of an application\<close>

text \<open>The parameters of the route; the plugin is kept from the first rendering.\<close>

record release_params =
  rel_cluster :: string
  rel_namespace :: string
  rel_name :: string
  rel_plugin :: Plugin

record app_page =
  ag_params :: release_params
  ag_pluginObj :: Plugin
  ag_fetchError :: "js_error option"
  ag_resourceRefs :: "ResourceRef list"
  ag_parsed :: IAppViewResourceRefs
  ag_polling :: bool

definition installedPkgRef :: "app_page \<Rightarrow> InstalledPackageReference" where
  "installedPkgRef a =
     \<lparr>ipr_context = Some \<lparr>ctx_cluster = rel_cluster (ag_params a), ctx_namespace = rel_namespace (ag_params a)\<rparr>,
      ipr_identifier = rel_name (ag_params a), ipr_plugin = Some (ag_pluginObj a)\<rparr>"

text \<open>The page starts with the error that is in the store, and polls for the references of its package.\<close>

definition mounted_app_page :: "release_params \<Rightarrow> js_error option \<Rightarrow> app_page" where
  "mounted_app_page params error =
     \<lparr>ag_params = params, ag_pluginObj = rel_plugin params, ag_fetchError = error,
      ag_resourceRefs = [], ag_parsed = no_refs, ag_polling = True\<rparr>"

text \<open>
  What can happen to the page: an answer to the polling, the button to try again, and another release in
  the location, which aborts the polling and starts one for the new reference. \<open>AppAsks\<close> is what is dispatched.
\<close>

datatype app_page_event = PollAnswer "js_error + ResourceRef list" | ForceRetry | NewRelease release_params

datatype app_request = AskPackage InstalledPackageReference | ClearAppError | ReportError js_error | StartPolling InstalledPackageReference

definition poll_answer :: "js_error + ResourceRef list \<Rightarrow> app_page \<Rightarrow> app_page \<times> app_request list" where
  "poll_answer answer a = (case answer of
     Inr refs \<Rightarrow> (a\<lparr>ag_resourceRefs := refs, ag_parsed := refs_effect refs (ag_parsed a), ag_polling := False\<rparr>, [])
   | Inl e \<Rightarrow>
       (if is_not_found e then (a, [])
        else (a\<lparr>ag_fetchError := Some (fetch_refs_error e), ag_polling := False\<rparr>, [ReportError e])))"

definition app_forceRetry :: "app_page \<Rightarrow> app_request list" where
  "app_forceRetry a = [ClearAppError, AskPackage (installedPkgRef a)]"

definition new_release :: "release_params \<Rightarrow> app_page \<Rightarrow> app_page \<times> app_request list" where
  "new_release params a =
     (let a' = a\<lparr>ag_params := params\<rparr> in
      if installedPkgRef a' = installedPkgRef a then (a', [])
      else (a'\<lparr>ag_polling := True\<rparr>, [AskPackage (installedPkgRef a'), StartPolling (installedPkgRef a')]))"

definition app_page_step :: "app_page_event \<Rightarrow> app_page \<Rightarrow> app_page \<times> app_request list" where
  "app_page_step ev a = (case ev of
     PollAnswer answer \<Rightarrow> if ag_polling a then poll_answer answer a else (a, [])
   | ForceRetry \<Rightarrow> (a, app_forceRetry a)
   | NewRelease params \<Rightarrow> new_release params a)"

fun app_page_run :: "app_page_event list \<Rightarrow> app_page \<Rightarrow> app_page \<times> app_request list" where
  "app_page_run [] a = (a, [])"
| "app_page_run (ev # evs) a =
     (let (a1, rs1) = app_page_step ev a; (a2, rs2) = app_page_run evs a1 in (a2, rs1 @ rs2))"

text \<open>What the page shows; the message above the details depends on the kind of the error.\<close>

datatype application_display =
    AppFetchFailed js_error
  | AppCustomView
  | AppRetrieving
  | AppNotRetrieved string
  | AppNothing
  | AppDetails "(string \<times> string) option" "app_button list" dialog_message bool

text \<open>The link to the package and its name, unless the package is unknown.\<close>

definition app_subtitle :: "release_params \<Rightarrow> AvailablePackageDetail option \<Rightarrow> (string \<times> string) option" where
  "app_subtitle params available =
     (case available of None \<Rightarrow> None | Some d \<Rightarrow>
        map_option (\<lambda>ref. (app_packages_get (rel_cluster params) (rel_namespace params) ref, apd_displayName d))
          (apd_availablePackageRef d))"

definition application_view :: "ICustomAppViewIdentifier list \<Rightarrow> IInstalledPackageState \<Rightarrow> app_page \<Rightarrow> application_display" where
  "application_view views apps a =
     (let selected = ip_selected apps; detail = Option.bind selected cip_detail; available = ip_selectedDetails apps in
      if fetch_failed (ag_fetchError a) then AppFetchFailed (the (ag_fetchError a))
      else if has_custom_view views (Option.bind detail ipd_availablePackageRef) then AppCustomView
      else if ip_isFetching apps then AppRetrieving
      else if Option.bind detail ipd_installedPackageRef = None
      then (case ip_error apps of Some e \<Rightarrow> AppNotRetrieved (error_message e) | None \<Rightarrow> AppNothing)
      else AppDetails (app_subtitle (ag_params a) available)
             (getButtons selected (ip_error apps \<noteq> None) (case selected of None \<Rightarrow> 0 | Some s \<Rightarrow> cip_revision s))
             (dialog_error (ip_error apps)) (Option.bind detail ipd_status \<noteq> None))"

lemma fetch_refs_error_fails: "fetch_failed (Some (fetch_refs_error e))"
  by (simp add: fetch_failed_def fetch_refs_error_def is_fetch_error_def)

lemma app_page_step_error:
  "fetch_failed (ag_fetchError a) \<Longrightarrow> fetch_failed (ag_fetchError (fst (app_page_step ev a)))"
  by (auto simp: app_page_step_def poll_answer_def new_release_def fetch_refs_error_fails Let_def
      split: app_page_event.splits sum.splits)


definition sample_app_page :: app_page where
  "sample_app_page = mounted_app_page
     \<lparr>rel_cluster = ''default'', rel_namespace = ''ns'', rel_name = ''my-app'',
      rel_plugin = \<lparr>plugin_name = ''helm.packages'', plugin_version = ''v1alpha1''\<rparr>\<rparr>
     (Some (fetch_refs_error (JsError ''boom'')))"


text \<open>A package without resources keeps the parsed references of the one before it.\<close>

lemma empty_package_keeps_resources:
  "ag_polling a \<Longrightarrow> ag_parsed (fst (app_page_step (PollAnswer (Inr [])) a)) = ag_parsed a"
  by (simp add: app_page_step_def poll_answer_def refs_effect_def)


section \<open>Details of an installed package\<close>

datatype info_section =
    StatusSection string "string option"
  | VersionsSection "string option" "string option" package_update
  | ReconciliationSection string string
  | DescriptionSection string

definition PackageInfo :: "InstalledPackageDetail option \<Rightarrow> AvailablePackageDetail option \<Rightarrow> info_section list" where
  "PackageInfo installed available =
     (case installed of None \<Rightarrow> [] | Some d \<Rightarrow>
        (case ipd_status d of None \<Rightarrow> [] | Some s \<Rightarrow>
           [StatusSection (getAppStatusLabel (Some (ips_reason s)))
              (if ips_reason s \<noteq> REASON_INSTALLED then Some (ips_userReason s) else None)]) @
        [VersionsSection
           (let app = map_option pav_appVersion (ipd_currentVersion d) in if truthy app then app else None)
           (map_option pav_pkgVersion (ipd_currentVersion d)) (PackageUpdateInfo d)] @
        (case ipd_reconciliationOptions d of None \<Rightarrow> [] | Some r \<Rightarrow>
           [ReconciliationSection (ro_serviceAccountName r) (ro_interval r)])) @
     (case available of None \<Rightarrow> [] | Some d \<Rightarrow> [DescriptionSection (apd_shortDescription d)])"


section \<open>Headers\<close>

record page_header =
  hd_title :: string
  hd_large :: bool
  hd_icon :: "string option"
  hd_subtitles :: "(icon \<times> string) list"
  hd_versions :: bool
  hd_buttons :: "string list"

definition PageHeader_subtitles :: "Plugin option \<Rightarrow> bool \<Rightarrow> (icon \<times> string) list" where
  "PageHeader_subtitles plugin operator =
     (case plugin of None \<Rightarrow> []
      | Some p \<Rightarrow> [(getPluginIcon (PluginObj p), getPluginPackageName (PluginObj p) False)]) @
     (if operator then [(getPluginIcon (PluginStr ''operator''), getPluginPackageName (PluginStr ''operator'') False)] else [])"

definition PackageHeader ::
  "AvailablePackageDetail \<Rightarrow> string option \<Rightarrow> bool \<Rightarrow> string option \<Rightarrow> js_error + page_header option" where
  "PackageHeader d releaseName hideVersionsSelector deployButton =
     (case apd_availablePackageRef d of
        None \<Rightarrow> Inr None
      | Some ref \<Rightarrow>
          (if apr_identifier ref = [] then Inr None
           else map_sum id
             (\<lambda>title. Some \<lparr>hd_title = title, hd_large = False,
                hd_icon = Some (if apd_iconUrl d \<noteq> [] then apd_iconUrl d else ''placeholder''),
                hd_subtitles = PageHeader_subtitles (apr_plugin ref) False,
                hd_versions = (\<not> hideVersionsSelector),
                hd_buttons = (case deployButton of None \<Rightarrow> [] | Some b \<Rightarrow> [b])\<rparr>)
             (if truthy releaseName
              then map_sum id (\<lambda>i. opt_string releaseName @ '' ('' @ i @ '')'') (decodeURIComponent (apr_identifier ref))
              else decodeURIComponent (apd_displayName d))))"

text \<open>A display name with a percent sign that starts no escape takes the page down.\<close>

lemma percent_display_name_raises:
  "apd_availablePackageRef d = Some ref \<Longrightarrow> apr_identifier ref \<noteq> [] \<Longrightarrow> apd_displayName d = ''100%'' \<Longrightarrow>
     \<exists>e. PackageHeader d None hide btn = Inl e"
  by (simp add: PackageHeader_def truthy_def)


section \<open>An entry of a secret\<close>

text \<open>The value is hidden at first; the note that it was copied goes away with its timer.\<close>

record secret_datum =
  sd_hidden :: bool
  sd_copied :: bool
  sd_timer :: bool

definition mounted_secret :: secret_datum where
  "mounted_secret = \<lparr>sd_hidden = True, sd_copied = False, sd_timer = False\<rparr>"

datatype secret_event = ToggleDisplay | CopySecret | CopyTimeout

definition copied_effect :: "bool \<Rightarrow> secret_datum \<Rightarrow> secret_datum" where
  "copied_effect seen d = (if sd_copied d = seen then d else d\<lparr>sd_timer := sd_copied d\<rparr>)"

definition secret_step :: "secret_event \<Rightarrow> secret_datum \<Rightarrow> secret_datum" where
  "secret_step ev d = (case ev of
     ToggleDisplay \<Rightarrow> d\<lparr>sd_hidden := \<not> sd_hidden d\<rparr>
   | CopySecret \<Rightarrow> copied_effect (sd_copied d) (d\<lparr>sd_copied := True\<rparr>)
   | CopyTimeout \<Rightarrow> if sd_timer d then copied_effect (sd_copied d) (d\<lparr>sd_copied := False, sd_timer := False\<rparr>) else d)"

text \<open>The type of the field, its value, and the label of the button.\<close>

definition secret_view :: "display_lib \<Rightarrow> string \<Rightarrow> secret_datum \<Rightarrow> string \<times> string \<times> string" where
  "secret_view D value d =
     (if sd_hidden d then ''password'' else ''text'', dl_base64 D value,
      if sd_hidden d then ''Show Secret'' else ''Hide Secret'')"

lemma secret_note_has_timer:
  "sd_timer (fold secret_step evs mounted_secret) = sd_copied (fold secret_step evs mounted_secret)"
proof (induction evs rule: rev_induct)
  case (snoc ev evs)
  then show ?case by (cases ev) (auto simp: secret_step_def copied_effect_def)
qed (simp add: mounted_secret_def)

lemma secret_shown_when_toggled:
  "sd_hidden (fold secret_step evs mounted_secret) \<longleftrightarrow> even (length (filter ((=) ToggleDisplay) evs))"
proof (induction evs rule: rev_induct)
  case (snoc ev evs)
  then show ?case by (cases ev) (auto simp: secret_step_def copied_effect_def)
qed (simp add: mounted_secret_def)



section \<open>The catalog\<close>

text \<open>
  The groups of filters beside the catalog, the labels of the active filters, and the marks of the pages
  that are still to come.
\<close>

definition nonempty_group :: "string \<Rightarrow> string list \<Rightarrow> (string \<times> string list) list" where
  "nonempty_group name options = (if options \<noteq> [] then [(name, options)] else [])"

definition catalog_groups ::
  "bool \<Rightarrow> string list \<Rightarrow> string list \<Rightarrow> string list \<Rightarrow> string list \<Rightarrow> (string \<times> string list) list" where
  "catalog_groups has_csvs categories repos plugins providers =
     (if has_csvs then [(FILTER_TYPE, [''Operators'', ''Packages''])] else []) @
     nonempty_group CATEGORY categories @ nonempty_group REPO repos @ nonempty_group PKG_TYPE plugins @
     nonempty_group OPERATOR_PROVIDER providers"

definition filter_labels :: "filters \<Rightarrow> (string \<times> string) list" where
  "filter_labels fs = concat (map (\<lambda>(name, vs). map (\<lambda>v. (name, v)) (filter (\<lambda>v. v \<noteq> []) vs)) fs)"

definition clear_shown :: "filters \<Rightarrow> bool" where
  "clear_shown fs \<longleftrightarrow> concat (map snd fs) \<noteq> []"

datatype catalog_display =
    EmptyCatalog
  | CatalogItemsShown "(string \<times> string list) list" "(string \<times> string) list" bool bool bool

text \<open>
  \<open>CatalogItemsShown\<close> has the groups, the labels, and whether the spinner of the next page, its button to try
  again and the border that fetches it are there. \<open>isEqual\<close> compares the filters without regard to their order.
\<close>

definition no_filters :: "filters \<Rightarrow> bool" where
  "no_filters fs \<longleftrightarrow> (\<forall>(name, vs) \<in> set fs. vs = [] \<and> name \<in> set filterNames) \<and> set filterNames \<subseteq> fst ` set fs"

definition catalog_view ::
  "filters \<Rightarrow> IPackageState \<Rightarrow> bool \<Rightarrow> (string \<times> string list) list \<Rightarrow> catalog_display" where
  "catalog_view fs pk has_csvs groups =
     (if no_filters fs \<and> pk_hasFinishedFetching pk \<and> searchFilter fs = [] \<and> pk_items pk = [] \<and> \<not> has_csvs
      then EmptyCatalog
      else (let more = \<not> pk_hasFinishedFetching pk \<and>
                  (filter_values fs FILTER_TYPE = [] \<or> ''Packages'' \<in> set (filter_values fs FILTER_TYPE)) in
            CatalogItemsShown groups (filter_labels fs) more
              (more \<and> sel_error (pk_selected pk) \<noteq> None)
              (\<not> pk_hasFinishedFetching pk \<and> \<not> pk_isFetching pk)))"

definition catalog_alert :: "IPackageState \<Rightarrow> (string \<times> bool) option" where
  "catalog_alert pk = map_option (\<lambda>e. (error_message e, \<not> pk_hasFinishedFetching pk)) (sel_error (pk_selected pk))"

text \<open>A filter is taken away by clicking its label; the labels are those of the values that can be read.\<close>

lemma labels_are_values:
  "(name, v) \<in> set (filter_labels fs) \<longleftrightarrow> (\<exists>vs. (name, vs) \<in> set fs \<and> v \<in> set vs \<and> v \<noteq> [])"
  by (auto simp: filter_labels_def)

text \<open>
  While only operators are asked for, the border of the next page is there without the spinner; \<open>scrolled_to_end\<close>
  fetches nothing then.
\<close>

lemma border_without_spinner:
  assumes "\<not> pk_hasFinishedFetching pk" and "\<not> pk_isFetching pk" and "filter_values fs FILTER_TYPE = [''Operators'']"
  shows "catalog_view fs pk c groups = CatalogItemsShown groups (filter_labels fs) False False True"
  using assms by (simp add: catalog_view_def Let_def)


section \<open>The list of operators\<close>

definition operator_filterNames :: "string list" where
  "operator_filterNames = [SEARCH, CAPABILITY, CATEGORY, OPERATOR_PROVIDER]"

definition operator_initialFilterState :: filters where
  "operator_initialFilterState = map (\<lambda>f. (f, [])) operator_filterNames"

text \<open>The filters of the location, and the locations the handlers push.\<close>

definition operator_filters_effect :: "(string \<Rightarrow> string jsobj) \<Rightarrow> string \<Rightarrow> filters" where
  "operator_filters_effect Q search = spread_filters operator_initialFilterState (newFilters (Q search))"

definition operator_pushFilters :: "string \<Rightarrow> string \<Rightarrow> filters \<Rightarrow> string" where
  "operator_pushFilters cluster namespace fs = app_operators_list cluster namespace @ filtersToQuery fs"

definition operator_setSearchFilter :: "string \<Rightarrow> filters \<Rightarrow> filters" where
  "operator_setSearchFilter term fs = obj_set SEARCH [term] fs"

text \<open>The five levels of capability, of \<open>OperatorCapabilityLevel.tsx\<close>.\<close>

definition allCapabilities :: "string list" where
  "allCapabilities = [''Basic Install'', ''Seamless Upgrades'', ''Full Lifecycle'', ''Deep Insights'', ''Auto Pilot'']"

definition operator_labels :: "filters \<Rightarrow> (string \<times> string) list" where
  "operator_labels fs = concat (map (\<lambda>(name, vs). map (\<lambda>v. (name, v)) vs) fs)"

datatype operators_display =
    FetchingOperators
  | OLMMissing
  | NoOperators "string option"
  | OperatorLists "string option" "(string \<times> string list) list" "(string \<times> string) list"
      "IPackageManifest list" "IPackageManifest list"

definition operators_error :: "IOperatorsState \<Rightarrow> js_error option" where
  "operators_error s = (case oe_fetch (err_operator (op_errors s)) of
     Some e \<Rightarrow> Some e | None \<Rightarrow> oe_fetch (err_subscriptions (op_errors s)))"

definition operator_list_view :: "lib \<Rightarrow> filters \<Rightarrow> IOperatorsState \<Rightarrow> operators_display" where
  "operator_list_view L fs s =
     (let err = map_option error_message (operators_error s); ms = op_operators s in
      if op_isFetching s then FetchingOperators
      else if \<not> op_isOLMInstalled s then OLMMissing
      else if ms = [] then NoOperators err
      else OperatorLists err
        (nonempty_group CATEGORY (operator_allCategories L ms) @ [(CAPABILITY, allCapabilities)] @
         nonempty_group OPERATOR_PROVIDER (operator_allProviders L ms))
        (operator_labels fs)
        (installedOperators fs (op_subscriptions s) ms) (availableOperators fs (op_subscriptions s) ms))"

text \<open>What is asked for: whether the lifecycle manager is there, and then the operators and the subscriptions.\<close>

definition operators_fetch :: "lib \<Rightarrow> string \<Rightarrow> string \<Rightarrow> bool \<Rightarrow> unit thunk list" where
  "operators_fetch L cluster namespace olm =
     (if olm then [spawnT (getOperators L cluster namespace), spawnT (listSubscriptions L cluster namespace)] else [])"

lemma mset_filter_split:
  "mset (filter (\<lambda>x. P x \<and> Q x) xs) + mset (filter (\<lambda>x. P x \<and> \<not> Q x) xs) = filter_mset P (mset xs)"
  by (induction xs) auto

text \<open>
  When the list of operators shows, an operator is in it exactly when it passes the filters, it is
  there once for every time it was fetched, and it is under the installed ones exactly when a subscription has its
  name.
\<close>
theorem operators_listed_once:
  assumes "operator_list_view L fs s = OperatorLists err groups labels installed available"
  shows "mset installed + mset available = filter_mset (operator_shown fs) (mset (op_operators s)) \<and>
    (\<forall>m \<in> set installed. is_subscribed (op_subscriptions s) m) \<and>
    (\<forall>m \<in> set available. \<not> is_subscribed (op_subscriptions s) m)"
proof -
  have lists: "installed = installedOperators fs (op_subscriptions s) (op_operators s)"
    "available = availableOperators fs (op_subscriptions s) (op_operators s)"
    using assms by (auto simp: operator_list_view_def Let_def split: if_splits)
  then show ?thesis
    by (auto simp: installedOperators_def availableOperators_def mset_filter_split simp del: mset_filter)
qed

text \<open>The empty search is a filter of its own here: it is shown and can be cleared.\<close>

lemma empty_search_labelled:
  "(SEARCH, []) \<in> set (operator_labels (operator_setSearchFilter [] fs))"
proof -
  have "(SEARCH, [[]]) \<in> set (obj_set SEARCH [[]] fs)" by (induction fs) auto
  then show ?thesis by (force simp: operator_labels_def operator_setSearchFilter_def)
qed

lemma catalog_empty_search_dropped: "filter_values (setSearchFilter fs []) SEARCH = []"
  by (simp add: setSearchFilter_def trimStart_def filter_values_def)


section \<open>The choice of a repository\<close>

datatype select_display =
    SelectLoading
  | SelectShown "string option" bool "(string option \<times> (string \<times> string) list) option"

text \<open>
  The error of the repositories, whether none was found, and the form with the error of the package and
  its options: the value of each and the URL beside it.
\<close>

definition getRepoURL_of :: "PackageRepositorySummary list \<Rightarrow> PackageRepositorySummary \<Rightarrow> string" where
  "getRepoURL_of repos r = getRepoURL repos
     (opt_string (map_option ctx_namespace (Option.bind (prsum_packageRepoRef r) prr_context))) (prsum_name r)"

definition select_repo_view :: "IPackageRepositoryState \<Rightarrow> js_error option \<Rightarrow> select_display" where
  "select_repo_view s packageError =
     (let repos = rp_reposSummaries s; err = re_fetch (rp_errors s) in
      if rp_isFetching s then SelectLoading
      else SelectShown (map_option error_message err) (err = None \<and> repos = [])
        (if repos \<noteq> []
         then Some (map_option error_message packageError, map (\<lambda>r. (repo_option r, getRepoURL_of repos r)) repos)
         else None))"

end
