(* ===== verification/Spec2Isabelle.thy ===== *)
theory Spec2Isabelle
  imports Auth_Actions Axios Config_Actions Namespace_Actions Package_Actions Installed_Actions
    Repo_Actions Kube_Actions Operator_Actions Repo_Form Schema_Forms Catalog_View App_View Settling Operator_Flags
    Deploy_Form Param_Editors Session_View Operator_Forms Lists_View Display_View
    Well_Known Editor_Tabs Page_Views
begin

text \<open>
  The Kubeapps dashboard (\<open>src/dashboard/src\<close>): a single-page application in TypeScript, with React for the
  pages, redux for the state and thunks for the effects. This library models its state, its operations and
  the logic of its main pages, and proves what makes them correct.

  \<^bold>\<open>How the program is put together.\<close> A page starts \<^emph>\<open>thunks\<close> (\<open>actions/\<close>), which call
  \<^emph>\<open>services\<close> (\<open>shared/\<close>), which send gRPC or HTTP requests and wait for the replies. In between a
  thunk dispatches \<^emph>\<open>actions\<close>; the root reducer (\<open>reducers/\<close>) turns the store and an action into
  the next store. The browser keeps the token and the selected namespaces in its local storage. Pages
  (\<open>components/\<close>) read the store, keep a local state of their own, and start thunks.

  \<^bold>\<open>Foundations.\<close> \<open>Kubeapps_Prelude\<close> has what the code uses of JavaScript: strings, truthiness,
  objects as association lists, JSON values, and the lemmas on them that the components share. \<open>Errors\<close>
  is \<open>shared/types.ts\<close> (the error classes), \<open>shared/RpcError.ts\<close> and the conversion of gRPC codes in
  \<open>shared/utils.ts\<close>. \<open>Messages\<close> has the messages of \<open>gen/kubeappsapis\<close> and the data types of
  \<open>shared/types.ts\<close> and \<open>shared/Config.ts\<close>. \<open>Actions\<close> lists the actions of every slice and the record
  \<open>lib\<close> of the third-party functions that reducers and thunks call, and declares the locales
  \<open>reducer_invariant\<close> (a reducer and an invariant it keeps) and \<open>fetch_flag\<close> (a loading flag that is
  raised by requests and lowered by what settles them). \<open>Utils\<close>, \<open>Storage\<close> and \<open>Url\<close> are
  \<open>shared/utils.ts\<close>, the storage parts of \<open>shared/Auth.ts\<close> and \<open>shared/Namespace.ts\<close>, and
  \<open>shared/url.ts\<close>.

  \<^bold>\<open>The store.\<close> One theory per reducer: \<open>Reducers_Simple\<close> (auth, config, kube), \<open>Reducer_Packages\<close>,
  \<open>Reducer_Clusters\<close>, \<open>Reducer_Installed\<close>, \<open>Reducer_Repos\<close>, \<open>Reducer_Operators\<close>; a reducer that can
  raise returns a sum. Each interprets the two locales above on the code's reducer. \<open>Store\<close> puts them
  together as the root reducer and states the invariant of the store. \<open>Operator_Flags\<close> gives the pending
  flags of the operators as a set and shows that the reducer refines it.

  \<^bold>\<open>Thunks.\<close> \<open>Effects\<close> models a thunk as a process in continuation-passing style: it dispatches, reads
  the state, writes the storage, navigates, sends requests and waits. \<open>sync\<close> runs a process up to its
  next wait, \<open>run\<close> answers every request at once, and \<open>pool_step\<close> interleaves any number of processes
  with replies in any order. \<open>Auth_Actions\<close>, \<open>Axios\<close> (\<open>shared/AxiosInstance.ts\<close>), \<open>Config_Actions\<close>,
  \<open>Namespace_Actions\<close>, \<open>Package_Actions\<close>, \<open>Installed_Actions\<close>, \<open>Repositories_Service\<close> with
  \<open>Repo_Actions\<close>, \<open>Kube_Actions\<close> and \<open>Operator_Actions\<close> are the modules of \<open>actions/\<close> of those names
  with the services they call. \<open>Settling\<close> shows that replies cannot go on for ever and that every pool
  can be brought to rest.

  \<^bold>\<open>Values and forms.\<close> \<open>Yaml_Paths\<close> is \<open>shared/yamlUtils.ts\<close> and the modifications of an upgrade;
  \<open>Schema_Forms\<close> is \<open>shared/schema.ts\<close>; \<open>Jq_Filter\<close> is \<open>shared/jq.ts\<close>. \<open>Deploy_Body\<close> is the body of
  the forms that install and upgrade packages, \<open>Deploy_Form\<close> the two pages around it: what both promise
  the body is the locale \<open>values_container\<close>, interpreted as \<open>deploy\<close> and \<open>upgrade\<close>. \<open>Param_Editors\<close>
  are the editors of the single values in the body's table with the timers that gather their changes (the
  locale \<open>gathered_change\<close>, interpreted for texts, numbers and arrays) and a table without timers as their
  specification. \<open>Editor_Tabs\<close> are the tabs of the body around them: the editors of the values and of the schema,
  and the columns, pages and search of the table. \<open>Repo_Form\<close> is the form of a repository.

  \<^bold>\<open>Messages on the wire.\<close> \<open>Wire_Format\<close> is how the code under \<open>gen/google\<close> uses protobufjs: the writer
  and the reader are the record \<open>wire_lib\<close>, whose laws are \<open>wire_spec\<close>; a message is written as the bytes
  of its fields and read by \<open>read_fields\<close>, one tag at a time. \<open>Struct_Values\<close> is \<open>protobuf/struct.ts\<close>:
  untyped values, wrapped, encoded, decoded and unwrapped. \<open>Well_Known\<close> is \<open>protobuf/any.ts\<close>,
  \<open>protobuf/wrappers.ts\<close> and \<open>api/http.ts\<close>.

  \<^bold>\<open>Pages.\<close> \<open>Session_View\<close> is what surrounds every page: the routes and their guard, the login, the
  header with the selector of the cluster and the namespace, the layout and the loaders. \<open>Catalog_View\<close> is
  the catalog and the list of operators; \<open>App_View\<close> is the view of an installed package with the status of
  its workloads and the table of its URLs; \<open>Operator_Forms\<close> are the pages of an operator and of its
  instances; \<open>Lists_View\<close> are the lists of applications and of repositories; \<open>App_Controls\<close> are the
  deletion and the rollback of an application, and \<open>Display_View\<close> what the pages show: tables, cards, alerts,
  search boxes and messages. \<open>Page_Views\<close> puts whole pages together: the page of an application with its
  polling, the catalog and the operators with their filters, and the headers. \<open>Rendering\<close> states, as the
  locale \<open>dependency_effect\<close>, when an effect runs again; the effects of these pages interpret it. A page is a record of its
  local state and one function per handler and per effect; an event is a handler followed by the effects
  of the renderings it causes.

  \<^bold>\<open>Parameters.\<close> Code that is not part of the repository is an argument: \<open>lib\<close> (lodash, jwt-decode,
  ajv, base64, the protobuf decoding), \<open>yaml\<close>, \<open>upgrade_lib\<close> and \<open>instance_lib\<close> (the yaml package,
  lodash's \<open>set\<close>, fast-json-patch), \<open>form_lib\<close> and \<open>body_lib\<close> (lodash), \<open>editor_lib\<close> (ajv, lodash), \<open>display_lib\<close> (base64), \<open>wire_lib\<close> (protobufjs),
  \<open>conv_lib\<close> (\<open>Number\<close> and \<open>String\<close> of JavaScript), \<open>base64_lib\<close> (\<open>Buffer\<close>, \<open>atob\<close> and \<open>btoa\<close> of the
  platform), \<open>table_lib\<close> (the pages of the table), \<open>router\<close> (React Router), \<open>form_codec\<close> (protobuf and opaque data), the parser of query
  strings and the URL parser. What a property needs of them is a named hypothesis stating their documented
  behaviour (\<open>lodash_uniq_spec\<close>, \<open>yaml_spec\<close>, \<open>yaml_doc_spec\<close>, \<open>findIndex_spec\<close>, \<open>protobuf_spec\<close>,
  \<open>opaque_spec\<close>, \<open>wire_spec\<close>, \<open>conv_spec\<close>, \<open>base64_spec\<close>, \<open>qs_spec\<close>, \<open>qs_plain_spec\<close>, \<open>router_spec\<close>); every such property has a witness on a concrete instance
  (\<open>Sample_World\<close> and the last section of the theory). The server is a function from requests to
  replies or, in the pool, any sequence of replies.

  \<^bold>\<open>Termination and bounds.\<close> The only fuel is that of the messages on the wire: the reader of a field takes at least
  its tag, so a loop over the bytes of a message has one round more than it has bytes, and a nested message
  is shorter than the one it is in; \<open>decode_total\<close> shows that this is enough on any bytes. Recursions that are not structural have a measure: the
  height of the schema (\<open>retrieveBasicFormParams\<close>), the size of the parameters
  (\<open>updateCurrentConfigByKey\<close>), the value of a number (\<open>show_nat\<close>). Polling is a list of answers, one
  per round. The renderings after an event are three, which is shown to be enough.

  \<^bold>\<open>Not modelled.\<close> Markup, styles and texts; the time of timers (they fire in the order they were set; elsewhere their callbacks are events);
  the serialization methods of the messages of \<open>gen/kubeappsapis\<close>, which are those of the protobuf library;
  \<open>descriptor.ts\<close> and \<open>openapiv2.ts\<close>, which the dashboard never reads; the key \<open>__proto__\<close> of a struct; numbers that are no integers and characters beyond
  the first 256; the mounting of the application and the service worker. The Go services, the
  controllers and the Helm chart are outside: they are the server of this model.
\<close>

lemma rootReducer_keeps_inv:
  "lodash_uniq_spec L \<Longrightarrow> reducer_keeps (rootReducer L init) (store_inv L)"
  by (auto simp: reducer_keeps_def intro: rootReducer_inv)

text \<open>
  C1: From the initial store, whatever thunks the page starts and in whatever order their requests are
  answered, the store stays well formed: the packages of the catalog have distinct identifiers, the user
  is never both being authenticated and authenticated, every tracked resource is settled, the selected
  installed package carries its own revision, and the operators' loading flag is the disjunction of the
  flags of its parts.
\<close>
theorem store_invariant_everywhere:
  assumes "lodash_uniq_spec L" and "w_store w = initialStore L ls"
    and "pool_steps (rootReducer L init) (w, []) es (w', ps)"
  shows "store_inv L (w_store w') \<and>
    distinct (map package_identifier (pk_items (st_packages (w_store w')))) \<and>
    \<not> (authenticating (st_auth (w_store w')) \<and> authenticated (st_auth (w_store w'))) \<and>
    op_isFetching (st_operators (w_store w')) = any_elem (op_isFetchingElem (st_operators (w_store w')))"
proof -
  have "store_inv L (w_store w')"
    using pool_steps_keeps [OF assms(3) rootReducer_keeps_inv [OF assms(1)]] assms(2)
    by (simp add: initialStore_inv)
  then show ?thesis by (simp add: store_inv_def packages_inv_def auth_inv_def operators_inv_def)
qed

theorem store_invariant_everywhere_witness:
  "\<exists>es. pool_steps (rootReducer sample_lib []) (sample_world [], [])
     (Start (authenticate ''c1'' ''token'' False (\<lambda>_. Stop) (\<lambda>_. Stop)) # es)
     (runT (rootReducer sample_lib []) unavailable_server (authenticate ''c1'' ''token'' False) (sample_world []), []) \<and>
   store_inv sample_lib
     (w_store (runT (rootReducer sample_lib []) unavailable_server (authenticate ''c1'' ''token'' False) (sample_world [])))"
proof -
  let ?R = "rootReducer sample_lib []" and ?t = "authenticate ''c1'' ''token'' False"
  obtain es where es: "pool_steps ?R (sample_world [], []) (Start (?t (\<lambda>_. Stop) (\<lambda>_. Stop)) # es)
      (runT ?R unavailable_server ?t (sample_world []), [])"
    using run_is_interleaving unfolding runT_def by blast
  from store_invariant_everywhere [OF sample_lib_uniq _ es, of "[]"] es show ?thesis by auto
qed

lemma load_pages_finished:
  "ps \<noteq> [] \<Longrightarrow> pk_hasFinishedFetching (load_pages L s ps) \<longleftrightarrow> gapsr_nextPageToken (last ps) = []"
proof (induction ps arbitrary: s)
  case (Cons p ps)
  then show ?case by (cases ps) (simp_all add: load_page_once, simp add: receive_page_def)
qed simp

text \<open>
  C17: Paging through the catalog, one request and one answer at a time. The catalog holds the packages
  of all pages in order, each identifier once, as if they had come in one answer; it is finished exactly
  when the last page has no next page token.
\<close>
theorem catalog_pages:
  assumes "lodash_uniq_spec L" and "ps \<noteq> []"
  shows "pk_items (load_pages L packages_initialState ps) =
      uniqBy_packages L (concat (map gapsr_availablePackageSummaries ps)) \<and>
    (pk_hasFinishedFetching (load_pages L packages_initialState ps) \<longleftrightarrow>
       gapsr_nextPageToken (last ps) = [])"
proof -
  have "uniqBy_packages L [] = []" using assms by (simp add: lodash_uniq_spec_def uniqBy_spec_def)
  then show ?thesis using load_pages_items [OF assms(1), of packages_initialState ps] load_pages_finished [OF assms(2)]
    by (auto simp: packages_initialState_def)
qed

theorem catalog_pages_witness:
  "map package_identifier (pk_items (load_pages sample_lib packages_initialState
     [page_of [''a/x'', ''a/y''], page_of [''a/y'', ''a/z'']])) = [Some ''a/x'', Some ''a/y'', Some ''a/z'']"
  using catalog_pages [OF sample_lib_uniq, of "[page_of [''a/x'', ''a/y''], page_of [''a/y'', ''a/z'']]"]
  by (simp add: page_of_def package_identifier_def)

section \<open>Clusters and locations\<close>

text \<open>
  The clusters stay well formed. Where an action names a cluster the state has, the reducer never
  raises, every cluster keeps its namespaces, its selected namespace and its permission, and the
  selected cluster is one of them.
\<close>
theorem known_cluster_never_raises:
  assumes "clusters_wf s" and "known_cluster s a"
  shows "\<exists>s'. clusterReducer L (cl_clusters (clusters_initialState L ls0)) ls s a = Inr s' \<and>
    clusters_wf s'"
  using assms clusterReducer_wf by blast

theorem known_cluster_never_raises_witness:
  "\<exists>s'. clusterReducer sample_lib (cl_clusters (clusters_initialState sample_lib [])) []
     (clusters_initialState sample_lib []) (NamespaceA (ReceiveNamespaces ''default'' [''dev''])) = Inr s' \<and>
   clusters_wf s'"
  by (rule known_cluster_never_raises [OF clusters_initial_wf]) (simp add: clusters_initialState_def)

text \<open>
  The path of every page below a cluster and a namespace selects them. Visiting it makes the cluster
  the current one with that namespace, provided neither name is empty or has a slash (the paths do not
  encode them) and the cluster is known.
\<close>
theorem location_selects:
  assumes "clusters_wf s" and "obj_get (cl_clusters s) cluster \<noteq> None"
    and "cluster \<noteq> []" and "ns \<noteq> []"
    and "CHR ''/'' \<notin> set cluster" and "CHR ''/'' \<notin> set ns"
    and "rest = [] \<or> hd rest = CHR ''/''"
  shows "\<exists>s' c. clusterReducer L init ls s
      (LocationChange (base_path (Some cluster) (Some ns) @ rest)) = Inr s' \<and>
    clusters_wf s' \<and> cl_currentCluster s' = Some cluster \<and>
    obj_get (cl_clusters s') cluster = Some c \<and> cs_currentNamespace c = Some ns"
proof -
  let ?p = "base_path (Some cluster) (Some ns) @ rest"
  have m: "match_location ?p = (Some cluster, Some ns)"
    using assms(5-7) by (rule match_base_path)
  obtain s' where s': "location_step s ?p = Inr s'" "clusters_wf s'"
    using location_step_wf [OF assms(1), of ?p] assms(2) by (auto simp: m)
  then have "cl_currentCluster s' = Some cluster"
    and "obj_get (cl_clusters s') cluster =
      Some ((spread_cluster s cluster)\<lparr>cs_currentNamespace := Some ns\<rparr>)"
    using assms(3,4) unfolding location_step_def m by (auto simp: truthy_def split: if_splits)
  with s' show ?thesis by auto
qed

theorem location_selects_witness:
  "\<exists>s' c. clusterReducer sample_lib [] [] (clusters_initialState sample_lib [])
      (LocationChange (base_path (Some ''default'') (Some ''qa'') @ ''/apps'')) = Inr s' \<and>
    clusters_wf s' \<and> cl_currentCluster s' = Some ''default'' \<and>
    obj_get (cl_clusters s') ''default'' = Some c \<and> cs_currentNamespace c = Some ''qa''"
  by (rule location_selects [OF clusters_initial_wf]) (simp_all add: clusters_initialState_def)

text \<open>
  Clearing the clusters, as signing out does. The name of the selected cluster stays but its entry
  goes, unless it is the initial one: the next visit to a path without a cluster raises a
  \<open>TypeError\<close> in the reducer.
\<close>
theorem clear_clusters_breaks_navigation:
  assumes "cl_currentCluster s = Some current" and "current \<noteq> ''default''"
    and "match_location p = (None, None)"
  shows "\<exists>s' e. clusterReducer L (cl_clusters (clusters_initialState L ls0)) ls s
      (NamespaceA ClearClusters) = Inr s' \<and>
    clusterReducer L (cl_clusters (clusters_initialState L ls0)) ls s' (LocationChange p) =
      Inl (TypeError e)"
  using assms by (auto simp: location_step_def truthy_def read_cluster_def clusters_initialState_def)

theorem clear_clusters_breaks_navigation_witness:
  "\<exists>s' e. clusterReducer sample_lib (cl_clusters (clusters_initialState sample_lib [])) [] sample_clusters
      (NamespaceA ClearClusters) = Inr s' \<and>
    clusterReducer sample_lib (cl_clusters (clusters_initialState sample_lib [])) [] s'
      (LocationChange ''/login'') = Inl (TypeError e)"
  by (rule clear_clusters_breaks_navigation [of sample_clusters "''c1''" "''/login''"])
    (simp_all add: sample_clusters_def match_location_def)

section \<open>Errors of the backend\<close>

text \<open>
  Which backend errors end a session. A status of the gRPC client becomes an
  \<open>UnauthorizedNetworkError\<close>, the class the thunks sign the user out for, exactly for
  \<open>Unauthenticated\<close> and for a failed precondition or an internal error whose message
  mentions credentials; a denied permission never does. Its message is the one of the backend, and any
  other value passes through.
\<close>
theorem grpc_error_ends_session:
  "(is_unauthorized (convertGrpcAuthError (ConnectError code m md)) \<longleftrightarrow>
     code = Unauthenticated \<or>
     (code \<in> {FailedPrecondition, InternalCode} \<and>
      mentions_credentials (grpc_message (ConnectError code m md)))) \<and>
   error_message (convertGrpcAuthError (ConnectError code m md)) = grpc_message (ConnectError code m md) \<and>
   convertGrpcAuthError (JsError t) = JsError t"
  by (simp add: convertGrpcAuthError_def network_class_unauthorized)

end
